(* ===== verification/Nova_Prelude.thy ===== *)
theory Nova_Prelude
  imports Main "HOL-Library.Word" "HOL-Library.AList"
begin

text \<open>
  What the components of the model share: the machine integers of the C++ sources, byte strings
  and little-endian encodings, \<open>std::unordered_map\<close> as an association list, the faults a
  handler can run into with the combinators that propagate them, and \<open>std::mutex\<close> with
  \<open>std::lock_guard\<close>.

  An \<open>std::unordered_map\<close> is an association list with distinct keys (library theory
  \<open>AList\<close>): \<open>AList.update\<close> is \<open>m[k] = v\<close>, \<open>AList.delete\<close> is \<open>erase\<close>,
  \<open>map_of\<close> is \<open>find\<close>. The list order stands for the iteration order, which the standard
  leaves open.
\<close>

section \<open>Theorem collections\<close>

named_theorems exec_simps \<open>evaluation of the fault combinators and of locked sections\<close>
named_theorems post_rules \<open>rules that push a postcondition through the fault combinators\<close>

section \<open>Machine integers, bytes and strings\<close>

unbundle bit_operations_syntax

type_synonym u8 = "8 word"
type_synonym u16 = "16 word"
type_synonym u32 = "32 word"
type_synonym bytes = "u8 list"

text \<open>A \<open>float\<close> is its IEEE-754 bit pattern: the modelled code only copies floats.\<close>

type_synonym f32 = "32 word"

definition bytes_of_string :: "string \<Rightarrow> bytes" where
  "bytes_of_string s = map (\<lambda>c. word_of_nat (of_char c)) s"

definition string_of_bytes :: "bytes \<Rightarrow> string" where
  "string_of_bytes bs = map (\<lambda>b. char_of (unat b)) bs"

text \<open>What is left of a \<open>std::string\<close> when it is passed on as \<open>c_str()\<close>.\<close>

definition c_str :: "string \<Rightarrow> string" where
  "c_str s = takeWhile (\<lambda>c. c \<noteq> CHR 0x00) s"

lemma unat_u8_less [simp]: "unat (b :: u8) < 256"
  using unsigned_less [of b, where ?'a = nat] by simp

lemma char_of_unat_of_char [simp]: "char_of (unat (word_of_nat (of_char c) :: u8)) = c"
proof -
  have "(of_char c :: nat) < 256" by simp
  then have "unat (word_of_nat (of_char c) :: u8) = of_char c"
    by (simp add: unat_of_nat)
  then show ?thesis by simp
qed

lemma word_of_char_of_unat [simp]: "word_of_nat (of_char (char_of (unat (b :: u8)) :: char)) = b"
  by simp

lemma string_of_bytes_of_string [simp]: "string_of_bytes (bytes_of_string s) = s"
  unfolding string_of_bytes_def bytes_of_string_def
  by (simp only: map_map o_def char_of_unat_of_char) simp

lemma bytes_of_string_of_bytes [simp]: "bytes_of_string (string_of_bytes bs) = bs"
  unfolding string_of_bytes_def bytes_of_string_def
  by (simp only: map_map o_def word_of_char_of_unat) simp

lemma length_bytes_of_string [simp]: "length (bytes_of_string s) = length s"
  by (simp add: bytes_of_string_def)

lemma length_string_of_bytes [simp]: "length (string_of_bytes bs) = length bs"
  by (simp add: string_of_bytes_def)

lemma bytes_of_string_inj [simp]: "bytes_of_string s = bytes_of_string t \<longleftrightarrow> s = t"
  by (metis string_of_bytes_of_string)

lemma bytes_of_string_Nil [simp]: "bytes_of_string [] = []"
  by (simp add: bytes_of_string_def)

section \<open>Little-endian encodings, as memcpy lays integers out\<close>

definition le16 :: "u16 \<Rightarrow> bytes" where
  "le16 w = [ucast w, ucast (drop_bit 8 w)]"

definition le32 :: "u32 \<Rightarrow> bytes" where
  "le32 w = [ucast w, ucast (drop_bit 8 w), ucast (drop_bit 16 w), ucast (drop_bit 24 w)]"

definition un_le16 :: "bytes \<Rightarrow> u16" where
  "un_le16 bs = ucast (bs ! 0) OR push_bit 8 (ucast (bs ! 1))"

definition un_le32 :: "bytes \<Rightarrow> u32" where
  "un_le32 bs = ucast (bs ! 0) OR push_bit 8 (ucast (bs ! 1)) OR push_bit 16 (ucast (bs ! 2))
     OR push_bit 24 (ucast (bs ! 3))"

lemma length_le16 [simp]: "length (le16 w) = 2"
  by (simp add: le16_def)

lemma length_le32 [simp]: "length (le32 w) = 4"
  by (simp add: le32_def)

lemma un_le16_le16 [simp]: "un_le16 (le16 w) = w"
  by (rule bit_word_eqI) (auto simp: le16_def un_le16_def bit_simps)

lemma un_le32_le32 [simp]: "un_le32 (le32 w) = w"
proof (rule bit_word_eqI)
  fix n
  assume "n < LENGTH(32)"
  then have "n < 8 \<or> 8 \<le> n \<and> n < 16 \<or> 16 \<le> n \<and> n < 24 \<or> 24 \<le> n \<and> n < 32" by auto
  then show "bit (un_le32 (le32 w)) n = bit w n"
    by (auto simp: le32_def un_le32_def bit_simps)
qed

lemma not_bit_u8 [simp]: "\<not> bit (b :: u8) (8 + n)" "\<not> bit (b :: u8) (16 + n)"
  "\<not> bit (b :: u8) (24 + n)"
  by (auto dest: bit_imp_le_length)

lemma le16_un_le16: "le16 (un_le16 [a, b]) = [a, b]"
  by (auto simp: le16_def un_le16_def bit_simps intro!: bit_word_eqI)

lemma le32_un_le32: "le32 (un_le32 [a, b, c, d]) = [a, b, c, d]"
  by (auto simp: le32_def un_le32_def bit_simps intro!: bit_word_eqI)

text \<open>A run of bytes of known length is its elements; what \<open>memcpy\<close> of a field moves.\<close>

lemma le16_un_le16_take: "2 \<le> length bs \<Longrightarrow> le16 (un_le16 bs) = take 2 bs"
proof -
  assume "2 \<le> length bs"
  then obtain a b cs where "bs = a # b # cs"
    by (auto simp: numeral_2_eq_2 Suc_le_length_iff)
  then show ?thesis using le16_un_le16 [of a b] by (simp add: un_le16_def)
qed

lemma le32_un_le32_take: "4 \<le> length bs \<Longrightarrow> le32 (un_le32 bs) = take 4 bs"
proof -
  assume "4 \<le> length bs"
  then obtain a b c d cs where "bs = a # b # c # d # cs"
    by (auto simp: eval_nat_numeral Suc_le_length_iff)
  then show ?thesis using le32_un_le32 [of a b c d] by (simp add: un_le32_def)
qed

lemma un_le16_append [simp]: "un_le16 (le16 w @ bs) = w"
  using un_le16_le16 [of w] by (simp add: un_le16_def le16_def)

lemma un_le32_append [simp]: "un_le32 (le32 w @ bs) = w"
  using un_le32_le32 [of w] by (simp add: un_le32_def le32_def)

section \<open>Association lists as hash maps\<close>

abbreviation (input) keys :: "('k \<times> 'v) list \<Rightarrow> 'k list" where
  "keys m \<equiv> map fst m"

lemma map_of_eq_None_keys: "map_of m k = None \<longleftrightarrow> k \<notin> set (keys m)"
  by (simp add: map_of_eq_None_iff)

lemma map_of_Some_key: "map_of m k = Some v \<Longrightarrow> k \<in> set (keys m)"
  by (force dest: map_of_SomeD)

lemma set_delete: "set (AList.delete k m) = {p \<in> set m. fst p \<noteq> k}"
  by (auto simp: AList.delete_eq)

lemma set_update_distinct:
  "distinct (keys m) \<Longrightarrow> set (AList.update k v m) = insert (k, v) {p \<in> set m. fst p \<noteq> k}"
  by (induction m) (auto simp: rev_image_eqI)

lemma distinct_keys_delete [simp]: "distinct (keys m) \<Longrightarrow> distinct (keys (AList.delete k m))"
  by (rule distinct_delete)

lemma distinct_keys_update [simp]: "distinct (keys m) \<Longrightarrow> distinct (keys (AList.update k v m))"
  by (rule distinct_update)

lemma length_update:
  "length (AList.update k v m) = (if k \<in> set (keys m) then length m else Suc (length m))"
  by (induction m) auto

lemma length_delete_le: "length (AList.delete k m) \<le> length m"
  by (simp add: AList.delete_eq)

end
