(* ===== verification/Nova_Exec.thy ===== *)
theory Nova_Exec
  imports Nova_Prelude
begin

text \<open>
  Execution of handlers. A handler of the C++ program takes the state and returns either the new
  state or the fault that ends the process: an exception nobody catches (every handler runs below
  \<open>io_context::run\<close> in a \<open>std::thread\<close>, where it calls \<open>std::terminate\<close>), a read past
  the end of a buffer, or a \<open>std::mutex\<close> locked again by the thread that holds it (undefined
  behaviour, in practice a thread that blocks for ever). \<open>bindE\<close> sequences, \<open>foldE\<close> is a
  loop over a container, \<open>postE\<close> states a postcondition of the runs without fault.

  \<open>with_lock\<close> is a scope with a \<open>std::lock_guard\<close>: it faults when the mutex is held
  already and gives the mutex back at the end of the scope.
\<close>

section \<open>Faults and their propagation\<close>

datatype mutex =
    PlayersMutex   \<comment> \<open>\<open>GameServer::m_players_mutex\<close>\<close>
  | SessionsMutex  \<comment> \<open>\<open>TCPServer::m_sessions_mutex\<close>\<close>
  | MapMutex       \<comment> \<open>\<open>UDPServer::m_map_mutex\<close>\<close>

datatype fault =
    Relock mutex
  | Uncaught string
  | OutOfBounds
  | StackOverflow
  | NullDeref
  | Dangling      \<comment> \<open>use of an object whose lifetime has ended\<close>
  | DivByZero
  | SignedOverflow
  | Forever       \<comment> \<open>a call that never returns\<close>

definition bindE :: "fault + 'a \<Rightarrow> ('a \<Rightarrow> fault + 'b) \<Rightarrow> fault + 'b" where
  "bindE m k = (case m of Inl f \<Rightarrow> Inl f | Inr x \<Rightarrow> k x)"

fun foldE :: "('x \<Rightarrow> 's \<Rightarrow> fault + 's) \<Rightarrow> 'x list \<Rightarrow> 's \<Rightarrow> fault + 's" where
  "foldE f [] s = Inr s"
| "foldE f (x # xs) s = bindE (f x s) (foldE f xs)"

definition postE :: "('a \<Rightarrow> bool) \<Rightarrow> fault + 'a \<Rightarrow> bool" where
  "postE Q r = (case r of Inl _ \<Rightarrow> True | Inr x \<Rightarrow> Q x)"

lemma bindE_simps [simp, exec_simps]:
  "bindE (Inl f) k = Inl f"
  "bindE (Inr x) k = k x"
  by (simp_all add: bindE_def)

lemma bindE_Inr_iff: "bindE m k = Inr y \<longleftrightarrow> (\<exists>x. m = Inr x \<and> k x = Inr y)"
  by (cases m) auto

lemma bindE_Inl_iff: "bindE m k = Inl f \<longleftrightarrow> m = Inl f \<or> (\<exists>x. m = Inr x \<and> k x = Inl f)"
  by (cases m) auto

lemma bindE_assoc: "bindE (bindE m k) l = bindE m (\<lambda>x. bindE (k x) l)"
  by (cases m) auto

lemma bindE_Inr_right [simp]: "bindE m Inr = m"
  by (cases m) auto

lemma foldE_append: "foldE f (xs @ ys) s = bindE (foldE f xs s) (foldE f ys)"
  by (induction xs arbitrary: s) (auto simp: bindE_def split: sum.splits)

lemma postE_simps [simp]:
  "postE Q (Inl f)"
  "postE Q (Inr x) \<longleftrightarrow> Q x"
  by (simp_all add: postE_def)

lemma postE_bindE: "postE Q (bindE m k) \<longleftrightarrow> postE (\<lambda>x. postE Q (k x)) m"
  by (cases m) auto

lemma postE_mono: "postE P r \<Longrightarrow> (\<And>x. P x \<Longrightarrow> Q x) \<Longrightarrow> postE Q r"
  by (cases r) auto

lemma postE_conj: "postE P r \<Longrightarrow> postE Q r \<Longrightarrow> postE (\<lambda>x. P x \<and> Q x) r"
  by (cases r) auto

lemma postE_True [simp]: "postE (\<lambda>_. True) r"
  by (cases r) auto

lemma postE_D: "postE Q r \<Longrightarrow> r = Inr x \<Longrightarrow> Q x"
  by simp

lemma postE_I: "(\<And>x. r = Inr x \<Longrightarrow> Q x) \<Longrightarrow> postE Q r"
  by (cases r) auto

lemma postE_bindI: "postE P m \<Longrightarrow> (\<And>x. P x \<Longrightarrow> postE Q (k x)) \<Longrightarrow> postE Q (bindE m k)"
  by (cases m) auto

lemma postE_foldE:
  assumes "I s" and "\<And>x s. x \<in> set xs \<Longrightarrow> I s \<Longrightarrow> postE I (f x s)"
  shows "postE I (foldE f xs s)"
  using assms by (induction xs arbitrary: s) (auto intro!: postE_bindI)

lemma postE_if: "(b \<Longrightarrow> postE Q x) \<Longrightarrow> (\<not> b \<Longrightarrow> postE Q y) \<Longrightarrow> postE Q (if b then x else y)"
  by simp

lemma postE_option:
  "(v = None \<Longrightarrow> postE Q x) \<Longrightarrow> (\<And>y. v = Some y \<Longrightarrow> postE Q (f y))
     \<Longrightarrow> postE Q (case v of None \<Rightarrow> x | Some y \<Rightarrow> f y)"
  by (cases v) auto

section \<open>Mutexes\<close>

text \<open>The mutexes the running thread holds. The records of the servers extend this one.\<close>

record locks =
  held :: "mutex list"

definition with_lock ::
    "mutex \<Rightarrow> ('z locks_scheme \<Rightarrow> fault + 'z locks_scheme) \<Rightarrow> 'z locks_scheme
       \<Rightarrow> fault + 'z locks_scheme" where
  "with_lock m body s =
     (if m \<in> set (held s) then Inl (Relock m)
      else bindE (body (s\<lparr>held := m # held s\<rparr>)) (\<lambda>t. Inr (t\<lparr>held := remove1 m (held t)\<rparr>)))"

text \<open>A locked scope that only reads.\<close>

definition read_locked :: "mutex \<Rightarrow> ('z locks_scheme \<Rightarrow> 'a) \<Rightarrow> 'z locks_scheme \<Rightarrow> fault + 'a" where
  "read_locked m f s = (if m \<in> set (held s) then Inl (Relock m) else Inr (f s))"

lemma held_update_id [simp]: "held s = h \<Longrightarrow> s\<lparr>held := h\<rparr> = s"
  by (cases s) simp

lemma with_lock_held: "m \<in> set (held s) \<Longrightarrow> with_lock m body s = Inl (Relock m)"
  by (simp add: with_lock_def)

lemma with_lock_free:
  "m \<notin> set (held s) \<Longrightarrow> with_lock m body s =
     bindE (body (s\<lparr>held := m # held s\<rparr>)) (\<lambda>t. Inr (t\<lparr>held := remove1 m (held t)\<rparr>))"
  by (simp add: with_lock_def)

lemma read_locked_free [simp]: "m \<notin> set (held s) \<Longrightarrow> read_locked m f s = Inr (f s)"
  by (simp add: read_locked_def)

lemma read_locked_held: "m \<in> set (held s) \<Longrightarrow> read_locked m f s = Inl (Relock m)"
  by (simp add: read_locked_def)

lemma postE_read_locked: "(m \<notin> set (held s) \<Longrightarrow> Q (f s)) \<Longrightarrow> postE Q (read_locked m f s)"
  by (simp add: read_locked_def)

text \<open>A postcondition that does not look at the mutexes passes through a locked scope.\<close>

lemma postE_with_lock:
  assumes "postE (\<lambda>t. Q (t\<lparr>held := remove1 m (held t)\<rparr>)) (body (s\<lparr>held := m # held s\<rparr>))"
  shows "postE Q (with_lock m body s)"
  using assms by (simp add: with_lock_def postE_bindE)

lemmas postE_intros =
  postE_if postE_option postE_read_locked postE_with_lock postE_bindI

end
