(* ===== verification/Packet.thy ===== *)
theory Packet
  imports Nova_Exec
begin

text \<open>
  The binary protocol of \<^verbatim>\<open>servers/src/network/packet.hpp\<close>: the packet types, the packed
  ten-byte header and 66-byte vehicle state, and the functions of class \<open>Packet\<close>. The copies by
  \<open>memcpy\<close> between packed structs and byte buffers are the little-endian encodings of the prelude.
  The lemmas give the lengths, the round trips in both directions and what happens to a payload
  longer than the 16-bit length field can say.
\<close>

section \<open>Enumerations\<close>

datatype PacketType =
    HEARTBEAT | AUTH_REQUEST | AUTH_RESPONSE
  | PLAYER_JOIN | PLAYER_LEAVE | PLAYER_INFO
  | VEHICLE_SPAWN | VEHICLE_DELETE | VEHICLE_UPDATE
  | VEHICLE_DAMAGE | VEHICLE_ELECTRICS | CHAT_MESSAGE
  | SERVER_INFO | MOD_LIST | MOD_DATA | MOD_OK
  | PING | PONG | RCON_AUTH | RCON_COMMAND
  | RCON_RESPONSE | SERVER_EVENT | PLAYER_TELEPORT
  | READY | KICK | BAN
  | AUTHORITY_CLAIM | AUTHORITY_GRANT | AUTHORITY_REVOKE
  | ERROR

fun type_code :: "PacketType \<Rightarrow> u8" where
  "type_code HEARTBEAT = 0x00" | "type_code AUTH_REQUEST = 0x01" | "type_code AUTH_RESPONSE = 0x02"
| "type_code PLAYER_JOIN = 0x03" | "type_code PLAYER_LEAVE = 0x04" | "type_code PLAYER_INFO = 0x05"
| "type_code VEHICLE_SPAWN = 0x06" | "type_code VEHICLE_DELETE = 0x07"
| "type_code VEHICLE_UPDATE = 0x08" | "type_code VEHICLE_DAMAGE = 0x09"
| "type_code VEHICLE_ELECTRICS = 0x0A" | "type_code CHAT_MESSAGE = 0x0B"
| "type_code SERVER_INFO = 0x0C" | "type_code MOD_LIST = 0x0D" | "type_code MOD_DATA = 0x0E"
| "type_code MOD_OK = 0x0F" | "type_code PING = 0x10" | "type_code PONG = 0x11"
| "type_code RCON_AUTH = 0x12" | "type_code RCON_COMMAND = 0x13"
| "type_code RCON_RESPONSE = 0x14" | "type_code SERVER_EVENT = 0x15"
| "type_code PLAYER_TELEPORT = 0x16" | "type_code READY = 0x17" | "type_code KICK = 0x18"
| "type_code BAN = 0x19" | "type_code AUTHORITY_CLAIM = 0x20"
| "type_code AUTHORITY_GRANT = 0x21" | "type_code AUTHORITY_REVOKE = 0x22"
| "type_code ERROR = 0xFF"

definition all_packet_types :: "PacketType list" where
  "all_packet_types =
     [HEARTBEAT, AUTH_REQUEST, AUTH_RESPONSE, PLAYER_JOIN, PLAYER_LEAVE, PLAYER_INFO,
      VEHICLE_SPAWN, VEHICLE_DELETE, VEHICLE_UPDATE, VEHICLE_DAMAGE, VEHICLE_ELECTRICS,
      CHAT_MESSAGE, SERVER_INFO, MOD_LIST, MOD_DATA, MOD_OK, PING, PONG, RCON_AUTH, RCON_COMMAND,
      RCON_RESPONSE, SERVER_EVENT, PLAYER_TELEPORT, READY, KICK, BAN, AUTHORITY_CLAIM,
      AUTHORITY_GRANT, AUTHORITY_REVOKE, ERROR]"

text \<open>
  \<open>static_cast<PacketType>(hdr.type)\<close>: the enumeration has a fixed underlying type, so every
  byte is a value of it; \<open>None\<close> is a byte with no enumerator, which no \<open>case\<close> matches.
\<close>

definition type_of_byte :: "u8 \<Rightarrow> PacketType option" where
  "type_of_byte b = find (\<lambda>t. type_code t = b) all_packet_types"

definition VF_IS_AI :: u8 where "VF_IS_AI = 1"

section \<open>Packed structs\<close>

record PacketHeader =
  hdr_type :: u8
  hdr_sender_id :: u16
  hdr_sequence :: u32
  hdr_payload_len :: u16
  hdr_flags :: u8

type_synonym vec3 = "f32 \<times> f32 \<times> f32"
type_synonym vec4 = "f32 \<times> f32 \<times> f32 \<times> f32"

record VehicleState =
  vs_vehicle_id :: u8
  vs_vflags :: u8
  vs_pos :: vec3
  vs_rot :: vec4
  vs_vel :: vec3
  vs_ang_vel :: vec3
  vs_wheels :: "u8 \<times> u8 \<times> u8 \<times> u8"
  vs_lights :: u8
  vs_gear :: u8
  vs_rpm :: f32
  vs_health :: u16

text \<open>\<open>VehicleState{}\<close>, all members zero.\<close>

definition zero_state :: VehicleState where
  "zero_state = \<lparr>vs_vehicle_id = 0, vs_vflags = 0, vs_pos = (0, 0, 0), vs_rot = (0, 0, 0, 0),
     vs_vel = (0, 0, 0), vs_ang_vel = (0, 0, 0), vs_wheels = (0, 0, 0, 0), vs_lights = 0,
     vs_gear = 0, vs_rpm = 0, vs_health = 0\<rparr>"

definition HEADER_SIZE :: nat where "HEADER_SIZE = 10"
definition STATE_SIZE :: nat where "STATE_SIZE = 66"

definition header_bytes :: "PacketHeader \<Rightarrow> bytes" where
  "header_bytes h = hdr_type h # le16 (hdr_sender_id h) @ le32 (hdr_sequence h)
     @ le16 (hdr_payload_len h) @ [hdr_flags h]"

definition header_of_bytes :: "bytes \<Rightarrow> PacketHeader" where
  "header_of_bytes bs = \<lparr>hdr_type = bs ! 0, hdr_sender_id = un_le16 (drop 1 bs),
     hdr_sequence = un_le32 (drop 3 bs), hdr_payload_len = un_le16 (drop 7 bs),
     hdr_flags = bs ! 9\<rparr>"

fun vec3_bytes :: "vec3 \<Rightarrow> bytes" where
  "vec3_bytes (x, y, z) = le32 x @ le32 y @ le32 z"

fun vec4_bytes :: "vec4 \<Rightarrow> bytes" where
  "vec4_bytes (x, y, z, w) = le32 x @ le32 y @ le32 z @ le32 w"

definition vec3_of_bytes :: "bytes \<Rightarrow> vec3" where
  "vec3_of_bytes bs = (un_le32 bs, un_le32 (drop 4 bs), un_le32 (drop 8 bs))"

definition vec4_of_bytes :: "bytes \<Rightarrow> vec4" where
  "vec4_of_bytes bs =
     (un_le32 bs, un_le32 (drop 4 bs), un_le32 (drop 8 bs), un_le32 (drop 12 bs))"

fun wheels_bytes :: "u8 \<times> u8 \<times> u8 \<times> u8 \<Rightarrow> bytes" where
  "wheels_bytes (a, b, c, d) = [a, b, c, d]"

definition state_bytes :: "VehicleState \<Rightarrow> bytes" where
  "state_bytes v = [vs_vehicle_id v, vs_vflags v] @ vec3_bytes (vs_pos v) @ vec4_bytes (vs_rot v)
     @ vec3_bytes (vs_vel v) @ vec3_bytes (vs_ang_vel v) @ wheels_bytes (vs_wheels v)
     @ [vs_lights v, vs_gear v] @ le32 (vs_rpm v) @ le16 (vs_health v)"

definition state_of_bytes :: "bytes \<Rightarrow> VehicleState" where
  "state_of_bytes bs = \<lparr>vs_vehicle_id = bs ! 0, vs_vflags = bs ! 1,
     vs_pos = vec3_of_bytes (drop 2 bs), vs_rot = vec4_of_bytes (drop 14 bs),
     vs_vel = vec3_of_bytes (drop 30 bs), vs_ang_vel = vec3_of_bytes (drop 42 bs),
     vs_wheels = (bs ! 54, bs ! 55, bs ! 56, bs ! 57), vs_lights = bs ! 58, vs_gear = bs ! 59,
     vs_rpm = un_le32 (drop 60 bs), vs_health = un_le16 (drop 64 bs)\<rparr>"

section \<open>Class Packet\<close>

text \<open>
  \<open>build\<close> copies \<open>payload_len\<close> bytes from \<open>payload\<close> when both are non-zero; a null payload
  leaves the zero bytes of the fresh buffer. Its callers pass a buffer of at least \<open>payload_len\<close>
  bytes.
\<close>

definition build :: "PacketType \<Rightarrow> u16 \<Rightarrow> u32 \<Rightarrow> bytes option \<Rightarrow> u16 \<Rightarrow> u8 \<Rightarrow> bytes" where
  "build t sender_id sequence p payload_len flags =
     header_bytes \<lparr>hdr_type = type_code t, hdr_sender_id = sender_id, hdr_sequence = sequence,
       hdr_payload_len = payload_len, hdr_flags = flags\<rparr>
     @ (case p of Some d \<Rightarrow> take (unat payload_len) d | None \<Rightarrow> replicate (unat payload_len) 0)"

definition buildStr :: "PacketType \<Rightarrow> u16 \<Rightarrow> u32 \<Rightarrow> string \<Rightarrow> bytes" where
  "buildStr t sender_id sequence s =
     build t sender_id sequence (Some (bytes_of_string s)) (word_of_nat (length s)) 0"

definition buildVehicleUpdate :: "u16 \<Rightarrow> u32 \<Rightarrow> VehicleState \<Rightarrow> bytes" where
  "buildVehicleUpdate sender_id sequence vs =
     build VEHICLE_UPDATE sender_id sequence (Some (state_bytes vs)) (word_of_nat STATE_SIZE) 0"

definition parseHeader :: "bytes \<Rightarrow> fault + PacketHeader" where
  "parseHeader data =
     (if length data < HEADER_SIZE then Inl (Uncaught ''Packet too short'')
      else Inr (header_of_bytes data))"

definition payload :: "bytes \<Rightarrow> bytes" where
  "payload data = drop HEADER_SIZE data"

text \<open>Reading \<open>n\<close> bytes from a pointer of which only \<open>bs\<close> is valid memory.\<close>

definition read_bytes :: "bytes \<Rightarrow> nat \<Rightarrow> fault + bytes" where
  "read_bytes bs n = (if n \<le> length bs then Inr (take n bs) else Inl OutOfBounds)"

definition parseVehicleState :: "bytes \<Rightarrow> u16 \<Rightarrow> fault + VehicleState" where
  "parseVehicleState pl len =
     (if unat len < STATE_SIZE then Inl (Uncaught ''VehicleState payload too short'')
      else bindE (read_bytes pl STATE_SIZE) (\<lambda>bs. Inr (state_of_bytes bs)))"

section \<open>Lengths and round trips\<close>

lemma HEADER_SIZE_simp [simp]: "HEADER_SIZE = 10"
  by (simp add: HEADER_SIZE_def)

lemma STATE_SIZE_simp [simp]: "STATE_SIZE = 66"
  by (simp add: STATE_SIZE_def)

lemma type_of_byte_code [simp]: "type_of_byte (type_code t) = Some t"
  by (cases t) (simp_all add: type_of_byte_def all_packet_types_def)

lemma type_of_byte_Some: "type_of_byte b = Some t \<Longrightarrow> b = type_code t"
  by (auto simp: type_of_byte_def find_Some_iff)

lemma type_of_byte_eq_Some: "type_of_byte b = Some t \<longleftrightarrow> b = type_code t"
  using type_of_byte_Some by auto

lemma length_header_bytes [simp]: "length (header_bytes h) = 10"
  by (simp add: header_bytes_def)

lemma header_of_bytes_append [simp]: "header_of_bytes (header_bytes h @ bs) = h"
  by (cases h) (simp add: header_of_bytes_def header_bytes_def nth_append)

lemma length_vec3_bytes [simp]: "length (vec3_bytes v) = 12"
  by (cases v) simp

lemma length_vec4_bytes [simp]: "length (vec4_bytes v) = 16"
  by (cases v) simp

lemma length_wheels_bytes [simp]: "length (wheels_bytes v) = 4"
  by (cases v) simp

lemma length_state_bytes [simp]: "length (state_bytes v) = 66"
  by (simp add: state_bytes_def)

lemma vec3_of_bytes_append [simp]: "vec3_of_bytes (vec3_bytes v @ bs) = v"
  by (cases v) (simp add: vec3_of_bytes_def)

lemma vec4_of_bytes_append [simp]: "vec4_of_bytes (vec4_bytes v @ bs) = v"
  by (cases v) (simp add: vec4_of_bytes_def)

lemma state_of_bytes_append [simp]: "state_of_bytes (state_bytes v @ bs) = v"
proof -
  obtain a b c d where w: "vs_wheels v = (a, b, c, d)" by (cases "vs_wheels v")
  show ?thesis
    by (cases v) (use w in \<open>simp add: state_of_bytes_def state_bytes_def nth_append\<close>)
qed

lemma take_split: "take (m + n) (drop k bs) = take m (drop k bs) @ take n (drop (k + m) bs)"
  by (simp add: take_add add.commute)

lemma vec3_bytes_of_bytes: "12 \<le> length bs \<Longrightarrow> vec3_bytes (vec3_of_bytes bs) = take 12 bs"
  using take_split [of 4 8 0 bs] take_split [of 4 4 4 bs]
  by (simp add: vec3_of_bytes_def le32_un_le32_take)

lemma vec4_bytes_of_bytes: "16 \<le> length bs \<Longrightarrow> vec4_bytes (vec4_of_bytes bs) = take 16 bs"
  using take_split [of 4 12 0 bs] take_split [of 4 8 4 bs] take_split [of 4 4 8 bs]
  by (simp add: vec4_of_bytes_def le32_un_le32_take)

lemma take_nths: "n + 1 < length bs \<Longrightarrow> [bs ! n, bs ! (n + 1)] = take 2 (drop n bs)"
  by (simp add: numeral_2_eq_2 Cons_nth_drop_Suc [symmetric])

lemma state_bytes_of_bytes: "66 \<le> length bs \<Longrightarrow> state_bytes (state_of_bytes bs) = take 66 bs"
proof -
  assume len: "66 \<le> length bs"
  have "take 66 bs = take 2 bs @ take 12 (drop 2 bs) @ take 16 (drop 14 bs) @ take 12 (drop 30 bs)
      @ take 12 (drop 42 bs) @ take 2 (drop 54 bs) @ take 2 (drop 56 bs) @ take 2 (drop 58 bs)
      @ take 4 (drop 60 bs) @ take 2 (drop 64 bs)"
    using take_add [of 2 64 bs, unfolded numeral_plus_numeral] take_split [of 12 52 2 bs] take_split [of 16 36 14 bs]
      take_split [of 12 24 30 bs] take_split [of 12 12 42 bs] take_split [of 2 10 54 bs]
      take_split [of 2 8 56 bs] take_split [of 2 6 58 bs] take_split [of 4 2 60 bs]
    by simp
  moreover have "[bs ! 0, bs ! 1] = take 2 bs" "[bs ! 54, bs ! 55] = take 2 (drop 54 bs)"
    "[bs ! 56, bs ! 57] = take 2 (drop 56 bs)" "[bs ! 58, bs ! 59] = take 2 (drop 58 bs)"
    using len take_nths [of 0 bs] take_nths [of 54 bs] take_nths [of 56 bs] take_nths [of 58 bs]
    by simp_all
  ultimately show ?thesis
    using len
    by (simp add: state_bytes_def state_of_bytes_def vec3_bytes_of_bytes vec4_bytes_of_bytes
        le32_un_le32_take le16_un_le16_take flip: append_Cons append_assoc)
qed

lemma length_build_Some:
  "unat n \<le> length d \<Longrightarrow> length (build t i q (Some d) n fl) = 10 + unat n"
  by (simp add: build_def)

lemma parseHeader_build [simp]:
  "parseHeader (build t i q p n fl @ rest) = Inr \<lparr>hdr_type = type_code t, hdr_sender_id = i,
     hdr_sequence = q, hdr_payload_len = n, hdr_flags = fl\<rparr>"
  by (simp add: parseHeader_def build_def)

lemma payload_build_Some [simp]: "payload (build t i q (Some d) n fl) = take (unat n) d"
  by (simp add: payload_def build_def)

lemma unat_word_of_nat_u16: "unat (word_of_nat k :: u16) = k mod 65536"
  by (simp add: unat_of_nat)

lemma parseVehicleState_ok: "66 \<le> unat len \<Longrightarrow> 66 \<le> length pl
   \<Longrightarrow> parseVehicleState pl len = Inr (state_of_bytes (take 66 pl))"
  by (simp add: parseVehicleState_def read_bytes_def)

lemma payload_buildVehicleUpdate [simp]: "payload (buildVehicleUpdate i q v) = state_bytes v"
  by (simp add: buildVehicleUpdate_def)

lemma length_buildVehicleUpdate [simp]: "length (buildVehicleUpdate i q v) = 76"
  by (simp add: buildVehicleUpdate_def length_build_Some)

lemma parseHeader_buildVehicleUpdate [simp]:
  "parseHeader (buildVehicleUpdate i q v) = Inr \<lparr>hdr_type = 8, hdr_sender_id = i,
     hdr_sequence = q, hdr_payload_len = 66, hdr_flags = 0\<rparr>"
  using parseHeader_build [of VEHICLE_UPDATE i q "Some (state_bytes v)" 66 0 "[]"]
  by (simp add: buildVehicleUpdate_def)

section \<open>Properties\<close>

text \<open>
  C27. A packet built from a data buffer parses back to the header it was built with, its type byte
  is the enumerator, and its payload is the data up to the 16-bit length field: the whole of it
  below 65536 bytes, the first \<open>length mod 65536\<close> bytes of it above.
\<close>

theorem packet_roundtrip:
  "parseHeader (build t i q (Some d) (word_of_nat (length d)) fl) =
     Inr \<lparr>hdr_type = type_code t, hdr_sender_id = i, hdr_sequence = q,
       hdr_payload_len = word_of_nat (length d), hdr_flags = fl\<rparr>
   \<and> type_of_byte (type_code t) = Some t
   \<and> payload (build t i q (Some d) (word_of_nat (length d)) fl) = take (length d mod 65536) d"
  using parseHeader_build [of t i q "Some d" "word_of_nat (length d)" fl "[]"]
  by (simp add: unat_word_of_nat_u16)

text \<open>
  \<open>buildStr\<close> delivers the string it is given exactly when the string is shorter than 65536
  bytes; a longer one is cut silently, because its size is cast to \<open>uint16_t\<close>.
\<close>

theorem buildStr_delivers_iff:
  "string_of_bytes (payload (buildStr t i q s)) = s \<longleftrightarrow> length s < 65536"
proof -
  have p: "payload (buildStr t i q s) = take (length s mod 65536) (bytes_of_string s)"
    by (simp add: buildStr_def unat_word_of_nat_u16)
  have "length s mod 65536 = length s \<longleftrightarrow> length s < 65536"
    by (metis mod_less mod_less_divisor zero_less_numeral)
  moreover have "length (string_of_bytes (payload (buildStr t i q s))) = length s mod 65536"
    by (simp add: p min_def)
  ultimately show ?thesis
    by (metis length_bytes_of_string p string_of_bytes_of_string take_all_iff order_refl)
qed

text \<open>
  A vehicle update survives the wire: the packet built for a state parses back to the owner,
  the sequence number and exactly that state, and it is 76 bytes long.
\<close>

theorem vehicle_update_roundtrip:
  "bindE (parseHeader (buildVehicleUpdate i q v))
     (\<lambda>h. bindE (parseVehicleState (payload (buildVehicleUpdate i q v)) (hdr_payload_len h))
        (\<lambda>w. Inr (type_of_byte (hdr_type h), hdr_sender_id h, hdr_sequence h, w)))
   = Inr (Some VEHICLE_UPDATE, i, q, v)
   \<and> length (buildVehicleUpdate i q v) = 76"
  using state_of_bytes_append [of v "[]"] type_of_byte_code [of VEHICLE_UPDATE]
  by (simp add: parseVehicleState_ok)

text \<open>
  The parsed form of a vehicle state determines the 66 bytes it came from: nothing of the
  payload is dropped or normalised, so relaying a parsed state relays the sender's bytes.
\<close>

theorem parse_state_lossless:
  assumes "parseVehicleState pl len = Inr v"
  shows "state_bytes v = take 66 pl \<and> 66 \<le> length pl \<and> 66 \<le> unat len"
  using assms
  by (auto simp: parseVehicleState_def read_bytes_def state_bytes_of_bytes split: if_splits)

theorem parse_state_lossless_witness:
  "state_bytes zero_state = take 66 (state_bytes zero_state @ [7])
   \<and> 66 \<le> length (state_bytes zero_state @ [7]) \<and> 66 \<le> unat (67 :: u16)"
  by (rule parse_state_lossless)
    (use state_of_bytes_append [of zero_state "[]"] in \<open>simp add: parseVehicleState_ok\<close>)

end
