(* ===== verification/Vehicle_Sync.thy ===== *)
theory Vehicle_Sync
  imports Packet
begin

text \<open>
  Class \<open>VehicleSync\<close> of \<^verbatim>\<open>servers/src/sync\<close>: the table of the last state of every vehicle
  (\<open>m_entries\<close>), its update, broadcast and removal operations. The table is kept as the list the
  code keeps; its abstraction is a map from (owner, vehicle id) to the entry. The locale
  \<open>sync_store\<close> is the contract the game server relies on; it is interpreted on the model below. The class has
  no mutex, and here every operation is one transition: what happens when an update comes in during a broadcast
  is not seen in this theory (\<open>Server_Threads.sync_entryP\<close> has the separate accesses of the loop).
\<close>

section \<open>State and operations\<close>

record SyncEntry =
  se_owner_id :: u16
  se_state :: VehicleState
  se_seq :: u32
  se_dirty :: bool

type_synonym entry_key = "u16 \<times> u8"

definition entry_key :: "SyncEntry \<Rightarrow> entry_key" where
  "entry_key e = (se_owner_id e, vs_vehicle_id (se_state e))"

text \<open>The range-\<open>for\<close> search of \<open>findOrCreate\<close>: the index of the first matching entry.\<close>

fun find_entry :: "u16 \<Rightarrow> u8 \<Rightarrow> SyncEntry list \<Rightarrow> nat option" where
  "find_entry owner vid [] = None"
| "find_entry owner vid (e # es) =
     (if se_owner_id e = owner \<and> vs_vehicle_id (se_state e) = vid then Some 0
      else map_option Suc (find_entry owner vid es))"

definition new_entry :: "u16 \<Rightarrow> u8 \<Rightarrow> SyncEntry" where
  "new_entry owner vid = \<lparr>se_owner_id = owner, se_state = zero_state\<lparr>vs_vehicle_id := vid\<rparr>,
     se_seq = 0, se_dirty = False\<rparr>"

text \<open>The returned pointer is the index into the (possibly grown) vector.\<close>

definition findOrCreate :: "u16 \<Rightarrow> u8 \<Rightarrow> SyncEntry list \<Rightarrow> SyncEntry list \<times> nat" where
  "findOrCreate owner vid es = (case find_entry owner vid es of
     Some i \<Rightarrow> (es, i)
   | None \<Rightarrow> (es @ [new_entry owner vid], length es))"

definition onVehicleUpdate :: "u16 \<Rightarrow> VehicleState \<Rightarrow> SyncEntry list \<Rightarrow> SyncEntry list" where
  "onVehicleUpdate player_id st es =
     (let (es', i) = findOrCreate player_id (vs_vehicle_id st) es
      in es'[i := (es' ! i)\<lparr>se_state := st, se_dirty := True\<rparr>])"

text \<open>
  The loop of \<open>broadcastAll\<close>: the new table, and the calls of \<open>m_broadcast(pkt, e.owner_id)\<close> in
  their order.
\<close>

fun broadcastAll :: "SyncEntry list \<Rightarrow> SyncEntry list \<times> (bytes \<times> u16) list" where
  "broadcastAll [] = ([], [])"
| "broadcastAll (e # es) =
     (let (es', calls) = broadcastAll es in
      if \<not> se_dirty e then (e # es', calls)
      else let seq = se_seq e + 1;
               pkt = buildVehicleUpdate (se_owner_id e) seq (se_state e)
           in (e\<lparr>se_seq := seq, se_dirty := False\<rparr> # es', (pkt, se_owner_id e) # calls))"

definition onPlayerDisconnect :: "u16 \<Rightarrow> SyncEntry list \<Rightarrow> SyncEntry list" where
  "onPlayerDisconnect player_id es = filter (\<lambda>e. \<not> se_owner_id e = player_id) es"

definition remove_entry :: "u16 \<Rightarrow> u8 \<Rightarrow> SyncEntry list \<Rightarrow> SyncEntry list" where
  "remove_entry owner vid es =
     filter (\<lambda>e. \<not> (se_owner_id e = owner \<and> vs_vehicle_id (se_state e) = vid)) es"

definition onVehicleDelete :: "u16 \<Rightarrow> u8 \<Rightarrow> SyncEntry list \<Rightarrow> SyncEntry list" where
  "onVehicleDelete player_id vid es = remove_entry player_id vid es"

section \<open>The table as a map\<close>

definition lookup_entry :: "SyncEntry list \<Rightarrow> entry_key \<Rightarrow> SyncEntry option" where
  "lookup_entry es k = find (\<lambda>e. entry_key e = k) es"

definition table_inv :: "SyncEntry list \<Rightarrow> bool" where
  "table_inv es \<longleftrightarrow> distinct (map entry_key es)"

definition flushed :: "SyncEntry \<Rightarrow> SyncEntry" where
  "flushed e = (if se_dirty e then e\<lparr>se_seq := se_seq e + 1, se_dirty := False\<rparr> else e)"

lemma lookup_entry_Nil [simp]: "lookup_entry [] k = None"
  by (simp add: lookup_entry_def)

lemma lookup_entry_Cons [simp]:
  "lookup_entry (e # es) k = (if entry_key e = k then Some e else lookup_entry es k)"
  by (simp add: lookup_entry_def)

lemma lookup_entry_append:
  "lookup_entry (xs @ ys) k =
     (case lookup_entry xs k of None \<Rightarrow> lookup_entry ys k | Some e \<Rightarrow> Some e)"
  by (induction xs) auto

lemma lookup_entry_None: "lookup_entry es k = None \<longleftrightarrow> k \<notin> entry_key ` set es"
  by (induction es) auto

lemma lookup_entry_Some_in: "lookup_entry es k = Some e \<Longrightarrow> e \<in> set es \<and> entry_key e = k"
  by (induction es) (auto split: if_splits)

lemma lookup_entry_filter:
  "lookup_entry (filter (\<lambda>e. P (entry_key e)) es) k = (if P k then lookup_entry es k else None)"
  by (induction es) auto

lemma find_entry_None: "find_entry p v es = None \<longleftrightarrow> lookup_entry es (p, v) = None"
  by (induction es) (auto simp: entry_key_def)

lemma find_entry_Some:
  "find_entry p v es = Some i \<Longrightarrow> i < length es \<and> lookup_entry es (p, v) = Some (es ! i)"
  by (induction es arbitrary: i) (auto simp: entry_key_def split: if_splits)

lemma broadcastAll_eq:
  "broadcastAll es = (map flushed es,
     map (\<lambda>e. (buildVehicleUpdate (se_owner_id e) (se_seq e + 1) (se_state e), se_owner_id e))
       (filter se_dirty es))"
  by (induction es) (auto simp: flushed_def Let_def)

lemma entry_key_flushed [simp]: "entry_key (flushed e) = entry_key e"
  by (simp add: flushed_def entry_key_def)

lemma not_dirty_flushed [simp]: "\<not> se_dirty (flushed e)"
  by (simp add: flushed_def)

lemma lookup_entry_map_flushed:
  "lookup_entry (map flushed es) k = map_option flushed (lookup_entry es k)"
  by (induction es) auto

lemma lookup_entry_list_update:
  assumes "i < length es" "table_inv es" "entry_key e' = entry_key (es ! i)"
  shows "lookup_entry (es[i := e']) = (lookup_entry es)(entry_key e' \<mapsto> e')"
  using assms
proof (induction es arbitrary: i)
  case Nil
  then show ?case by simp
next
  case (Cons e es)
  show ?case
  proof (cases i)
    case 0
    with Cons.prems show ?thesis by (auto simp: fun_eq_iff)
  next
    case (Suc j)
    with Cons.prems have "entry_key (es ! j) \<in> entry_key ` set es"
      by simp
    moreover have "lookup_entry (es[j := e']) = (lookup_entry es)(entry_key e' \<mapsto> e')"
      using Cons.prems Suc by (intro Cons.IH) (auto simp: table_inv_def)
    ultimately show ?thesis using Cons.prems Suc by (intro ext) (auto simp: table_inv_def)
  qed
qed

definition upsert :: "SyncEntry option \<Rightarrow> u16 \<Rightarrow> VehicleState \<Rightarrow> SyncEntry" where
  "upsert old p v = (case old of None \<Rightarrow> new_entry p (vs_vehicle_id v) | Some e \<Rightarrow> e)
     \<lparr>se_state := v, se_dirty := True\<rparr>"

lemma entry_key_new_entry [simp]: "entry_key (new_entry p v) = (p, v)"
  by (simp add: new_entry_def entry_key_def)

lemma map_entry_key_update:
  assumes "i < length es" "entry_key e' = entry_key (es ! i)"
  shows "map entry_key (es[i := e']) = map entry_key es"
  using assms by (simp add: map_update list_update_same_conv)

lemma onVehicleUpdate_new:
  assumes "lookup_entry es (p, vs_vehicle_id v) = None"
  shows "onVehicleUpdate p v es = es @ [upsert None p v]"
  using assms
  by (simp add: onVehicleUpdate_def findOrCreate_def find_entry_None [symmetric] upsert_def)

lemma onVehicleUpdate_old:
  assumes "lookup_entry es (p, vs_vehicle_id v) = Some e"
  obtains i where "i < length es" "es ! i = e" "onVehicleUpdate p v es = es[i := upsert (Some e) p v]"
proof -
  obtain i where i: "find_entry p (vs_vehicle_id v) es = Some i"
    using assms find_entry_None [of p "vs_vehicle_id v" es] by fastforce
  from find_entry_Some [OF i] assms have "i < length es" "es ! i = e" by simp_all
  then show ?thesis
    using i by (intro that [of i]) (simp_all add: onVehicleUpdate_def findOrCreate_def upsert_def)
qed

lemma entry_key_upsert:
  "(\<And>e. old = Some e \<Longrightarrow> entry_key e = (p, vs_vehicle_id v)) \<Longrightarrow>
     entry_key (upsert old p v) = (p, vs_vehicle_id v)"
  by (cases old) (auto simp: upsert_def entry_key_def new_entry_def)

lemma entry_key_upsert_None [simp]: "entry_key (upsert None p v) = (p, vs_vehicle_id v)"
  by (rule entry_key_upsert) simp

lemma entry_key_upsert_Some:
  "entry_key e = (p, vs_vehicle_id v) \<Longrightarrow> entry_key (upsert (Some e) p v) = (p, vs_vehicle_id v)"
  by (rule entry_key_upsert) simp

lemma lookup_onVehicleUpdate:
  assumes "table_inv es"
  shows "lookup_entry (onVehicleUpdate p v es) = (lookup_entry es)
    ((p, vs_vehicle_id v) \<mapsto> upsert (lookup_entry es (p, vs_vehicle_id v)) p v)"
proof (cases "lookup_entry es (p, vs_vehicle_id v)")
  case None
  then show ?thesis
    by (intro ext) (auto simp: onVehicleUpdate_new lookup_entry_append split: option.splits)
next
  case (Some e)
  have key: "entry_key e = (p, vs_vehicle_id v)"
    using lookup_entry_Some_in [OF Some] by simp
  obtain i where i: "i < length es" "es ! i = e"
    "onVehicleUpdate p v es = es[i := upsert (Some e) p v]"
    using Some by (rule onVehicleUpdate_old)
  have "entry_key (upsert (Some e) p v) = (p, vs_vehicle_id v)"
    using key by (rule entry_key_upsert_Some)
  with lookup_entry_list_update [OF i(1) assms, of "upsert (Some e) p v"] i key Some
  show ?thesis by simp
qed

lemma table_inv_Nil [simp]: "table_inv []"
  by (simp add: table_inv_def)

lemma table_inv_onVehicleUpdate [simp]: "table_inv es \<Longrightarrow> table_inv (onVehicleUpdate p v es)"
proof (cases "lookup_entry es (p, vs_vehicle_id v)")
  case None
  then show "table_inv es \<Longrightarrow> ?thesis"
    by (simp add: onVehicleUpdate_new table_inv_def entry_key_upsert lookup_entry_None)
next
  case (Some e)
  then obtain i where i: "i < length es" "es ! i = e"
    "onVehicleUpdate p v es = es[i := upsert (Some e) p v]"
    by (rule onVehicleUpdate_old)
  moreover have "entry_key (upsert (Some e) p v) = entry_key (es ! i)"
    using lookup_entry_Some_in [OF Some] i by (simp add: entry_key_upsert_Some)
  ultimately show "table_inv es \<Longrightarrow> ?thesis"
    by (simp add: table_inv_def map_entry_key_update)
qed

lemma table_inv_filter [simp]: "table_inv es \<Longrightarrow> table_inv (filter P es)"
  by (simp add: table_inv_def distinct_map_filter)

lemma table_inv_remove [simp]:
  "table_inv es \<Longrightarrow> table_inv (onPlayerDisconnect p es)"
  "table_inv es \<Longrightarrow> table_inv (onVehicleDelete p v es)"
  by (simp_all add: onPlayerDisconnect_def onVehicleDelete_def remove_entry_def)

lemma table_inv_broadcastAll [simp]: "table_inv es \<Longrightarrow> table_inv (fst (broadcastAll es))"
  by (simp add: broadcastAll_eq table_inv_def o_def)

lemma lookup_onPlayerDisconnect:
  "lookup_entry (onPlayerDisconnect p es) k = (if fst k = p then None else lookup_entry es k)"
  using lookup_entry_filter [of "\<lambda>k. fst k \<noteq> p" es k]
  by (simp add: onPlayerDisconnect_def entry_key_def)

lemma lookup_onVehicleDelete:
  "lookup_entry (onVehicleDelete p v es) k = (if k = (p, v) then None else lookup_entry es k)"
  using lookup_entry_filter [of "\<lambda>k. \<not> (fst k = p \<and> snd k = v)" es k]
  by (cases k) (auto simp: onVehicleDelete_def remove_entry_def entry_key_def)

lemma lookup_broadcastAll:
  "lookup_entry (fst (broadcastAll es)) k = map_option flushed (lookup_entry es k)"
  by (simp add: broadcastAll_eq lookup_entry_map_flushed)

section \<open>The contract towards the game server\<close>

text \<open>A history of calls on the store: what the network handlers and the 100 Hz loop do to it.\<close>

datatype sync_op = OpUpdate u16 VehicleState | OpDelete u16 u8 | OpLeave u16 | OpFlush

fun run_ops :: "(u16 \<Rightarrow> VehicleState \<Rightarrow> 's \<Rightarrow> 's) \<Rightarrow> (u16 \<Rightarrow> u8 \<Rightarrow> 's \<Rightarrow> 's) \<Rightarrow> (u16 \<Rightarrow> 's \<Rightarrow> 's)
    \<Rightarrow> ('s \<Rightarrow> 's \<times> (bytes \<times> u16) list) \<Rightarrow> sync_op list \<Rightarrow> 's \<Rightarrow> 's \<times> (bytes \<times> u16) list" where
  "run_ops upd del leave flush [] s = (s, [])"
| "run_ops upd del leave flush (x # xs) s =
     (let (t, cs) = (case x of OpUpdate p v \<Rightarrow> (upd p v s, []) | OpDelete p v \<Rightarrow> (del p v s, [])
            | OpLeave p \<Rightarrow> (leave p s, []) | OpFlush \<Rightarrow> flush s);
          (u, ds) = run_ops upd del leave flush xs t
      in (u, cs @ ds))"

fun updates_player :: "u16 \<Rightarrow> sync_op \<Rightarrow> bool" where
  "updates_player p (OpUpdate q v) = (q = p)"
| "updates_player p _ = False"

fun removes_key :: "entry_key \<Rightarrow> sync_op \<Rightarrow> bool" where
  "removes_key k (OpDelete p v) = (k = (p, v))"
| "removes_key k (OpLeave p) = (fst k = p)"
| "removes_key k _ = False"

text \<open>The last state given for the vehicle of \<open>v\<close>, of the player \<open>p\<close>.\<close>

fun latest :: "u16 \<Rightarrow> VehicleState \<Rightarrow> sync_op list \<Rightarrow> VehicleState" where
  "latest p v [] = v"
| "latest p v (OpUpdate q w # xs) =
     (if q = p \<and> vs_vehicle_id w = vs_vehicle_id v then latest p w xs else latest p v xs)"
| "latest p v (_ # xs) = latest p v xs"

locale sync_store =
  fixes look :: "'s \<Rightarrow> entry_key \<Rightarrow> SyncEntry option"
    and upd :: "u16 \<Rightarrow> VehicleState \<Rightarrow> 's \<Rightarrow> 's"
    and del :: "u16 \<Rightarrow> u8 \<Rightarrow> 's \<Rightarrow> 's"
    and leave :: "u16 \<Rightarrow> 's \<Rightarrow> 's"
    and flush :: "'s \<Rightarrow> 's \<times> (bytes \<times> u16) list"
    and ok :: "'s \<Rightarrow> bool"
  assumes ok_upd: "ok s \<Longrightarrow> ok (upd p v s)"
    and ok_del: "ok s \<Longrightarrow> ok (del p i s)"
    and ok_leave: "ok s \<Longrightarrow> ok (leave p s)"
    and ok_flush: "ok s \<Longrightarrow> ok (fst (flush s))"
    and look_upd: "ok s \<Longrightarrow> look (upd p v s) = (look s)
      ((p, vs_vehicle_id v) \<mapsto> upsert (look s (p, vs_vehicle_id v)) p v)"
    and look_del: "ok s \<Longrightarrow> look (del p i s) k = (if k = (p, i) then None else look s k)"
    and look_leave: "ok s \<Longrightarrow> look (leave p s) k = (if fst k = p then None else look s k)"
    and look_flush: "ok s \<Longrightarrow> look (fst (flush s)) k = map_option flushed (look s k)"
    and flush_calls: "ok s \<Longrightarrow> set (snd (flush s)) =
      {(buildVehicleUpdate (fst k) (se_seq e + 1) (se_state e), fst k) | k e.
         look s k = Some e \<and> se_dirty e}"
    and look_key: "ok s \<Longrightarrow> look s k = Some e \<Longrightarrow> entry_key e = k"
begin

lemma silent_run:
  assumes "ok s" "\<forall>i. look s (p, i) = None" "\<forall>x \<in> set xs. \<not> updates_player p x"
  shows "p \<notin> snd ` set (snd (run_ops upd del leave flush xs s))"
  using assms
proof (induction xs arbitrary: s)
  case Nil
  then show ?case by simp
next
  case (Cons x xs)
  have rest: "p \<notin> snd ` set (snd (run_ops upd del leave flush xs t))"
    if "ok t" "\<forall>i. look t (p, i) = None" for t
    using Cons.IH [of t] that Cons.prems(3) by simp
  show ?case
  proof (cases x)
    case (OpUpdate q v)
    with Cons.prems have "q \<noteq> p" by simp
    with Cons.prems OpUpdate rest [of "upd q v s"] show ?thesis
      by (simp add: case_prod_beta ok_upd look_upd)
  next
    case (OpDelete q i)
    with Cons.prems rest [of "del q i s"] show ?thesis
      by (simp add: case_prod_beta ok_del look_del)
  next
    case (OpLeave q)
    with Cons.prems rest [of "leave q s"] show ?thesis
      by (simp add: case_prod_beta ok_leave look_leave)
  next
    case OpFlush
    have "p \<notin> snd ` set (snd (flush s))"
      using Cons.prems by (auto simp: flush_calls)
    with OpFlush Cons.prems rest [of "fst (flush s)"] show ?thesis
      by (simp add: case_prod_beta ok_flush look_flush image_Un)
  qed
qed

lemma silent_after_leave:
  assumes "ok s" "\<forall>x \<in> set xs. \<not> updates_player p x"
  shows "p \<notin> snd ` set (snd (run_ops upd del leave flush xs (leave p s)))"
  using assms by (intro silent_run) (simp_all add: ok_leave look_leave)

lemma flush_twice:
  assumes "ok s" shows "snd (flush (fst (flush s))) = []"
proof -
  have "set (snd (flush (fst (flush s)))) = {}"
    using assms by (auto simp: flush_calls ok_flush look_flush)
  then show ?thesis by simp
qed

lemma flush_sends_latest:
  assumes "ok s"
  shows "{w. vs_vehicle_id w = vs_vehicle_id v \<and>
    (\<exists>q. (buildVehicleUpdate p q w, p) \<in> set (snd (flush (upd p v s))))} = {v}"
proof -
  have inj: "buildVehicleUpdate i q w = buildVehicleUpdate j r u \<Longrightarrow> w = u" for i q w j r u
    using state_of_bytes_append [of _ "[]"] payload_buildVehicleUpdate by (metis append_Nil2)
  let ?e = "upsert (look s (p, vs_vehicle_id v)) p v"
  have e: "se_state ?e = v" "se_dirty ?e" by (simp_all add: upsert_def)
  have "(buildVehicleUpdate p (se_seq ?e + 1) v, p) \<in> set (snd (flush (upd p v s)))"
    using assms e by (fastforce simp: flush_calls ok_upd look_upd)
  moreover have "w = v" if w: "vs_vehicle_id w = vs_vehicle_id v"
    "(buildVehicleUpdate p q w, p) \<in> set (snd (flush (upd p v s)))" for w q
  proof -
    from w(2) obtain i e' where e': "look (upd p v s) (p, i) = Some e'" "w = se_state e'"
      using assms by (auto simp: flush_calls ok_upd dest!: inj)
    with look_key [of "upd p v s"] assms w(1) have "i = vs_vehicle_id v"
      by (auto simp: ok_upd entry_key_def)
    with e' assms e show ?thesis by (simp add: look_upd)
  qed
  ultimately show ?thesis by auto
qed

lemma dirty_gets_sent:
  assumes "ok s" "look s (p, vs_vehicle_id v) = Some e" "se_state e = v" "se_dirty e"
    and "\<forall>x \<in> set ys. x \<noteq> OpFlush \<and> \<not> removes_key (p, vs_vehicle_id v) x"
  shows "\<exists>q. (buildVehicleUpdate p q (latest p v ys), p)
    \<in> set (snd (run_ops upd del leave flush (ys @ OpFlush # zs) s))"
  using assms
proof (induction ys arbitrary: s v e)
  case Nil
  then have "(buildVehicleUpdate p (se_seq e + 1) v, p) \<in> set (snd (flush s))"
    by (fastforce simp: flush_calls)
  then show ?case by (auto simp: case_prod_beta)
next
  case (Cons x ys)
  show ?case
  proof (cases x)
    case (OpUpdate q w)
    show ?thesis
    proof (cases "q = p \<and> vs_vehicle_id w = vs_vehicle_id v")
      case True
      with Cons.IH [of "upd q w s" w "upsert (look s (p, vs_vehicle_id w)) p w"] Cons.prems OpUpdate
      show ?thesis by (simp add: case_prod_beta ok_upd look_upd upsert_def)
    next
      case False
      then have "(p, vs_vehicle_id v) \<noteq> (q, vs_vehicle_id w)" by auto
      with False Cons.IH [of "upd q w s" v e] Cons.prems OpUpdate
      show ?thesis by (auto simp: case_prod_beta ok_upd look_upd)
    qed
  next
    case (OpDelete q i)
    with Cons.IH [of "del q i s" v e] Cons.prems show ?thesis
      by (simp add: case_prod_beta ok_del look_del)
  next
    case (OpLeave q)
    with Cons.IH [of "leave q s" v e] Cons.prems show ?thesis
      by (simp add: case_prod_beta ok_leave look_leave)
  next
    case OpFlush
    with Cons.prems show ?thesis by simp
  qed
qed

lemma update_gets_sent:
  assumes "ok s" "\<forall>x \<in> set ys. x \<noteq> OpFlush \<and> \<not> removes_key (p, vs_vehicle_id v) x"
  shows "\<exists>q. (buildVehicleUpdate p q (latest p v ys), p)
    \<in> set (snd (run_ops upd del leave flush (OpUpdate p v # ys @ OpFlush # zs) s))"
  using dirty_gets_sent [of "upd p v s" p v "upsert (look s (p, vs_vehicle_id v)) p v" ys zs] assms
  by (simp add: case_prod_beta ok_upd look_upd upsert_def)

end

lemma set_snd_broadcastAll:
  assumes "table_inv es"
  shows "set (snd (broadcastAll es)) =
    {(buildVehicleUpdate (fst k) (se_seq e + 1) (se_state e), fst k) | k e.
       lookup_entry es k = Some e \<and> se_dirty e}"
proof -
  have key: "lookup_entry es k = Some e \<longleftrightarrow> e \<in> set es \<and> entry_key e = k" for k e
    using assms
    by (induction es) (auto simp: table_inv_def lookup_entry_None dest: lookup_entry_Some_in)
  have "set (snd (broadcastAll es)) =
      (\<lambda>e. (buildVehicleUpdate (fst (entry_key e)) (se_seq e + 1) (se_state e), fst (entry_key e)))
        ` {e \<in> set es. se_dirty e}"
    by (simp add: broadcastAll_eq entry_key_def)
  then show ?thesis unfolding key by (simp only: image_Collect) blast
qed

interpretation vsync: sync_store lookup_entry onVehicleUpdate onVehicleDelete onPlayerDisconnect
  broadcastAll table_inv
proof (unfold_locales, goal_cases)
  case (9 es)
  then show ?case by (rule set_snd_broadcastAll)
next
  case (10 es k e)
  then show ?case using lookup_entry_Some_in by blast
qed (simp_all only: table_inv_onVehicleUpdate table_inv_remove table_inv_broadcastAll
    lookup_onVehicleUpdate lookup_onVehicleDelete lookup_onPlayerDisconnect lookup_broadcastAll)

section \<open>Sequence numbers\<close>

text \<open>The sequence numbers, in order, of the packets sent for one vehicle.\<close>

definition seqs_for :: "entry_key \<Rightarrow> (bytes \<times> u16) list \<Rightarrow> u32 list" where
  "seqs_for k calls = map (\<lambda>c. hdr_sequence (header_of_bytes (fst c)))
     (filter (\<lambda>c. snd c = fst k \<and> payload (fst c) ! 0 = snd k) calls)"



lemma seqs_for_Nil [simp]: "seqs_for k [] = []"
  by (simp add: seqs_for_def)

lemma header_of_buildVehicleUpdate [simp]:
  "hdr_sequence (header_of_bytes (buildVehicleUpdate i q v)) = q"
  using parseHeader_buildVehicleUpdate [of i q v] by (simp add: parseHeader_def)







section \<open>Properties\<close>

text \<open>
  C19. The vector of entries implements a map from (owner, vehicle id): with at most one entry per
  key, which every operation keeps, an update stores the new state and marks it dirty while keeping
  the sequence number (0 for a new key), removals delete exactly their keys, and a broadcast bumps
  the sequence number of the dirty entries and cleans them.
\<close>

theorem sync_refines_map:
  assumes "table_inv es"
  shows "lookup_entry (onVehicleUpdate p v es) = (lookup_entry es)
      ((p, vs_vehicle_id v) \<mapsto> \<lparr>se_owner_id = p, se_state = v,
         se_seq = (case lookup_entry es (p, vs_vehicle_id v) of None \<Rightarrow> 0 | Some e \<Rightarrow> se_seq e),
         se_dirty = True\<rparr>)
    \<and> lookup_entry (onVehicleDelete p i es) = (lookup_entry es)((p, i) := None)
    \<and> lookup_entry (onPlayerDisconnect p es) = (lookup_entry es) |` {k. fst k \<noteq> p}
    \<and> lookup_entry (fst (broadcastAll es)) = map_option flushed \<circ> lookup_entry es
    \<and> table_inv (onVehicleUpdate p v es) \<and> table_inv (onVehicleDelete p i es)
    \<and> table_inv (onPlayerDisconnect p es) \<and> table_inv (fst (broadcastAll es))"
proof -
  have "upsert (lookup_entry es (p, vs_vehicle_id v)) p v = \<lparr>se_owner_id = p, se_state = v,
      se_seq = (case lookup_entry es (p, vs_vehicle_id v) of None \<Rightarrow> 0 | Some e \<Rightarrow> se_seq e),
      se_dirty = True\<rparr>"
    using vsync.look_key [OF assms, of "(p, vs_vehicle_id v)"]
    by (auto simp: upsert_def new_entry_def entry_key_def split: option.splits)
  with assms show ?thesis
    by (auto simp: vsync.look_upd vsync.look_del vsync.look_leave vsync.look_flush restrict_map_def)
qed

theorem sync_refines_map_witness:
  "\<exists>es. length es = 2 \<and> lookup_entry (onVehicleDelete 4 0 es) = (lookup_entry es)((4, 0) := None)"
proof (intro exI conjI)
  let ?es = "onVehicleUpdate 4 zero_state (onVehicleUpdate 3 zero_state [])"
  show "length ?es = 2" by code_simp
  have "table_inv ?es" by simp
  from sync_refines_map [OF this]
  show "lookup_entry (onVehicleDelete 4 0 ?es) = (lookup_entry ?es)((4, 0) := None)" by blast
qed



text \<open>
  After a player has left, no packet names him as its owner, whatever the other players and the
  broadcast loop do, until he sends an update again.
\<close>

theorem sync_silent_after_leave:
  assumes "table_inv es" and "\<forall>x \<in> set xs. \<not> updates_player p x"
  shows "p \<notin> snd ` set (snd (run_ops onVehicleUpdate onVehicleDelete onPlayerDisconnect broadcastAll
     xs (onPlayerDisconnect p es)))"
  using assms by (rule vsync.silent_after_leave)

theorem sync_silent_after_leave_witness:
  "3 \<notin> snd ` set (snd (run_ops onVehicleUpdate onVehicleDelete onPlayerDisconnect broadcastAll
     [OpUpdate 4 zero_state, OpFlush] (onPlayerDisconnect 3 (onVehicleUpdate 3 zero_state []))))"
  by (rule sync_silent_after_leave) simp_all

text \<open>
  A broadcast sends, of all the updates a vehicle got since the last one, exactly the latest
  state; a second broadcast without an update in between sends nothing.
\<close>

theorem sync_sends_latest:
  assumes "table_inv es"
  shows "{w. vs_vehicle_id w = vs_vehicle_id v \<and>
      (\<exists>q. (buildVehicleUpdate p q w, p) \<in> set (snd (broadcastAll (onVehicleUpdate p v es))))} = {v}
    \<and> snd (broadcastAll (fst (broadcastAll es))) = []"
  using vsync.flush_sends_latest [OF assms] vsync.flush_twice [OF assms] by blast

theorem sync_sends_latest_witness:
  "snd (broadcastAll (fst (broadcastAll (onVehicleUpdate 3 zero_state [])))) = []
   \<and> snd (broadcastAll (onVehicleUpdate 3 zero_state [])) \<noteq> []"
proof -
  have "table_inv (onVehicleUpdate 3 zero_state [])" by simp
  from sync_sends_latest [OF this] show ?thesis
    by (auto simp: broadcastAll_eq onVehicleUpdate_new upsert_def)
qed

text \<open>
  C38. No update is lost: whatever else happens to the store in between, as long as the vehicle is not
  removed, the next turn of the broadcast loop sends a packet with its latest state (the update's own,
  or that of a later update of the same vehicle).
\<close>

theorem update_eventually_sent:
  assumes "table_inv es" and "\<forall>x \<in> set ys. x \<noteq> OpFlush \<and> \<not> removes_key (p, vs_vehicle_id v) x"
  shows "\<exists>q. (buildVehicleUpdate p q (latest p v ys), p) \<in> set (snd (run_ops onVehicleUpdate
    onVehicleDelete onPlayerDisconnect broadcastAll (OpUpdate p v # ys @ OpFlush # zs) es))"
  using assms by (rule vsync.update_gets_sent)

theorem update_eventually_sent_witness:
  "\<exists>q. (buildVehicleUpdate 3 q (zero_state\<lparr>vs_gear := 2\<rparr>), 3) \<in> set (snd (run_ops onVehicleUpdate
    onVehicleDelete onPlayerDisconnect broadcastAll (OpUpdate 3 zero_state #
      [OpUpdate 4 zero_state, OpUpdate 3 (zero_state\<lparr>vs_gear := 2\<rparr>), OpLeave 5] @ OpFlush # []) []))"
  using update_eventually_sent [of "[]" "[OpUpdate 4 zero_state, OpUpdate 3 (zero_state\<lparr>vs_gear := 2\<rparr>),
      OpLeave 5]" 3 zero_state "[]"]
  by simp

end
