(* ===== verification/Udp_Server.thy ===== *)
theory Udp_Server
  imports Packet
begin

text \<open>
  Class \<open>UDPServer\<close> of \<^verbatim>\<open>servers/src/network/udp_server.cpp\<close>: the receive buffer, the two
  tables that relate players and endpoints, and the datagrams sent (\<open>udp_out\<close>, in the order of the
  calls of \<open>async_send_to\<close>). The socket and its completion loop are asio's; \<open>udp_receive\<close> is the
  handler of \<open>startRecv\<close> for one datagram.
\<close>

section \<open>State\<close>

record UDPEndpoint =
  ep_ip :: string
  ep_port :: u16

text \<open>
  \<open>m_recv_buf\<close> is an array of 65507 bytes that is never cleared: a datagram overwrites a prefix of it.
\<close>

record udp_server = locks +
  m_recv_buf :: "nat \<Rightarrow> u8"
  m_player_to_ep :: "(u16 \<times> UDPEndpoint) list"
  m_ep_to_player :: "(UDPEndpoint \<times> u16) list"
  udp_out :: "(UDPEndpoint \<times> bytes) list"

definition RECV_BUF_SIZE :: nat where "RECV_BUF_SIZE = 65507"

text \<open>Bytes \<open>off\<close> to \<open>off + n\<close> of the receive buffer, through a pointer into it.\<close>

definition recv_slice :: "nat \<Rightarrow> nat \<Rightarrow> 'z udp_server_scheme \<Rightarrow> fault + bytes" where
  "recv_slice off n s = (if off + n \<le> RECV_BUF_SIZE then Inr (map (m_recv_buf s) [off..<off + n])
     else Inl OutOfBounds)"

section \<open>Operations\<close>

definition udp_receive :: "(UDPEndpoint \<Rightarrow> nat \<Rightarrow> 'z udp_server_scheme \<Rightarrow> fault + 'z udp_server_scheme)
    \<Rightarrow> UDPEndpoint \<Rightarrow> bytes \<Rightarrow> 'z udp_server_scheme \<Rightarrow> fault + 'z udp_server_scheme" where
  "udp_receive recv_cb from data s =
     (let n = length data;
          t = s\<lparr>m_recv_buf := (\<lambda>i. if i < n then data ! i else m_recv_buf s i)\<rparr>
      in if HEADER_SIZE \<le> n then recv_cb from n t else Inr t)"

definition udp_send :: "UDPEndpoint \<Rightarrow> bytes \<Rightarrow> 'z udp_server_scheme \<Rightarrow> 'z udp_server_scheme" where
  "udp_send to data s = s\<lparr>udp_out := udp_out s @ [(to, data)]\<rparr>"

definition udp_sendAll :: "bytes \<Rightarrow> u16 \<Rightarrow> 'z udp_server_scheme \<Rightarrow> fault + 'z udp_server_scheme" where
  "udp_sendAll data exclude = with_lock MapMutex (\<lambda>s. Inr (s\<lparr>udp_out := udp_out s
     @ map (\<lambda>(pid, ep). (ep, data)) (filter (\<lambda>(pid, ep). \<not> pid = exclude) (m_player_to_ep s))\<rparr>))"

definition mapPlayer :: "u16 \<Rightarrow> UDPEndpoint \<Rightarrow> 'z udp_server_scheme \<Rightarrow> fault + 'z udp_server_scheme" where
  "mapPlayer player_id ep = with_lock MapMutex (\<lambda>s. Inr (s
     \<lparr>m_player_to_ep := AList.update player_id ep (m_player_to_ep s),
      m_ep_to_player := AList.update ep player_id (m_ep_to_player s)\<rparr>))"

definition unmapPlayer :: "u16 \<Rightarrow> 'z udp_server_scheme \<Rightarrow> fault + 'z udp_server_scheme" where
  "unmapPlayer player_id = with_lock MapMutex (\<lambda>s. case map_of (m_player_to_ep s) player_id of
     None \<Rightarrow> Inr s
   | Some ep \<Rightarrow> Inr (s\<lparr>m_ep_to_player := AList.delete ep (m_ep_to_player s),
       m_player_to_ep := AList.delete player_id (m_player_to_ep s)\<rparr>))"

definition playerFromEndpoint :: "UDPEndpoint \<Rightarrow> 'z udp_server_scheme \<Rightarrow> fault + u16" where
  "playerFromEndpoint ep = read_locked MapMutex (\<lambda>s. case map_of (m_ep_to_player s) ep of
     Some pid \<Rightarrow> pid | None \<Rightarrow> 0xFFFF)"

section \<open>The operations with a free mutex\<close>

lemma udp_sendAll_free [simp]:
  "MapMutex \<notin> set (held s) \<Longrightarrow> udp_sendAll data x s = Inr (s\<lparr>udp_out := udp_out s
     @ map (\<lambda>(pid, ep). (ep, data)) (filter (\<lambda>(pid, ep). pid \<noteq> x) (m_player_to_ep s))\<rparr>)"
  by (simp add: udp_sendAll_def with_lock_free)

lemma mapPlayer_free [simp]:
  "MapMutex \<notin> set (held s) \<Longrightarrow> mapPlayer p ep s = Inr (s
     \<lparr>m_player_to_ep := AList.update p ep (m_player_to_ep s),
      m_ep_to_player := AList.update ep p (m_ep_to_player s)\<rparr>)"
  by (simp add: mapPlayer_def with_lock_free)

lemma unmapPlayer_free:
  "MapMutex \<notin> set (held s) \<Longrightarrow> unmapPlayer p s = Inr (case map_of (m_player_to_ep s) p of
     None \<Rightarrow> s | Some ep \<Rightarrow> s\<lparr>m_ep_to_player := AList.delete ep (m_ep_to_player s),
       m_player_to_ep := AList.delete p (m_player_to_ep s)\<rparr>)"
  by (auto simp: unmapPlayer_def with_lock_free split: option.splits)

lemma unmapPlayer_unknown:
  "MapMutex \<notin> set (held s) \<Longrightarrow> map_of (m_player_to_ep s) p = None \<Longrightarrow> unmapPlayer p s = Inr s"
  by (simp add: unmapPlayer_free)

lemma playerFromEndpoint_free [simp]:
  "MapMutex \<notin> set (held s) \<Longrightarrow> playerFromEndpoint ep s =
     Inr (case map_of (m_ep_to_player s) ep of Some pid \<Rightarrow> pid | None \<Rightarrow> 0xFFFF)"
  by (simp add: playerFromEndpoint_def)

lemma length_recv_slice: "recv_slice off n s = Inr bs \<Longrightarrow> length bs = n"
  by (auto simp: recv_slice_def split: if_splits)

section \<open>Consistency of the two tables\<close>

definition udp_consistent :: "'z udp_server_scheme \<Rightarrow> bool" where
  "udp_consistent s \<longleftrightarrow>
     (\<forall>p ep. map_of (m_player_to_ep s) p = Some ep \<longleftrightarrow> map_of (m_ep_to_player s) ep = Some p)"

lemma udp_consistentD:
  "udp_consistent s \<Longrightarrow> map_of (m_player_to_ep s) p = Some ep \<longleftrightarrow> map_of (m_ep_to_player s) ep = Some p"
  by (simp add: udp_consistent_def)

lemma udp_consistent_map:
  assumes "udp_consistent s" "map_of (m_player_to_ep s) p = None" "map_of (m_ep_to_player s) ep = None"
  shows "udp_consistent (s\<lparr>m_player_to_ep := AList.update p ep (m_player_to_ep s),
      m_ep_to_player := AList.update ep p (m_ep_to_player s)\<rparr>)"
  using assms unfolding udp_consistent_def
  by (auto simp: update_conv') (metis option.distinct(1))+

lemma udp_consistent_unmap:
  assumes "udp_consistent s" "map_of (m_player_to_ep s) p = Some ep"
  shows "udp_consistent (s\<lparr>m_ep_to_player := AList.delete ep (m_ep_to_player s),
      m_player_to_ep := AList.delete p (m_player_to_ep s)\<rparr>)"
  using assms unfolding udp_consistent_def
  by (auto simp: delete_conv') (metis option.inject)+

section \<open>Properties\<close>

text \<open>
  Mapping a player and an endpoint that are both new relates them both ways, and unmapping the
  player undoes exactly that: the endpoint is unknown again, every other endpoint resolves as before,
  and the two tables stay inverse to each other throughout.
\<close>

theorem udp_map_unmap_lifecycle:
  assumes "udp_consistent s" and "MapMutex \<notin> set (held s)"
    and "map_of (m_player_to_ep s) p = None" and "map_of (m_ep_to_player s) ep = None"
  shows "\<exists>t u. mapPlayer p ep s = Inr t \<and> udp_consistent t \<and> playerFromEndpoint ep t = Inr p
    \<and> unmapPlayer p t = Inr u \<and> udp_consistent u
    \<and> (\<forall>e. playerFromEndpoint e u = playerFromEndpoint e s)
    \<and> map_of (m_player_to_ep u) = map_of (m_player_to_ep s)"
proof -
  let ?t = "s\<lparr>m_player_to_ep := AList.update p ep (m_player_to_ep s),
      m_ep_to_player := AList.update ep p (m_ep_to_player s)\<rparr>"
  let ?u = "?t\<lparr>m_ep_to_player := AList.delete ep (m_ep_to_player ?t),
      m_player_to_ep := AList.delete p (m_player_to_ep ?t)\<rparr>"
  have t: "udp_consistent ?t" "map_of (m_player_to_ep ?t) p = Some ep"
    using assms(1,3,4) udp_consistent_map by (simp_all add: update_conv')
  have "udp_consistent ?u" using udp_consistent_unmap [OF t] .
  moreover have "map_of (m_player_to_ep ?u) = map_of (m_player_to_ep s)"
    and "map_of (m_ep_to_player ?u) = map_of (m_ep_to_player s)"
    using assms(3,4) by (auto simp: delete_conv' update_conv' fun_eq_iff)
  ultimately show ?thesis
    using assms(2) t by (auto simp: unmapPlayer_free update_conv' intro!: exI [of _ ?t] exI [of _ ?u])
qed

text \<open>
  A player who moves to a second endpoint leaves the first one behind: \<open>mapPlayer\<close> does not
  remove his old entry from \<open>m_ep_to_player\<close>, and \<open>unmapPlayer\<close> removes only the newest, so after
  the player is gone his old endpoint still resolves to his id.
\<close>

theorem udp_roaming_leaves_stale_endpoint:
  assumes "MapMutex \<notin> set (held s)" and "e1 \<noteq> e2"
  shows "bindE (mapPlayer p e1 s) (\<lambda>t. bindE (mapPlayer p e2 t) (\<lambda>u. bindE (unmapPlayer p u)
      (\<lambda>v. bindE (playerFromEndpoint e1 v) (\<lambda>a. bindE (playerFromEndpoint e2 v) (\<lambda>b. Inr (a, b))))))
    = Inr (p, 0xFFFF)"
  using assms by (simp add: unmapPlayer_free update_conv' delete_conv')

definition udp_empty :: udp_server where
  "udp_empty = \<lparr>held = [], m_recv_buf = (\<lambda>_. 0), m_player_to_ep = [], m_ep_to_player = [],
     udp_out = []\<rparr>"

definition ep_of_port :: "u16 \<Rightarrow> UDPEndpoint" where
  "ep_of_port n = \<lparr>ep_ip = ''10.0.0.1'', ep_port = n\<rparr>"

theorem udp_map_unmap_lifecycle_witness:
  "\<exists>t u. mapPlayer 7 (ep_of_port 1) udp_empty = Inr t \<and> unmapPlayer 7 t = Inr u
     \<and> playerFromEndpoint (ep_of_port 1) t = Inr 7
     \<and> playerFromEndpoint (ep_of_port 1) u = playerFromEndpoint (ep_of_port 1) udp_empty"
proof -
  have "udp_consistent udp_empty" by (simp add: udp_consistent_def udp_empty_def)
  from udp_map_unmap_lifecycle [OF this, of 7 "ep_of_port 1"] show ?thesis
    by (simp add: udp_empty_def) blast
qed

theorem udp_roaming_leaves_stale_endpoint_witness:
  "bindE (mapPlayer 7 (ep_of_port 1) udp_empty) (\<lambda>t. bindE (mapPlayer 7 (ep_of_port 2) t) (\<lambda>u.
      bindE (unmapPlayer 7 u) (\<lambda>v. bindE (playerFromEndpoint (ep_of_port 1) v)
      (\<lambda>a. bindE (playerFromEndpoint (ep_of_port 2) v) (\<lambda>b. Inr (a, b)))))) = Inr (7, 0xFFFF)"
  by (rule udp_roaming_leaves_stale_endpoint) (simp_all add: udp_empty_def ep_of_port_def)

end
