(* ===== verification/Stream_Framing.thy ===== *)
theory Stream_Framing
  imports Nova_Exec
begin

text \<open>
  The contract of a framed byte stream. Three parts of the program read length-prefixed frames from a
  TCP connection (the server's \<open>TCPSession\<close>, the client's \<open>NetworkClient\<close>, the \<open>BeamMPClient\<close>);
  each has an encoder, a decoder of the first frame and a read loop. The locale states what they
  have in common and proves once what it gives: a stream of encoded frames is delivered completely
  and in order, the delivery does not depend on where the stream is cut, and a bad frame ends it.
\<close>

datatype 'p dec_step =
    NeedMore            \<comment> \<open>the read completes when more bytes arrive\<close>
  | BadFrame            \<comment> \<open>the reader closes the connection\<close>
  | Got 'p bytes        \<comment> \<open>one frame, and the bytes behind it\<close>

datatype stream_end = Waiting | Closed

locale stream_framing =
  fixes enc :: "'p \<Rightarrow> bytes"
    and dec :: "bytes \<Rightarrow> 'p dec_step"
    and run :: "bytes \<Rightarrow> 'p list \<times> stream_end"
    and valid :: "'p \<Rightarrow> bool"
  assumes dec_enc: "valid p \<Longrightarrow> dec (enc p @ b) = Got p b"
    and dec_extend: "dec b = Got p r \<Longrightarrow> dec (b @ x) = Got p (r @ x)"
    and dec_bad: "dec b = BadFrame \<Longrightarrow> dec (b @ x) = BadFrame"
    and dec_shrinks: "dec b = Got p r \<Longrightarrow> length r < length b"
    and run_unfold: "run b = (case dec b of NeedMore \<Rightarrow> ([], Waiting) | BadFrame \<Rightarrow> ([], Closed)
      | Got p r \<Rightarrow> (p # fst (run r), snd (run r)))"
begin

lemma run_encoded:
  assumes "\<forall>p \<in> set ps. valid p"
  shows "run (concat (map enc ps) @ b) = (ps @ fst (run b), snd (run b))"
  using assms
proof (induction ps)
  case Nil
  then show ?case by simp
next
  case (Cons p ps)
  then have "dec (concat (map enc (p # ps)) @ b) = Got p (concat (map enc ps) @ b)"
    using dec_enc [of p "concat (map enc ps) @ b"] by simp
  with Cons show ?case by (subst run_unfold) simp
qed

lemma run_extend: "\<exists>qs. fst (run (b @ x)) = fst (run b) @ qs
   \<and> (snd (run b) = Closed \<longrightarrow> qs = [] \<and> snd (run (b @ x)) = Closed)"
proof (induction b rule: length_induct)
  case (1 b)
  show ?case
  proof (cases "dec b")
    case NeedMore
    then show ?thesis by (simp add: run_unfold [of b])
  next
    case BadFrame
    then show ?thesis by (simp add: run_unfold [of b] run_unfold [of "b @ x"] dec_bad)
  next
    case (Got p r)
    with "1.IH" dec_shrinks obtain qs where "fst (run (r @ x)) = fst (run r) @ qs"
      "snd (run r) = Closed \<longrightarrow> qs = [] \<and> snd (run (r @ x)) = Closed"
      by blast
    with Got dec_extend [OF Got, of x] show ?thesis
      by (auto simp: run_unfold [of b] run_unfold [of "b @ x"])
  qed
qed

lemma run_closed_final: "snd (run b) = Closed \<Longrightarrow> run (b @ x) = run b"
  using run_extend [of b x] by (metis append_Nil2 prod.collapse)

lemma run_bad_after:
  assumes "\<forall>p \<in> set ps. valid p" "dec b = BadFrame"
  shows "run (concat (map enc ps) @ b) = (ps, Closed)"
  using run_encoded [OF assms(1), of b] assms(2) by (simp add: run_unfold [of b])

end

end
