(* ===== verification/Tcp_Server.thy ===== *)
theory Tcp_Server
  imports Udp_Server Stream_Framing
begin

text \<open>
  Classes \<open>TCPSession\<close> and \<open>TCPServer\<close> of \<^verbatim>\<open>servers/src/network/tcp_server.cpp\<close>: the framing of a
  session's stream, the table of sessions and the frames handed to \<open>async_write\<close> (\<open>tcp_out\<close>).

  The record of the TCP server extends that of the UDP server only because records extend linearly;
  neither reads the other's fields. The extension slot lets a callback into the game server be
  passed the whole state.

  \<open>async_write\<close> is modelled by what it is for: the whole frame is appended to the output of the session, in the
  order of the calls. Two things that the code does not rule out are thereby left out. The buffer of a frame is a
  local vector of \<open>send\<close>, gone before the write has ended; and a second \<open>async_write\<close> may start on a socket while
  the first, in several parts, is still under way, so that their bytes mix. No property here speaks about either.
\<close>

section \<open>The session's stream\<close>

definition MAX_FRAME :: nat where "MAX_FRAME = 4 * 1024 * 1024"

text \<open>\<open>TCPSession::send\<close>: the 32-bit length, then the data.\<close>

definition session_frame :: "bytes \<Rightarrow> bytes" where
  "session_frame data = le32 (word_of_nat (length data)) @ data"

text \<open>\<open>readLen\<close> and \<open>readPayload\<close> on the bytes that have arrived.\<close>

definition read_frame :: "bytes \<Rightarrow> bytes dec_step" where
  "read_frame b =
     (if length b < 4 then NeedMore
      else let len = un_le32 (take 4 b) in
        if len = 0 \<or> unat len > MAX_FRAME then BadFrame
        else if length (drop 4 b) < unat len then NeedMore
        else Got (take (unat len) (drop 4 b)) (drop (unat len) (drop 4 b)))"

text \<open>The alternation of \<open>readLen\<close> and \<open>readPayload\<close>; the frames are those given to \<open>m_recv_cb\<close>.\<close>

function read_frames :: "bytes \<Rightarrow> bytes list \<times> stream_end" where
  "read_frames b = (case read_frame b of NeedMore \<Rightarrow> ([], Waiting) | BadFrame \<Rightarrow> ([], Closed)
     | Got p r \<Rightarrow> (p # fst (read_frames r), snd (read_frames r)))"
  by pat_completeness auto

lemma read_frame_shrinks: "read_frame b = Got p r \<Longrightarrow> length r < length b"
  by (auto simp: read_frame_def Let_def split: if_splits)

termination read_frames
  by (relation "measure length") (auto dest: read_frame_shrinks)

declare read_frames.simps [simp del]

lemma unat_word_of_nat_u32: "unat (word_of_nat k :: u32) = k mod 4294967296"
  by (simp add: unat_of_nat)

definition frame_ok :: "bytes \<Rightarrow> bool" where
  "frame_ok p \<longleftrightarrow> p \<noteq> [] \<and> length p \<le> MAX_FRAME"

lemma read_frame_session_frame: "frame_ok p \<Longrightarrow> read_frame (session_frame p @ b) = Got p b"
proof -
  assume p: "frame_ok p"
  then have u: "unat (word_of_nat (length p) :: u32) = length p"
    by (simp add: unat_word_of_nat_u32 frame_ok_def MAX_FRAME_def)
  moreover have "(word_of_nat (length p) :: u32) \<noteq> 0"
    using p u by (metis frame_ok_def length_0_conv unat_0)
  ultimately show ?thesis
    using p by (simp add: read_frame_def session_frame_def frame_ok_def Let_def)
qed

lemma read_frame_extend: "read_frame b = Got p r \<Longrightarrow> read_frame (b @ x) = Got p (r @ x)"
  by (auto simp: read_frame_def Let_def split: if_splits)

lemma read_frame_bad: "read_frame b = BadFrame \<Longrightarrow> read_frame (b @ x) = BadFrame"
  by (auto simp: read_frame_def Let_def split: if_splits)

interpretation tcp: stream_framing session_frame read_frame read_frames frame_ok
proof (unfold_locales, goal_cases)
  case (1 p b)
  then show ?case by (rule read_frame_session_frame)
next
  case (2 b p r x)
  then show ?case by (rule read_frame_extend)
next
  case (3 b x)
  then show ?case by (rule read_frame_bad)
next
  case (4 b p r)
  then show ?case by (rule read_frame_shrinks)
next
  case (5 b)
  then show ?case by (rule read_frames.simps)
qed

section \<open>The table of sessions\<close>

text \<open>Of a session object the table keeps what its methods read: the peer's address.\<close>

record tcp_server = udp_server +
  m_next_session_id :: u16
  m_sessions :: "(u16 \<times> string) list"
  tcp_out :: "(u16 \<times> bytes) list"

text \<open>\<open>startAccept\<close> for one accepted socket; the new session starts to read.\<close>

definition tcp_accept :: "string \<Rightarrow> 'z tcp_server_scheme \<Rightarrow> fault + 'z tcp_server_scheme" where
  "tcp_accept ip s =
     (let sid = m_next_session_id s; s = s\<lparr>m_next_session_id := sid + 1\<rparr>
      in with_lock SessionsMutex (\<lambda>s. Inr (s\<lparr>m_sessions := AList.update sid ip (m_sessions s)\<rparr>)) s)"

definition tcp_send :: "u16 \<Rightarrow> bytes \<Rightarrow> 'z tcp_server_scheme \<Rightarrow> fault + 'z tcp_server_scheme" where
  "tcp_send session_id data = with_lock SessionsMutex (\<lambda>s. case map_of (m_sessions s) session_id of
     None \<Rightarrow> Inr s
   | Some _ \<Rightarrow> Inr (s\<lparr>tcp_out := tcp_out s @ [(session_id, session_frame data)]\<rparr>))"

definition tcp_sendAll :: "bytes \<Rightarrow> u16 \<Rightarrow> 'z tcp_server_scheme \<Rightarrow> fault + 'z tcp_server_scheme" where
  "tcp_sendAll data exclude = with_lock SessionsMutex (\<lambda>s. Inr (s\<lparr>tcp_out := tcp_out s
     @ map (\<lambda>(i, _). (i, session_frame data)) (filter (\<lambda>(i, _). i \<noteq> exclude) (m_sessions s))\<rparr>))"

definition NO_EXCLUDE :: u16 where "NO_EXCLUDE = 0xFFFF"

text \<open>
  \<open>TCPServer::onSessionClose\<close>, the \<open>m_close_cb\<close> of every session; \<open>TCPSession::close\<close> is this call
  after closing the socket.
\<close>

definition onSessionClose :: "(u16 \<Rightarrow> 'z tcp_server_scheme \<Rightarrow> fault + 'z tcp_server_scheme) \<Rightarrow> u16
    \<Rightarrow> 'z tcp_server_scheme \<Rightarrow> fault + 'z tcp_server_scheme" where
  "onSessionClose disc_cb i s =
     bindE (with_lock SessionsMutex (\<lambda>s. Inr (s\<lparr>m_sessions := AList.delete i (m_sessions s)\<rparr>)) s)
       (disc_cb i)"

definition tcp_disconnect :: "(u16 \<Rightarrow> 'z tcp_server_scheme \<Rightarrow> fault + 'z tcp_server_scheme) \<Rightarrow> u16
    \<Rightarrow> 'z tcp_server_scheme \<Rightarrow> fault + 'z tcp_server_scheme" where
  "tcp_disconnect disc_cb session_id = with_lock SessionsMutex (\<lambda>s.
     case map_of (m_sessions s) session_id of None \<Rightarrow> Inr s
     | Some _ \<Rightarrow> onSessionClose disc_cb session_id s)"

definition getRemoteIP :: "u16 \<Rightarrow> 'z tcp_server_scheme \<Rightarrow> fault + string" where
  "getRemoteIP session_id = read_locked SessionsMutex (\<lambda>s. case map_of (m_sessions s) session_id of
     Some ip \<Rightarrow> ip | None \<Rightarrow> [])"

section \<open>The operations with a free mutex\<close>

lemma tcp_accept_free [simp]:
  "SessionsMutex \<notin> set (held s) \<Longrightarrow> tcp_accept ip s = Inr (s
     \<lparr>m_next_session_id := m_next_session_id s + 1,
      m_sessions := AList.update (m_next_session_id s) ip (m_sessions s)\<rparr>)"
  by (simp add: tcp_accept_def with_lock_free Let_def)

lemma tcp_send_free [simp]:
  "SessionsMutex \<notin> set (held s) \<Longrightarrow> tcp_send i d s = Inr (if map_of (m_sessions s) i = None then s
     else s\<lparr>tcp_out := tcp_out s @ [(i, session_frame d)]\<rparr>)"
  by (auto simp: tcp_send_def with_lock_free split: option.splits)

lemma tcp_sendAll_free [simp]:
  "SessionsMutex \<notin> set (held s) \<Longrightarrow> tcp_sendAll d x s = Inr (s\<lparr>tcp_out := tcp_out s
     @ map (\<lambda>(i, _). (i, session_frame d)) (filter (\<lambda>(i, _). i \<noteq> x) (m_sessions s))\<rparr>)"
  by (simp add: tcp_sendAll_def with_lock_free)

lemma onSessionClose_free [simp]:
  "SessionsMutex \<notin> set (held s) \<Longrightarrow> onSessionClose cb i s =
     cb i (s\<lparr>m_sessions := AList.delete i (m_sessions s)\<rparr>)"
  by (simp add: onSessionClose_def with_lock_free)

lemma getRemoteIP_free [simp]:
  "SessionsMutex \<notin> set (held s) \<Longrightarrow> getRemoteIP i s =
     Inr (case map_of (m_sessions s) i of Some ip \<Rightarrow> ip | None \<Rightarrow> [])"
  by (simp add: getRemoteIP_def)

lemma tcp_disconnect_free:
  "SessionsMutex \<notin> set (held s) \<Longrightarrow> tcp_disconnect cb i s =
     (if map_of (m_sessions s) i = None then Inr s else Inl (Relock SessionsMutex))"
  by (auto simp: tcp_disconnect_def with_lock_free onSessionClose_def with_lock_held
      split: option.splits)

text \<open>So the callback is never reached through \<open>disconnect\<close>, whichever it is.\<close>

lemma tcp_disconnect_callback: "tcp_disconnect cb = tcp_disconnect cb'"
proof (intro ext)
  fix i s
  show "tcp_disconnect cb i s = tcp_disconnect cb' i s"
    by (cases "SessionsMutex \<in> set (held s)")
      (simp_all add: tcp_disconnect_free, simp add: tcp_disconnect_def with_lock_held)
qed

section \<open>Properties\<close>

text \<open>
  C21. Whatever packets (non-empty, at most 4 MiB) a session writes, the peer's read loop delivers them
  completely and in order, also when the last frame is still arriving.
\<close>

theorem tcp_stream_roundtrip:
  assumes "\<forall>p \<in> set ps. p \<noteq> [] \<and> length p \<le> MAX_FRAME"
  shows "read_frames (concat (map session_frame ps)) = (ps, Waiting)
    \<and> (\<forall>q k. frame_ok q \<and> k < length (session_frame q) \<longrightarrow>
        read_frames (concat (map session_frame ps) @ take k (session_frame q)) = (ps, Waiting))"
proof (intro conjI allI impI)
  have ok: "\<forall>p \<in> set ps. frame_ok p" using assms by (simp add: frame_ok_def)
  show "read_frames (concat (map session_frame ps)) = (ps, Waiting)"
    using tcp.run_encoded [OF ok, of "[]"] by (simp add: read_frames.simps [of "[]"] read_frame_def)
  fix q k
  assume q: "frame_ok q \<and> k < length (session_frame q)"
  then have "read_frame (take k (session_frame q)) = NeedMore"
    by (auto simp: read_frame_def session_frame_def frame_ok_def MAX_FRAME_def Let_def
        unat_word_of_nat_u32 word_of_nat_eq_0_iff dest!: dvd_imp_le)
  with tcp.run_encoded [OF ok, of "take k (session_frame q)"]
  show "read_frames (concat (map session_frame ps) @ take k (session_frame q)) = (ps, Waiting)"
    by (simp add: read_frames.simps [of "take k (session_frame q)"])
qed

theorem tcp_stream_roundtrip_witness:
  "read_frames (concat (map session_frame [[1, 2], [3]])) = ([[1, 2], [3]], Waiting)"
proof -
  have "\<forall>p \<in> set [[1, 2], [3 :: u8]]. p \<noteq> [] \<and> length p \<le> MAX_FRAME"
    by (simp add: MAX_FRAME_def)
  from tcp_stream_roundtrip [OF this] show ?thesis by blast
qed

text \<open>
  The delivery does not depend on how the stream is cut: bytes that arrive later only add frames
  at the end, and once the reader has closed the connection they add nothing.
\<close>

theorem tcp_delivery_incremental:
  "\<exists>qs. fst (read_frames (b @ x)) = fst (read_frames b) @ qs
    \<and> (snd (read_frames b) = Closed \<longrightarrow> read_frames (b @ x) = read_frames b)"
  using tcp.run_extend [of b x] tcp.run_closed_final [of b x] by blast

theorem tcp_delivery_incremental_witness:
  "read_frames ([0, 0, 0, 0] @ [5]) = read_frames [0, 0, 0, 0]"
proof -
  have "snd (read_frames [0, 0, 0, 0]) = Closed"
    by (simp add: read_frames.simps [of "[0, 0, 0, 0]"] read_frame_def un_le32_def Let_def)
  with tcp_delivery_incremental [of "[0, 0, 0, 0]" "[5]"] show ?thesis by blast
qed

text \<open>
  A length field of zero or of more than 4 MiB closes the session: the packets before it are
  delivered, nothing behind it ever is.
\<close>

theorem tcp_bad_length_closes:
  assumes "\<forall>p \<in> set ps. p \<noteq> [] \<and> length p \<le> MAX_FRAME"
    and "n = 0 \<or> unat n > MAX_FRAME"
  shows "read_frames (concat (map session_frame ps) @ le32 n @ rest) = (ps, Closed)"
proof (rule tcp.run_bad_after)
  show "\<forall>p \<in> set ps. frame_ok p" using assms(1) by (simp add: frame_ok_def)
  show "read_frame (le32 n @ rest) = BadFrame" using assms(2) by (simp add: read_frame_def Let_def)
qed

theorem tcp_bad_length_closes_witness:
  "read_frames (concat (map session_frame [[9]]) @ le32 4194305 @ [1, 2, 3]) = ([[9]], Closed)"
  by (rule tcp_bad_length_closes) (simp_all add: MAX_FRAME_def)

text \<open>
  \<open>TCPServer::disconnect\<close> never closes a session. It holds \<open>m_sessions_mutex\<close> while it calls
  \<open>TCPSession::close\<close>, whose callback \<open>onSessionClose\<close> locks the same non-recursive mutex: on a
  session of the table the thread locks a mutex it holds, and for an unknown session nothing happens.
\<close>

theorem tcp_disconnect_relocks:
  assumes "SessionsMutex \<notin> set (held s)"
  shows "tcp_disconnect disc_cb sid s =
    (if sid \<in> fst ` set (m_sessions s) then Inl (Relock SessionsMutex) else Inr s)"
  using assms by (simp add: tcp_disconnect_free map_of_eq_None_iff)

definition tcp_example :: tcp_server where
  "tcp_example = \<lparr>held = [], m_recv_buf = (\<lambda>_. 0), m_player_to_ep = [], m_ep_to_player = [],
     udp_out = [], m_next_session_id = 3, m_sessions = [(1, ''10.0.0.1''), (2, ''10.0.0.2'')],
     tcp_out = []\<rparr>"

theorem tcp_disconnect_relocks_witness:
  "tcp_disconnect (\<lambda>_. Inr) 2 tcp_example = Inl (Relock SessionsMutex)"
  by (subst tcp_disconnect_relocks) (simp_all add: tcp_example_def)

end
