(* ===== verification/Nova_Text.thy ===== *)
theory Nova_Text
  imports Nova_Prelude
begin

text \<open>
  Text functions of the C++ library that several components use: \<open>std::to_string\<close>, the characters of
  numbers, \<open>std::stoi\<close>, the splitting of a string at a character, and extraction from streams. A
  stream is its unread characters while it is \<open>good()\<close>; \<open>None\<close> is a stream with \<open>eofbit\<close> or \<open>failbit\<close>,
  from which every further extraction fails.
\<close>

section \<open>Decimal numbers, as std::to_string prints them\<close>

fun dec_nat :: "nat \<Rightarrow> string" where
  "dec_nat n = (if n < 10 then [char_of (48 + n)] else dec_nat (n div 10) @ [char_of (48 + n mod 10)])"

declare dec_nat.simps [simp del]

definition to_string :: "'w::len word \<Rightarrow> string" where
  "to_string w = dec_nat (unat w)"

definition dec_int :: "int \<Rightarrow> string" where
  "dec_int i = (if i < 0 then CHR ''-'' # dec_nat (nat (- i)) else dec_nat (nat i))"

lemma dec_int_of_nat [simp]: "dec_int (int n) = dec_nat n"
  by (simp add: dec_int_def)

section \<open>Characters of numbers\<close>

definition is_space :: "char \<Rightarrow> bool" where
  "is_space c \<longleftrightarrow> c \<in> {CHR '' '', CHR 0x09, CHR 0x0A, CHR 0x0B, CHR 0x0C, CHR 0x0D}"

definition is_digit :: "char \<Rightarrow> bool" where
  "is_digit c \<longleftrightarrow> 48 \<le> (of_char c :: nat) \<and> (of_char c :: nat) \<le> 57"

definition digits_value :: "string \<Rightarrow> nat" where
  "digits_value ds = foldl (\<lambda>n c. 10 * n + (of_char c - 48)) 0 ds"

definition split_sign :: "string \<Rightarrow> bool \<times> string" where
  "split_sign s = (case s of [] \<Rightarrow> (False, []) | c # r \<Rightarrow>
     if c = CHR ''-'' then (True, r) else if c = CHR ''+'' then (False, r) else (False, s))"

lemma of_char_digit [simp]: "d < 10 \<Longrightarrow> (of_char (char_of (48 + d :: nat)) :: nat) = 48 + d"
  by simp

lemma is_digit_digit [simp]: "d < 10 \<Longrightarrow> is_digit (char_of (48 + d :: nat))"
  by (simp add: is_digit_def)

lemma dec_nat_digits: "c \<in> set (dec_nat n) \<Longrightarrow> is_digit c"
proof (induction n rule: dec_nat.induct)
  case (1 n)
  then show ?case by (subst (asm) (2) dec_nat.simps) (auto split: if_splits)
qed

lemma dec_nat_not_Nil [simp]: "dec_nat n \<noteq> []"
  by (subst dec_nat.simps) simp

lemma digits_value_snoc: "digits_value (ds @ [c]) = 10 * digits_value ds + (of_char c - 48)"
  by (simp add: digits_value_def)

lemma digits_value_dec_nat [simp]: "digits_value (dec_nat n) = n"
proof (induction n rule: dec_nat.induct)
  case (1 n)
  show ?case
  proof (cases "n < 10")
    case True
    then show ?thesis by (subst dec_nat.simps) (simp add: digits_value_def)
  next
    case False
    then have "digits_value (dec_nat n) = 10 * digits_value (dec_nat (n div 10)) + n mod 10"
      by (subst dec_nat.simps) (simp add: digits_value_snoc)
    then show ?thesis using 1 False by simp
  qed
qed

lemma digit_no_space: "is_digit c \<Longrightarrow> \<not> is_space c"
  by (auto simp: is_digit_def is_space_def)

lemma digit_no_sign: "is_digit c \<Longrightarrow> c \<noteq> CHR ''-'' \<and> c \<noteq> CHR ''+''"
  by (auto simp: is_digit_def)

section \<open>stoi\<close>

text \<open>\<open>None\<close> is the exception; characters behind the number are ignored.\<close>

definition stoi :: "string \<Rightarrow> int option" where
  "stoi s = (let (neg, s) = split_sign (dropWhile is_space s); ds = takeWhile is_digit s;
       n = (if neg then - int (digits_value ds) else int (digits_value ds))
     in if ds = [] \<or> n > 2147483647 \<or> n < -2147483648 then None else Some n)"

lemma takeWhile_digits: "r = [] \<or> \<not> is_digit (hd r) \<Longrightarrow> \<forall>x \<in> set ds. is_digit x \<Longrightarrow>
    takeWhile is_digit (ds @ r) = ds \<and> dropWhile is_digit (ds @ r) = r"
  by (cases r) (auto simp: takeWhile_append dropWhile_append)

lemma stoi_dec_nat:
  assumes "r = [] \<or> \<not> is_digit (hd r)" "n < 2147483648"
  shows "stoi (dec_nat n @ r) = Some (int n)"
proof -
  obtain c cs where d: "dec_nat n = c # cs" by (cases "dec_nat n") auto
  have c: "is_digit c" "\<forall>x \<in> set (c # cs). is_digit x" using dec_nat_digits [of _ n] by (auto simp: d)
  have "split_sign (c # cs @ r) = (False, c # cs @ r)"
    using digit_no_sign [OF c(1)] by (simp add: split_sign_def)
  moreover have "digits_value (c # cs) = n" by (simp flip: d)
  ultimately show ?thesis
    using digit_no_space [OF c(1)] takeWhile_digits [OF assms(1) c(2)] assms(2)
    by (simp add: stoi_def d Let_def)
qed

section \<open>Splitting\<close>

text \<open>
  The loop \<open>while (std::getline(ss, tok, sep)) parts.push_back(tok)\<close>: the empty piece behind a
  separator at the very end is not a token.
\<close>

function getline_split :: "char \<Rightarrow> string \<Rightarrow> string list" where
  "getline_split sep s = (if s = [] then []
     else takeWhile (\<lambda>c. c \<noteq> sep) s # getline_split sep (tl (dropWhile (\<lambda>c. c \<noteq> sep) s)))"
  by pat_completeness auto

termination getline_split
proof (relation "measure (\<lambda>(sep, s). length s)", simp, clarsimp)
  fix sep :: char and s :: string
  assume "s \<noteq> []"
  then have "length (tl (dropWhile (\<lambda>c. c \<noteq> sep) s)) < length s"
    using length_dropWhile_le [of "\<lambda>c. c \<noteq> sep" s] by (cases s) auto
  then show "length (dropWhile (\<lambda>c. c \<noteq> sep) s) - Suc 0 < length s" by simp
qed

declare getline_split.simps [simp del]

lemma getline_split_Nil [simp]: "getline_split sep [] = []"
  by (simp add: getline_split.simps)

lemma getline_split_last: "w \<noteq> [] \<Longrightarrow> sep \<notin> set w \<Longrightarrow> getline_split sep w = [w]"
proof -
  assume w: "w \<noteq> []" "sep \<notin> set w"
  have t: "takeWhile (\<lambda>c. c \<noteq> sep) w = w" and d: "dropWhile (\<lambda>c. c \<noteq> sep) w = []"
    using w(2) by (auto simp: takeWhile_eq_all_conv)
  show ?thesis using w(1) by (subst getline_split.simps) (simp only: t d list.sel getline_split_Nil if_False)
qed

lemma getline_split_Cons: "sep \<notin> set w \<Longrightarrow> getline_split sep (w @ sep # r) = w # getline_split sep r"
  by (subst getline_split.simps) (auto simp: takeWhile_append dropWhile_append)

text \<open>The text before and behind the first occurrence of a character; \<open>None\<close> is \<open>npos\<close>.\<close>

definition split_at :: "char \<Rightarrow> string \<Rightarrow> (string \<times> string) option" where
  "split_at c s = (if c \<in> set s
     then Some (takeWhile (\<lambda>x. x \<noteq> c) s, tl (dropWhile (\<lambda>x. x \<noteq> c) s)) else None)"

lemma split_at_first: "c \<notin> set a \<Longrightarrow> split_at c (a @ c # b) = Some (a, b)"
  by (auto simp: split_at_def takeWhile_append dropWhile_append)

section \<open>Extraction from a string stream\<close>

type_synonym istream = "string option"

definition rest_of :: "string \<Rightarrow> istream" where
  "rest_of r = (if r = [] then None else Some r)"

text \<open>\<open>ss >> word\<close> into an empty string\<close>

definition read_word :: "istream \<Rightarrow> string \<times> istream" where
  "read_word st = (case st of None \<Rightarrow> ([], None) | Some s \<Rightarrow>
     (let s = dropWhile is_space s
      in (takeWhile (\<lambda>c. \<not> is_space c) s, rest_of (dropWhile (\<lambda>c. \<not> is_space c) s))))"

text \<open>
  \<open>ss >> pid\<close> for a \<open>uint16_t\<close> that holds \<open>old\<close>: without a character to read the value stays as it
  was, without a digit it becomes 0 and out of range it becomes the maximum, both with \<open>failbit\<close>; a
  minus sign negates modulo \<open>2^16\<close>.
\<close>

definition read_u16 :: "u16 \<Rightarrow> istream \<Rightarrow> u16 \<times> istream" where
  "read_u16 old st = (case st of None \<Rightarrow> (old, None) | Some s \<Rightarrow>
     (let s = dropWhile is_space s in
      if s = [] then (old, None)
      else let (neg, s) = split_sign s; ds = takeWhile is_digit s; r = dropWhile is_digit s;
               n = digits_value ds
           in if ds = [] then (0, None)
              else if n > 65535 then (0xFFFF, None)
              else (if neg then - word_of_nat n else word_of_nat n, rest_of r)))"

text \<open>\<open>ss >> n\<close> for an \<open>int\<close> that holds \<open>old\<close>\<close>

definition read_int :: "int \<Rightarrow> istream \<Rightarrow> int \<times> istream" where
  "read_int old st = (case st of None \<Rightarrow> (old, None) | Some s \<Rightarrow>
     (let s = dropWhile is_space s in
      if s = [] then (old, None)
      else let (neg, s) = split_sign s; ds = takeWhile is_digit s; r = dropWhile is_digit s;
               n = (if neg then - int (digits_value ds) else int (digits_value ds))
           in if ds = [] then (0, None)
              else if n > 2147483647 then (2147483647, None)
              else if n < -2147483648 then (-2147483648, None)
              else (n, rest_of r)))"

text \<open>\<open>std::getline(ss, str)\<close> into an empty string\<close>

definition get_line :: "istream \<Rightarrow> string" where
  "get_line st = (case st of None \<Rightarrow> [] | Some s \<Rightarrow> takeWhile (\<lambda>c. c \<noteq> CHR 0x0A) s)"

definition drop_space :: "string \<Rightarrow> string" where
  "drop_space s = (case s of c # r \<Rightarrow> if c = CHR '' '' then r else s | [] \<Rightarrow> [])"

lemma read_u16_to_string:
  assumes "r = [] \<or> \<not> is_digit (hd r)"
  shows "read_u16 old (Some (CHR '' '' # to_string (pid :: u16) @ r)) = (pid, rest_of r)"
proof -
  obtain c cs where d: "dec_nat (unat pid) = c # cs" by (cases "dec_nat (unat pid)") auto
  have c: "is_digit c" "\<forall>x \<in> set cs. is_digit x" using dec_nat_digits [of _ "unat pid"] by (auto simp: d)
  have t: "takeWhile is_digit (c # cs @ r) = c # cs" "dropWhile is_digit (c # cs @ r) = r"
    using c assms by (auto simp: takeWhile_append dropWhile_append takeWhile_eq_all_conv
        intro: takeWhile_eq_Nil_iff [THEN iffD2] dropWhile_eq_self_iff [THEN iffD2])
  have "is_space CHR '' ''" by (simp add: is_space_def)
  moreover have "split_sign (c # cs @ r) = (False, c # cs @ r)"
    using digit_no_sign [OF c(1)] by (simp add: split_sign_def)
  moreover have "digits_value (c # cs) = unat pid" by (simp flip: d)
  moreover have "unat pid \<le> 65535" using unsigned_less [of pid, where ?'a = nat] by simp
  ultimately show ?thesis using digit_no_space [OF c(1)] t
    by (simp add: read_u16_def to_string_def d)
qed

lemma read_int_dec_nat:
  assumes "\<not> is_digit c" "n < 2147483648"
  shows "read_int old (Some (dec_nat n @ c # r)) = (int n, Some (c # r))"
proof -
  obtain d ds where d: "dec_nat n = d # ds" by (cases "dec_nat n") auto
  have c: "is_digit d" "\<forall>x \<in> set (d # ds). is_digit x" using dec_nat_digits [of _ n] by (auto simp: d)
  have "split_sign (d # ds @ c # r) = (False, d # ds @ c # r)"
    using digit_no_sign [OF c(1)] by (simp add: split_sign_def)
  moreover have "digits_value (d # ds) = n" by (simp flip: d)
  ultimately show ?thesis
    using digit_no_space [OF c(1)] takeWhile_digits [of "c # r" "d # ds"] c assms
    by (simp add: read_int_def d Let_def rest_of_def)
qed

lemma read_word_command:
  "(\<forall>c \<in> set w. \<not> is_space c) \<Longrightarrow> w \<noteq> [] \<Longrightarrow> r = [] \<or> is_space (hd r) \<Longrightarrow>
     read_word (Some (w @ r)) = (w, rest_of r)"
  by (cases w; cases r)
    (auto simp: read_word_def takeWhile_append dropWhile_append dropWhile_eq_Nil_conv [THEN iffD2])

end
