(* ===== verification/Server_State.thy ===== *)
theory Server_State
  imports Vehicle_Sync Tcp_Server Nova_Text
begin

text \<open>
  The state of the dedicated server: the configuration (\<^verbatim>\<open>servers/src/config/config.hpp\<close>), players and
  their vehicles (\<^verbatim>\<open>player.hpp\<close>) and the members of \<open>GameServer\<close> (\<^verbatim>\<open>game_server.hpp\<close>), with the
  environment: everything the server calls whose code is not in the repository.

  Of an unseen component with state (the Lua interpreter, the classes \<open>AIAuthority\<close> and \<open>AITraffic\<close>,
  whose files the repository does not contain) the model keeps the list of calls made to it so far;
  its answer to the next call is an arbitrary function of that list, which is a field of the record
  \<open>env\<close>. A definition that depends on such an answer takes the environment as its argument.
\<close>

section \<open>Configuration\<close>

record ServerConfig =
  cfg_name :: string
  cfg_description :: string
  cfg_map :: string
  cfg_password :: string
  cfg_log_level :: string
  cfg_log_file :: string
  cfg_max_players :: int
  cfg_port :: int
  cfg_tags :: "string list"
  cfg_master_register :: bool
  cfg_master_url :: string
  cfg_master_auth_token :: string
  cfg_master_heartbeat_hz :: "64 word"
  cfg_vehicle_limit_per_player :: int
  cfg_vehicle_sync_hz :: int
  cfg_max_vehicles :: int
  cfg_allow_vehicle_damage :: bool
  cfg_respawn_on_disconnect :: bool
  cfg_ai_enabled :: bool
  cfg_ai_count :: int
  cfg_ai_update_rate_hz :: int
  cfg_ai_speed_limit :: f32
  cfg_ai_despawn_dist :: f32
  cfg_ai_spawn_dist :: f32
  cfg_ai_path_replan_secs :: f32
  cfg_ai_mode :: string
  cfg_ai_vehicle_pool :: "string list"
  cfg_authority_mode :: string
  cfg_beamng_exe_path :: string
  cfg_authority_timeout_sec :: int
  cfg_bridge_token :: string
  cfg_rcon_enabled :: bool
  cfg_rcon_port :: int
  cfg_rcon_password :: string
  cfg_resources_dir :: string
  cfg_resources_auto_reload :: bool

section \<open>Players\<close>

datatype PlayerState = CONNECTING | LOADING_MODS | LOADING_MAP | READY_STATE | DISCONNECTING

record PlayerVehicle =
  pv_vehicle_id :: u8
  pv_model :: string
  pv_config :: string
  pv_last_state :: VehicleState
  pv_spawned :: bool

record Player =
  pl_id :: u16
  pl_username :: string
  pl_role :: string
  pl_ip :: string
  pl_remote_port :: u16
  pl_state :: PlayerState
  pl_is_muted :: bool
  pl_is_banned :: bool
  pl_vehicles :: "PlayerVehicle list"
  pl_current_vehicle :: int
  pl_last_packet_time :: nat
  pl_connect_time :: nat
  pl_udp_sequence :: u32
  pl_tcp_sequence :: u32

text \<open>A fresh \<open>Player\<close> with its default member initialisers.\<close>

definition new_player :: Player where
  "new_player = \<lparr>pl_id = 0, pl_username = [], pl_role = [], pl_ip = [], pl_remote_port = 0,
     pl_state = CONNECTING, pl_is_muted = False, pl_is_banned = False, pl_vehicles = [],
     pl_current_vehicle = -1, pl_last_packet_time = 0, pl_connect_time = 0, pl_udp_sequence = 0,
     pl_tcp_sequence = 0\<rparr>"

definition getVehicle :: "u8 \<Rightarrow> Player \<Rightarrow> PlayerVehicle option" where
  "getVehicle vid p = find (\<lambda>v. pv_vehicle_id v = vid) (pl_vehicles p)"

section \<open>Values exchanged with the environment\<close>

text \<open>The JSON values the program builds and the library returns.\<close>

datatype json = JNull | JBool bool | JInt int | JFloat f32 | JStr string | JArr "json list"
  | JObj "(string \<times> json) list"

text \<open>Single-precision operations, and the comparison with \<open>0.2f\<close>.\<close>

record float_ops =
  fl_add :: "f32 \<Rightarrow> f32 \<Rightarrow> f32"
  fl_mul :: "f32 \<Rightarrow> f32 \<Rightarrow> f32"
  fl_sqrt :: "f32 \<Rightarrow> f32"
  fl_above_0_2 :: "f32 \<Rightarrow> bool"
  fl_atan2 :: "f32 \<Rightarrow> f32 \<Rightarrow> f32"

record PlayerInfo =
  pi_pos :: vec3
  pi_vel :: vec3
  pi_speed :: f32
  pi_heading :: f32

text \<open>Calls of \<open>AITraffic\<close>; \<open>AITick\<close> is \<open>setPlayerInfo\<close>, \<open>tick\<close> and \<open>broadcastAll\<close> of one turn of its loop.\<close>

datatype ai_call = AISpawn string f32 f32 f32 | AIDespawn u8 | AIDespawnAll | AISetCount int
  | AISetMode string | AISetSpeedLimit f32 | AITick "PlayerInfo list"

text \<open>Calls of \<open>AIAuthority\<close>, and the callbacks it makes before it returns.\<close>

datatype authority_call = AClientClaim u16 | AHeadlessConnect u16 | AAuthorityDisconnect u16
  | ANegotiate

datatype authority_callback = CbGrant u16 | CbRevoke u16 | CbFallback

text \<open>
  Calls a Lua plugin makes of the registered API while it runs (those that change the server; the
  getters are answered from the \<open>lua_view\<close>), and how its function ends.
\<close>

datatype lua_call = LSendChatMessage int string | LKickPlayer int "string option"
  | LBanPlayer int "string option" | LAI ai_call

datatype lua_result = LuaNoFunction | LuaError | LuaReturns "string option"

record lua_view =
  lv_players :: "(u16 \<times> string \<times> string) list"
  lv_ai_calls :: "ai_call list"

datatype lua_input = LuaEvent string "string list" | LuaChunk string

record env =
  e_cfg :: ServerConfig
  json_parse :: "string \<Rightarrow> json option"
  json_dump :: "json \<Rightarrow> string option"
  json_value_str :: "json \<Rightarrow> string \<Rightarrow> string \<Rightarrow> string option"
  lua_run :: "(lua_view \<times> lua_input) list \<Rightarrow> lua_view \<Rightarrow> lua_input \<Rightarrow> lua_call list \<times> lua_result"
  isAuthority :: "authority_call list \<Rightarrow> u16 \<Rightarrow> bool"
  authority :: "authority_call list \<Rightarrow> authority_call \<Rightarrow> bool \<times> authority_callback list"
  e_floats :: float_ops
  ai_packets :: "ai_call list \<Rightarrow> bytes list"  \<comment> \<open>what \<open>AITraffic\<close> broadcasts after these calls\<close>

section \<open>The server\<close>

record server = tcp_server +
  m_running :: bool
  m_entries :: "SyncEntry list"
  m_players :: "(u16 \<times> Player) list"
  m_session_to_player :: "(u16 \<times> u16) list"
  m_next_player_id :: u16
  lua_history :: "(lua_view \<times> lua_input) list"
  authority_history :: "authority_call list"
  ai_history :: "ai_call list"
  steady_now :: nat

text \<open>The state after the constructor, before \<open>run\<close>, with nothing received yet.\<close>

definition initial_server :: server where
  "initial_server = \<lparr>held = [], m_recv_buf = (\<lambda>_. 0), m_player_to_ep = [], m_ep_to_player = [],
     udp_out = [], m_next_session_id = 1, m_sessions = [], tcp_out = [], m_running = False,
     m_entries = [], m_players = [], m_session_to_player = [], m_next_player_id = 1,
     lua_history = [], authority_history = [], ai_history = [], steady_now = 0\<rparr>"

end
