(* ===== verification/Game_Server.thy ===== *)
theory Game_Server
  imports Server_State
begin

text \<open>
  Class \<open>GameServer\<close> of \<^verbatim>\<open>servers/src/game_server.cpp\<close> and the parts of \<open>LuaEngine\<close>
  (\<^verbatim>\<open>servers/src/lua/lua_engine.cpp\<close>) through which plugins call back into it. One definition per
  method, in the order helpers, Lua, authority, connection handling, packet handlers, dispatch.
  Calls of spdlog are left out, except for the locking getters among their arguments.

  Methods that can close a session take the disconnect callback as their first argument, as the
  server hands \<open>onDisconnect\<close> to the \<open>TCPServer\<close>; \<open>onDisconnect\<close> ties the knot.
\<close>

type_synonym disc_cb = "u16 \<Rightarrow> server \<Rightarrow> fault + server"

section \<open>Helpers\<close>

text \<open>\<open>j.dump()\<close>; the library throws on text that is not UTF-8.\<close>

definition dumpE :: "env \<Rightarrow> json \<Rightarrow> fault + string" where
  "dumpE E j = (case json_dump E j of None \<Rightarrow> Inl (Uncaught ''json type_error'') | Some s \<Rightarrow> Inr s)"

text \<open>\<open>j.value(key, "default")\<close>; the library throws when \<open>j\<close> is no object.\<close>

definition valueE :: "env \<Rightarrow> json \<Rightarrow> string \<Rightarrow> string \<Rightarrow> fault + string" where
  "valueE E j k d =
     (case json_value_str E j k d of None \<Rightarrow> Inl (Uncaught ''json type_error'') | Some s \<Rightarrow> Inr s)"

text \<open>The loops \<open>for (auto& [sid, p] : m_session_to_player) if (p == pid) { ...; break; }\<close>.\<close>

definition find_session :: "u16 \<Rightarrow> (u16 \<times> u16) list \<Rightarrow> u16 option" where
  "find_session pid m = map_option fst (find (\<lambda>(sid, p). p = pid) m)"

definition getPlayer :: "u16 \<Rightarrow> server \<Rightarrow> fault + Player option" where
  "getPlayer i = read_locked PlayersMutex (\<lambda>s. map_of (m_players s) i)"

text \<open>A write through the pointer \<open>getPlayer\<close> returned.\<close>

definition upd_player :: "u16 \<Rightarrow> (Player \<Rightarrow> Player) \<Rightarrow> server \<Rightarrow> server" where
  "upd_player i f s = s\<lparr>m_players := AList.map_entry i f (m_players s)\<rparr>"

definition playerCount :: "server \<Rightarrow> fault + int" where
  "playerCount = read_locked PlayersMutex (\<lambda>s. int (length (m_players s)))"

definition allocPlayerID :: "server \<Rightarrow> u16 \<times> server" where
  "allocPlayerID s =
     (let n = (if m_next_player_id s = 0xFFFF then 1 else m_next_player_id s)
      in (n, s\<lparr>m_next_player_id := n + 1\<rparr>))"

definition sendChat :: "int \<Rightarrow> string \<Rightarrow> server \<Rightarrow> fault + server" where
  "sendChat player_id msg s =
     (let pkt = buildStr CHAT_MESSAGE 0 0 msg in
      if player_id < 0 then tcp_sendAll pkt NO_EXCLUDE s
      else with_lock PlayersMutex (\<lambda>s.
        case find_session (word_of_int player_id) (m_session_to_player s) of
          None \<Rightarrow> Inr s | Some sid \<Rightarrow> tcp_send sid pkt s) s)"

definition broadcastPlayerJoin :: "env \<Rightarrow> Player \<Rightarrow> server \<Rightarrow> fault + server" where
  "broadcastPlayerJoin E p s =
     bindE (dumpE E (JObj [(''type'', JStr ''player_join''), (''id'', JInt (uint (pl_id p))),
         (''name'', JStr (pl_username p)), (''role'', JStr (pl_role p))])) (\<lambda>str.
     tcp_sendAll (buildStr PLAYER_JOIN (pl_id p) 0 str) NO_EXCLUDE s)"

definition broadcastPlayerLeave :: "env \<Rightarrow> u16 \<Rightarrow> string \<Rightarrow> server \<Rightarrow> fault + server" where
  "broadcastPlayerLeave E pid reason s =
     bindE (dumpE E (JObj [(''type'', JStr ''player_leave''), (''id'', JInt (uint pid)),
         (''reason'', JStr reason)])) (\<lambda>str.
     tcp_sendAll (buildStr PLAYER_LEAVE pid 0 str) NO_EXCLUDE s)"

definition sendServerInfo :: "env \<Rightarrow> u16 \<Rightarrow> server \<Rightarrow> fault + server" where
  "sendServerInfo E session_id s = bindE (playerCount s) (\<lambda>n.
     bindE (dumpE E (JObj [(''name'', JStr (cfg_name (e_cfg E))),
         (''description'', JStr (cfg_description (e_cfg E))), (''map'', JStr (cfg_map (e_cfg E))),
         (''max_players'', JInt (cfg_max_players (e_cfg E))), (''current'', JInt n),
         (''ai_enabled'', JBool (cfg_ai_enabled (e_cfg E))), (''version'', JStr ''1.0.0'')])) (\<lambda>str.
     tcp_send session_id (buildStr SERVER_INFO 0 0 str) s))"

text \<open>Declared and defined, but no code calls it.\<close>

definition sendExistingPlayers :: "env \<Rightarrow> u16 \<Rightarrow> server \<Rightarrow> fault + server" where
  "sendExistingPlayers E session_id = with_lock PlayersMutex (\<lambda>s.
     foldE (\<lambda>(pid, p) s.
       bindE (dumpE E (JObj [(''type'', JStr ''player_join''), (''id'', JInt (uint pid)),
           (''name'', JStr (pl_username p)), (''role'', JStr (pl_role p))])) (\<lambda>str.
       tcp_send session_id (buildStr PLAYER_INFO pid 0 str) s)) (m_players s) s)"

section \<open>Player management\<close>

definition kickPlayer :: "disc_cb \<Rightarrow> u16 \<Rightarrow> string \<Rightarrow> server \<Rightarrow> fault + server" where
  "kickPlayer cb i reason s =
     (let pkt = buildStr KICK 0 0 (''Kicked: '' @ reason) in
      with_lock PlayersMutex (\<lambda>s. case find_session i (m_session_to_player s) of
          None \<Rightarrow> Inr s
        | Some sid \<Rightarrow> bindE (tcp_send sid pkt s) (tcp_disconnect cb sid)) s)"

definition banPlayer :: "disc_cb \<Rightarrow> u16 \<Rightarrow> string \<Rightarrow> server \<Rightarrow> fault + server" where
  "banPlayer cb i reason s = bindE (getPlayer i s) (\<lambda>p.
     kickPlayer cb i (''Banned: '' @ reason)
       (case p of None \<Rightarrow> s | Some _ \<Rightarrow> upd_player i (\<lambda>p. p\<lparr>pl_is_banned := True\<rparr>) s))"

section \<open>Lua events\<close>

definition lua_view_of :: "server \<Rightarrow> lua_view" where
  "lua_view_of s = \<lparr>lv_players = map (\<lambda>(i, p). (pl_id p, pl_username p, pl_role p)) (m_players s),
     lv_ai_calls = ai_history s\<rparr>"

text \<open>
  \<open>lua_SendChatMessage\<close>, \<open>lua_KickPlayer\<close>, \<open>lua_BanPlayer\<close> and the functions of \<open>NovaMP.AI\<close>. Lua
  strings arrive as C strings; the \<open>int\<close> player id is cut to 16 bits by \<open>kickPlayer(uint16_t)\<close>.
\<close>

fun lua_api :: "disc_cb \<Rightarrow> lua_call \<Rightarrow> server \<Rightarrow> fault + server" where
  "lua_api cb (LSendChatMessage pid msg) s = sendChat pid (''[Server] '' @ c_str msg) s"
| "lua_api cb (LKickPlayer pid reason) s =
     kickPlayer cb (word_of_int pid) (case reason of Some r \<Rightarrow> c_str r | None \<Rightarrow> ''Kicked'') s"
| "lua_api cb (LBanPlayer pid reason) s =
     banPlayer cb (word_of_int pid) (case reason of Some r \<Rightarrow> c_str r | None \<Rightarrow> ''Banned'') s"
| "lua_api cb (LAI c) s = Inr (s\<lparr>ai_history := ai_history s @ [c]\<rparr>)"

text \<open>One entry into the interpreter: its API calls are carried out in order.\<close>

definition lua_enter :: "disc_cb \<Rightarrow> env \<Rightarrow> lua_input \<Rightarrow> server \<Rightarrow> fault + (lua_result \<times> server)" where
  "lua_enter cb E inp s =
     (let v = lua_view_of s; (calls, res) = lua_run E (lua_history s) v inp
      in bindE (foldE (lua_api cb) calls (s\<lparr>lua_history := lua_history s @ [(v, inp)]\<rparr>))
           (\<lambda>s. Inr (res, s)))"

definition lua_string :: "lua_result \<Rightarrow> string" where
  "lua_string r = (case r of LuaReturns (Some str) \<Rightarrow> c_str str | _ \<Rightarrow> [])"

definition fireEvent ::
    "disc_cb \<Rightarrow> env \<Rightarrow> string \<Rightarrow> string list \<Rightarrow> server \<Rightarrow> fault + (string \<times> server)" where
  "fireEvent cb E event args s =
     bindE (lua_enter cb E (LuaEvent (c_str event) (map c_str args)) s) (\<lambda>(r, s).
     Inr (lua_string r, s))"

text \<open>\<open>!veto.empty() && veto != "nil"\<close>\<close>

definition vetoed :: "string \<Rightarrow> bool" where
  "vetoed r \<longleftrightarrow> r \<noteq> [] \<and> r \<noteq> ''nil''"

section \<open>AI authority\<close>

definition grantAuthority :: "env \<Rightarrow> u16 \<Rightarrow> server \<Rightarrow> fault + server" where
  "grantAuthority E pid = with_lock PlayersMutex (\<lambda>s. case find_session pid (m_session_to_player s) of
       None \<Rightarrow> Inr s
     | Some sid \<Rightarrow> bindE (dumpE E (JObj [(''ai_count'', JInt (cfg_ai_count (e_cfg E))),
           (''speed_limit'', JFloat (cfg_ai_speed_limit (e_cfg E))),
           (''mode'', JStr (cfg_ai_mode (e_cfg E))),
           (''update_hz'', JInt (cfg_ai_update_rate_hz (e_cfg E)))])) (\<lambda>str.
         tcp_send sid (buildStr AUTHORITY_GRANT 0 0 str) s))"

definition revokeAuthority :: "u16 \<Rightarrow> server \<Rightarrow> fault + server" where
  "revokeAuthority pid = with_lock PlayersMutex (\<lambda>s. case find_session pid (m_session_to_player s) of
       None \<Rightarrow> Inr s
     | Some sid \<Rightarrow> tcp_send sid (buildStr AUTHORITY_REVOKE 0 0 ''{}'') s)"

text \<open>The callbacks the constructor of \<open>GameServer\<close> gives to \<open>AIAuthority\<close>.\<close>

fun authority_cb :: "env \<Rightarrow> authority_callback \<Rightarrow> server \<Rightarrow> fault + server" where
  "authority_cb E (CbGrant pid) s = grantAuthority E pid s"
| "authority_cb E (CbRevoke pid) s = revokeAuthority pid s"
| "authority_cb E CbFallback s = Inr s"

text \<open>One call of a method of \<open>m_authority\<close>, with the callbacks it makes.\<close>

definition call_authority :: "env \<Rightarrow> authority_call \<Rightarrow> server \<Rightarrow> fault + (bool \<times> server)" where
  "call_authority E c s =
     (let (b, cbs) = authority E (authority_history s) c
      in bindE (foldE (authority_cb E) cbs (s\<lparr>authority_history := authority_history s @ [c]\<rparr>))
           (\<lambda>s. Inr (b, s)))"

text \<open>The constructor creates \<open>m_authority\<close> exactly when AI traffic is enabled.\<close>

definition has_authority :: "env \<Rightarrow> bool" where
  "has_authority E = cfg_ai_enabled (e_cfg E)"

definition handleAuthorityClaim :: "env \<Rightarrow> u16 \<Rightarrow> server \<Rightarrow> fault + server" where
  "handleAuthorityClaim E pid s =
     (if \<not> has_authority E then Inr s
      else bindE (call_authority E (AClientClaim pid) s) (\<lambda>(accepted, s).
        if \<not> accepted
        then sendChat (uint pid) ''[Server] AI authority not available right now.'' s
        else Inr s))"

definition authorityNegotiationLoop :: "env \<Rightarrow> server \<Rightarrow> fault + server" where
  [simp]: "authorityNegotiationLoop E s = bindE (call_authority E ANegotiate s) (\<lambda>(_, s). Inr s)"

section \<open>Disconnect\<close>

definition onDisconnect_body :: "disc_cb \<Rightarrow> env \<Rightarrow> u16 \<Rightarrow> server \<Rightarrow> fault + server" where
  "onDisconnect_body cb E session_id s =
     (let pid = (case map_of (m_session_to_player s) session_id of Some p \<Rightarrow> p | None \<Rightarrow> 0xFFFF) in
      bindE (with_lock PlayersMutex (\<lambda>s. Inr (s
          \<lparr>m_session_to_player := AList.delete session_id (m_session_to_player s)\<rparr>)) s) (\<lambda>s.
      if pid = 0xFFFF then Inr s
      else
      bindE (with_lock PlayersMutex (\<lambda>s. case map_of (m_players s) pid of
            None \<Rightarrow> Inr s
          | Some _ \<Rightarrow> bindE (unmapPlayer pid (s\<lparr>m_entries := onPlayerDisconnect pid (m_entries s)\<rparr>))
              (\<lambda>s. Inr (s\<lparr>m_players := AList.delete pid (m_players s)\<rparr>))) s) (\<lambda>s.
      bindE (broadcastPlayerLeave E pid ''disconnected'' s) (\<lambda>s.
      bindE (fireEvent cb E ''onPlayerDisconnect'' [to_string pid] s) (\<lambda>(_, s).
      bindE (if has_authority E
             then bindE (call_authority E (AAuthorityDisconnect pid) s) (\<lambda>(_, s). Inr s)
             else Inr s) (\<lambda>s.
      bindE (playerCount s) (\<lambda>_. Inr s)))))))"

text \<open>
  The callback inside the callback is never reached (\<open>onDisconnect_unfold\<close> below): a plugin can close
  a session only through \<open>TCPServer::disconnect\<close>, which faults before it calls back.
\<close>

definition onDisconnect :: "env \<Rightarrow> u16 \<Rightarrow> server \<Rightarrow> fault + server" where
  "onDisconnect E = onDisconnect_body (\<lambda>_ _. Inl StackOverflow) E"

section \<open>Authentication\<close>

definition send_auth_response :: "env \<Rightarrow> u16 \<Rightarrow> (string \<times> json) list \<Rightarrow> server \<Rightarrow> fault + server" where
  "send_auth_response E session_id members s = bindE (dumpE E (JObj members)) (\<lambda>str.
     tcp_send session_id (buildStr AUTH_RESPONSE 0 0 str) s)"

definition auth_error :: "env \<Rightarrow> u16 \<Rightarrow> string \<Rightarrow> server \<Rightarrow> fault + server" where
  "auth_error E session_id err s =
     send_auth_response E session_id [(''ok'', JBool False), (''error'', JStr err)] s"

definition auth_ok :: "env \<Rightarrow> u16 \<Rightarrow> u16 \<Rightarrow> server \<Rightarrow> fault + server" where
  "auth_ok E session_id pid s = send_auth_response E session_id
     [(''ok'', JBool True), (''player_id'', JInt (uint pid)), (''map'', JStr (cfg_map (e_cfg E)))] s"

text \<open>An answer with an error, then \<open>m_tcp->disconnect(session_id)\<close>.\<close>

definition auth_reject :: "disc_cb \<Rightarrow> env \<Rightarrow> u16 \<Rightarrow> string \<Rightarrow> server \<Rightarrow> fault + server" where
  "auth_reject cb E session_id err s =
     bindE (auth_error E session_id err s) (tcp_disconnect cb session_id)"

text \<open>The scope that enters a new player into both tables.\<close>

definition add_player :: "u16 \<Rightarrow> u16 \<Rightarrow> Player \<Rightarrow> server \<Rightarrow> fault + server" where
  "add_player session_id pid p = with_lock PlayersMutex (\<lambda>s. Inr (s
     \<lparr>m_session_to_player := AList.update session_id pid (m_session_to_player s),
      m_players := AList.update pid p (m_players s)\<rparr>))"

definition BRIDGE_NAME :: string where "BRIDGE_NAME = ''##ai_bridge##''"

definition handleAuth_bridge ::
    "disc_cb \<Rightarrow> env \<Rightarrow> u16 \<Rightarrow> string \<Rightarrow> server \<Rightarrow> fault + server" where
  "handleAuth_bridge cb E session_id password s =
     (if \<not> has_authority E \<or> password \<noteq> cfg_bridge_token (e_cfg E)
      then auth_reject cb E session_id ''Bridge token mismatch'' s
      else
      (let (pid, s) = allocPlayerID s in
      bindE (getRemoteIP session_id s) (\<lambda>ip.
      bindE (add_player session_id pid (new_player\<lparr>pl_id := pid, pl_username := BRIDGE_NAME,
          pl_role := ''bridge'', pl_ip := ip, pl_state := READY_STATE,
          pl_connect_time := steady_now s, pl_last_packet_time := steady_now s\<rparr>) s) (\<lambda>s.
      bindE (auth_ok E session_id pid s) (\<lambda>s.
      bindE (call_authority E (AHeadlessConnect pid) s) (\<lambda>(_, s). Inr s))))))"

definition handleAuth_player ::
    "disc_cb \<Rightarrow> env \<Rightarrow> u16 \<Rightarrow> string \<Rightarrow> json \<Rightarrow> server \<Rightarrow> fault + server" where
  "handleAuth_player cb E session_id username j s =
     (let (pid, s) = allocPlayerID s in
      bindE (valueE E j ''role'' ''player'') (\<lambda>role.
      bindE (getRemoteIP session_id s) (\<lambda>ip.
      bindE (add_player session_id pid (new_player\<lparr>pl_id := pid, pl_username := username,
          pl_role := role, pl_ip := ip, pl_state := LOADING_MODS,
          pl_connect_time := steady_now s, pl_last_packet_time := steady_now s\<rparr>) s) (\<lambda>s.
      bindE (fireEvent cb E ''onPlayerAuth'' [to_string pid, username] s) (\<lambda>(veto, s).
      if vetoed veto
      then bindE (with_lock PlayersMutex (\<lambda>s. Inr (s
              \<lparr>m_players := AList.delete pid (m_players s),
               m_session_to_player := AList.delete session_id (m_session_to_player s)\<rparr>)) s) (\<lambda>s.
           auth_reject cb E session_id veto s)
      else
      bindE (auth_ok E session_id pid s) (\<lambda>s.
      bindE (sendServerInfo E session_id s) (\<lambda>s.
      bindE (playerCount s) (\<lambda>_. Inr s))))))))"

definition handleAuth :: "disc_cb \<Rightarrow> env \<Rightarrow> u16 \<Rightarrow> bytes \<Rightarrow> u16 \<Rightarrow> server \<Rightarrow> fault + server" where
  "handleAuth cb E session_id pl len s =
     bindE (read_bytes pl (unat len)) (\<lambda>body.
     case json_parse E (string_of_bytes body) of
       None \<Rightarrow> auth_error E session_id ''Invalid JSON'' s
     | Some j \<Rightarrow>
       bindE (valueE E j ''username'' []) (\<lambda>username.
       bindE (valueE E j ''server_password'' []) (\<lambda>password.
       if username = BRIDGE_NAME then handleAuth_bridge cb E session_id password s
       else if username = [] then auth_error E session_id ''Username required'' s
       else if cfg_password (e_cfg E) \<noteq> [] \<and> password \<noteq> cfg_password (e_cfg E)
       then auth_reject cb E session_id ''Wrong password'' s
       else bindE (playerCount s) (\<lambda>n.
         if n \<ge> cfg_max_players (e_cfg E) then auth_reject cb E session_id ''Server full'' s
         else handleAuth_player cb E session_id username j s))))"

section \<open>Packet handlers\<close>

definition handleReady :: "disc_cb \<Rightarrow> env \<Rightarrow> u16 \<Rightarrow> server \<Rightarrow> fault + server" where
  "handleReady cb E pid s = bindE (getPlayer pid s) (\<lambda>p. case p of
       None \<Rightarrow> Inr s
     | Some p \<Rightarrow>
       bindE (broadcastPlayerJoin E (p\<lparr>pl_state := READY_STATE\<rparr>)
           (upd_player pid (\<lambda>p. p\<lparr>pl_state := READY_STATE\<rparr>) s)) (\<lambda>s.
       bindE (fireEvent cb E ''onPlayerJoin'' [to_string pid, pl_username p] s) (\<lambda>(_, s).
       sendChat (uint pid) (''Welcome to '' @ cfg_name (e_cfg E) @ ''!'') s)))"

definition handleVehicleSpawn ::
    "disc_cb \<Rightarrow> env \<Rightarrow> u16 \<Rightarrow> bytes \<Rightarrow> u16 \<Rightarrow> server \<Rightarrow> fault + server" where
  "handleVehicleSpawn cb E pid pl len s =
     bindE (read_bytes pl (unat len)) (\<lambda>body.
     case json_parse E (string_of_bytes body) of
       None \<Rightarrow> Inr s
     | Some j \<Rightarrow> bindE (getPlayer pid s) (\<lambda>p. case p of
         None \<Rightarrow> Inr s
       | Some p \<Rightarrow>
         if int (length (pl_vehicles p)) \<ge> cfg_vehicle_limit_per_player (e_cfg E) then Inr s
         else let vid = word_of_nat (length (pl_vehicles p)) in
         bindE (valueE E j ''model'' ''etk800'') (\<lambda>model.
         bindE (dumpE E j) (\<lambda>config.
         let s = upd_player pid (\<lambda>p. p\<lparr>pl_vehicles := pl_vehicles p
               @ [\<lparr>pv_vehicle_id = vid, pv_model = model, pv_config = config,
                   pv_last_state = zero_state, pv_spawned = True\<rparr>]\<rparr>) s in
         bindE (dumpE E (JObj [(''type'', JStr ''vehicle_spawn''), (''player_id'', JInt (uint pid)),
             (''vehicle_id'', JInt (uint vid)), (''model'', JStr model),
             (''config'', JStr config)])) (\<lambda>str.
         bindE (tcp_sendAll (buildStr VEHICLE_SPAWN pid 0 str) NO_EXCLUDE s) (\<lambda>s.
         bindE (fireEvent cb E ''onVehicleSpawn'' [to_string pid, model] s) (\<lambda>(_, s).
         Inr s)))))))"

definition handleVehicleDelete ::
    "disc_cb \<Rightarrow> env \<Rightarrow> u16 \<Rightarrow> bytes \<Rightarrow> u16 \<Rightarrow> server \<Rightarrow> fault + server" where
  "handleVehicleDelete cb E pid pl len s =
     (if len < 1 then Inr s
      else bindE (read_bytes pl 1) (\<lambda>b. let vid = hd b in
        bindE (getPlayer pid s) (\<lambda>p. case p of
          None \<Rightarrow> Inr s
        | Some _ \<Rightarrow>
          let s = upd_player pid (\<lambda>p. p\<lparr>pl_vehicles :=
                filter (\<lambda>v. \<not> pv_vehicle_id v = vid) (pl_vehicles p)\<rparr>)
                (s\<lparr>m_entries := onVehicleDelete pid vid (m_entries s)\<rparr>) in
          bindE (tcp_sendAll (build VEHICLE_DELETE pid 0 (Some [vid]) 1 0) NO_EXCLUDE s) (\<lambda>s.
          bindE (fireEvent cb E ''onVehicleDelete'' [to_string pid, to_string vid] s) (\<lambda>(_, s).
          Inr s)))))"

text \<open>The payload of an update lies in the UDP receive buffer, behind the header.\<close>

definition handleVehicleUpdate :: "u16 \<Rightarrow> u16 \<Rightarrow> server \<Rightarrow> fault + server" where
  "handleVehicleUpdate pid len s =
     (if unat len < STATE_SIZE then Inr s
      else bindE (recv_slice HEADER_SIZE STATE_SIZE s) (\<lambda>pl.
        bindE (parseVehicleState pl len) (\<lambda>vs.
        Inr (s\<lparr>m_entries := onVehicleUpdate pid vs (m_entries s)\<rparr>))))"

definition handleChat :: "disc_cb \<Rightarrow> env \<Rightarrow> u16 \<Rightarrow> bytes \<Rightarrow> u16 \<Rightarrow> server \<Rightarrow> fault + server" where
  "handleChat cb E pid pl len s =
     bindE (read_bytes pl (unat len)) (\<lambda>body. bindE (getPlayer pid s) (\<lambda>p. case p of
         None \<Rightarrow> Inr s
       | Some p \<Rightarrow>
         if pl_is_muted p then Inr s
         else let msg = take 256 (string_of_bytes body) in
         bindE (fireEvent cb E ''onChatMessage'' [to_string pid, pl_username p, msg] s)
           (\<lambda>(blocked, s).
         if vetoed blocked then Inr s
         else sendChat (-1) (pl_username p @ '': '' @ msg) s)))"

section \<open>Dispatch\<close>

definition onTCPPacket :: "disc_cb \<Rightarrow> env \<Rightarrow> u16 \<Rightarrow> bytes \<Rightarrow> server \<Rightarrow> fault + server" where
  "onTCPPacket cb E session_id data s =
     bindE (parseHeader data) (\<lambda>hdr. let pl = payload data; plen = hdr_payload_len hdr in
     bindE (read_locked PlayersMutex (\<lambda>s. case map_of (m_session_to_player s) session_id of
         Some p \<Rightarrow> p | None \<Rightarrow> 0xFFFF) s) (\<lambda>pid.
     case type_of_byte (hdr_type hdr) of
       Some AUTH_REQUEST \<Rightarrow> handleAuth cb E session_id pl plen s
     | Some VEHICLE_SPAWN \<Rightarrow> if pid \<noteq> 0xFFFF then handleVehicleSpawn cb E pid pl plen s else Inr s
     | Some VEHICLE_DELETE \<Rightarrow> if pid \<noteq> 0xFFFF then handleVehicleDelete cb E pid pl plen s else Inr s
     | Some CHAT_MESSAGE \<Rightarrow> if pid \<noteq> 0xFFFF then handleChat cb E pid pl plen s else Inr s
     | Some READY \<Rightarrow> if pid \<noteq> 0xFFFF then handleReady cb E pid s else Inr s
     | Some AUTHORITY_CLAIM \<Rightarrow> if pid \<noteq> 0xFFFF then handleAuthorityClaim E pid s else Inr s
     | _ \<Rightarrow> Inr s))"

definition onUDPPacket :: "env \<Rightarrow> UDPEndpoint \<Rightarrow> nat \<Rightarrow> server \<Rightarrow> fault + server" where
  "onUDPPacket E from len s =
     bindE (if len < HEADER_SIZE then Inl (Uncaught ''Packet too short'')
            else bindE (recv_slice 0 HEADER_SIZE s) parseHeader) (\<lambda>hdr.
     if type_of_byte (hdr_type hdr) = Some PING
     then Inr (udp_send from (build PONG 0 (hdr_sequence hdr) None 0 0) s)
     else
     bindE (playerFromEndpoint from s) (\<lambda>pid.
     if pid = 0xFFFF then Inr s
     else if type_of_byte (hdr_type hdr) = Some VEHICLE_UPDATE then
       (if has_authority E \<and> isAuthority E (authority_history s) pid \<and> hdr_payload_len hdr \<ge> 2
        then bindE (recv_slice (HEADER_SIZE + 1) 1 s) (\<lambda>vflags.
          if hd vflags AND VF_IS_AI \<noteq> 0
          then bindE (recv_slice 0 (unat (hdr_payload_len hdr) + HEADER_SIZE) s) (\<lambda>raw.
            udp_sendAll raw pid s)
          else handleVehicleUpdate pid (hdr_payload_len hdr) s)
        else handleVehicleUpdate pid (hdr_payload_len hdr) s)
     else Inr s))"

section \<open>Loops and shutdown\<close>

text \<open>One turn of \<open>vehicleSyncLoop\<close>; \<open>m_broadcast\<close> is \<open>UDPServer::sendAll\<close>.\<close>

definition vehicleSync_tick :: "server \<Rightarrow> fault + server" where
  "vehicleSync_tick s = (let (es, calls) = broadcastAll (m_entries s) in
     bindE (foldE (\<lambda>(pkt, exclude). udp_sendAll pkt exclude) calls s) (\<lambda>s. Inr (s\<lparr>m_entries := es\<rparr>)))"

text \<open>What \<open>aiTrafficLoop\<close> tells the AI of the players, and one turn of it; \<open>AITraffic\<close> sends with \<open>UDPServer::sendAll\<close>.\<close>

definition info_of_state :: "float_ops \<Rightarrow> VehicleState \<Rightarrow> PlayerInfo" where
  "info_of_state F vs = (let (x, y, z) = vs_vel vs;
       speed = fl_sqrt F (fl_add F (fl_add F (fl_mul F x x) (fl_mul F y y)) (fl_mul F z z))
     in \<lparr>pi_pos = vs_pos vs, pi_vel = vs_vel vs, pi_speed = speed,
         pi_heading = (if fl_above_0_2 F speed then fl_atan2 F y x else 0)\<rparr>)"

definition ai_player_info :: "float_ops \<Rightarrow> server \<Rightarrow> fault + PlayerInfo list" where
  "ai_player_info F = read_locked PlayersMutex (\<lambda>s.
     map (\<lambda>(pid, p). info_of_state F (pv_last_state (hd (pl_vehicles p))))
       (filter (\<lambda>(pid, p). pl_username p \<noteq> BRIDGE_NAME \<and> pl_vehicles p \<noteq> []) (m_players s)))"

definition ai_tick :: "env \<Rightarrow> server \<Rightarrow> fault + server" where
  "ai_tick E s = bindE (ai_player_info (e_floats E) s) (\<lambda>infos.
     let s = s\<lparr>ai_history := ai_history s @ [AITick infos]\<rparr> in
     foldE (\<lambda>pkt. udp_sendAll pkt NO_EXCLUDE) (ai_packets E (ai_history s)) s)"

text \<open>The heartbeat only counts the players, for its log line.\<close>

definition masterHeartbeat :: "server \<Rightarrow> fault + server" where
  "masterHeartbeat s = bindE (playerCount s) (\<lambda>_. Inr s)"

definition stop_server :: "disc_cb \<Rightarrow> env \<Rightarrow> server \<Rightarrow> fault + server" where
  "stop_server cb E s =
     (if \<not> m_running s then Inr s
      else bindE (fireEvent cb E ''onShutdown'' [] (s\<lparr>m_running := False\<rparr>)) (\<lambda>(_, s). Inr s))"

section \<open>Events\<close>

text \<open>What the event loop and the other threads can run, one at a time.\<close>

datatype event =
    EvStart                       \<comment> \<open>\<open>m_running = true\<close> and \<open>fireEvent("onInit")\<close> of \<open>run\<close>\<close>
  | EvAccept string               \<comment> \<open>a TCP connection from this address\<close>
  | EvFrame u16 bytes             \<comment> \<open>a complete frame on a session\<close>
  | EvClose u16                   \<comment> \<open>a read or write error: \<open>TCPSession::close\<close>\<close>
  | EvDatagram UDPEndpoint bytes
  | EvSyncTick                    \<comment> \<open>one turn of \<open>vehicleSyncLoop\<close>\<close>
  | EvNegotiate                   \<comment> \<open>callbacks out of \<open>authorityNegotiationLoop\<close>\<close>
  | EvAITick                      \<comment> \<open>one turn of \<open>aiTrafficLoop\<close>\<close>
  | EvHeartbeat                   \<comment> \<open>one turn of \<open>heartbeatLoop\<close>\<close>
  | EvLua string                  \<comment> \<open>console command \<open>lua\<close>\<close>
  | EvKick u16 string             \<comment> \<open>console command \<open>kick\<close>\<close>
  | EvBan u16 string              \<comment> \<open>console command \<open>ban\<close>\<close>
  | EvSay string                  \<comment> \<open>console command \<open>say\<close>\<close>
  | EvAI ai_call                  \<comment> \<open>console commands \<open>ai.*\<close>\<close>
  | EvStop

fun handle :: "env \<Rightarrow> event \<Rightarrow> server \<Rightarrow> fault + server" where
  "handle E EvStart s =
     bindE (fireEvent (onDisconnect E) E ''onInit'' [] (s\<lparr>m_running := True\<rparr>)) (\<lambda>(_, s). Inr s)"
| "handle E (EvAccept ip) s = tcp_accept ip s"
| "handle E (EvFrame sid data) s = onTCPPacket (onDisconnect E) E sid data s"
| "handle E (EvClose sid) s = onSessionClose (onDisconnect E) sid s"
| "handle E (EvDatagram ep data) s = udp_receive (onUDPPacket E) ep data s"
| "handle E EvSyncTick s = vehicleSync_tick s"
| "handle E EvNegotiate s = (if has_authority E
     then authorityNegotiationLoop E s else Inr s)"
| "handle E EvAITick s = (if has_authority E then ai_tick E s else Inr s)"
| "handle E EvHeartbeat s = masterHeartbeat s"
| "handle E (EvLua code) s =
     bindE (lua_enter (onDisconnect E) E (LuaChunk (c_str code)) s) (\<lambda>(_, s). Inr s)"
| "handle E (EvKick pid reason) s = kickPlayer (onDisconnect E) pid reason s"
| "handle E (EvBan pid reason) s = banPlayer (onDisconnect E) pid reason s"
| "handle E (EvSay msg) s = sendChat (-1) (''[Admin] '' @ msg) s"
| "handle E (EvAI c) s = Inr (s\<lparr>ai_history := ai_history s @ [c]\<rparr>)"
| "handle E EvStop s = stop_server (onDisconnect E) E s"

text \<open>The states of a server that has not faulted; time passes between events.\<close>

inductive reachable :: "env \<Rightarrow> server \<Rightarrow> bool" for E where
  init: "reachable E initial_server"
| event: "reachable E s \<Longrightarrow> handle E e s = Inr t \<Longrightarrow> reachable E t"
| time: "reachable E s \<Longrightarrow> reachable E (s\<lparr>steady_now := n\<rparr>)"

end
