(* ===== verification/Server_Invariants.thy ===== *)
theory Server_Invariants
  imports Game_Server
begin

text \<open>
  How invariants of the server are proved. Most methods only write to sockets, locks and histories:
  they leave the \<open>core\<close> of the state alone (\<open>quiet\<close> lemmas). The locale \<open>server_invariant\<close> lists
  the few primitive updates of the core that the handlers make, as the obligations of an invariant;
  inside it every handler is walked through once, so that an interpretation gives the invariant in
  every reachable state.
\<close>

section \<open>The core of the state\<close>

definition core :: "server \<Rightarrow> (u16 \<times> Player) list \<times> (u16 \<times> u16) list \<times> u16 \<times> SyncEntry list
    \<times> (u16 \<times> UDPEndpoint) list \<times> (UDPEndpoint \<times> u16) list" where
  "core s = (m_players s, m_session_to_player s, m_next_player_id s, m_entries s, m_player_to_ep s,
     m_ep_to_player s)"

definition quiet :: "server \<Rightarrow> fault + server \<Rightarrow> bool" where
  "quiet s r \<longleftrightarrow> postE (\<lambda>t. core t = core s) r"

lemma core_frame [simp]:
  "core (s\<lparr>held := h\<rparr>) = core s" "core (s\<lparr>tcp_out := x\<rparr>) = core s"
  "core (s\<lparr>udp_out := y\<rparr>) = core s" "core (s\<lparr>lua_history := l\<rparr>) = core s"
  "core (s\<lparr>authority_history := a\<rparr>) = core s" "core (s\<lparr>ai_history := b\<rparr>) = core s"
  "core (s\<lparr>steady_now := n\<rparr>) = core s" "core (s\<lparr>m_recv_buf := f\<rparr>) = core s"
  "core (s\<lparr>m_running := r\<rparr>) = core s" "core (s\<lparr>m_sessions := ss\<rparr>) = core s"
  "core (s\<lparr>m_next_session_id := i\<rparr>) = core s"
  by (simp_all add: core_def)

named_theorems quiet_rules \<open>methods that leave the core of the server alone\<close>

lemma quiet_Inl [quiet_rules, simp]: "quiet s (Inl f)"
  by (simp add: quiet_def)

lemma quiet_Inr: "core t = core s \<Longrightarrow> quiet s (Inr t)"
  by (simp add: quiet_def)

lemma quiet_refl [quiet_rules, simp]: "quiet s (Inr s)"
  by (simp add: quiet_def)

lemma quiet_trans: "core t = core s \<Longrightarrow> quiet t r \<Longrightarrow> quiet s r"
  by (simp add: quiet_def)

lemma quiet_bind: "quiet s m \<Longrightarrow> (\<And>t. core t = core s \<Longrightarrow> quiet t (k t)) \<Longrightarrow> quiet s (bindE m k)"
  by (cases m) (auto simp: quiet_def)

lemma quiet_bind_pair:
  "postE (\<lambda>(b, t). core t = core s) m \<Longrightarrow> (\<And>b t. core t = core s \<Longrightarrow> quiet t (k (b, t)))
     \<Longrightarrow> quiet s (bindE m k)"
  by (cases m) (auto simp: quiet_def)

lemma quiet_bind_read: "(\<And>x. quiet s (k x)) \<Longrightarrow> quiet s (bindE m k)"
  unfolding quiet_def by (cases m) auto

lemma quiet_with_lock:
  assumes "\<And>t. core t = core s \<Longrightarrow> quiet t (body t)"
  shows "quiet s (with_lock m body s)"
proof -
  have "quiet (s\<lparr>held := m # held s\<rparr>) (body (s\<lparr>held := m # held s\<rparr>))"
    by (rule assms) simp
  then show ?thesis
    unfolding quiet_def by (intro postE_with_lock) (auto elim: postE_mono)
qed

lemma quiet_foldE:
  assumes "\<And>x t. x \<in> set xs \<Longrightarrow> core t = core s \<Longrightarrow> quiet t (f x t)"
  shows "quiet s (foldE f xs s)"
  unfolding quiet_def using assms by (intro postE_foldE) (auto simp: quiet_def)

lemma quiet_option:
  "(v = None \<Longrightarrow> quiet s x) \<Longrightarrow> (\<And>y. v = Some y \<Longrightarrow> quiet s (f y))
     \<Longrightarrow> quiet s (case v of None \<Rightarrow> x | Some y \<Rightarrow> f y)"
  by (cases v) auto

lemma quiet_if: "(b \<Longrightarrow> quiet s x) \<Longrightarrow> (\<not> b \<Longrightarrow> quiet s y) \<Longrightarrow> quiet s (if b then x else y)"
  by simp

lemma quiet_tcp_send [quiet_rules]: "quiet s (tcp_send i d s)"
  unfolding tcp_send_def by (rule quiet_with_lock) (auto intro!: quiet_option quiet_Inr)

lemma quiet_tcp_sendAll [quiet_rules]: "quiet s (tcp_sendAll d x s)"
  unfolding tcp_sendAll_def by (rule quiet_with_lock) (auto intro!: quiet_Inr)

lemma quiet_udp_sendAll [quiet_rules]: "quiet s (udp_sendAll d x s)"
  unfolding udp_sendAll_def by (rule quiet_with_lock) (auto intro!: quiet_Inr)

lemma quiet_tcp_disconnect [quiet_rules]: "quiet s (tcp_disconnect cb i s)"
  by (cases "SessionsMutex \<in> set (held s)")
    (simp_all add: tcp_disconnect_free quiet_if, simp add: tcp_disconnect_def with_lock_held)

lemma quiet_sendChat [quiet_rules]: "quiet s (sendChat i m s)"
  unfolding sendChat_def Let_def
  by (intro quiet_if quiet_with_lock quiet_option quiet_rules)

lemma quiet_kickPlayer [quiet_rules]: "quiet s (kickPlayer cb i r s)"
  unfolding kickPlayer_def Let_def
  by (intro quiet_with_lock quiet_option quiet_bind quiet_rules)

lemma quiet_broadcastPlayerJoin [quiet_rules]: "quiet s (broadcastPlayerJoin E p s)"
  unfolding broadcastPlayerJoin_def by (intro quiet_bind_read quiet_rules)

lemma quiet_broadcastPlayerLeave [quiet_rules]: "quiet s (broadcastPlayerLeave E p r s)"
  unfolding broadcastPlayerLeave_def by (intro quiet_bind_read quiet_rules)

lemma quiet_sendServerInfo [quiet_rules]: "quiet s (sendServerInfo E i s)"
  unfolding sendServerInfo_def by (intro quiet_bind_read quiet_rules)

lemma quiet_grantAuthority [quiet_rules]: "quiet s (grantAuthority E p s)"
  unfolding grantAuthority_def
  by (intro quiet_with_lock quiet_option quiet_bind_read quiet_rules)

lemma quiet_revokeAuthority [quiet_rules]: "quiet s (revokeAuthority p s)"
  unfolding revokeAuthority_def by (intro quiet_with_lock quiet_option quiet_rules)

lemma quiet_authority_cb [quiet_rules]: "quiet s (authority_cb E c s)"
  by (cases c) (simp_all add: quiet_rules)

lemma quiet_auth_error [quiet_rules]: "quiet s (auth_error E i e s)"
  unfolding auth_error_def send_auth_response_def by (intro quiet_bind_read quiet_rules)

lemma quiet_auth_ok [quiet_rules]: "quiet s (auth_ok E i p s)"
  unfolding auth_ok_def send_auth_response_def by (intro quiet_bind_read quiet_rules)

lemma quiet_auth_reject [quiet_rules]: "quiet s (auth_reject cb E i e s)"
  unfolding auth_reject_def by (intro quiet_bind quiet_rules)

lemma quiet_call_authority:
  "postE (\<lambda>(b, t). core t = core s) (call_authority E c s)"
proof -
  obtain b cbs where a: "authority E (authority_history s) c = (b, cbs)" by fastforce
  let ?s = "s\<lparr>authority_history := authority_history s @ [c]\<rparr>"
  have "quiet ?s (foldE (authority_cb E) cbs ?s)"
    by (intro quiet_foldE quiet_rules)
  then show ?thesis
    by (auto simp: call_authority_def a quiet_def postE_bindE elim: postE_mono)
qed

lemma quiet_call_authority_then [quiet_rules]:
  "quiet s (bindE (call_authority E c s) (\<lambda>(_, t). Inr t))"
  by (rule quiet_bind_pair [OF quiet_call_authority]) simp

lemma quiet_handleAuthorityClaim [quiet_rules]: "quiet s (handleAuthorityClaim E p s)"
  unfolding handleAuthorityClaim_def
  by (intro quiet_if quiet_refl quiet_bind_pair [OF quiet_call_authority])
    (auto intro!: quiet_rules)

lemma quiet_ai_tick [quiet_rules]: "quiet s (ai_tick E s)"
  unfolding ai_tick_def Let_def
  by (rule quiet_bind_read, rule quiet_trans, rule core_frame(6), rule quiet_foldE, rule quiet_rules)

lemma quiet_masterHeartbeat [quiet_rules]: "quiet s (masterHeartbeat s)"
  unfolding masterHeartbeat_def by (intro quiet_bind_read quiet_rules)

section \<open>The obligations of an invariant\<close>

text \<open>What \<open>handleAuth\<close> has checked when it enters a player.\<close>

definition admitted :: "env \<Rightarrow> server \<Rightarrow> Player \<Rightarrow> bool" where
  "admitted E s p \<longleftrightarrow> pl_vehicles p = [] \<and> \<not> pl_is_muted p \<and>
     (if pl_username p = BRIDGE_NAME then has_authority E
      else pl_username p \<noteq> [] \<and> int (length (m_players s)) < cfg_max_players (e_cfg E))"

locale server_invariant =
  fixes E :: env and I :: "server \<Rightarrow> bool"
  assumes I_init: "I initial_server"
    and I_core: "I s \<Longrightarrow> core t = core s \<Longrightarrow> I t"
    and I_add: "I s \<Longrightarrow> allocPlayerID s = (pid, u) \<Longrightarrow> admitted E s p \<Longrightarrow> pl_id p = pid \<Longrightarrow>
      I (u\<lparr>m_session_to_player := AList.update sid pid (m_session_to_player u),
           m_players := AList.update pid p (m_players u)\<rparr>)"
    and I_withdraw: "I s \<Longrightarrow> I (s\<lparr>m_players := AList.delete pid (m_players s),
           m_session_to_player := AList.delete sid (m_session_to_player s)\<rparr>)"
    and I_unlink: "I s \<Longrightarrow>
      I (s\<lparr>m_session_to_player := AList.delete sid (m_session_to_player s)\<rparr>)"
    and I_leave: "I s \<Longrightarrow> unmapPlayer pid (s\<lparr>m_entries := onPlayerDisconnect pid (m_entries s)\<rparr>) = Inr u
      \<Longrightarrow> I (u\<lparr>m_players := AList.delete pid (m_players u)\<rparr>)"
    and I_ready: "I s \<Longrightarrow> I (upd_player pid (\<lambda>p. p\<lparr>pl_state := READY_STATE\<rparr>) s)"
    and I_banned: "I s \<Longrightarrow> I (upd_player pid (\<lambda>p. p\<lparr>pl_is_banned := True\<rparr>) s)"
    and I_spawn: "I s \<Longrightarrow> map_of (m_players s) pid = Some p \<Longrightarrow>
      int (length (pl_vehicles p)) < cfg_vehicle_limit_per_player (e_cfg E) \<Longrightarrow>
      pv_vehicle_id v = word_of_nat (length (pl_vehicles p)) \<Longrightarrow> pv_last_state v = zero_state \<Longrightarrow>
      I (upd_player pid (\<lambda>p. p\<lparr>pl_vehicles := pl_vehicles p @ [v]\<rparr>) s)"
    and I_delete: "I s \<Longrightarrow> I (upd_player pid (\<lambda>p. p\<lparr>pl_vehicles :=
        filter (\<lambda>v. \<not> pv_vehicle_id v = vid) (pl_vehicles p)\<rparr>)
        (s\<lparr>m_entries := onVehicleDelete pid vid (m_entries s)\<rparr>))"
    and I_update: "I s \<Longrightarrow> map_of (m_ep_to_player s) ep = Some pid \<Longrightarrow>
      I (s\<lparr>m_entries := onVehicleUpdate pid vs (m_entries s)\<rparr>)"
    and I_flush: "I s \<Longrightarrow> I (s\<lparr>m_entries := fst (broadcastAll (m_entries s))\<rparr>)"
begin

lemma I_held: "I (s\<lparr>held := h\<rparr>) \<longleftrightarrow> I s"
  using I_core core_frame(1) by metis

lemma keep_quiet: "I s \<Longrightarrow> quiet s r \<Longrightarrow> postE I r"
  unfolding quiet_def by (erule postE_mono) (rule I_core)

lemma keep_lock: "I s \<Longrightarrow> (\<And>t. I t \<Longrightarrow> core t = core s \<Longrightarrow> postE I (body t)) \<Longrightarrow>
   postE I (with_lock m body s)"
  by (rule postE_with_lock) (simp add: I_held)

lemma keep_banPlayer: "I s \<Longrightarrow> postE I (banPlayer cb i r s)"
  unfolding banPlayer_def
  by (intro postE_bindI [where P = "\<lambda>_. True"] keep_quiet [OF _ quiet_kickPlayer])
    (auto split: option.splits intro: I_banned)

lemma keep_lua_api: "I s \<Longrightarrow> postE I (lua_api cb c s)"
  by (cases c) (auto intro!: keep_banPlayer intro: keep_quiet quiet_rules I_core)

lemma keep_lua_enter: "I s \<Longrightarrow> postE (\<lambda>(r, t). I t) (lua_enter cb E inp s)"
proof -
  assume "I s"
  obtain calls res where r: "lua_run E (lua_history s) (lua_view_of s) inp = (calls, res)"
    by fastforce
  let ?s = "s\<lparr>lua_history := lua_history s @ [(lua_view_of s, inp)]\<rparr>"
  have "I ?s" by (rule I_core [OF \<open>I s\<close>]) simp
  then have "postE I (foldE (lua_api cb) calls ?s)"
    by (rule postE_foldE) (rule keep_lua_api)
  then show ?thesis by (simp add: lua_enter_def r postE_bindE Let_def)
qed

lemma keep_fireEvent: "I s \<Longrightarrow> postE (\<lambda>(r, t). I t) (fireEvent cb E ev args s)"
  unfolding fireEvent_def by (rule postE_bindI [OF keep_lua_enter]) auto

lemma keep_after_event:
  "I s \<Longrightarrow> (\<And>r t. I t \<Longrightarrow> postE I (k (r, t))) \<Longrightarrow> postE I (bindE (fireEvent cb E ev args s) k)"
  by (rule postE_bindI [OF keep_fireEvent]) auto

lemma keep_after_authority:
  "I s \<Longrightarrow> (\<And>b t. I t \<Longrightarrow> postE I (k (b, t))) \<Longrightarrow> postE I (bindE (call_authority E c s) k)"
  by (rule postE_bindI [OF quiet_call_authority]) (auto intro: I_core)

lemma keep_after_quiet:
  "I s \<Longrightarrow> quiet s m \<Longrightarrow> (\<And>t. I t \<Longrightarrow> postE I (k t)) \<Longrightarrow> postE I (bindE m k)"
  by (rule postE_bindI [OF keep_quiet])

lemma keep_after_read: "(\<And>x. m = Inr x \<Longrightarrow> postE I (k x)) \<Longrightarrow> postE I (bindE m k)"
  by (cases m) auto


lemma keep_leave: "I s \<Longrightarrow> postE I (with_lock PlayersMutex (\<lambda>s. case map_of (m_players s) pid of
     None \<Rightarrow> Inr s
   | Some _ \<Rightarrow> bindE (unmapPlayer pid (s\<lparr>m_entries := onPlayerDisconnect pid (m_entries s)\<rparr>))
       (\<lambda>s. Inr (s\<lparr>m_players := AList.delete pid (m_players s)\<rparr>))) s)"
  by (rule keep_lock) (auto intro!: keep_after_read intro: I_leave split: option.splits)

lemma keep_unlink: "I s \<Longrightarrow> postE I (with_lock PlayersMutex
    (\<lambda>s. Inr (s\<lparr>m_session_to_player := AList.delete sid (m_session_to_player s)\<rparr>)) s)"
  by (rule keep_lock) (simp_all add: I_unlink)

lemma keep_withdraw: "I s \<Longrightarrow> postE I (with_lock PlayersMutex
    (\<lambda>s. Inr (s\<lparr>m_players := AList.delete pid (m_players s),
      m_session_to_player := AList.delete sid (m_session_to_player s)\<rparr>)) s)"
  by (rule keep_lock) (simp_all add: I_withdraw)

lemma keep_call_authority: "I s \<Longrightarrow> postE I (bindE (call_authority E c s) (\<lambda>(_, t). Inr t))"
  by (rule keep_quiet [OF _ quiet_call_authority_then])

lemma keep_onDisconnect_body: "I s \<Longrightarrow> postE I (onDisconnect_body cb E sid s)"
  unfolding onDisconnect_body_def Let_def
  apply (rule postE_bindI [OF keep_unlink], assumption, rule postE_if, simp)
  apply (rule postE_bindI [OF keep_leave], assumption)
  apply (rule keep_after_quiet, assumption, rule quiet_rules)
  apply (rule keep_after_event, assumption, simp only: prod.case)
  apply (rule postE_bindI [where P = I])
   apply (simp add: keep_call_authority)
  apply (simp add: keep_after_read)
  done

lemma keep_add_player:
  assumes "I s" "allocPlayerID s = (pid, u)" "admitted E s p" "pl_id p = pid"
  shows "postE I (add_player sid pid p u)"
proof -
  have "postE (\<lambda>t. core t = core (u\<lparr>m_session_to_player :=
      AList.update sid pid (m_session_to_player u), m_players := AList.update pid p (m_players u)\<rparr>))
      (add_player sid pid p u)"
    unfolding add_player_def by (rule postE_with_lock) (simp add: core_def)
  then show ?thesis by (rule postE_mono) (rule I_core [OF I_add [OF assms]])
qed

lemma keep_handleAuth_bridge: "I s \<Longrightarrow> postE I (handleAuth_bridge cb E sid pw s)"
proof (cases "\<not> has_authority E \<or> pw \<noteq> cfg_bridge_token (e_cfg E)")
  case True
  assume "I s"
  with True show ?thesis
    by (simp add: handleAuth_bridge_def keep_quiet [OF _ quiet_auth_reject])
next
  case False
  assume "I s"
  obtain pid u where a: "allocPlayerID s = (pid, u)" by fastforce
  have add: "postE I (add_player sid pid (new_player\<lparr>pl_id := pid, pl_username := BRIDGE_NAME,
      pl_role := ''bridge'', pl_ip := ip, pl_state := READY_STATE, pl_connect_time := steady_now u,
      pl_last_packet_time := steady_now u\<rparr>) u)" for ip
    using \<open>I s\<close> a False by (intro keep_add_player) (simp_all add: admitted_def new_player_def)
  show ?thesis
    unfolding handleAuth_bridge_def if_not_P [OF False] a Let_def prod.case
    apply (rule keep_after_read, rule postE_bindI [OF add])
    apply (rule keep_after_quiet [OF _ quiet_auth_ok], assumption)
    apply (erule keep_call_authority)
    done
qed

lemma keep_handleAuth_player:
  assumes "I s" "username \<noteq> []" "username \<noteq> BRIDGE_NAME"
    "int (length (m_players s)) < cfg_max_players (e_cfg E)"
  shows "postE I (handleAuth_player cb E sid username j s)"
proof -
  obtain pid u where a: "allocPlayerID s = (pid, u)" by fastforce
  have add: "postE I (add_player sid pid (new_player\<lparr>pl_id := pid, pl_username := username,
      pl_role := role, pl_ip := ip, pl_state := LOADING_MODS, pl_connect_time := steady_now u,
      pl_last_packet_time := steady_now u\<rparr>) u)" for role ip
    using assms a by (intro keep_add_player) (simp_all add: admitted_def new_player_def)
  show ?thesis
    unfolding handleAuth_player_def a Let_def prod.case
    apply (rule keep_after_read, rule keep_after_read, rule postE_bindI [OF add])
    apply (rule keep_after_event, assumption, simp only: prod.case, rule postE_if)
     apply (rule postE_bindI [OF keep_withdraw], assumption)
     apply (rule keep_quiet [OF _ quiet_auth_reject], assumption)
    apply (rule keep_after_quiet [OF _ quiet_auth_ok], assumption)
    apply (rule keep_after_quiet [OF _ quiet_sendServerInfo], assumption)
    apply (rule keep_after_read, simp)
    done
qed

lemma keep_handleAuth: 
  assumes "I s"
  shows "postE I (handleAuth cb E sid pl n s)"
  unfolding handleAuth_def
  apply (rule keep_after_read, rule postE_option)
   apply (rule keep_quiet [OF assms quiet_auth_error])
  apply (rule keep_after_read, rule keep_after_read, rule postE_if)
   apply (rule keep_handleAuth_bridge [OF assms])
  apply (rule postE_if, rule keep_quiet [OF assms quiet_auth_error])
  apply (rule postE_if, rule keep_quiet [OF assms quiet_auth_reject])
  apply (rule keep_after_read, rule postE_if, rule keep_quiet [OF assms quiet_auth_reject])
  apply (rule keep_handleAuth_player [OF assms])
    apply (simp_all add: playerCount_def read_locked_def split: if_splits)
  done

lemma keep_handleReady:
  assumes "I s"
  shows "postE I (handleReady cb E pid s)"
  unfolding handleReady_def
  apply (rule keep_after_read, rule postE_option, simp add: assms)
  apply (rule keep_after_quiet [OF I_ready [OF assms] quiet_broadcastPlayerJoin])
  apply (rule keep_after_event, assumption, simp only: prod.case)
  apply (rule keep_quiet [OF _ quiet_sendChat], assumption)
  done

lemma keep_handleChat:
  assumes "I s"
  shows "postE I (handleChat cb E pid pl n s)"
  unfolding handleChat_def Let_def
  apply (rule keep_after_read, rule keep_after_read, rule postE_option, simp add: assms)
  apply (rule postE_if, simp add: assms)
  apply (rule keep_after_event [OF assms], simp only: prod.case, rule postE_if, simp)
  apply (rule keep_quiet [OF _ quiet_sendChat], assumption)
  done

lemma keep_handleVehicleSpawn:
  assumes "I s"
  shows "postE I (handleVehicleSpawn cb E pid pl n s)"
  unfolding handleVehicleSpawn_def Let_def
  apply (rule keep_after_read, rule postE_option, simp add: assms)
  apply (rule keep_after_read, rule postE_option, simp add: assms, rule postE_if, simp add: assms)
  apply (rule keep_after_read, rule keep_after_read, rule keep_after_read)
  apply (rule keep_after_quiet [OF I_spawn [OF assms] quiet_tcp_sendAll])
      apply (auto simp: getPlayer_def read_locked_def split: if_splits)[4]
  apply (rule keep_after_event, assumption, simp)
  done

lemma keep_handleVehicleDelete:
  assumes "I s"
  shows "postE I (handleVehicleDelete cb E pid pl n s)"
  unfolding handleVehicleDelete_def Let_def
  apply (rule postE_if, simp add: assms)
  apply (rule keep_after_read, rule keep_after_read, rule postE_option, simp add: assms)
  apply (rule keep_after_quiet [OF I_delete [OF assms] quiet_tcp_sendAll])
  apply (rule keep_after_event, assumption, simp)
  done

lemma keep_handleVehicleUpdate:
  "I s \<Longrightarrow> map_of (m_ep_to_player s) ep = Some pid \<Longrightarrow> postE I (handleVehicleUpdate pid n s)"
  unfolding handleVehicleUpdate_def
  by (rule postE_if, simp) (rule keep_after_read, rule keep_after_read, simp add: I_update)

lemma keep_onTCPPacket: 
  assumes "I s"
  shows "postE I (onTCPPacket cb E sid d s)"
  unfolding onTCPPacket_def Let_def
  apply (rule keep_after_read, rule keep_after_read)
  apply (simp split: option.split PacketType.split)
  apply (simp add: assms keep_handleAuth keep_handleReady keep_handleChat keep_handleVehicleSpawn
      keep_handleVehicleDelete keep_quiet [OF assms quiet_handleAuthorityClaim])
  done

lemma keep_onUDPPacket:
  assumes "I s"
  shows "postE I (onUDPPacket E ep n s)"
  unfolding onUDPPacket_def
  apply (rule keep_after_read, rule postE_if)
   apply (simp add: udp_send_def I_core [OF assms])
  apply (rule keep_after_read, rule postE_if, simp add: assms, rule postE_if)
   prefer 2 apply (simp add: assms)
  apply (rule postE_if, rule keep_after_read, rule postE_if)
    apply (rule keep_after_read, rule keep_quiet [OF assms quiet_udp_sendAll])
   apply (rule keep_handleVehicleUpdate [OF assms])
   apply (auto simp: playerFromEndpoint_def read_locked_def split: if_splits option.splits)[1]
  apply (rule keep_handleVehicleUpdate [OF assms])
  apply (auto simp: playerFromEndpoint_def read_locked_def split: if_splits option.splits)[1]
  done

lemma keep_vehicleSync_tick:
  assumes "I s"
  shows "postE I (vehicleSync_tick s)"
proof -
  obtain es calls where b: "broadcastAll (m_entries s) = (es, calls)" by fastforce
  have "quiet s (foldE (\<lambda>(pkt, exclude). udp_sendAll pkt exclude) calls s)"
    by (rule quiet_foldE) (auto intro: quiet_trans quiet_udp_sendAll)
  then have "postE I (bindE (foldE (\<lambda>(pkt, exclude). udp_sendAll pkt exclude) calls s)
      (\<lambda>s. Inr (s\<lparr>m_entries := es\<rparr>)))"
    unfolding quiet_def
    by (rule postE_bindI) (auto intro!: I_core [OF I_flush [OF assms]] simp: b core_def)
  then show ?thesis by (simp add: vehicleSync_tick_def b)
qed

lemma keep_onDisconnect: "I s \<Longrightarrow> postE I (onDisconnect E sid s)"
  unfolding onDisconnect_def by (rule keep_onDisconnect_body)

lemma keep_onSessionClose:
  assumes "I s"
  shows "postE I (onSessionClose (onDisconnect E) sid s)"
proof -
  have "quiet s (with_lock SessionsMutex
      (\<lambda>s. Inr (s\<lparr>m_sessions := AList.delete sid (m_sessions s)\<rparr>)) s)"
    by (rule quiet_with_lock, rule quiet_Inr) simp
  from keep_after_quiet [OF assms this] show ?thesis
    unfolding onSessionClose_def by (simp add: keep_onDisconnect)
qed

lemma keep_tcp_accept:
  assumes "I s"
  shows "postE I (tcp_accept ip s)"
  using assms unfolding tcp_accept_def Let_def
  by (rule keep_quiet) (rule quiet_trans [rotated], rule quiet_with_lock, rule quiet_Inr, simp_all)

lemma keep_udp_receive:
  assumes "I s"
  shows "postE I (udp_receive (onUDPPacket E) ep d s)"
proof -
  let ?t = "s\<lparr>m_recv_buf := (\<lambda>i. if i < length d then d ! i else m_recv_buf s i)\<rparr>"
  have t: "I ?t" by (rule I_core [OF assms]) simp
  then show ?thesis by (simp add: udp_receive_def keep_onUDPPacket Let_def)
qed

lemma keep_handle: "I s \<Longrightarrow> postE I (handle E e s)"
proof (cases e)
  case EvStart
  assume s: "I s"
  have t: "I (s\<lparr>m_running := True\<rparr>)" by (rule I_core [OF s]) simp
  show ?thesis using EvStart keep_after_event [OF t] by simp
next
  case EvStop
  assume s: "I s"
  have t: "I (s\<lparr>m_running := False\<rparr>)" by (rule I_core [OF s]) simp
  show ?thesis using EvStop s keep_after_event [OF t] by (simp add: stop_server_def)
next
  case (EvAI c)
  assume s: "I s"
  have "I (s\<lparr>ai_history := ai_history s @ [c]\<rparr>)" by (rule I_core [OF s]) simp
  then show ?thesis using EvAI by simp
next
  case (EvLua code)
  assume "I s"
  have "postE I (bindE (lua_enter (onDisconnect E) E (LuaChunk (c_str code)) s) (\<lambda>(_, s). Inr s))"
    by (rule postE_bindI [OF keep_lua_enter [OF \<open>I s\<close>]]) auto
  then show ?thesis by (simp add: EvLua)
qed (simp_all add: keep_after_event keep_tcp_accept keep_onTCPPacket keep_onSessionClose
    keep_vehicleSync_tick keep_call_authority keep_banPlayer keep_quiet [OF _ quiet_kickPlayer]
    keep_quiet [OF _ quiet_sendChat] keep_udp_receive keep_quiet [OF _ quiet_ai_tick]
    keep_quiet [OF _ quiet_masterHeartbeat])

theorem invariant: "reachable E s \<Longrightarrow> I s"
  by (induction rule: reachable.induct) (auto intro: I_init I_core dest: postE_D [OF keep_handle])

end

end
