(* ===== verification/Server_Bounds.thy ===== *)
theory Server_Bounds
  imports Server_Invariants
begin

text \<open>
  Three invariants of \<open>GameServer\<close>, each an interpretation of \<open>server_invariant\<close>: identifiers and
  vehicles are in their ranges, the player limit is respected, and the UDP tables stay empty. The
  properties hold in every state the server reaches by any sequence of events, for any plugin
  (\<open>lua_run\<close>), any JSON library and any behaviour of the classes the repository does not contain.
\<close>

section \<open>Association lists under the three updates\<close>

lemma set_map_entry_cases:
  "(k', v') \<in> set (AList.map_entry k f m) \<Longrightarrow>
     (k', v') \<in> set m \<or> (k' = k \<and> (\<exists>v. (k, v) \<in> set m \<and> v' = f v))"
  by (induction m) (auto split: if_splits)

lemma keys_map_entry [simp]: "keys (AList.map_entry k f m) = keys m"
  by (induction m) auto

lemma length_map_entry [simp]: "length (AList.map_entry k f m) = length m"
  by (induction m) auto

lemma set_update_cases: "(k', v') \<in> set (AList.update k v m) \<Longrightarrow> (k', v') \<in> set m \<or> (k' = k \<and> v' = v)"
  by (induction m) (auto split: if_splits)

lemma set_delete_cases: "(k', v') \<in> set (AList.delete k m) \<Longrightarrow> (k', v') \<in> set m"
  by (simp add: set_delete)

lemma count_delete_le: "length (filter P (AList.delete k m)) \<le> length (filter P m)"
  by (induction m) auto

lemma count_update_le:
  "length (filter P (AList.update k v m)) \<le> length (filter P m) + (if P (k, v) then 1 else 0)"
  by (induction m) auto

lemma count_map_entry:
  assumes "\<And>v. P (k, f v) \<longleftrightarrow> P (k, v)"
  shows "length (filter P (AList.map_entry k f m)) = length (filter P m)"
proof (induction m)
  case (Cons e m)
  then show ?case using assms by (cases e) auto
qed simp

lemma unmapPlayer_frame:
  assumes "unmapPlayer pid s = Inr (u :: server)"
  shows "m_players u = m_players s" "m_session_to_player u = m_session_to_player s"
    "m_next_player_id u = m_next_player_id s" "m_entries u = m_entries s"
proof -
  have "MapMutex \<notin> set (held s)" using assms by (auto simp: unmapPlayer_def with_lock_def)
  then show "m_players u = m_players s" "m_session_to_player u = m_session_to_player s"
    "m_next_player_id u = m_next_player_id s" "m_entries u = m_entries s"
    using assms by (auto simp: unmapPlayer_free split: option.splits)
qed

lemma core_eq_iff: "core t = core s \<longleftrightarrow> m_players t = m_players s
    \<and> m_session_to_player t = m_session_to_player s \<and> m_next_player_id t = m_next_player_id s
    \<and> m_entries t = m_entries s \<and> m_player_to_ep t = m_player_to_ep s
    \<and> m_ep_to_player t = m_ep_to_player s"
  by (auto simp: core_def)

section \<open>Identifiers and vehicles\<close>

text \<open>0 marks the server and 0xFFFF "no player" in the code; neither is ever a player's id.\<close>

definition real_id :: "u16 \<Rightarrow> bool" where
  "real_id i \<longleftrightarrow> i \<noteq> 0 \<and> i \<noteq> 0xFFFF"

definition player_ok :: "env \<Rightarrow> u16 \<Rightarrow> Player \<Rightarrow> bool" where
  "player_ok E i p \<longleftrightarrow> real_id i \<and> pl_id p = i
     \<and> int (length (pl_vehicles p)) \<le> max 0 (cfg_vehicle_limit_per_player (e_cfg E))
     \<and> (\<forall>v \<in> set (pl_vehicles p).
          uint (pv_vehicle_id v) < cfg_vehicle_limit_per_player (e_cfg E))"

definition tables_ok :: "env \<Rightarrow> server \<Rightarrow> bool" where
  "tables_ok E s \<longleftrightarrow> m_next_player_id s \<noteq> 0
     \<and> distinct (keys (m_players s)) \<and> distinct (keys (m_session_to_player s))
     \<and> (\<forall>(i, p) \<in> set (m_players s). player_ok E i p)
     \<and> (\<forall>(sid, i) \<in> set (m_session_to_player s). real_id i)"

lemma allocPlayerID_ok:
  assumes "m_next_player_id s \<noteq> 0" "allocPlayerID s = (n, u)"
  shows "real_id n" "m_next_player_id u \<noteq> 0"
proof -
  have n: "n \<noteq> 0" "n \<noteq> 0xFFFF" "m_next_player_id u = n + 1"
    using assms by (auto simp: allocPlayerID_def Let_def split: if_splits)
  then show "real_id n" by (simp add: real_id_def)
  show "m_next_player_id u \<noteq> 0"
  proof
    assume "m_next_player_id u = 0"
    then have "n = -1" using n(3) by (simp add: eq_neg_iff_add_eq_0)
    then show False using n(2) by simp
  qed
qed

lemma allocPlayerID_frame:
  "allocPlayerID s = (n, u) \<Longrightarrow> m_players u = m_players s
     \<and> m_session_to_player u = m_session_to_player s \<and> m_entries u = m_entries s
     \<and> m_player_to_ep u = m_player_to_ep s \<and> m_ep_to_player u = m_ep_to_player s"
  by (auto simp: allocPlayerID_def Let_def)

lemma tables_ok_map_entry:
  assumes "tables_ok E s" "\<And>p. map_of (m_players s) i = Some p \<Longrightarrow> player_ok E i p \<Longrightarrow> player_ok E i (f p)"
  shows "tables_ok E (upd_player i f s)"
  using assms
  by (fastforce simp: tables_ok_def upd_player_def dest!: set_map_entry_cases intro: map_of_is_SomeI)

lemma tables_ok_entries [simp]: "tables_ok E (s\<lparr>m_entries := es\<rparr>) = tables_ok E s"
  by (simp add: tables_ok_def)

lemma tables_ok_initial: "tables_ok E initial_server"
  by (simp add: tables_ok_def initial_server_def)

lemma tables_ok_core: "tables_ok E s \<Longrightarrow> core t = core s \<Longrightarrow> tables_ok E t"
  by (simp add: tables_ok_def core_eq_iff)

lemma tables_ok_unlink: "tables_ok E s \<Longrightarrow>
    tables_ok E (s\<lparr>m_session_to_player := AList.delete sid (m_session_to_player s)\<rparr>)"
  by (auto simp: tables_ok_def dest!: set_delete_cases)

lemma tables_ok_withdraw: "tables_ok E s \<Longrightarrow> tables_ok E (s\<lparr>m_players := AList.delete pid (m_players s),
    m_session_to_player := AList.delete sid (m_session_to_player s)\<rparr>)"
  by (auto simp: tables_ok_def dest!: set_delete_cases)

interpretation ids: server_invariant E "tables_ok E" for E
proof
  fix s pid u p sid
  assume s: "tables_ok E s" and a: "allocPlayerID s = (pid, u)" and "admitted E s p" "pl_id p = pid"
  then have "player_ok E pid p" "m_next_player_id u \<noteq> 0"
    using allocPlayerID_ok [of s pid u]
    by (auto simp: player_ok_def admitted_def tables_ok_def)
  then show "tables_ok E (u\<lparr>m_session_to_player := AList.update sid pid (m_session_to_player u),
      m_players := AList.update pid p (m_players u)\<rparr>)"
    using s allocPlayerID_frame [OF a]
    by (auto simp: tables_ok_def player_ok_def dest!: set_update_cases)
next
  fix s pid p and v :: PlayerVehicle
  assume s: "tables_ok E s" "map_of (m_players s) pid = Some p"
    and n: "int (length (pl_vehicles p)) < cfg_vehicle_limit_per_player (e_cfg E)"
    and v: "pv_vehicle_id v = word_of_nat (length (pl_vehicles p))"
  have "unat (pv_vehicle_id v) \<le> length (pl_vehicles p)"
    by (simp add: v unsigned_of_nat take_bit_nat_less_eq_self)
  then have "uint (pv_vehicle_id v) \<le> int (length (pl_vehicles p))"
    by (metis of_nat_le_iff uint_nat)
  then show "tables_ok E (upd_player pid (\<lambda>p. p\<lparr>pl_vehicles := pl_vehicles p @ [v]\<rparr>) s)"
    using n s(2) by (intro tables_ok_map_entry [OF s(1)]) (auto simp: player_ok_def)
next
  fix s pid vid
  assume "tables_ok E s"
  then have "tables_ok E (s\<lparr>m_entries := onVehicleDelete pid vid (m_entries s)\<rparr>)" by simp
  then show "tables_ok E (upd_player pid (\<lambda>p. p\<lparr>pl_vehicles :=
        filter (\<lambda>v. \<not> pv_vehicle_id v = vid) (pl_vehicles p)\<rparr>)
        (s\<lparr>m_entries := onVehicleDelete pid vid (m_entries s)\<rparr>))"
    by (rule tables_ok_map_entry)
      (auto simp: player_ok_def intro: order_trans [OF of_nat_mono [OF length_filter_le]])
next
  fix s pid u
  assume "tables_ok E s" "unmapPlayer pid (s\<lparr>m_entries := onPlayerDisconnect pid (m_entries s)\<rparr>) = Inr u"
  then show "tables_ok E (u\<lparr>m_players := AList.delete pid (m_players u)\<rparr>)"
    using unmapPlayer_frame [of pid "s\<lparr>m_entries := onPlayerDisconnect pid (m_entries s)\<rparr>" u]
    by (auto simp: tables_ok_def dest!: set_delete_cases)
qed (auto simp: tables_ok_initial intro: tables_ok_core tables_ok_unlink tables_ok_withdraw
    intro!: tables_ok_map_entry simp: player_ok_def)

section \<open>The player limit\<close>

definition is_player :: "u16 \<times> Player \<Rightarrow> bool" where
  "is_player e \<longleftrightarrow> pl_username (snd e) \<noteq> BRIDGE_NAME"

definition within_limit :: "env \<Rightarrow> server \<Rightarrow> bool" where
  "within_limit E s \<longleftrightarrow>
     int (length (filter is_player (m_players s))) \<le> max 0 (cfg_max_players (e_cfg E))
     \<and> (\<forall>(i, p) \<in> set (m_players s). pl_username p \<noteq> [])
     \<and> (\<not> has_authority E \<longrightarrow> (\<forall>e \<in> set (m_players s). is_player e))"

lemma within_limit_delete:
  "within_limit E s \<Longrightarrow> m_players t = AList.delete i (m_players s) \<Longrightarrow> within_limit E t"
  using count_delete_le [of is_player i "m_players s"]
  by (auto simp: within_limit_def dest!: set_delete_cases)

lemma within_limit_map_entry:
  assumes "within_limit E s" "\<And>p. pl_username (f p) = pl_username p"
    "m_players t = AList.map_entry i f (m_players s)"
  shows "within_limit E t"
  using assms
  by (fastforce simp: within_limit_def is_player_def count_map_entry dest!: set_map_entry_cases)

lemma within_limit_same: "within_limit E s \<Longrightarrow> m_players t = m_players s \<Longrightarrow> within_limit E t"
  by (simp add: within_limit_def)

interpretation limit: server_invariant E "within_limit E" for E
proof
  fix s pid u p sid
  assume s: "within_limit E s" and a: "allocPlayerID s = (pid, u)" and p: "admitted E s p"
  let ?t = "u\<lparr>m_session_to_player := AList.update sid pid (m_session_to_player u),
      m_players := AList.update pid p (m_players u)\<rparr>"
  have u: "m_players u = m_players s" using allocPlayerID_frame [OF a] by simp
  have "\<not> pl_username p = BRIDGE_NAME \<Longrightarrow>
      int (length (filter is_player (m_players s))) < cfg_max_players (e_cfg E)"
    using p by (intro le_less_trans [OF of_nat_mono [OF length_filter_le]])
      (auto simp: admitted_def)
  then have n: "int (length (filter is_player (m_players s))) + (if is_player (pid, p) then 1 else 0)
      \<le> max 0 (cfg_max_players (e_cfg E))"
    using s by (auto simp: within_limit_def is_player_def)
  have "int (length (filter is_player (m_players ?t))) \<le> max 0 (cfg_max_players (e_cfg E))"
    using n count_update_le [of is_player pid p "m_players s"] by (auto simp: u split: if_splits)
  moreover have "pl_username p \<noteq> []" "\<not> has_authority E \<longrightarrow> is_player (pid, p)"
    using p by (auto simp: admitted_def is_player_def BRIDGE_NAME_def split: if_splits)
  ultimately show "within_limit E ?t"
    using s by (auto simp: within_limit_def u dest!: set_update_cases)
next
  fix s pid u
  assume s: "within_limit E s"
    and "unmapPlayer pid (s\<lparr>m_entries := onPlayerDisconnect pid (m_entries s)\<rparr>) = Inr u"
  then show "within_limit E (u\<lparr>m_players := AList.delete pid (m_players u)\<rparr>)"
    using unmapPlayer_frame [of pid "s\<lparr>m_entries := onPlayerDisconnect pid (m_entries s)\<rparr>" u]
    by (intro within_limit_delete [OF s, of _ pid]) simp
next
  show "within_limit E initial_server" by (simp add: within_limit_def initial_server_def)
next
  fix s t :: server
  assume "within_limit E s" "core t = core s"
  then show "within_limit E t" by (simp add: core_eq_iff within_limit_same [of E s t])
qed ((erule within_limit_same, simp; fail) | (erule within_limit_delete, simp; fail)
    | (erule within_limit_map_entry; simp add: upd_player_def))+

section \<open>No datagram is ever attributed to a player\<close>

text \<open>
  \<open>UDPServer::mapPlayer\<close> is called nowhere, so both UDP tables keep their initial value and no
  vehicle state is ever accepted.
\<close>

definition udp_idle :: "server \<Rightarrow> bool" where
  "udp_idle s \<longleftrightarrow> m_player_to_ep s = [] \<and> m_ep_to_player s = [] \<and> m_entries s = []"

lemma sync_ops_empty:
  "onPlayerDisconnect i [] = []" "onVehicleDelete i v [] = []" "broadcastAll [] = ([], [])"
  by (simp_all add: onPlayerDisconnect_def onVehicleDelete_def remove_entry_def)

lemma udp_idle_leave:
  assumes s: "udp_idle s" and u: "unmapPlayer pid (s\<lparr>m_entries := onPlayerDisconnect pid (m_entries s)\<rparr>) = Inr u"
  shows "udp_idle (u\<lparr>m_players := AList.delete pid (m_players u)\<rparr>)"
proof -
  have "MapMutex \<notin> set (held s)" using u by (auto simp: unmapPlayer_def with_lock_def)
  then show ?thesis using s u by (auto simp: udp_idle_def unmapPlayer_free sync_ops_empty)
qed

interpretation idle: server_invariant E udp_idle for E
proof
  fix s pid u p sid
  assume "udp_idle s" "allocPlayerID s = (pid, u)"
  then show "udp_idle (u\<lparr>m_session_to_player := AList.update sid pid (m_session_to_player u),
      m_players := AList.update pid p (m_players u)\<rparr>)"
    using allocPlayerID_frame [of s pid u] by (simp add: udp_idle_def)
qed (auto simp: udp_idle_leave, auto simp: udp_idle_def initial_server_def core_eq_iff upd_player_def sync_ops_empty)

section \<open>Invariants of single players\<close>

text \<open>
  A property of one player that holds on admission and that readying, banning, spawning and deleting
  keep holds of every player in every reachable state.
\<close>

locale player_invariant =
  fixes E :: env and Q :: "Player \<Rightarrow> bool"
  assumes Q_admitted: "admitted E s p \<Longrightarrow> Q p"
    and Q_ready: "Q p \<Longrightarrow> Q (p\<lparr>pl_state := READY_STATE\<rparr>)"
    and Q_banned: "Q p \<Longrightarrow> Q (p\<lparr>pl_is_banned := True\<rparr>)"
    and Q_spawn: "Q p \<Longrightarrow> pv_last_state v = zero_state \<Longrightarrow> Q (p\<lparr>pl_vehicles := pl_vehicles p @ [v]\<rparr>)"
    and Q_delete: "Q p \<Longrightarrow> Q (p\<lparr>pl_vehicles := filter (\<lambda>v. \<not> pv_vehicle_id v = vid) (pl_vehicles p)\<rparr>)"
begin

definition all_Q :: "server \<Rightarrow> bool" where
  "all_Q s \<longleftrightarrow> (\<forall>(i, p) \<in> set (m_players s). Q p)"

lemma all_Q_mono: "all_Q s \<Longrightarrow> set (m_players t) \<subseteq> set (m_players s) \<Longrightarrow> all_Q t"
  by (auto simp: all_Q_def)

lemma all_Q_delete: "all_Q s \<Longrightarrow> m_players t = AList.delete k (m_players s) \<Longrightarrow> all_Q t"
  by (rule all_Q_mono) (auto dest!: set_delete_cases)

lemma all_Q_upd: "all_Q s \<Longrightarrow> m_players t = m_players s \<Longrightarrow> (\<And>p. Q p \<Longrightarrow> Q (f p)) \<Longrightarrow> all_Q (upd_player k f t)"
  by (fastforce simp: all_Q_def upd_player_def dest!: set_map_entry_cases)

end

sublocale player_invariant \<subseteq> server_invariant E all_Q
proof
  fix s pid u p sid
  assume "all_Q s" "allocPlayerID s = (pid, u)" "admitted E s p"
  then show "all_Q (u\<lparr>m_session_to_player := AList.update sid pid (m_session_to_player u),
      m_players := AList.update pid p (m_players u)\<rparr>)"
    using allocPlayerID_frame [of s pid u] Q_admitted [of s p]
    by (auto simp: all_Q_def dest!: set_update_cases)
next
  fix s pid u
  assume s: "all_Q s" and "unmapPlayer pid (s\<lparr>m_entries := onPlayerDisconnect pid (m_entries s)\<rparr>) = Inr u"
  then show "all_Q (u\<lparr>m_players := AList.delete pid (m_players u)\<rparr>)"
    using unmapPlayer_frame [of pid "s\<lparr>m_entries := onPlayerDisconnect pid (m_entries s)\<rparr>" u]
    by (simp add: all_Q_delete [OF s])
next
  fix s t :: server
  assume "all_Q s" "core t = core s"
  then show "all_Q t" by (auto simp: core_eq_iff intro: all_Q_mono)
qed (auto simp: all_Q_def initial_server_def; fail | erule all_Q_delete, simp; fail
    | erule all_Q_mono, simp; fail | erule all_Q_upd, simp, blast intro: Q_ready Q_banned Q_spawn Q_delete)+

text \<open>Nothing in the program mutes a player.\<close>

interpretation unmuted: player_invariant E "\<lambda>p. \<not> pl_is_muted p" for E
  by unfold_locales (auto simp: admitted_def)

lemma nobody_muted: "reachable E s \<Longrightarrow> map_of (m_players s) pid = Some p \<Longrightarrow> \<not> pl_is_muted p"
  using unmuted.invariant [of E s] by (auto simp: unmuted.all_Q_def dest: map_of_SomeD)

end
