(* ===== verification/Server_Locks.thy ===== *)
theory Server_Locks
  imports Game_Server
begin

text \<open>
  Lock discipline: every method gives back the mutexes it takes, so no mutex is held between two
  events, and \<open>TCPServer::disconnect\<close> never gets as far as its callback.
\<close>

section \<open>Runs that give every mutex back\<close>

text \<open>The one mutex a handler can lock twice is \<open>m_sessions_mutex\<close>.\<close>

fun ok_fault :: "fault \<Rightarrow> bool" where
  "ok_fault (Relock m) \<longleftrightarrow> m = SessionsMutex"
| "ok_fault _ \<longleftrightarrow> True"

definition safeE :: "('a \<Rightarrow> bool) \<Rightarrow> fault + 'a \<Rightarrow> bool" where
  "safeE Q r = (case r of Inl f \<Rightarrow> ok_fault f | Inr x \<Rightarrow> Q x)"

abbreviation keeps :: "mutex list \<Rightarrow> fault + 'z locks_scheme \<Rightarrow> bool" where
  "keeps h \<equiv> safeE (\<lambda>t. held t = h)"

abbreviation keeps_pair :: "mutex list \<Rightarrow> fault + ('r \<times> 'z locks_scheme) \<Rightarrow> bool" where
  "keeps_pair h \<equiv> safeE (\<lambda>(r, t). held t = h)"

abbreviation reads :: "fault + 'a \<Rightarrow> bool" where
  "reads \<equiv> safeE (\<lambda>_. True)"

named_theorems keeps_rules \<open>methods that give back the mutexes they take\<close>
named_theorems reads_rules \<open>readers that fault for another reason than a mutex of their own\<close>

lemma safeE_simps [simp]: "safeE Q (Inl f) = ok_fault f" "safeE Q (Inr t) = Q t"
  by (simp_all add: safeE_def)

lemma safeE_bind: "safeE P m \<Longrightarrow> (\<And>t. P t \<Longrightarrow> safeE Q (k t)) \<Longrightarrow> safeE Q (bindE m k)"
  by (cases m) auto

lemma safeE_mono: "safeE P m \<Longrightarrow> (\<And>t. P t \<Longrightarrow> Q t) \<Longrightarrow> safeE Q m"
  by (cases m) auto

lemmas keeps_bind = safeE_bind [where P = "\<lambda>t. held t = h" and Q = "\<lambda>t. held t = h" for h]

lemma keeps_read: "reads m \<Longrightarrow> (\<And>x. safeE Q (k x)) \<Longrightarrow> safeE Q (bindE m k)"
  by (rule safeE_bind)

lemma keeps_bind_pair: "keeps_pair h m \<Longrightarrow> (\<And>r t. held t = h \<Longrightarrow> safeE Q (k (r, t)))
    \<Longrightarrow> safeE Q (bindE m k)"
  by (erule safeE_bind) auto

lemma keeps_option: "safeE Q x \<Longrightarrow> (\<And>y. safeE Q (f y)) \<Longrightarrow>
    safeE Q (case v of None \<Rightarrow> x | Some y \<Rightarrow> f y)"
  by (cases v) auto

lemma keeps_if: "(b \<Longrightarrow> safeE Q x) \<Longrightarrow> (\<not> b \<Longrightarrow> safeE Q y) \<Longrightarrow> safeE Q (if b then x else y)"
  by simp

lemma keeps_with_lock:
  assumes "held s = h" "m = SessionsMutex \<or> m \<notin> set h"
    "\<And>t. held t = m # h \<Longrightarrow> keeps (m # h) (body t)"
  shows "keeps h (with_lock m body s)"
proof (cases "m \<in> set h")
  case True
  then show ?thesis using assms(1,2) by (simp add: with_lock_held)
next
  case False
  have "keeps (m # h) (body (s\<lparr>held := m # held s\<rparr>))" by (rule assms(3)) (simp add: assms(1))
  then show ?thesis using False assms(1)
    by (simp add: with_lock_free) (erule safeE_bind, simp)
qed

lemma keeps_foldE:
  "held s = h \<Longrightarrow> (\<And>x t. held t = h \<Longrightarrow> keeps h (f x t)) \<Longrightarrow> keeps h (foldE f xs s)"
  by (induction xs arbitrary: s) (auto intro: keeps_bind)

section \<open>Readers\<close>

lemma reads_locked [reads_rules]: "m = SessionsMutex \<or> m \<notin> set (held s) \<Longrightarrow> reads (read_locked m f s)"
  by (auto simp: read_locked_def)

lemma reads_players [reads_rules]:
  "PlayersMutex \<notin> set (held s) \<Longrightarrow> reads (getPlayer i s)"
  "PlayersMutex \<notin> set (held s) \<Longrightarrow> reads (playerCount s)"
  by (simp_all add: getPlayer_def playerCount_def)

lemma reads_json [reads_rules]: "reads (dumpE E j)" "reads (valueE E j k d)"
  by (simp_all add: dumpE_def valueE_def split: option.split)

lemma reads_remote [reads_rules]: "reads (getRemoteIP i s)"
  by (simp add: getRemoteIP_def reads_locked)

lemma reads_endpoint [reads_rules]: "MapMutex \<notin> set (held s) \<Longrightarrow> reads (playerFromEndpoint ep s)"
  by (simp add: playerFromEndpoint_def reads_locked)

lemma reads_bytes [reads_rules]: "reads (read_bytes b n)" "reads (recv_slice i n s)"
  "reads (parseHeader b)" "reads (parseVehicleState b l)"
  by (auto simp: read_bytes_def recv_slice_def parseHeader_def parseVehicleState_def)

section \<open>The servers of TCP and UDP\<close>

lemma keeps_tcp_accept [keeps_rules]: "held s = h \<Longrightarrow> keeps h (tcp_accept ip s)"
  unfolding tcp_accept_def Let_def by (rule keeps_with_lock) simp_all

lemma keeps_tcp_send [keeps_rules]: "held s = h \<Longrightarrow> keeps h (tcp_send i d s)"
  unfolding tcp_send_def by (rule keeps_with_lock) (simp_all split: option.split)

lemma keeps_tcp_sendAll [keeps_rules]: "held s = h \<Longrightarrow> keeps h (tcp_sendAll d x s)"
  unfolding tcp_sendAll_def by (rule keeps_with_lock) simp_all

lemma keeps_udp_sendAll [keeps_rules]: "held s = h \<Longrightarrow> MapMutex \<notin> set h \<Longrightarrow> keeps h (udp_sendAll d x s)"
  unfolding udp_sendAll_def by (rule keeps_with_lock) simp_all

lemma keeps_unmapPlayer [keeps_rules]: "held s = h \<Longrightarrow> MapMutex \<notin> set h \<Longrightarrow> keeps h (unmapPlayer p s)"
  unfolding unmapPlayer_def by (rule keeps_with_lock) (simp_all split: option.split)

text \<open>Whatever its callback: \<open>disconnect\<close> faults before it calls it.\<close>

lemma keeps_tcp_disconnect [keeps_rules]: "held s = h \<Longrightarrow> keeps h (tcp_disconnect cb i s)"
  unfolding tcp_disconnect_def onSessionClose_def
  by (rule keeps_with_lock) (simp_all add: with_lock_held split: option.split)

section \<open>The methods of GameServer\<close>

lemma keeps_sendChat [keeps_rules]: "held s = [] \<Longrightarrow> keeps [] (sendChat i m s)"
  unfolding sendChat_def Let_def
  by (intro keeps_if keeps_with_lock keeps_option keeps_rules; simp)

lemma keeps_broadcastPlayerJoin [keeps_rules]: "held s = [] \<Longrightarrow> keeps [] (broadcastPlayerJoin E p s)"
  unfolding broadcastPlayerJoin_def by (intro keeps_read reads_rules keeps_rules)

lemma keeps_broadcastPlayerLeave [keeps_rules]: "held s = [] \<Longrightarrow> keeps [] (broadcastPlayerLeave E p r s)"
  unfolding broadcastPlayerLeave_def by (intro keeps_read reads_rules keeps_rules)

lemma keeps_sendServerInfo [keeps_rules]: "held s = [] \<Longrightarrow> keeps [] (sendServerInfo E i s)"
  unfolding sendServerInfo_def by (intro keeps_read reads_rules keeps_rules; simp)

lemma keeps_kickPlayer [keeps_rules]: "held s = [] \<Longrightarrow> keeps [] (kickPlayer cb i r s)"
  unfolding kickPlayer_def Let_def
  by (intro keeps_with_lock keeps_option keeps_bind keeps_rules; simp)

lemma keeps_banPlayer [keeps_rules]: "held s = [] \<Longrightarrow> keeps [] (banPlayer cb i r s)"
  unfolding banPlayer_def
  by (intro keeps_read reads_rules keeps_rules) (simp_all split: option.split add: upd_player_def)

lemma keeps_lua_api [keeps_rules]: "held s = [] \<Longrightarrow> keeps [] (lua_api cb c s)"
  by (cases c) (simp_all add: keeps_rules)

lemma keeps_lua_enter: "held s = [] \<Longrightarrow> keeps_pair [] (lua_enter cb E inp s)"
proof -
  assume h: "held s = []"
  obtain calls res where r: "lua_run E (lua_history s) (lua_view_of s) inp = (calls, res)"
    by fastforce
  have "keeps [] (foldE (lua_api cb) calls
      (s\<lparr>lua_history := lua_history s @ [(lua_view_of s, inp)]\<rparr>))"
    by (intro keeps_foldE keeps_rules) (simp_all add: h)
  then show ?thesis by (simp add: lua_enter_def r Let_def) (erule safeE_bind, simp)
qed

lemma keeps_fireEvent: "held s = [] \<Longrightarrow> keeps_pair [] (fireEvent cb E ev args s)"
  unfolding fireEvent_def by (rule safeE_bind [OF keeps_lua_enter]) auto

lemma keeps_after_event:
  "held s = [] \<Longrightarrow> (\<And>r t. held t = [] \<Longrightarrow> keeps [] (k (r, t))) \<Longrightarrow>
     keeps [] (bindE (fireEvent cb E ev args s) k)"
  by (rule keeps_bind_pair [OF keeps_fireEvent])

lemma keeps_grantAuthority [keeps_rules]: "held s = [] \<Longrightarrow> keeps [] (grantAuthority E p s)"
  unfolding grantAuthority_def
  by (intro keeps_with_lock keeps_option keeps_read reads_rules keeps_rules; simp)

lemma keeps_revokeAuthority [keeps_rules]: "held s = [] \<Longrightarrow> keeps [] (revokeAuthority p s)"
  unfolding revokeAuthority_def by (intro keeps_with_lock keeps_option keeps_rules; simp)

lemma keeps_authority_cb [keeps_rules]: "held s = [] \<Longrightarrow> keeps [] (authority_cb E c s)"
  by (cases c) (simp_all add: keeps_rules)

lemma keeps_call_authority:
  "held s = [] \<Longrightarrow> keeps_pair [] (call_authority E c s)"
proof -
  assume h: "held s = []"
  obtain b cbs where a: "authority E (authority_history s) c = (b, cbs)" by fastforce
  have "keeps [] (foldE (authority_cb E) cbs (s\<lparr>authority_history := authority_history s @ [c]\<rparr>))"
    by (intro keeps_foldE keeps_rules) (simp_all add: h)
  then show ?thesis by (simp add: call_authority_def a) (erule safeE_bind, simp)
qed

lemma keeps_call_authority_then [keeps_rules]:
  "held s = [] \<Longrightarrow> keeps [] (bindE (call_authority E c s) (\<lambda>(_, t). Inr t))"
  by (rule keeps_bind_pair [OF keeps_call_authority]) simp_all

lemma keeps_handleAuthorityClaim [keeps_rules]: "held s = [] \<Longrightarrow> keeps [] (handleAuthorityClaim E p s)"
  unfolding handleAuthorityClaim_def
  by (rule keeps_if, simp, rule keeps_bind_pair [OF keeps_call_authority]) (simp_all add: keeps_rules)

lemma keeps_onDisconnect_body [keeps_rules]: "held s = [] \<Longrightarrow> keeps [] (onDisconnect_body cb E i s)"
  unfolding onDisconnect_body_def Let_def
  apply (rule keeps_bind, rule keeps_with_lock, assumption, simp, simp)
  apply (rule keeps_if, simp)
  apply (rule keeps_bind, rule keeps_with_lock, assumption, simp)
   apply (rule keeps_option, simp, rule keeps_bind, rule keeps_unmapPlayer, simp, simp, simp)
  apply (rule keeps_bind, erule keeps_broadcastPlayerLeave)
  apply (rule keeps_after_event, assumption, simp only: prod.case)
  apply (rule keeps_bind)
   apply (simp add: keeps_call_authority_then)
  apply (rule keeps_read, simp_all add: reads_rules)
  done

lemma keeps_onDisconnect [keeps_rules]: "held s = [] \<Longrightarrow> keeps [] (onDisconnect E i s)"
  unfolding onDisconnect_def by (rule keeps_onDisconnect_body)

lemma keeps_auth_error [keeps_rules]: "held s = [] \<Longrightarrow> keeps [] (auth_error E i e s)"
  unfolding auth_error_def send_auth_response_def by (intro keeps_read reads_rules keeps_rules)

lemma keeps_auth_ok [keeps_rules]: "held s = [] \<Longrightarrow> keeps [] (auth_ok E i p s)"
  unfolding auth_ok_def send_auth_response_def by (intro keeps_read reads_rules keeps_rules)

lemma keeps_auth_reject [keeps_rules]: "held s = [] \<Longrightarrow> keeps [] (auth_reject cb E i e s)"
  unfolding auth_reject_def by (intro keeps_bind keeps_rules)

lemma keeps_add_player [keeps_rules]: "held s = [] \<Longrightarrow> keeps [] (add_player i p pl s)"
  unfolding add_player_def by (rule keeps_with_lock) simp_all

lemma held_allocPlayerID: "allocPlayerID s = (p, u) \<Longrightarrow> held u = held s"
  by (auto simp: allocPlayerID_def Let_def)

lemma keeps_handleAuth_bridge [keeps_rules]:
  assumes "held s = []"
  shows "keeps [] (handleAuth_bridge cb E i pw s)"
proof -
  obtain pid u where a: "allocPlayerID s = (pid, u)" by fastforce
  show ?thesis
    unfolding handleAuth_bridge_def a Let_def prod.case
    apply (rule keeps_if, rule keeps_auth_reject, rule assms)
    apply (rule keeps_read, rule reads_rules, rule keeps_bind, rule keeps_add_player)
     apply (simp add: held_allocPlayerID [OF a] assms)
    apply (rule keeps_bind, erule keeps_auth_ok, erule keeps_call_authority_then)
    done
qed

lemma keeps_handleAuth_player [keeps_rules]:
  assumes "held s = []"
  shows "keeps [] (handleAuth_player cb E i n j s)"
proof -
  obtain pid u where a: "allocPlayerID s = (pid, u)" by fastforce
  show ?thesis
    unfolding handleAuth_player_def a Let_def prod.case
    apply (rule keeps_read, rule reads_rules, rule keeps_read, rule reads_rules)
    apply (rule keeps_bind, rule keeps_add_player, simp add: held_allocPlayerID [OF a] assms)
    apply (rule keeps_after_event, assumption, simp only: prod.case, rule keeps_if)
     apply (rule keeps_bind, rule keeps_with_lock, assumption, simp, simp, erule keeps_auth_reject)
    apply (rule keeps_bind, erule keeps_auth_ok, rule keeps_bind, erule keeps_sendServerInfo)
    apply (rule keeps_read, simp add: reads_rules, simp)
    done
qed

lemma keeps_handleAuth [keeps_rules]: "held s = [] \<Longrightarrow> keeps [] (handleAuth cb E i pl n s)"
  unfolding handleAuth_def
  apply (rule keeps_read, rule reads_rules, rule keeps_option, erule keeps_auth_error)
  apply (rule keeps_read, rule reads_rules, rule keeps_read, rule reads_rules)
  apply (rule keeps_if, erule keeps_handleAuth_bridge, rule keeps_if, erule keeps_auth_error)
  apply (rule keeps_if, erule keeps_auth_reject, rule keeps_read, simp add: reads_rules)
  apply (rule keeps_if, erule keeps_auth_reject, erule keeps_handleAuth_player)
  done

lemma held_upd_player [simp]: "held (upd_player p f s) = held s"
  by (simp add: upd_player_def)

lemma keeps_handleReady [keeps_rules]: "held s = [] \<Longrightarrow> keeps [] (handleReady cb E p s)"
  unfolding handleReady_def
  apply (rule keeps_read, simp add: reads_rules, rule keeps_option, simp)
  apply (rule keeps_bind, rule keeps_broadcastPlayerJoin, simp)
  apply (simp add: keeps_after_event keeps_sendChat)
  done

lemma keeps_handleChat [keeps_rules]: "held s = [] \<Longrightarrow> keeps [] (handleChat cb E p pl n s)"
  unfolding handleChat_def Let_def
  apply (rule keeps_read, rule reads_rules, rule keeps_read, simp add: reads_rules)
  apply (rule keeps_option, simp, rule keeps_if, simp)
  apply (simp add: keeps_after_event keeps_sendChat)
  done

lemma keeps_handleVehicleSpawn [keeps_rules]:
  "held s = [] \<Longrightarrow> keeps [] (handleVehicleSpawn cb E p pl n s)"
  unfolding handleVehicleSpawn_def Let_def
  apply (rule keeps_read, rule reads_rules, rule keeps_option, simp)
  apply (rule keeps_read, simp add: reads_rules, rule keeps_option, simp)
  apply (rule keeps_if, simp, rule keeps_read, rule reads_rules, rule keeps_read, rule reads_rules)
  apply (rule keeps_read, rule reads_rules, rule keeps_bind, rule keeps_tcp_sendAll, simp)
  apply (simp add: keeps_after_event)
  done

lemma keeps_handleVehicleDelete [keeps_rules]:
  "held s = [] \<Longrightarrow> keeps [] (handleVehicleDelete cb E p pl n s)"
  unfolding handleVehicleDelete_def Let_def
  apply (rule keeps_if, simp, rule keeps_read, rule reads_rules)
  apply (rule keeps_read, simp add: reads_rules, rule keeps_option, simp)
  apply (rule keeps_bind, rule keeps_tcp_sendAll, simp, simp add: keeps_after_event)
  done

lemma keeps_handleVehicleUpdate [keeps_rules]: "held s = [] \<Longrightarrow> keeps [] (handleVehicleUpdate p n s)"
  unfolding handleVehicleUpdate_def
  by (rule keeps_if, simp) (rule keeps_read, rule reads_rules, rule keeps_read, rule reads_rules, simp)

lemma keeps_onTCPPacket [keeps_rules]: "held s = [] \<Longrightarrow> keeps [] (onTCPPacket cb E i d s)"
  unfolding onTCPPacket_def Let_def
  apply (rule keeps_read, rule reads_rules, rule keeps_read, simp add: reads_rules)
  apply (simp add: keeps_rules split: option.split PacketType.split)
  done

lemma keeps_onUDPPacket [keeps_rules]: "held s = [] \<Longrightarrow> keeps [] (onUDPPacket E ep n s)"
  unfolding onUDPPacket_def
  apply (rule keeps_read, rule keeps_if, simp, rule keeps_read, rule reads_rules, rule reads_rules)
  apply (rule keeps_if, simp add: udp_send_def, rule keeps_read, simp add: reads_rules)
  apply (rule keeps_if, simp, rule keeps_if)
   prefer 2 apply simp
  apply (rule keeps_if, rule keeps_read, rule reads_rules, rule keeps_if, rule keeps_read, rule reads_rules)
    apply (simp_all add: keeps_rules)
  done

lemma keeps_vehicleSync_tick [keeps_rules]: "held s = [] \<Longrightarrow> keeps [] (vehicleSync_tick s)"
  unfolding vehicleSync_tick_def split_beta Let_def
  by (rule keeps_bind, erule keeps_foldE) (simp_all add: keeps_udp_sendAll)

lemma keeps_ai_tick [keeps_rules]: "held s = [] \<Longrightarrow> keeps [] (ai_tick E s)"
  unfolding ai_tick_def ai_player_info_def Let_def
  by (intro keeps_read reads_rules keeps_foldE keeps_rules) simp_all

lemma keeps_masterHeartbeat [keeps_rules]: "held s = [] \<Longrightarrow> keeps [] (masterHeartbeat s)"
  unfolding masterHeartbeat_def by (intro keeps_read reads_rules) simp_all

lemma keeps_onSessionClose [keeps_rules]:
  "held s = [] \<Longrightarrow> keeps [] (onSessionClose (onDisconnect E) i s)"
  unfolding onSessionClose_def
  by (rule keeps_bind, rule keeps_with_lock) (simp_all add: keeps_rules)

lemma keeps_handle: "held s = [] \<Longrightarrow> keeps [] (handle E e s)"
  by (cases e) (simp_all add: keeps_rules keeps_after_event keeps_bind_pair [OF keeps_lua_enter]
    stop_server_def udp_receive_def Let_def)

section \<open>The callback of disconnect is unreachable\<close>

lemma kickPlayer_callback: "kickPlayer cb = kickPlayer cb'"
  unfolding kickPlayer_def [abs_def] tcp_disconnect_callback [of cb cb'] by (rule refl)

lemma lua_api_callback: "lua_api cb = lua_api cb'"
proof (intro ext)
  fix c s
  show "lua_api cb c s = lua_api cb' c s"
    by (cases c) (simp_all add: banPlayer_def kickPlayer_callback [of cb cb'])
qed

lemma fireEvent_callback: "fireEvent cb = fireEvent cb'"
  unfolding fireEvent_def [abs_def] lua_enter_def [abs_def] lua_api_callback [of cb cb'] by (rule refl)

lemma onDisconnect_body_callback: "onDisconnect_body cb = onDisconnect_body cb'"
  unfolding onDisconnect_body_def [abs_def] fireEvent_callback [of cb cb'] by (rule refl)

lemma onDisconnect_eq: "onDisconnect E = onDisconnect_body cb E"
  unfolding onDisconnect_def by (rule fun_cong [OF onDisconnect_body_callback])

text \<open>
  The callback the model cuts off is the method itself: \<open>onDisconnect\<close> meets the recursive equation
  of the code, in which closing a session out of a plugin's \<open>onPlayerDisconnect\<close> would enter
  \<open>onDisconnect\<close> again.
\<close>

lemma onDisconnect_unfold: "onDisconnect E = onDisconnect_body (onDisconnect E) E"
  by (rule onDisconnect_eq)

lemma reachable_held: "reachable E s \<Longrightarrow> held s = []"
proof (induction rule: reachable.induct)
  case (event s e t)
  then show ?case using keeps_handle [of s E e] by simp
qed (simp_all add: initial_server_def)

end
