(* ===== verification/Server_Demo.thy ===== *)
theory Server_Demo
  imports Game_Server
begin

text \<open>
  A configuration, a concrete environment and concrete runs, at which the properties of the server
  are exercised. The JSON library is replaced by a small one: every text is read as \<open>name/password\<close>.
\<close>

section \<open>A configuration\<close>

definition sample_config :: ServerConfig where
  "sample_config = \<lparr>cfg_name = ''NovaMP Server'', cfg_description = [],
     cfg_map = ''/levels/gridmap_v2/info.json'', cfg_password = [], cfg_log_level = ''info'',
     cfg_log_file = ''server.log'', cfg_max_players = 10, cfg_port = 4444, cfg_tags = [],
     cfg_master_register = True, cfg_master_url = ''https://your-worker.workers.dev'',
     cfg_master_auth_token = [], cfg_master_heartbeat_hz = 30, cfg_vehicle_limit_per_player = 1,
     cfg_vehicle_sync_hz = 15, cfg_max_vehicles = 50, cfg_allow_vehicle_damage = True,
     cfg_respawn_on_disconnect = False, cfg_ai_enabled = False, cfg_ai_count = 10,
     cfg_ai_update_rate_hz = 10, cfg_ai_speed_limit = 0, cfg_ai_despawn_dist = 0,
     cfg_ai_spawn_dist = 0, cfg_ai_path_replan_secs = 0, cfg_ai_mode = ''traffic'',
     cfg_ai_vehicle_pool = [], cfg_authority_mode = ''auto'', cfg_beamng_exe_path = [],
     cfg_authority_timeout_sec = 30, cfg_bridge_token = ''x'', cfg_rcon_enabled = False,
     cfg_rcon_port = 4445, cfg_rcon_password = [], cfg_resources_dir = ''resources'',
     cfg_resources_auto_reload = False\<rparr>"

section \<open>An environment\<close>

definition demo_parse :: "string \<Rightarrow> json option" where
  "demo_parse t = (if t = [] then None else Some (JObj [
     (''username'', JStr (takeWhile (\<lambda>c. c \<noteq> CHR ''/'') t)),
     (''server_password'', JStr (tl (dropWhile (\<lambda>c. c \<noteq> CHR ''/'') t)))]))"

fun demo_value :: "json \<Rightarrow> string \<Rightarrow> string \<Rightarrow> string option" where
  "demo_value (JObj ms) k d = (case map_of ms k of Some (JStr v) \<Rightarrow> Some v | _ \<Rightarrow> Some d)"
| "demo_value _ k d = None"

definition demo_floats_ops :: float_ops where
  "demo_floats_ops = \<lparr>fl_add = (+), fl_mul = (*), fl_sqrt = (\<lambda>x. x), fl_above_0_2 = (\<lambda>x. x > 0),
     fl_atan2 = (\<lambda>y x. 0)\<rparr>"

definition demo_env :: "ServerConfig \<Rightarrow> env" where
  "demo_env cfg = \<lparr>e_cfg = cfg, json_parse = demo_parse, json_dump = (\<lambda>_. Some ''{}''),
     json_value_str = demo_value, lua_run = (\<lambda>_ _ _. ([], LuaNoFunction)),
     isAuthority = (\<lambda>_ _. False), authority = (\<lambda>_ _. (True, [])),
     e_floats = demo_floats_ops, ai_packets = (\<lambda>_. [])\<rparr>"

definition demo :: env where "demo = demo_env sample_config"

section \<open>Runs\<close>

definition run_events :: "env \<Rightarrow> event list \<Rightarrow> server \<Rightarrow> fault + server" where
  "run_events E = foldE (handle E)"

lemma reachable_run: "reachable E s \<Longrightarrow> run_events E evs s = Inr t \<Longrightarrow> reachable E t"
  unfolding run_events_def
  by (induction evs arbitrary: s) (auto simp: bindE_Inr_iff intro: reachable.event)

text \<open>The frame a client sends to log in.\<close>

definition auth_frame :: "string \<Rightarrow> bytes" where
  "auth_frame t = buildStr AUTH_REQUEST 0 0 t"

definition outcome :: "(server \<Rightarrow> bool) \<Rightarrow> fault + server \<Rightarrow> bool" where
  "outcome P r = (case r of Inr s \<Rightarrow> P s | Inl _ \<Rightarrow> False)"

lemma outcome_run: "outcome P (run_events E evs initial_server) \<Longrightarrow> \<exists>s. reachable E s \<and> P s
    \<and> run_events E evs initial_server = Inr s"
  by (cases "run_events E evs initial_server")
    (auto simp: outcome_def intro: reachable_run reachable.init)

definition login :: "event list" where
  "login = [EvAccept ''10.0.0.1'', EvFrame 1 (auth_frame ''ann/'')]"

lemma login_ok: "outcome (\<lambda>s. map_option pl_username (map_of (m_players s) 1) = Some ''ann''
    \<and> m_session_to_player s = [(1, 1)] \<and> held s = []) (run_events demo login initial_server)"
  by code_simp

end
