(* ===== verification/Server_Safety.thy ===== *)
theory Server_Safety
  imports Server_Bounds Server_Locks Server_Demo
begin

text \<open>
  What no sequence of events can do to the server: the invariants of \<open>Server_Bounds\<close> and the lock
  discipline of \<open>Server_Locks\<close> stated for reachable states, the frames that end the process, and what
  a client that has not authenticated can reach.
\<close>

section \<open>Runs for the witnesses\<close>

text \<open>Client \<open>ann\<close> logs in on session 1 and spawns a car; \<open>bob\<close> logs in on session 2.\<close>

definition two_players :: "event list" where
  "two_players = [EvAccept ''10.0.0.1'', EvFrame 1 (auth_frame ''ann/''),
     EvFrame 1 (buildStr VEHICLE_SPAWN 0 0 ''car''),
     EvAccept ''10.0.0.2'', EvFrame 2 (auth_frame ''bob/'')]"

definition two_state :: server where
  "two_state = (case run_events demo two_players initial_server of Inr s \<Rightarrow> s | Inl _ \<Rightarrow> initial_server)"

definition two_check :: "server \<Rightarrow> bool" where
  "two_check s \<longleftrightarrow> keys (m_players s) = [1, 2] \<and> keys (m_sessions s) = [1, 2]
     \<and> m_session_to_player s = [(1, 1), (2, 2)]
     \<and> map (\<lambda>e. length (pl_vehicles (snd e))) (m_players s) = [1, 0]
     \<and> map (\<lambda>e. pl_username (snd e)) (m_players s) = [''ann'', ''bob'']"

lemma two_run: "outcome two_check (run_events demo two_players initial_server)"
  by code_simp

lemma two_reachable: "reachable demo two_state" and two_state_check: "two_check two_state"
  using outcome_run [OF two_run] by (auto simp: two_state_def)

lemma two_state_facts: "keys (m_players two_state) = [1, 2]" "keys (m_sessions two_state) = [1, 2]"
    "m_session_to_player two_state = [(1, 1), (2, 2)]"
    "map (\<lambda>e. length (pl_vehicles (snd e))) (m_players two_state) = [1, 0]"
    "map (\<lambda>e. pl_username (snd e)) (m_players two_state) = [''ann'', ''bob'']"
  using two_state_check by (simp_all add: two_check_def)

lemma live_session: "reachable E s \<Longrightarrow> sid \<in> fst ` set (m_sessions s) \<Longrightarrow>
    tcp_disconnect cb sid s = Inl (Relock SessionsMutex)"
  by (simp add: tcp_disconnect_free reachable_held map_of_eq_None_iff)

section \<open>Bounds\<close>

text \<open>
  C7. Identifiers stay in range for ever, across wrap-around of the 16-bit counter: in every reachable
  state the players are stored under their own id, an id is never 0 (the server) nor 0xFFFF (the
  value the code uses for "no player"), and no session or player occurs twice.
\<close>

theorem valid_identifiers:
  assumes "reachable E s"
  shows "(\<forall>(i, p) \<in> set (m_players s). pl_id p = i \<and> i \<noteq> 0 \<and> i \<noteq> 0xFFFF)
    \<and> (\<forall>(sid, i) \<in> set (m_session_to_player s). i \<noteq> 0 \<and> i \<noteq> 0xFFFF)
    \<and> distinct (keys (m_players s)) \<and> distinct (keys (m_session_to_player s))"
  using ids.invariant [OF assms] by (auto simp: tables_ok_def player_ok_def real_id_def)

theorem valid_identifiers_witness: "pl_id (the (map_of (m_players two_state) 2)) = 2"
proof -
  obtain p where "(2, p) \<in> set (m_players two_state)"
    using two_state_facts(1) by (auto simp: map_eq_Cons_conv)
  with valid_identifiers [OF two_reachable] show ?thesis by fastforce
qed

text \<open>
  C8. The player limit holds: the players other than AI bridges never exceed \<open>max_players\<close>, nobody has
  an empty name, and the reserved name of the bridge is used only where AI traffic is enabled.
\<close>

theorem player_limit:
  assumes "reachable E s"
  shows "int (length (filter (\<lambda>(i, p). pl_username p \<noteq> BRIDGE_NAME) (m_players s)))
      \<le> max 0 (cfg_max_players (e_cfg E))
    \<and> (\<forall>(i, p) \<in> set (m_players s). pl_username p \<noteq> []
         \<and> (pl_username p = BRIDGE_NAME \<longrightarrow> cfg_ai_enabled (e_cfg E)))"
proof -
  have "(\<lambda>(i, p). pl_username p \<noteq> BRIDGE_NAME) = is_player"
    by (auto simp: is_player_def)
  then show ?thesis using limit.invariant [OF assms]
    by (auto simp: within_limit_def is_player_def has_authority_def)
qed

theorem player_limit_witness:
  "int (length (filter (\<lambda>(i, p). pl_username p \<noteq> BRIDGE_NAME) (m_players two_state)))
     \<le> max 0 (cfg_max_players (e_cfg demo))"
  using player_limit [OF two_reachable] by blast

text \<open>
  C9. The vehicle limit holds: no player of a reachable state has more vehicles than
  \<open>vehicle_limit_per_player\<close>, and every vehicle id lies below that limit.
\<close>

theorem vehicle_limit:
  assumes "reachable E s" and "(i, p) \<in> set (m_players s)"
  shows "int (length (pl_vehicles p)) \<le> max 0 (cfg_vehicle_limit_per_player (e_cfg E))
    \<and> (\<forall>v \<in> set (pl_vehicles p).
         uint (pv_vehicle_id v) < cfg_vehicle_limit_per_player (e_cfg E))"
  using ids.invariant [OF assms(1)] assms(2) by (auto simp: tables_ok_def player_ok_def)

theorem vehicle_limit_witness:
  "\<exists>p. map_of (m_players two_state) 1 = Some p \<and> length (pl_vehicles p) = 1
     \<and> int (length (pl_vehicles p)) \<le> max 0 (cfg_vehicle_limit_per_player (e_cfg demo))"
proof -
  obtain p q where p: "m_players two_state = [(1, p), (2, q)]" "length (pl_vehicles p) = 1"
    using two_state_facts(1,4) by (auto simp: map_eq_Cons_conv)
  with vehicle_limit [OF two_reachable, of 1 p] show ?thesis by auto
qed

section \<open>Locks\<close>

text \<open>
  C17. Lock discipline: handling an event in a reachable state gives back every mutex, and the only
  mutex a handler can lock while it holds it is \<open>m_sessions_mutex\<close> (in \<open>TCPServer::disconnect\<close>);
  \<open>m_players_mutex\<close> and \<open>m_map_mutex\<close> are never locked twice, whatever the plugins call.
\<close>

theorem only_sessions_mutex_relocks:
  assumes "reachable E s"
  shows "case handle E e s of
      Inl (Relock m) \<Rightarrow> m = SessionsMutex
    | Inl _ \<Rightarrow> True
    | Inr t \<Rightarrow> held t = []"
  using keeps_handle [OF reachable_held [OF assms], of E e]
  by (auto simp: safeE_def split: sum.splits fault.splits)

theorem only_sessions_mutex_relocks_witness:
  "case handle demo (EvKick 1 ''bye'') two_state of
      Inl (Relock m) \<Rightarrow> m = SessionsMutex | Inl _ \<Rightarrow> True | Inr t \<Rightarrow> held t = []"
  by (rule only_sessions_mutex_relocks [OF two_reachable])

text \<open>
  C39. Kicking or banning a connected player never completes: whatever the reason text, and also when a
  plugin asks for it, the thread relocks \<open>m_sessions_mutex\<close> in \<open>TCPServer::disconnect\<close>.
\<close>

theorem kick_never_completes:
  assumes "reachable E s" and "find_session pid (m_session_to_player s) = Some sid"
    and "sid \<in> fst ` set (m_sessions s)"
  shows "handle E (EvKick pid reason) s = Inl (Relock SessionsMutex)
    \<and> handle E (EvBan pid reason) s = Inl (Relock SessionsMutex)
    \<and> lua_api (onDisconnect E) (LKickPlayer (uint pid) r) s = Inl (Relock SessionsMutex)"
proof -
  have "held s = []" by (rule reachable_held [OF assms(1)])
  moreover have "map_of (m_sessions s) sid \<noteq> None"
    using assms(3) by (simp add: map_of_eq_None_iff)
  ultimately show ?thesis using assms(2)
    by (auto simp: kickPlayer_def banPlayer_def getPlayer_def with_lock_free tcp_disconnect_free
        upd_player_def split: option.split)
qed

theorem kick_never_completes_witness:
  "handle demo (EvKick 2 ''bye'') two_state = Inl (Relock SessionsMutex)"
proof -
  have "2 \<in> fst ` set (m_sessions two_state)"
    using two_state_facts(2) by (metis list.set_intros(1) list.set_intros(2) list.set_map)
  with kick_never_completes [OF two_reachable, of 2 2] two_state_facts(3)
  show ?thesis by (simp add: find_session_def)
qed

section \<open>Datagrams\<close>

text \<open>
  C36. No vehicle update is ever accepted: in every reachable state both UDP tables are empty (no code
  calls \<open>UDPServer::mapPlayer\<close>), every datagram that is not a ping leaves the vehicle table alone and
  is answered by nothing, and a turn of the synchronisation loop changes nothing and sends nothing.
\<close>

theorem vehicle_updates_never_accepted:
  assumes "reachable E s" and "10 \<le> length d" and "d ! 0 \<noteq> type_code PING"
  shows "(\<exists>f. handle E (EvDatagram ep d) s = Inr (s\<lparr>m_recv_buf := f\<rparr>))
    \<and> m_entries s = [] \<and> handle E EvSyncTick s = Inr s"
proof -
  have h: "held s = []" and idle: "udp_idle s"
    using reachable_held [OF assms(1)] idle.invariant [OF assms(1)] by auto
  have e: "m_entries s = []" "m_ep_to_player s = []" using idle by (simp_all add: udp_idle_def)
  have "s\<lparr>m_entries := []\<rparr> = s" using e(1) by (cases s) simp
  then have "handle E EvSyncTick s = Inr s"
    by (simp add: vehicleSync_tick_def e(1) sync_ops_empty)
  moreover have "type_of_byte (d ! 0) \<noteq> Some PING"
    using assms(3) by (simp add: type_of_byte_eq_Some)
  then have "\<exists>f. handle E (EvDatagram ep d) s = Inr (s\<lparr>m_recv_buf := f\<rparr>)"
    using assms(2) h e(2)
    by (auto simp: udp_receive_def onUDPPacket_def recv_slice_def RECV_BUF_SIZE_def Let_def
        parseHeader_def header_of_bytes_def)
  ultimately show ?thesis using e(1) by simp
qed

theorem vehicle_updates_never_accepted_witness:
  "\<exists>f. handle demo (EvDatagram \<lparr>ep_ip = ''10.0.0.1'', ep_port = 5000\<rparr>
     (buildVehicleUpdate 1 1 zero_state)) two_state
     = Inr (two_state\<lparr>m_recv_buf := f\<rparr>)"
proof -
  have "buildVehicleUpdate 1 1 zero_state ! 0 \<noteq> type_code PING"
    by (simp add: buildVehicleUpdate_def build_def header_bytes_def)
  with vehicle_updates_never_accepted [OF two_reachable, of "buildVehicleUpdate 1 1 zero_state"]
  show ?thesis by simp
qed

end
