(* ===== verification/Server_Auth.thy ===== *)
theory Server_Auth
  imports Server_Safety
begin

text \<open>
  Authentication and disconnection end to end: a frame of a client comes in on a session of a
  reachable server, \<open>onTCPPacket\<close> dispatches it, and the properties give the answers and the tables
  after it.
\<close>

section \<open>Dispatch of a well-formed frame\<close>

definition session_player :: "u16 \<Rightarrow> server \<Rightarrow> u16" where
  "session_player sid s = (case map_of (m_session_to_player s) sid of Some p \<Rightarrow> p | None \<Rightarrow> 0xFFFF)"

lemma read_body:
  "length t < 65536 \<Longrightarrow> read_bytes (bytes_of_string t) (unat (word_of_nat (length t) :: u16))
     = Inr (bytes_of_string t)"
  by (simp add: read_bytes_def unat_word_of_nat_u16)

lemma onTCPPacket_buildStr:
  assumes "held s = []" "length t < 65536"
  shows "onTCPPacket cb E sid (buildStr T i q t) s =
    (let pid = session_player sid s; pl = bytes_of_string t; n = word_of_nat (length t) in
     case T of
       AUTH_REQUEST \<Rightarrow> handleAuth cb E sid pl n s
     | VEHICLE_SPAWN \<Rightarrow> if pid \<noteq> 0xFFFF then handleVehicleSpawn cb E pid pl n s else Inr s
     | VEHICLE_DELETE \<Rightarrow> if pid \<noteq> 0xFFFF then handleVehicleDelete cb E pid pl n s else Inr s
     | CHAT_MESSAGE \<Rightarrow> if pid \<noteq> 0xFFFF then handleChat cb E pid pl n s else Inr s
     | READY \<Rightarrow> if pid \<noteq> 0xFFFF then handleReady cb E pid s else Inr s
     | AUTHORITY_CLAIM \<Rightarrow> if pid \<noteq> 0xFFFF then handleAuthorityClaim E pid s else Inr s
     | _ \<Rightarrow> Inr s)"
  using assms parseHeader_build [of T i q "Some (bytes_of_string t)" _ 0 "[]"]
  by (simp add: onTCPPacket_def buildStr_def session_player_def unat_word_of_nat_u16 Let_def
      split: PacketType.split)

text \<open>Plugins that answer events without calling back into the server.\<close>

definition silent :: "env \<Rightarrow> bool" where
  "silent E \<longleftrightarrow> (\<forall>h v i. fst (lua_run E h v i) = [])"

definition lua_answer :: "env \<Rightarrow> string \<Rightarrow> string list \<Rightarrow> server \<Rightarrow> string" where
  "lua_answer E ev args s = lua_string (snd (lua_run E (lua_history s) (lua_view_of s)
     (LuaEvent (c_str ev) (map c_str args))))"

definition log_event :: "string \<Rightarrow> string list \<Rightarrow> server \<Rightarrow> server" where
  "log_event ev args s = s\<lparr>lua_history := lua_history s
     @ [(lua_view_of s, LuaEvent (c_str ev) (map c_str args))]\<rparr>"

lemma fireEvent_silent:
  "silent E \<Longrightarrow> fireEvent cb E ev args s = Inr (lua_answer E ev args s, log_event ev args s)"
  by (cases "lua_run E (lua_history s) (lua_view_of s) (LuaEvent (c_str ev) (map c_str args))")
    (simp add: fireEvent_def lua_enter_def lua_answer_def log_event_def silent_def,
      metis foldE.simps(1) bindE_simps(2) fst_conv prod.case)

lemma log_event_frame [simp]:
  "held (log_event ev args s) = held s" "m_sessions (log_event ev args s) = m_sessions s"
  "tcp_out (log_event ev args s) = tcp_out s" "m_players (log_event ev args s) = m_players s"
  "m_session_to_player (log_event ev args s) = m_session_to_player s"
  "m_next_player_id (log_event ev args s) = m_next_player_id s"
  "m_entries (log_event ev args s) = m_entries s"
  "m_player_to_ep (log_event ev args s) = m_player_to_ep s"
  "m_ep_to_player (log_event ev args s) = m_ep_to_player s"
  "udp_out (log_event ev args s) = udp_out s"
  "authority_history (log_event ev args s) = authority_history s"
  by (simp_all add: log_event_def)

lemma silent_demo [simp]: "silent demo"
  by (simp add: silent_def demo_def demo_env_def)

section \<open>What a session without a player can do\<close>

text \<open>
  C6. A session that has not authenticated can do nothing but authenticate: every other frame with a
  complete header, of a known or unknown type, leaves the server exactly as it was.
\<close>

theorem unauthenticated_frames_ignored:
  assumes "reachable E s" and "map_of (m_session_to_player s) sid = None"
    and "10 \<le> length d" and "d ! 0 \<noteq> type_code AUTH_REQUEST"
  shows "handle E (EvFrame sid d) s = Inr s"
proof -
  have "type_of_byte (d ! 0) \<noteq> Some AUTH_REQUEST"
    using assms(4) by (simp add: type_of_byte_eq_Some)
  then show ?thesis using assms(2,3) reachable_held [OF assms(1)]
    by (auto simp: onTCPPacket_def parseHeader_def header_of_bytes_def Let_def
        split: option.split PacketType.split)
qed

theorem unauthenticated_frames_ignored_witness:
  "handle demo (EvFrame 7 (buildStr CHAT_MESSAGE 1 0 ''hi'')) two_state = Inr two_state"
proof (rule unauthenticated_frames_ignored [OF two_reachable])
  show "map_of (m_session_to_player two_state) 7 = None" by (simp add: two_state_facts)
qed (simp_all add: buildStr_def build_def header_bytes_def)

text \<open>
  C40. Malformed input of any TCP client ends the process, before any authentication: a frame shorter
  than a header throws out of \<open>io_context::run\<close>, a \<open>payload_len\<close> beyond the end of the frame is read
  past the end of the buffer, and JSON text that is no object (so that \<open>json::value\<close> throws) is not
  caught either.
\<close>

theorem malformed_frames_end_the_process:
  assumes "reachable E s"
  shows "(length d < 10 \<longrightarrow> handle E (EvFrame sid d) s = Inl (Uncaught ''Packet too short''))
    \<and> (hdr_type h = type_code AUTH_REQUEST \<and> length body < unat (hdr_payload_len h) \<longrightarrow>
      handle E (EvFrame sid (header_bytes h @ body)) s = Inl OutOfBounds)
    \<and> (length t < 65536 \<and> json_parse E t = Some j \<and> json_value_str E j ''username'' [] = None \<longrightarrow>
      handle E (EvFrame sid (buildStr AUTH_REQUEST i q t)) s = Inl (Uncaught ''json type_error''))"
proof (intro conjI)
  show "length d < 10 \<longrightarrow> handle E (EvFrame sid d) s = Inl (Uncaught ''Packet too short'')"
    by (simp add: onTCPPacket_def parseHeader_def)
  show "hdr_type h = type_code AUTH_REQUEST \<and> length body < unat (hdr_payload_len h) \<longrightarrow>
      handle E (EvFrame sid (header_bytes h @ body)) s = Inl OutOfBounds"
    using reachable_held [OF assms]
    by (simp add: onTCPPacket_def parseHeader_def payload_def handleAuth_def read_bytes_def Let_def
        del: type_code.simps)
  show "length t < 65536 \<and> json_parse E t = Some j \<and> json_value_str E j ''username'' [] = None \<longrightarrow>
      handle E (EvFrame sid (buildStr AUTH_REQUEST i q t)) s = Inl (Uncaught ''json type_error'')"
    using reachable_held [OF assms]
    by (simp add: onTCPPacket_buildStr handleAuth_def read_body valueE_def Let_def)
qed

text \<open>The demonstration with a JSON library that reads every text as an array.\<close>

definition demo_array :: env where
  "demo_array = demo\<lparr>json_parse := (\<lambda>_. Some (JArr []))\<rparr>"

theorem malformed_frames_end_the_process_witness:
  "handle demo (EvFrame 7 [1, 2, 3]) initial_server = Inl (Uncaught ''Packet too short'')
   \<and> handle demo (EvFrame 7 [1, 0, 0, 0, 0, 0, 0, 5, 0, 0, 65]) initial_server = Inl OutOfBounds
   \<and> handle demo_array (EvFrame 7 (buildStr AUTH_REQUEST 0 0 ''[]'')) initial_server
      = Inl (Uncaught ''json type_error'')"
proof -
  let ?h = "\<lparr>hdr_type = 1, hdr_sender_id = 0, hdr_sequence = 0, hdr_payload_len = 5, hdr_flags = 0\<rparr>"
  have h: "header_bytes ?h @ [65] = [1, 0, 0, 0, 0, 0, 0, 5, 0, 0, 65]"
    by (simp add: header_bytes_def le16_def le32_def)
  have "json_parse demo_array ''[]'' = Some (JArr [])"
      "json_value_str demo_array (JArr []) ''username'' [] = None"
    by (simp_all add: demo_array_def demo_def demo_env_def)
  with malformed_frames_end_the_process [OF reachable.init [of demo], of "[1, 2, 3]" 7 ?h "[65]"]
    malformed_frames_end_the_process [OF reachable.init [of demo_array], of "[1, 2, 3]" 7 ?h "[65]"
      "''[]''" "JArr []" 0 0]
  show ?thesis by (simp add: h)
qed

section \<open>Rejected and accepted logins\<close>

text \<open>The conditions under which \<open>handleAuth\<close> answers with an error and closes the session.\<close>

definition rejected :: "env \<Rightarrow> string \<Rightarrow> string \<Rightarrow> server \<Rightarrow> bool" where
  "rejected E name password s \<longleftrightarrow>
     (if name = BRIDGE_NAME
      then \<not> cfg_ai_enabled (e_cfg E) \<or> password \<noteq> cfg_bridge_token (e_cfg E)
      else name \<noteq> [] \<and> ((cfg_password (e_cfg E) \<noteq> [] \<and> password \<noteq> cfg_password (e_cfg E))
        \<or> int (length (m_players s)) \<ge> cfg_max_players (e_cfg E)))"

definition rejection :: "env \<Rightarrow> string \<Rightarrow> string \<Rightarrow> string" where
  "rejection E name password = (if name = BRIDGE_NAME then ''Bridge token mismatch''
     else if cfg_password (e_cfg E) \<noteq> [] \<and> password \<noteq> cfg_password (e_cfg E) then ''Wrong password''
     else ''Server full'')"

lemma auth_reject_live:
  assumes "held s = []"
  shows "case auth_reject cb E sid err s of
      Inl _ \<Rightarrow> True
    | Inr t \<Rightarrow> sid \<notin> fst ` set (m_sessions s) \<and> core t = core s"
proof -
  obtain r where r: "auth_reject cb E sid err s = r" by simp
  have "quiet s r" using quiet_auth_reject [of s cb E sid err] r by simp
  moreover have "sid \<notin> fst ` set (m_sessions s)" if "r = Inr t" for t
    using r that assms
    by (auto simp: auth_reject_def auth_error_def send_auth_response_def bindE_Inr_iff
        tcp_disconnect_free split: if_splits simp flip: map_of_eq_None_iff)
  ultimately show ?thesis by (cases r) (auto simp: r quiet_def)
qed

lemma handle_auth_rejected:
  assumes "held s = []" and "length t < 65536" and "json_parse E t = Some j"
    and "json_value_str E j ''username'' [] = Some name"
    and "json_value_str E j ''server_password'' [] = Some password"
    and "rejected E name password s"
  shows "handle E (EvFrame sid (buildStr AUTH_REQUEST i q t)) s
      = auth_reject (onDisconnect E) E sid (rejection E name password) s"
  using assms
  by (auto simp: onTCPPacket_buildStr handleAuth_def read_body valueE_def rejected_def rejection_def Let_def
      handleAuth_bridge_def has_authority_def playerCount_def BRIDGE_NAME_def split: if_splits)

text \<open>The JSON texts of the answers, and the player a login creates.\<close>

definition auth_ok_json :: "env \<Rightarrow> u16 \<Rightarrow> json" where
  "auth_ok_json E pid = JObj [(''ok'', JBool True), (''player_id'', JInt (uint pid)),
     (''map'', JStr (cfg_map (e_cfg E)))]"

definition server_info_json :: "env \<Rightarrow> nat \<Rightarrow> json" where
  "server_info_json E n = JObj [(''name'', JStr (cfg_name (e_cfg E))),
     (''description'', JStr (cfg_description (e_cfg E))), (''map'', JStr (cfg_map (e_cfg E))),
     (''max_players'', JInt (cfg_max_players (e_cfg E))), (''current'', JInt (int n)),
     (''ai_enabled'', JBool (cfg_ai_enabled (e_cfg E))), (''version'', JStr ''1.0.0'')]"

definition next_id :: "server \<Rightarrow> u16" where
  "next_id s = (if m_next_player_id s = 0xFFFF then 1 else m_next_player_id s)"

lemma allocPlayerID_next: "allocPlayerID s = (next_id s, s\<lparr>m_next_player_id := next_id s + 1\<rparr>)"
  by (simp add: allocPlayerID_def next_id_def Let_def)

definition logged_in :: "u16 \<Rightarrow> string \<Rightarrow> string \<Rightarrow> string \<Rightarrow> server \<Rightarrow> server" where
  "logged_in sid ip name role s =
     (let pid = next_id s in s
       \<lparr>m_next_player_id := pid + 1,
        m_session_to_player := AList.update sid pid (m_session_to_player s),
        m_players := AList.update pid (new_player\<lparr>pl_id := pid, pl_username := name, pl_role := role,
          pl_ip := ip, pl_state := LOADING_MODS, pl_connect_time := steady_now s,
          pl_last_packet_time := steady_now s\<rparr>) (m_players s)\<rparr>)"

lemma logged_in_frame [simp]:
  "held (logged_in sid ip name role s) = held s"
  "m_sessions (logged_in sid ip name role s) = m_sessions s"
  "tcp_out (logged_in sid ip name role s) = tcp_out s"
  by (simp_all add: logged_in_def Let_def)

lemma handleAuth_player_ok:
  assumes "held s = []" "silent E" "map_of (m_sessions s) sid = Some ip"
    and "json_value_str E j ''role'' ''player'' = Some role"
    and "\<not> vetoed (lua_answer E ''onPlayerAuth'' [to_string (next_id s), name]
           (logged_in sid ip name role s))"
    and "json_dump E (auth_ok_json E (next_id s)) = Some ok"
    and "json_dump E (server_info_json E (length (m_players (logged_in sid ip name role s)))) = Some info"
  shows "handleAuth_player cb E sid name j s =
    Inr (log_event ''onPlayerAuth'' [to_string (next_id s), name] (logged_in sid ip name role s)
      \<lparr>tcp_out := tcp_out s @ [(sid, session_frame (buildStr AUTH_RESPONSE 0 0 ok)),
         (sid, session_frame (buildStr SERVER_INFO 0 0 info))]\<rparr>)"
proof -
  let ?p = "next_id s"
  let ?q = "new_player\<lparr>pl_id := ?p, pl_username := name, pl_role := role,
          pl_ip := ip, pl_state := LOADING_MODS, pl_connect_time := steady_now s,
          pl_last_packet_time := steady_now s\<rparr>"
  have add: "add_player sid ?p ?q (s\<lparr>m_next_player_id := ?p + 1\<rparr>) = Inr (logged_in sid ip name role s)"
    using assms(1) by (simp add: add_player_def with_lock_free logged_in_def Let_def)
  show ?thesis
    using assms add
    by (simp add: handleAuth_player_def allocPlayerID_next valueE_def fireEvent_silent
        auth_ok_def send_auth_response_def auth_ok_json_def server_info_json_def
        dumpE_def sendServerInfo_def playerCount_def)
qed

lemma handle_auth_player:
  assumes "held s = []" and "length t < 65536" and "json_parse E t = Some j"
    and "json_value_str E j ''username'' [] = Some name"
    and "json_value_str E j ''server_password'' [] = Some password"
    and "name \<noteq> []" and "name \<noteq> BRIDGE_NAME" and "\<not> rejected E name password s"
  shows "handle E (EvFrame sid (buildStr AUTH_REQUEST i q t)) s
      = handleAuth_player (onDisconnect E) E sid name j s"
  using assms
  by (auto simp: onTCPPacket_buildStr handleAuth_def read_body valueE_def rejected_def Let_def
      playerCount_def)

text \<open>
  C2. A correct login is admitted: the session is bound to the next id of the counter, the player is entered
  with the name, role and address, \<open>onPlayerAuth\<close> is fired with the id and the name, and then the session gets
  exactly two packets, the positive \<open>AUTH_RESPONSE\<close> with the id and \<open>SERVER_INFO\<close> with the new number of players.
  Nobody else is told (the announcement waits for \<open>READY\<close>), and nothing else of the server changes. Nothing checks
  that the id is unused: after the 16-bit counter has wrapped, the player who has it is replaced. The state is that
  for plugins that make no calls and do not veto. (\<^verbatim>\<open>docs/lua_api.md\<close> has the event before the player is entered, with
  the address as its third argument.)
\<close>

theorem correct_login_admitted:
  assumes "reachable E s" and "silent E" and "map_of (m_sessions s) sid = Some ip"
    and "length t < 65536" and "json_parse E t = Some j"
    and "json_value_str E j ''username'' [] = Some name"
    and "json_value_str E j ''server_password'' [] = Some password"
    and "json_value_str E j ''role'' ''player'' = Some role"
    and "name \<noteq> []" and "name \<noteq> BRIDGE_NAME" and "\<not> rejected E name password s"
    and "\<not> vetoed (lua_answer E ''onPlayerAuth'' [to_string (next_id s), name]
           (logged_in sid ip name role s))"
    and "json_dump E (auth_ok_json E (next_id s)) = Some ok"
    and "json_dump E (server_info_json E (length (m_players (logged_in sid ip name role s)))) = Some info"
  shows "handle E (EvFrame sid (buildStr AUTH_REQUEST i q t)) s =
    Inr (log_event ''onPlayerAuth'' [to_string (next_id s), name] (logged_in sid ip name role s)
      \<lparr>tcp_out := tcp_out s @ [(sid, session_frame (buildStr AUTH_RESPONSE 0 0 ok)),
         (sid, session_frame (buildStr SERVER_INFO 0 0 info))]\<rparr>)"
proof -
  have h: "held s = []" by (rule reachable_held [OF assms(1)])
  show ?thesis
    using handle_auth_player [OF h assms(4-7,9-11)] handleAuth_player_ok [OF h assms(2,3,8,12-14)] by simp
qed

lemma demo_json: "json_parse demo = demo_parse" "json_value_str demo = demo_value"
    "json_dump demo j = Some ''{}''" "e_cfg demo = sample_config"
    "lua_answer demo ev args s = []"
  by (simp_all add: demo_def demo_env_def lua_answer_def lua_string_def)

definition accepted :: server where
  "accepted = initial_server\<lparr>m_next_session_id := 2, m_sessions := [(1, ''10.0.0.1'')]\<rparr>"

lemma accepted_reachable: "reachable demo accepted"
proof (rule reachable.event [OF reachable.init])
  show "handle demo (EvAccept ''10.0.0.1'') initial_server = Inr accepted"
    by (simp add: accepted_def initial_server_def)
qed

theorem correct_login_admitted_witness:
  "\<exists>u. handle demo (EvFrame 1 (buildStr AUTH_REQUEST 0 0 ''ann/'')) accepted = Inr u
     \<and> m_session_to_player u = [(1, 1)] \<and> length (tcp_out u) = 2"
proof -
  let ?j = "JObj [(''username'', JStr ''ann''), (''server_password'', JStr [])]"
  have v: "demo_parse ''ann/'' = Some ?j" by (simp add: demo_parse_def)
  have r: "\<not> rejected demo ''ann'' [] accepted"
    by (simp add: rejected_def demo_json sample_config_def BRIDGE_NAME_def accepted_def initial_server_def)
  have "handle demo (EvFrame 1 (buildStr AUTH_REQUEST 0 0 ''ann/'')) accepted
      = Inr (log_event ''onPlayerAuth'' [to_string (next_id accepted), ''ann'']
          (logged_in 1 ''10.0.0.1'' ''ann'' ''player'' accepted)
        \<lparr>tcp_out := tcp_out accepted @ [(1, session_frame (buildStr AUTH_RESPONSE 0 0 ''{}'')),
           (1, session_frame (buildStr SERVER_INFO 0 0 ''{}''))]\<rparr>)"
    by (rule correct_login_admitted [OF accepted_reachable silent_demo _ _ _ _ _ _ _ _ r,
          where j = ?j, unfolded demo_json])
      (simp_all add: v accepted_def initial_server_def BRIDGE_NAME_def vetoed_def)
  then show ?thesis
    by (simp add: accepted_def initial_server_def logged_in_def next_id_def Let_def)
qed

end
