(* ===== verification/Server_Frame.thy ===== *)
theory Server_Frame
  imports Server_Locks
begin

text \<open>
  What a handler leaves alone while it talks: sending, plugins and the AI authority change the output, the
  histories and the flag of a banned player, and nothing else. The locale \<open>observation\<close> is the interface:
  whoever looks at the state in a way that does not see these updates sees no difference after any of
  those methods. It is interpreted for the sessions with their bindings and for the names of players.
\<close>

definition unchanged :: "(server \<Rightarrow> 'o) \<Rightarrow> server \<Rightarrow> fault + server \<Rightarrow> bool" where
  "unchanged obs s r \<longleftrightarrow> postE (\<lambda>t. obs t = obs s) r"

named_theorems unchanged_rules \<open>methods that an observer does not notice\<close>

locale observation =
  fixes obs :: "server \<Rightarrow> 'o"
  assumes obs_held: "obs (s\<lparr>held := h\<rparr>) = obs s"
    and obs_out: "obs (s\<lparr>tcp_out := x\<rparr>) = obs s"
    and obs_histories: "obs (s\<lparr>lua_history := l\<rparr>) = obs s" "obs (s\<lparr>ai_history := a\<rparr>) = obs s"
      "obs (s\<lparr>authority_history := b\<rparr>) = obs s"
    and obs_banned: "obs (upd_player i (\<lambda>p. p\<lparr>pl_is_banned := True\<rparr>) s) = obs s"
begin

lemma unchanged_Inl: "unchanged obs s (Inl f)"
  by (simp add: unchanged_def)

lemma unchanged_Inr: "obs t = obs s \<Longrightarrow> unchanged obs s (Inr t)"
  by (simp add: unchanged_def)

lemma unchanged_from: "unchanged obs t r \<Longrightarrow> obs t = obs s \<Longrightarrow> unchanged obs s r"
  by (simp add: unchanged_def)

lemma unchanged_bind: "unchanged obs s m \<Longrightarrow> (\<And>t. obs t = obs s \<Longrightarrow> unchanged obs t (k t)) \<Longrightarrow>
    unchanged obs s (bindE m k)"
  by (cases m) (auto simp: unchanged_def)

lemma unchanged_bind_pair: "postE (\<lambda>(b, t). obs t = obs s) m \<Longrightarrow>
    (\<And>b t. obs t = obs s \<Longrightarrow> unchanged obs t (k (b, t))) \<Longrightarrow> unchanged obs s (bindE m k)"
  by (cases m) (auto simp: unchanged_def)

lemma unchanged_read: "(\<And>x. unchanged obs s (k x)) \<Longrightarrow> unchanged obs s (bindE m k)"
  by (cases m) (auto simp: unchanged_def)

lemma unchanged_if: "unchanged obs s x \<Longrightarrow> unchanged obs s y \<Longrightarrow> unchanged obs s (if b then x else y)"
  by simp

lemma unchanged_option:
  "unchanged obs s x \<Longrightarrow> (\<And>y. unchanged obs s (f y)) \<Longrightarrow> unchanged obs s (case v of None \<Rightarrow> x | Some y \<Rightarrow> f y)"
  by (cases v) auto

lemma unchanged_lock:
  assumes "\<And>t. obs t = obs s \<Longrightarrow> unchanged obs t (body t)"
  shows "unchanged obs s (with_lock m body s)"
proof -
  have "unchanged obs (s\<lparr>held := m # held s\<rparr>) (body (s\<lparr>held := m # held s\<rparr>))" by (rule assms) (rule obs_held)
  then show ?thesis unfolding unchanged_def by (intro postE_with_lock) (simp add: obs_held)
qed

lemma unchanged_foldE:
  "(\<And>x t. obs t = obs s \<Longrightarrow> unchanged obs t (f x t)) \<Longrightarrow> unchanged obs s (foldE f xs s)"
  unfolding unchanged_def by (rule postE_foldE) auto

lemma unchanged_send: "unchanged obs s (tcp_send i d s)" "unchanged obs s (tcp_sendAll d x s)"
  unfolding tcp_send_def tcp_sendAll_def
  by (intro unchanged_lock unchanged_option unchanged_Inr refl obs_out)+

lemma unchanged_disconnect: "unchanged obs s (tcp_disconnect cb i s)"
  by (cases "SessionsMutex \<in> set (held s)")
    (simp_all add: tcp_disconnect_free unchanged_def, simp add: tcp_disconnect_def with_lock_held)

lemma unchanged_sendChat: "unchanged obs s (sendChat i m s)"
  unfolding sendChat_def Let_def by (intro unchanged_if unchanged_lock unchanged_option unchanged_Inr refl unchanged_send)

lemma unchanged_kickPlayer: "unchanged obs s (kickPlayer cb i r s)"
  unfolding kickPlayer_def Let_def
  by (intro unchanged_lock unchanged_option unchanged_bind unchanged_Inr refl unchanged_send unchanged_disconnect)

lemma unchanged_banPlayer: "unchanged obs s (banPlayer cb i r s)"
  unfolding banPlayer_def
  by (intro unchanged_read unchanged_from [OF unchanged_kickPlayer]) (simp split: option.split add: obs_banned)

lemma unchanged_lua_api: "unchanged obs s (lua_api cb c s)"
  by (cases c) (simp_all add: unchanged_sendChat unchanged_kickPlayer unchanged_banPlayer unchanged_Inr obs_histories)

lemma unchanged_lua_enter: "postE (\<lambda>(r, t). obs t = obs s) (lua_enter cb E inp s)"
proof -
  have "unchanged obs s (foldE (lua_api cb) calls (s\<lparr>lua_history := h\<rparr>))" for calls h
    by (rule unchanged_from [OF unchanged_foldE]) (simp_all add: unchanged_lua_api obs_histories)
  then show ?thesis by (simp add: lua_enter_def Let_def split_beta postE_bindE unchanged_def)
qed

lemma unchanged_fireEvent: "postE (\<lambda>(r, t). obs t = obs s) (fireEvent cb E ev args s)"
  unfolding fireEvent_def by (rule postE_bindI [OF unchanged_lua_enter]) auto

lemma fired: "fireEvent cb E ev args s = Inr (r, t) \<Longrightarrow> obs t = obs s"
  using unchanged_fireEvent [of s cb E ev args] by simp

lemma unchanged_authority_cb: "unchanged obs s (authority_cb E c s)"
  by (cases c) (auto simp: grantAuthority_def revokeAuthority_def
      intro!: unchanged_lock unchanged_option unchanged_read unchanged_send unchanged_Inr)

lemma unchanged_call_authority: "postE (\<lambda>(b, t). obs t = obs s) (call_authority E c s)"
proof -
  have "unchanged obs s (foldE (authority_cb E) calls (s\<lparr>authority_history := h\<rparr>))" for calls h
    by (rule unchanged_from [OF unchanged_foldE]) (simp_all add: unchanged_authority_cb obs_histories)
  then show ?thesis by (simp add: call_authority_def Let_def split_beta postE_bindE unchanged_def)
qed

lemma unchanged_broadcastPlayerJoin: "unchanged obs s (broadcastPlayerJoin E p s)"
  unfolding broadcastPlayerJoin_def by (intro unchanged_read unchanged_send)

lemma unchanged_broadcastPlayerLeave: "unchanged obs s (broadcastPlayerLeave E p r s)"
  unfolding broadcastPlayerLeave_def by (intro unchanged_read unchanged_send)

end

section \<open>Sessions and bindings, names\<close>

definition links :: "server \<Rightarrow> (u16 \<times> string) list \<times> (u16 \<times> u16) list" where
  "links s = (m_sessions s, m_session_to_player s)"

definition names :: "server \<Rightarrow> u16 \<Rightarrow> string option" where
  "names s i = map_option pl_username (map_of (m_players s) i)"

lemma map_of_upd_player: "map_of (m_players (upd_player i f s)) j =
    (if j = i then map_option f (map_of (m_players s) i) else map_of (m_players s) j)"
  by (simp add: upd_player_def AList.map_of_map_entry split: option.split)

lemma names_upd: "(\<And>p. pl_username (f p) = pl_username p) \<Longrightarrow> names (upd_player i f s) = names s"
  by (auto simp: names_def fun_eq_iff map_of_upd_player map_option.compositionality o_def)

interpretation links: observation links
  by unfold_locales (simp_all add: links_def upd_player_def)

interpretation names: observation names
  by unfold_locales (simp_all add: names_upd, simp_all add: names_def fun_eq_iff)

section \<open>Closing twice\<close>

text \<open>What \<open>onDisconnect\<close> does not do: give the session back.\<close>

lemma unmapPlayer_links: "unchanged links s (unmapPlayer p s)"
  unfolding unmapPlayer_def
  by (intro links.unchanged_lock links.unchanged_option links.unchanged_Inr) (simp_all add: links_def)

lemma onDisconnect_links:
  "postE (\<lambda>t. links t = (m_sessions s, AList.delete i (m_session_to_player s))) (onDisconnect E i s)"
proof -
  have leave: "unchanged links u (with_lock PlayersMutex (\<lambda>s. case map_of (m_players s) pid of
      None \<Rightarrow> Inr s
    | Some _ \<Rightarrow> bindE (unmapPlayer pid (s\<lparr>m_entries := onPlayerDisconnect pid (m_entries s)\<rparr>))
        (\<lambda>s. Inr (s\<lparr>m_players := AList.delete pid (m_players s)\<rparr>))) u)" for u pid
    by (intro links.unchanged_lock links.unchanged_option links.unchanged_Inr refl links.unchanged_bind
        links.unchanged_from [OF unmapPlayer_links]) (simp_all add: links_def)
  have tail: "unchanged links u (bindE (broadcastPlayerLeave E pid r u) (\<lambda>s.
      bindE (fireEvent cb E ev args s) (\<lambda>(_, s).
      bindE (if has_authority E then bindE (call_authority E c s) (\<lambda>(_, s). Inr s) else Inr s) (\<lambda>s.
      bindE (playerCount s) (\<lambda>_. Inr s)))))" for u pid r cb ev args c
  proof -
    have auth: "unchanged links u (if has_authority E then bindE (call_authority E c u) (\<lambda>(_, s). Inr s) else Inr u)" for u
      by (intro links.unchanged_if links.unchanged_bind_pair [OF links.unchanged_call_authority])
        (simp_all add: links.unchanged_Inr)
    show ?thesis
      by (intro links.unchanged_bind [OF links.unchanged_broadcastPlayerLeave]
          links.unchanged_bind_pair [OF links.unchanged_fireEvent])
        (simp only: prod.case, intro links.unchanged_bind [OF auth] links.unchanged_read links.unchanged_Inr refl)
  qed
  let ?P = "\<lambda>t. links t = (m_sessions s, AList.delete i (m_session_to_player s))"
  have "postE ?P (with_lock PlayersMutex (\<lambda>s. Inr (s
      \<lparr>m_session_to_player := AList.delete i (m_session_to_player s)\<rparr>)) s)"
    by (rule postE_with_lock) (simp add: links_def)
  then show ?thesis
    unfolding onDisconnect_def onDisconnect_body_def Let_def
  proof (rule postE_bindI, intro postE_if)
    fix t pid
    assume t: "?P t"
    show "postE ?P (Inr t)" using t by simp
    have "unchanged links t (bindE (with_lock PlayersMutex (\<lambda>s. case map_of (m_players s) pid of
        None \<Rightarrow> Inr s
      | Some _ \<Rightarrow> bindE (unmapPlayer pid (s\<lparr>m_entries := onPlayerDisconnect pid (m_entries s)\<rparr>))
          (\<lambda>s. Inr (s\<lparr>m_players := AList.delete pid (m_players s)\<rparr>))) t) k)"
      if "\<And>u. unchanged links u (k u)" for k
      by (rule links.unchanged_bind [OF leave]) (rule that)
    from this [OF tail] t show "postE ?P (bindE (with_lock PlayersMutex (\<lambda>s. case map_of (m_players s) pid of
        None \<Rightarrow> Inr s
      | Some _ \<Rightarrow> bindE (unmapPlayer pid (s\<lparr>m_entries := onPlayerDisconnect pid (m_entries s)\<rparr>))
          (\<lambda>s. Inr (s\<lparr>m_players := AList.delete pid (m_players s)\<rparr>))) t)
      (\<lambda>s. bindE (broadcastPlayerLeave E pid ''disconnected'' s) (\<lambda>s.
      bindE (fireEvent (\<lambda>_ _. Inl StackOverflow) E ''onPlayerDisconnect'' [to_string pid] s) (\<lambda>(_, s).
      bindE (if has_authority E then bindE (call_authority E (AAuthorityDisconnect pid) s) (\<lambda>(_, s). Inr s)
        else Inr s) (\<lambda>s. bindE (playerCount s) (\<lambda>_. Inr s))))))"
      by (simp add: unchanged_def)
  qed
qed

end
