(* ===== verification/Server_Play.thy ===== *)
theory Server_Play
  imports Server_Auth Server_Frame
begin

text \<open>
  The handlers of a player who is logged in, end to end: leaving, chat, vehicles, ready, pings and the
  synchronisation loop. As in \<open>Server_Auth\<close>, an exact result is stated for plugins that answer events
  without calling back into the server (\<open>silent\<close>).
\<close>

lemma session_player_Some:
  "map_of (m_session_to_player s) sid = Some pid \<Longrightarrow> session_player sid s = pid"
  by (simp add: session_player_def)

lemma reachable_session_id:
  "reachable E s \<Longrightarrow> map_of (m_session_to_player s) sid = Some pid \<Longrightarrow> pid \<noteq> 0xFFFF \<and> pid \<noteq> 0"
  using ids.invariant [of E s] by (fastforce simp: tables_ok_def real_id_def dest: map_of_SomeD)

text \<open>What \<open>TCPServer::sendAll\<close> adds to the output.\<close>

definition to_all :: "bytes \<Rightarrow> server \<Rightarrow> (u16 \<times> bytes) list" where
  "to_all pkt s = map (\<lambda>sid. (sid, session_frame pkt)) (filter (\<lambda>sid. sid \<noteq> NO_EXCLUDE) (keys (m_sessions s)))"

lemma tcp_sendAll_to_all:
  "SessionsMutex \<notin> set (held s) \<Longrightarrow>
     tcp_sendAll pkt NO_EXCLUDE s = Inr (s\<lparr>tcp_out := tcp_out s @ to_all pkt s\<rparr>)"
  by (simp add: to_all_def filter_map o_def case_prod_beta')

lemma to_all_eq: "m_sessions t = m_sessions s \<Longrightarrow> to_all pkt t = to_all pkt s"
  by (simp add: to_all_def)

section \<open>Leaving\<close>

definition leave_json :: "u16 \<Rightarrow> json" where
  "leave_json pid = JObj [(''type'', JStr ''player_leave''), (''id'', JInt (uint pid)),
     (''reason'', JStr ''disconnected'')]"

lemma delete_idle_entry: "map_of m k = None \<Longrightarrow> AList.delete k m = m"
  by (induction m) (auto split: if_splits)

text \<open>What a plugin or the AI cannot change when it is told that a player has left.\<close>

definition tables_of :: "server \<Rightarrow> (u16 \<times> string) list \<times> (u16 \<times> u16) list \<times> u16 list \<times> SyncEntry list
    \<times> (u16 \<times> UDPEndpoint) list \<times> (UDPEndpoint \<times> u16) list" where
  "tables_of s = (m_sessions s, m_session_to_player s, keys (m_players s), m_entries s, m_player_to_ep s, m_ep_to_player s)"

interpretation tables: observation tables_of
  by unfold_locales (simp_all add: tables_of_def upd_player_def)

text \<open>The state of the server when it starts to tell everybody.\<close>

definition without :: "u16 \<Rightarrow> u16 \<Rightarrow> server \<Rightarrow> server" where
  "without sid pid s = s\<lparr>m_sessions := AList.delete sid (m_sessions s),
     m_session_to_player := AList.delete sid (m_session_to_player s), m_players := AList.delete pid (m_players s),
     m_entries := filter (\<lambda>e. se_owner_id e \<noteq> pid) (m_entries s),
     m_player_to_ep := AList.delete pid (m_player_to_ep s),
     m_ep_to_player := (case map_of (m_player_to_ep s) pid of None \<Rightarrow> m_ep_to_player s
       | Some ep \<Rightarrow> AList.delete ep (m_ep_to_player s))\<rparr>"

lemma held_without [simp]: "held (without sid pid s) = held s" "tcp_out (without sid pid s) = tcp_out s"
  by (simp_all add: without_def)

lemma handle_close:
  assumes "held s = []" "map_of (m_session_to_player s) sid = Some pid" "pid \<noteq> 0xFFFF"
    "map_of (m_players s) pid = Some p"
  shows "handle E (EvClose sid) s = bindE (broadcastPlayerLeave E pid ''disconnected'' (without sid pid s)) (\<lambda>s.
      bindE (fireEvent (\<lambda>_ _. Inl StackOverflow) E ''onPlayerDisconnect'' [to_string pid] s) (\<lambda>(_, s).
      bindE (if has_authority E
             then bindE (call_authority E (AAuthorityDisconnect pid) s) (\<lambda>(_, s). Inr s)
             else Inr s) (\<lambda>s.
      bindE (playerCount s) (\<lambda>_. Inr s))))"
proof -
  let ?u = "s\<lparr>m_sessions := AList.delete sid (m_sessions s),
      m_session_to_player := AList.delete sid (m_session_to_player s), held := [PlayersMutex],
      m_entries := onPlayerDisconnect pid (m_entries s)\<rparr>"
  have "bindE (unmapPlayer pid ?u) (\<lambda>s. Inr (s\<lparr>m_players := AList.delete pid (m_players s)\<rparr>))
      = Inr ((without sid pid s)\<lparr>held := [PlayersMutex]\<rparr>)"
    by (cases "map_of (m_player_to_ep s) pid")
      (auto simp: unmapPlayer_free without_def onPlayerDisconnect_def delete_idle_entry intro!: server.equality)
  then show ?thesis
    using assms by (simp add: onDisconnect_def onDisconnect_body_def with_lock_def del: bindE_assoc)
qed

text \<open>
  C18. Closing the connection of a player takes the player out of everything. From any state of the server's
  tables in which no handler is under way, whatever plugins and the AI do about it: if the handler comes to an
  end, the session, its binding, the player with his vehicles, every synchronisation entry of his and his UDP
  endpoint in both directions are gone, and the rest of these tables is as it was. With plugins that only
  listen and without AI traffic it does come to an end, no other player is touched, and each remaining session
  gets exactly one \<open>PLAYER_LEAVE\<close>.
\<close>

theorem close_cleans_up:
  assumes "held s = []" and "map_of (m_session_to_player s) sid = Some pid" and "pid \<noteq> 0xFFFF"
    and "map_of (m_players s) pid = Some p"
  shows "(\<forall>t. handle E (EvClose sid) s = Inr t \<longrightarrow>
      m_sessions t = AList.delete sid (m_sessions s)
      \<and> m_session_to_player t = AList.delete sid (m_session_to_player s)
      \<and> keys (m_players t) = filter (\<lambda>i. i \<noteq> pid) (keys (m_players s))
      \<and> m_entries t = filter (\<lambda>e. se_owner_id e \<noteq> pid) (m_entries s)
      \<and> m_player_to_ep t = AList.delete pid (m_player_to_ep s)
      \<and> m_ep_to_player t = (case map_of (m_player_to_ep s) pid of None \<Rightarrow> m_ep_to_player s
         | Some ep \<Rightarrow> AList.delete ep (m_ep_to_player s)))
    \<and> (silent E \<and> \<not> cfg_ai_enabled (e_cfg E) \<and> json_dump E (leave_json pid) = Some str \<longrightarrow>
      (\<exists>t. handle E (EvClose sid) s = Inr t \<and> m_players t = AList.delete pid (m_players s)
        \<and> tcp_out t = tcp_out s @ to_all (buildStr PLAYER_LEAVE pid 0 str) t))"
proof (intro conjI impI)
  note close = handle_close [OF assms]
  have auth: "unchanged tables_of u (if has_authority E then bindE (call_authority E c u) (\<lambda>(_, s). Inr s) else Inr u)" for u c
    by (intro tables.unchanged_if tables.unchanged_bind_pair [OF tables.unchanged_call_authority])
      (simp_all add: tables.unchanged_Inr)
  have "unchanged tables_of (without sid pid s) (handle E (EvClose sid) s)"
    unfolding close
    apply (rule tables.unchanged_bind [OF tables.unchanged_broadcastPlayerLeave])
    apply (rule tables.unchanged_bind_pair [OF tables.unchanged_fireEvent], simp only: prod.case)
    apply (rule tables.unchanged_bind [OF auth], rule tables.unchanged_read, rule tables.unchanged_Inr, rule refl)
    done
  moreover have "keys (AList.delete pid m) = filter (\<lambda>i. i \<noteq> pid) (keys m)" for m :: "(u16 \<times> Player) list"
    by (induction m) (auto split: if_splits)
  ultimately show "\<forall>t. handle E (EvClose sid) s = Inr t \<longrightarrow>
      m_sessions t = AList.delete sid (m_sessions s)
      \<and> m_session_to_player t = AList.delete sid (m_session_to_player s)
      \<and> keys (m_players t) = filter (\<lambda>i. i \<noteq> pid) (keys (m_players s))
      \<and> m_entries t = filter (\<lambda>e. se_owner_id e \<noteq> pid) (m_entries s)
      \<and> m_player_to_ep t = AList.delete pid (m_player_to_ep s)
      \<and> m_ep_to_player t = (case map_of (m_player_to_ep s) pid of None \<Rightarrow> m_ep_to_player s
         | Some ep \<Rightarrow> AList.delete ep (m_ep_to_player s))"
    by (auto simp: unchanged_def tables_of_def without_def simp del: handle.simps)
  assume "silent E \<and> \<not> cfg_ai_enabled (e_cfg E) \<and> json_dump E (leave_json pid) = Some str"
  then show "\<exists>t. handle E (EvClose sid) s = Inr t \<and> m_players t = AList.delete pid (m_players s)
        \<and> tcp_out t = tcp_out s @ to_all (buildStr PLAYER_LEAVE pid 0 str) t"
    using assms(1) unfolding close
    by (simp add: broadcastPlayerLeave_def dumpE_def leave_json_def fireEvent_silent has_authority_def
        playerCount_def tcp_sendAll_to_all del: tcp_sendAll_free) (simp add: to_all_def without_def)
qed

text \<open>A login, a second login on the same session, then the connection closes.\<close>

definition relogin :: "event list" where
  "relogin = [EvAccept ''10.0.0.1'', EvFrame 1 (auth_frame ''ann/''), EvFrame 1 (auth_frame ''ann/''),
     EvClose 1]"

definition ghost_check :: "server \<Rightarrow> bool" where
  "ghost_check s \<longleftrightarrow> m_sessions s = [] \<and> m_session_to_player s = [] \<and> keys (m_players s) = [1]"

lemma relogin_run: "outcome ghost_check (run_events demo relogin initial_server)"
  by code_simp

text \<open>
  A session may log in twice, and then a player is left behind: after the connection closes there is
  a reachable state without any session in which the first player is still in the table (and counts
  against \<open>max_players\<close> until the process ends, since \<open>onDisconnect\<close> removes only the player a session
  is bound to).
\<close>

theorem second_login_leaves_ghost_player:
  "\<exists>s. reachable demo s \<and> m_sessions s = [] \<and> m_session_to_player s = []
     \<and> (\<exists>p. map_of (m_players s) 1 = Some p)"
proof -
  obtain s where "reachable demo s" "ghost_check s" using outcome_run [OF relogin_run] by blast
  then show ?thesis by (auto simp: ghost_check_def map_eq_Cons_conv)
qed

section \<open>Chat\<close>

definition chat_args :: "u16 \<Rightarrow> Player \<Rightarrow> string \<Rightarrow> string list" where
  "chat_args pid p msg = [to_string pid, pl_username p, take 256 msg]"

lemma handle_chat:
  assumes "reachable E s" and "silent E" and "length msg < 65536"
    and "map_of (m_session_to_player s) sid = Some pid" and "map_of (m_players s) pid = Some p"
  shows "\<exists>t. handle E (EvFrame sid (buildStr CHAT_MESSAGE i q msg)) s = Inr t
    \<and> core t = core s \<and> m_sessions t = m_sessions s
    \<and> tcp_out t = tcp_out s @
        (if pl_is_muted p \<or> vetoed (lua_answer E ''onChatMessage'' (chat_args pid p msg) s) then []
         else to_all (buildStr CHAT_MESSAGE 0 0 (pl_username p @ '': '' @ take 256 msg)) s)"
  using assms reachable_held [OF assms(1)] reachable_session_id [OF assms(1,4)]
  by (auto simp: onTCPPacket_buildStr session_player_Some handleChat_def read_body getPlayer_def
      fireEvent_silent sendChat_def tcp_sendAll_to_all to_all_def chat_args_def Let_def
      log_event_def core_def simp del: tcp_sendAll_free)

text \<open>
  A chat message reaches every session once, as the name of the sender and at most 256 characters of
  text; if the sender is muted or a plugin answers \<open>onChatMessage\<close> with anything but an empty string
  or \<open>nil\<close>, nothing is sent to anybody.
\<close>

theorem chat_broadcast:
  assumes "reachable E s" and "silent E" and "length msg < 65536"
    and "map_of (m_session_to_player s) sid = Some pid" and "map_of (m_players s) pid = Some p"
  shows "\<exists>t. handle E (EvFrame sid (buildStr CHAT_MESSAGE i q msg)) s = Inr t
    \<and> core t = core s \<and> m_sessions t = m_sessions s
    \<and> tcp_out t = tcp_out s @
        (if pl_is_muted p \<or> vetoed (lua_answer E ''onChatMessage'' (chat_args pid p msg) s) then []
         else to_all (buildStr CHAT_MESSAGE 0 0 (pl_username p @ '': '' @ take 256 msg)) s)"
  using handle_chat [OF assms] .

section \<open>Vehicles\<close>

definition spawned :: "u8 \<Rightarrow> string \<Rightarrow> string \<Rightarrow> PlayerVehicle" where
  "spawned vid model config = \<lparr>pv_vehicle_id = vid, pv_model = model, pv_config = config,
     pv_last_state = zero_state, pv_spawned = True\<rparr>"

definition spawn_json :: "u16 \<Rightarrow> u8 \<Rightarrow> string \<Rightarrow> string \<Rightarrow> json" where
  "spawn_json pid vid model config = JObj [(''type'', JStr ''vehicle_spawn''),
     (''player_id'', JInt (uint pid)), (''vehicle_id'', JInt (uint vid)), (''model'', JStr model),
     (''config'', JStr config)]"

text \<open>
  Spawning a vehicle below the limit appends it to the player's vehicles under the id \<open>number of
  vehicles\<close> and announces it to every session; at the limit the frame changes nothing.
\<close>

theorem spawn_appends_vehicle:
  assumes "reachable E s" and "silent E" and "length body < 65536" and "json_parse E body = Some j"
    and "map_of (m_session_to_player s) sid = Some pid" and "map_of (m_players s) pid = Some p"
    and "json_value_str E j ''model'' ''etk800'' = Some model" and "json_dump E j = Some config"
    and "json_dump E (spawn_json pid (word_of_nat (length (pl_vehicles p))) model config) = Some str"
  shows "if int (length (pl_vehicles p)) \<ge> cfg_vehicle_limit_per_player (e_cfg E)
    then handle E (EvFrame sid (buildStr VEHICLE_SPAWN i q body)) s = Inr s
    else \<exists>t. handle E (EvFrame sid (buildStr VEHICLE_SPAWN i q body)) s = Inr t
      \<and> map_of (m_players t) = (map_of (m_players s))(pid \<mapsto> p\<lparr>pl_vehicles := pl_vehicles p
          @ [spawned (word_of_nat (length (pl_vehicles p))) model config]\<rparr>)
      \<and> tcp_out t = tcp_out s @ to_all (buildStr VEHICLE_SPAWN pid 0 str) s"
  using assms reachable_held [OF assms(1)] reachable_session_id [OF assms(1,5)]
  by (auto simp: onTCPPacket_buildStr session_player_Some handleVehicleSpawn_def read_body getPlayer_def
      fireEvent_silent tcp_sendAll_to_all to_all_def spawn_json_def spawned_def Let_def
      valueE_def dumpE_def upd_player_def AList.map_of_map_entry simp del: tcp_sendAll_free)

text \<open>
  Deleting a vehicle removes every vehicle of the sender with that id and its synchronisation entry,
  touches no vehicle of anybody else, and announces the deletion to every session.
\<close>

theorem delete_removes_vehicle:
  assumes "reachable E s" and "silent E"
    and "map_of (m_session_to_player s) sid = Some pid" and "map_of (m_players s) pid = Some p"
  shows "\<exists>t. handle E (EvFrame sid (build VEHICLE_DELETE i q (Some [vid]) 1 fl)) s = Inr t
    \<and> map_of (m_players t) = (map_of (m_players s))(pid \<mapsto> p\<lparr>pl_vehicles :=
        filter (\<lambda>v. pv_vehicle_id v \<noteq> vid) (pl_vehicles p)\<rparr>)
    \<and> lookup_entry (m_entries t) (pid, vid) = None
    \<and> tcp_out t = tcp_out s @ to_all (build VEHICLE_DELETE pid 0 (Some [vid]) 1 0) s"
  using assms reachable_held [OF assms(1)] reachable_session_id [OF assms(1,3)]
    parseHeader_build [of VEHICLE_DELETE i q "Some [vid]" 1 fl "[]"]
  by (auto simp: onTCPPacket_def handleVehicleDelete_def read_bytes_def getPlayer_def
      fireEvent_silent tcp_sendAll_to_all to_all_def Let_def upd_player_def AList.map_of_map_entry
      lookup_entry_None onVehicleDelete_def remove_entry_def entry_key_def simp del: tcp_sendAll_free type_code.simps)

text \<open>Two cars, the first deleted, and a third.\<close>

definition respawn :: "event list" where
  "respawn = [EvAccept ''10.0.0.1'', EvFrame 1 (auth_frame ''ann/''),
     EvFrame 1 (buildStr VEHICLE_SPAWN 0 0 ''car''), EvFrame 1 (buildStr VEHICLE_SPAWN 0 0 ''bus''),
     EvFrame 1 (build VEHICLE_DELETE 0 0 (Some [0]) 1 0), EvFrame 1 (buildStr VEHICLE_SPAWN 0 0 ''van'')]"

definition demo2 :: env where
  "demo2 = demo_env (sample_config\<lparr>cfg_vehicle_limit_per_player := 2\<rparr>)"

definition respawn_check :: "server \<Rightarrow> bool" where
  "respawn_check s \<longleftrightarrow>
     map (\<lambda>e. (fst e, map pv_vehicle_id (pl_vehicles (snd e)))) (m_players s) = [(1, [1, 1])]"

lemma respawn_run: "outcome respawn_check (run_events demo2 respawn initial_server)"
  by code_simp

text \<open>
  Vehicle ids are not unique: with a limit of two, spawning two vehicles, deleting the first and
  spawning again gives two vehicles of one player the same id, because the id is the number of
  vehicles. The next delete of that id removes both.
\<close>

theorem vehicle_ids_not_unique:
  "\<exists>s p. reachable demo2 s \<and> map_of (m_players s) 1 = Some p
     \<and> map pv_vehicle_id (pl_vehicles p) = [1, 1]"
proof -
  obtain s where "reachable demo2 s" "respawn_check s" using outcome_run [OF respawn_run] by blast
  then show ?thesis by (auto simp: respawn_check_def map_eq_Cons_conv)
qed

section \<open>Ready\<close>

definition join_json :: "Player \<Rightarrow> json" where
  "join_json p = JObj [(''type'', JStr ''player_join''), (''id'', JInt (uint (pl_id p))),
     (''name'', JStr (pl_username p)), (''role'', JStr (pl_role p))]"

definition greeting :: "env \<Rightarrow> bytes" where
  "greeting E = buildStr CHAT_MESSAGE 0 0 (''Welcome to '' @ cfg_name (e_cfg E) @ ''!'')"

text \<open>
  \<open>READY\<close> puts the player into the ready state, announces him to every session (his own included)
  and then welcomes him on his own session only.
\<close>

theorem ready_announces_player:
  assumes "reachable E s" and "silent E"
    and "map_of (m_session_to_player s) sid = Some pid" and "map_of (m_players s) pid = Some p"
    and "find_session pid (m_session_to_player s) = Some sid" and "sid \<in> set (keys (m_sessions s))"
    and "json_dump E (join_json p) = Some str"
  shows "\<exists>t. handle E (EvFrame sid (build READY i q None 0 fl)) s = Inr t
    \<and> map_of (m_players t) = (map_of (m_players s))(pid \<mapsto> p\<lparr>pl_state := READY_STATE\<rparr>)
    \<and> tcp_out t = tcp_out s @ to_all (buildStr PLAYER_JOIN (pl_id p) 0 str) s
        @ [(sid, session_frame (greeting E))]"
  using assms reachable_held [OF assms(1)] reachable_session_id [OF assms(1,3)]
    parseHeader_build [of READY i q None 0 fl "[]"]
  by (auto simp: onTCPPacket_def handleReady_def getPlayer_def broadcastPlayerJoin_def dumpE_def
      join_json_def fireEvent_silent tcp_sendAll_to_all to_all_def Let_def upd_player_def
      AList.map_of_map_entry sendChat_def with_lock_free greeting_def map_of_eq_None_iff
      simp del: tcp_sendAll_free type_code.simps)

section \<open>Datagrams\<close>

text \<open>
  A ping is answered by one ten-byte pong to the address it came from, carrying the sequence number
  of the ping, whoever sends it, and nothing else of the server changes but the receive buffer.
\<close>

theorem ping_is_answered:
  assumes "reachable E s" and "10 \<le> length d" and "d ! 0 = type_code PING"
  shows "\<exists>f. handle E (EvDatagram ep d) s = Inr (s\<lparr>m_recv_buf := f, udp_out := udp_out s
      @ [(ep, header_bytes \<lparr>hdr_type = type_code PONG, hdr_sender_id = 0,
           hdr_sequence = un_le32 (drop 3 d), hdr_payload_len = 0, hdr_flags = 0\<rparr>)]\<rparr>)"
proof -
  let ?f = "\<lambda>i. if i < length d then d ! i else m_recv_buf s i"
  have b: "map ?f [0..<10] = take 10 d" using assms(2) by (intro nth_equalityI) auto
  have "parseHeader (take 10 d) = Inr (header_of_bytes (take 10 d))"
    "hdr_type (header_of_bytes (take 10 d)) = type_code PING"
    "hdr_sequence (header_of_bytes (take 10 d)) = un_le32 (drop 3 d)"
    using assms(2,3) by (auto simp: parseHeader_def header_of_bytes_def un_le32_def)
  then show ?thesis using assms(2) b
    by (auto simp: udp_receive_def onUDPPacket_def recv_slice_def RECV_BUF_SIZE_def Let_def
        udp_send_def build_def simp del: type_code.simps)
qed

lemma foldE_sendAll:
  "MapMutex \<notin> set (held s) \<Longrightarrow> foldE (\<lambda>(pkt, exclude). udp_sendAll pkt exclude) calls s =
     Inr (s\<lparr>udp_out := udp_out s @ concat (map (\<lambda>(pkt, owner). map (\<lambda>(_, ep). (ep, pkt))
       (filter (\<lambda>(p, _). p \<noteq> owner) (m_player_to_ep s))) calls)\<rparr>)" for s :: server
proof (induction calls arbitrary: s)
  case (Cons c calls)
  then show ?case by (cases c) (simp add: case_prod_beta')
qed simp

text \<open>
  A turn of the synchronisation loop sends every dirty vehicle once, with the next sequence number,
  to the endpoint of every mapped player except its owner, and then no vehicle is dirty: a second turn
  right after it sends nothing.
\<close>

theorem sync_turn_delivers:
  assumes "MapMutex \<notin> set (held s)"
  shows "\<exists>t. vehicleSync_tick s = Inr t \<and> m_entries t = map flushed (m_entries s)
    \<and> udp_out t = udp_out s @ concat (map (\<lambda>e. map (\<lambda>(p, ep).
          (ep, buildVehicleUpdate (se_owner_id e) (se_seq e + 1) (se_state e)))
        (filter (\<lambda>(p, _). p \<noteq> se_owner_id e) (m_player_to_ep s))) (filter se_dirty (m_entries s)))
    \<and> vehicleSync_tick t = Inr t"
proof -
  obtain t where t: "vehicleSync_tick s = Inr t" "m_entries t = map flushed (m_entries s)"
      "held t = held s"
      "udp_out t = udp_out s @ concat (map (\<lambda>e. map (\<lambda>(p, ep).
          (ep, buildVehicleUpdate (se_owner_id e) (se_seq e + 1) (se_state e)))
        (filter (\<lambda>(p, _). p \<noteq> se_owner_id e) (m_player_to_ep s))) (filter se_dirty (m_entries s)))"
    using assms
    by (simp add: vehicleSync_tick_def broadcastAll_eq foldE_sendAll [unfolded case_prod_beta'] o_def
        case_prod_beta')
  have "filter se_dirty (m_entries t) = []" "map flushed (m_entries t) = m_entries t"
    by (auto simp: t(2) filter_empty_conv intro!: map_idI) (simp add: flushed_def)
  moreover have "t\<lparr>m_entries := m_entries t\<rparr> = t" by simp
  ultimately have "vehicleSync_tick t = Inr t"
    using assms t(3) by (simp add: vehicleSync_tick_def broadcastAll_eq)
  with t show ?thesis by blast
qed

section \<open>Witnesses\<close>

lemma two_players_obtain:
  obtains p q where "m_players two_state = [(1, p), (2, q)]" "length (pl_vehicles p) = 1"
    "pl_vehicles q = []" "pl_username p = ''ann''" "pl_username q = ''bob''"
    "map_of (m_players two_state) 1 = Some p" "map_of (m_players two_state) 2 = Some q"
  using two_state_facts(1,4,5) by (auto simp: map_eq_Cons_conv)

lemma two_sessions: "map_of (m_session_to_player two_state) 1 = Some 1"
    "map_of (m_session_to_player two_state) 2 = Some 2"
    "find_session 1 (m_session_to_player two_state) = Some 1"
    "find_session 2 (m_session_to_player two_state) = Some 2"
  by (simp_all add: two_state_facts find_session_def)

lemma demo_no_ai: "\<not> cfg_ai_enabled (e_cfg demo)"
  by (simp add: demo_json sample_config_def)

text \<open>Player 2 leaves a server that has his endpoint and knows where his vehicle and that of player 1 are.\<close>

definition driving_state :: server where
  "driving_state = two_state\<lparr>
     m_entries := [\<lparr>se_owner_id = 1, se_state = zero_state, se_seq = 4, se_dirty = True\<rparr>,
       \<lparr>se_owner_id = 2, se_state = zero_state, se_seq = 7, se_dirty = True\<rparr>],
     m_player_to_ep := [(2, \<lparr>ep_ip = ''10.0.0.2'', ep_port = 7\<rparr>)],
     m_ep_to_player := [(\<lparr>ep_ip = ''10.0.0.2'', ep_port = 7\<rparr>, 2)]\<rparr>"

theorem close_cleans_up_witness:
  "\<exists>t. handle demo (EvClose 2) driving_state = Inr t \<and> keys (m_players t) = [1] \<and> keys (m_session_to_player t) = [1]
     \<and> map se_owner_id (m_entries t) = [1] \<and> m_player_to_ep t = [] \<and> m_ep_to_player t = []
     \<and> length (tcp_out t) = Suc (length (tcp_out driving_state))"
proof -
  obtain p q where m: "m_players two_state = [(1, p), (2, q)]" "map_of (m_players two_state) 2 = Some q"
    by (rule two_players_obtain)
  have h: "held driving_state = []" using reachable_held [OF two_reachable] by (simp add: driving_state_def)
  have seat: "map_of (m_session_to_player driving_state) 2 = Some 2"
    and player: "map_of (m_players driving_state) 2 = Some q"
    using two_sessions(2) m(2) by (simp_all add: driving_state_def)
  note close = close_cleans_up [OF h seat _ player, where E = demo and str = "''{}''"]
  obtain t where t: "handle demo (EvClose 2) driving_state = Inr t"
    "m_players t = AList.delete 2 (m_players driving_state)"
    "tcp_out t = tcp_out driving_state @ to_all (buildStr PLAYER_LEAVE 2 0 ''{}'') t"
    using mp [OF conjunct2 [OF close]] silent_demo demo_no_ai demo_json(3) by fastforce
  note c = mp [OF spec [OF conjunct1 [OF close]] t(1)]
  have "keys (m_sessions t) = [1]" using c two_state_facts(2) by (auto simp: driving_state_def map_eq_Cons_conv)
  then have "length (to_all pkt t) = 1" for pkt by (simp add: to_all_def NO_EXCLUDE_def)
  with t c m(1) two_state_facts(3) show ?thesis
    by (intro exI [of _ t] conjI) (simp_all add: driving_state_def)
qed

theorem chat_broadcast_witness:
  "\<exists>t. handle demo (EvFrame 2 (buildStr CHAT_MESSAGE 0 0 ''hello'')) two_state = Inr t
     \<and> core t = core two_state"
proof -
  obtain p q where m: "map_of (m_players two_state) 2 = Some q" by (rule two_players_obtain)
  from chat_broadcast [OF two_reachable silent_demo _ two_sessions(2) m, of "''hello''" 0 0]
  show ?thesis by auto
qed

theorem spawn_appends_vehicle_witness:
  "handle demo (EvFrame 1 (buildStr VEHICLE_SPAWN 0 0 ''bus'')) two_state = Inr two_state
   \<and> (\<exists>t p. handle demo (EvFrame 2 (buildStr VEHICLE_SPAWN 0 0 ''bus'')) two_state = Inr t
        \<and> map_of (m_players t) 2 = Some p \<and> map pv_model (pl_vehicles p) = [''etk800''])"
proof -
  obtain p q where m: "length (pl_vehicles p) = 1" "pl_vehicles q = []"
    "map_of (m_players two_state) 1 = Some p" "map_of (m_players two_state) 2 = Some q"
    by (rule two_players_obtain)
  let ?j = "JObj [(''username'', JStr ''bus''), (''server_password'', JStr [])]"
  have j: "json_parse demo ''bus'' = Some ?j" "json_value_str demo ?j ''model'' ''etk800'' = Some ''etk800''"
    by (simp_all add: demo_json demo_parse_def)
  have l: "length ''bus'' < 65536" by simp
  note spawn = spawn_appends_vehicle [OF two_reachable silent_demo l j(1) _ _ j(2) demo_json(3) demo_json(3)]
  show ?thesis
    using spawn [OF two_sessions(1) m(3), of 0 0] spawn [OF two_sessions(2) m(4), of 0 0] m(1,2)
    by (auto simp: demo_json sample_config_def spawned_def)
qed

theorem delete_removes_vehicle_witness:
  "\<exists>t p. handle demo (EvFrame 1 (build VEHICLE_DELETE 0 0 (Some [0]) 1 0)) two_state = Inr t
     \<and> map_of (m_players t) 1 = Some p \<and> lookup_entry (m_entries t) (1, 0) = None"
proof -
  obtain p q where m: "map_of (m_players two_state) 1 = Some p" by (rule two_players_obtain)
  from delete_removes_vehicle [OF two_reachable silent_demo two_sessions(1) m, of 0 0 0 0]
  show ?thesis by auto
qed

theorem ready_announces_player_witness:
  "\<exists>t p. handle demo (EvFrame 2 (build READY 2 0 None 0 0)) two_state = Inr t
     \<and> map_of (m_players t) 2 = Some p \<and> pl_state p = READY_STATE"
proof -
  obtain p q where m: "map_of (m_players two_state) 2 = Some q" by (rule two_players_obtain)
  have "2 \<in> set (keys (m_sessions two_state))" by (simp only: two_state_facts) simp
  from ready_announces_player [OF two_reachable silent_demo two_sessions(2) m two_sessions(4) this
      demo_json(3), of 2 0 0]
  show ?thesis by auto
qed

theorem ping_is_answered_witness:
  "\<exists>f. handle demo (EvDatagram \<lparr>ep_ip = ''10.0.0.9'', ep_port = 7\<rparr> (build PING 0 9 None 0 0)) initial_server
     = Inr (initial_server\<lparr>m_recv_buf := f, udp_out := udp_out initial_server
         @ [(\<lparr>ep_ip = ''10.0.0.9'', ep_port = 7\<rparr>, build PONG 0 9 None 0 0)]\<rparr>)"
proof -
  have "un_le32 (drop 3 (build PING 0 9 None 0 0)) = 9"
    "build PING 0 9 None 0 0 ! 0 = type_code PING" "10 \<le> length (build PING 0 9 None 0 0)"
    "build PONG 0 9 None 0 0 = header_bytes \<lparr>hdr_type = type_code PONG, hdr_sender_id = 0,
       hdr_sequence = 9, hdr_payload_len = 0, hdr_flags = 0\<rparr>"
    by (simp_all add: build_def header_bytes_def le16_def)
  with ping_is_answered [OF reachable.init, of "build PING 0 9 None 0 0" demo
      "\<lparr>ep_ip = ''10.0.0.9'', ep_port = 7\<rparr>"]
  show ?thesis by (simp del: type_code.simps)
qed

definition sync_state :: server where
  "sync_state = initial_server\<lparr>
     m_entries := [\<lparr>se_owner_id = 1, se_state = zero_state, se_seq = 4, se_dirty = True\<rparr>],
     m_player_to_ep := [(1, \<lparr>ep_ip = ''10.0.0.1'', ep_port = 7\<rparr>), (2, \<lparr>ep_ip = ''10.0.0.2'', ep_port = 7\<rparr>)]\<rparr>"

theorem sync_turn_delivers_witness:
  "\<exists>t. vehicleSync_tick sync_state = Inr t
     \<and> udp_out t = [(\<lparr>ep_ip = ''10.0.0.2'', ep_port = 7\<rparr>, buildVehicleUpdate 1 5 zero_state)]"
proof -
  have "MapMutex \<notin> set (held sync_state)" by (simp add: sync_state_def initial_server_def)
  from sync_turn_delivers [OF this] show ?thesis
    by (auto simp: sync_state_def initial_server_def)
qed

end
