(* ===== verification/Server_Config.thy ===== *)
theory Server_Config
  imports Server_State
begin

text \<open>
  \<open>ServerConfig::load\<close> of \<^verbatim>\<open>servers/src/config/config.cpp\<close>, behind the TOML library: the parsed file
  is a table of nodes, and what \<open>value<T>()\<close>, \<open>as_table()\<close> and \<open>as_array()\<close> make of a node is the
  library's (record \<open>toml_lib\<close>). A missing section is a null pointer that the code dereferences.
\<close>

section \<open>The library\<close>

text \<open>\<open>'n\<close> is the type of its nodes; \<open>narrow\<close> is the conversion of a \<open>double\<close> to \<open>float\<close>.\<close>

record 'n toml_lib =
  as_table :: "'n \<Rightarrow> (string \<Rightarrow> 'n option) option"
  as_array :: "'n \<Rightarrow> 'n list option"
  as_string :: "'n \<Rightarrow> string option"
  value_string :: "'n \<Rightarrow> string option"
  value_int :: "'n \<Rightarrow> int option"
  value_bool :: "'n \<Rightarrow> bool option"
  value_double :: "'n \<Rightarrow> 64 word option"
  narrow :: "64 word \<Rightarrow> f32"

type_synonym 'n table = "string \<Rightarrow> 'n option"

definition value_or :: "('n \<Rightarrow> 'a option) \<Rightarrow> 'n table \<Rightarrow> string \<Rightarrow> 'a \<Rightarrow> 'a" where
  "value_or conv t key d = (case t key of None \<Rightarrow> d | Some n \<Rightarrow>
     (case conv n of None \<Rightarrow> d | Some v \<Rightarrow> v))"

text \<open>\<open>*t["name"].as_table()\<close>\<close>

definition sectionE :: "'n toml_lib \<Rightarrow> 'n table \<Rightarrow> string \<Rightarrow> fault + 'n table" where
  "sectionE T t name = (case t name of None \<Rightarrow> Inl NullDeref | Some n \<Rightarrow>
     (case as_table T n of None \<Rightarrow> Inl NullDeref | Some s \<Rightarrow> Inr s))"

text \<open>The string elements of an array; no elements when the node is missing or no array.\<close>

definition strings_of :: "'n toml_lib \<Rightarrow> 'n table \<Rightarrow> string \<Rightarrow> string list" where
  "strings_of T t key = (case t key of None \<Rightarrow> [] | Some n \<Rightarrow>
     (case as_array T n of None \<Rightarrow> [] | Some els \<Rightarrow> List.map_filter (as_string T) els))"

section \<open>The doubles of the defaults\<close>

text \<open>0.033, 14.0, 500.0, 300.0 and 10.0 as IEEE-754 binary64.\<close>

definition dbl_0_033 :: "64 word" where "dbl_0_033 = 0x3FA0E5604189374C"
definition dbl_14 :: "64 word" where "dbl_14 = 0x402C000000000000"
definition dbl_500 :: "64 word" where "dbl_500 = 0x407F400000000000"
definition dbl_300 :: "64 word" where "dbl_300 = 0x4072C00000000000"
definition dbl_10 :: "64 word" where "dbl_10 = 0x4024000000000000"

section \<open>load\<close>

text \<open>
  The tables the code reads, each a reference it takes before it reads the keys of that section. The
  optional \<open>ai_authority\<close> is the empty table when it is missing: both branches then give the
  defaults.
\<close>

record 'n sections =
  sec_srv :: "'n table"
  sec_mst :: "'n table"
  sec_gp :: "'n table"
  sec_ai :: "'n table"
  sec_auth :: "'n table"
  sec_rcon :: "'n table"
  sec_res :: "'n table"

definition load_sections :: "'n toml_lib \<Rightarrow> 'n table \<Rightarrow> fault + 'n sections" where
  "load_sections T t =
     bindE (sectionE T t ''server'') (\<lambda>srv.
     bindE (sectionE T t ''master'') (\<lambda>mst.
     bindE (sectionE T t ''gameplay'') (\<lambda>gp.
     bindE (sectionE T t ''ai_traffic'') (\<lambda>ai.
     bindE (if t ''ai_authority'' \<noteq> None then sectionE T t ''ai_authority'' else Inr (\<lambda>_. None)) (\<lambda>auth.
     bindE (sectionE T t ''rcon'') (\<lambda>rcon.
     bindE (sectionE T t ''resources'') (\<lambda>res.
     Inr \<lparr>sec_srv = srv, sec_mst = mst, sec_gp = gp, sec_ai = ai, sec_auth = auth, sec_rcon = rcon,
       sec_res = res\<rparr>)))))))"

definition config_of :: "'n toml_lib \<Rightarrow> 'n sections \<Rightarrow> ServerConfig" where
  "config_of T q = (let pool = strings_of T (sec_ai q) ''vehicle_pool'' in
     \<lparr>cfg_name = value_or (value_string T) (sec_srv q) ''name'' ''NovaMP Server'',
       cfg_description = value_or (value_string T) (sec_srv q) ''description'' [],
       cfg_map = value_or (value_string T) (sec_srv q) ''map'' ''gridmap_v2'',
       cfg_password = value_or (value_string T) (sec_srv q) ''password'' [],
       cfg_log_level = value_or (value_string T) (sec_srv q) ''log_level'' ''info'',
       cfg_log_file = value_or (value_string T) (sec_srv q) ''log_file'' ''server.log'',
       cfg_max_players = value_or (value_int T) (sec_srv q) ''max_players'' 8,
       cfg_port = value_or (value_int T) (sec_srv q) ''port'' 4444,
       cfg_tags = strings_of T (sec_srv q) ''tags'',
       cfg_master_register = value_or (value_bool T) (sec_mst q) ''register'' True,
       cfg_master_url = value_or (value_string T) (sec_mst q) ''url'' ''http://master.novaMP.gg'',
       cfg_master_auth_token = value_or (value_string T) (sec_mst q) ''auth_token'' [],
       cfg_master_heartbeat_hz = value_or (value_double T) (sec_mst q) ''heartbeat_hz'' dbl_0_033,
       cfg_vehicle_limit_per_player = value_or (value_int T) (sec_gp q) ''vehicle_limit_per_player'' 1,
       cfg_vehicle_sync_hz = value_or (value_int T) (sec_gp q) ''vehicle_sync_hz'' 100,
       cfg_max_vehicles = value_or (value_int T) (sec_gp q) ''max_vehicles'' 64,
       cfg_allow_vehicle_damage = value_or (value_bool T) (sec_gp q) ''allow_vehicle_damage'' True,
       cfg_respawn_on_disconnect = value_or (value_bool T) (sec_gp q) ''respawn_on_disconnect'' False,
       cfg_ai_enabled = value_or (value_bool T) (sec_ai q) ''enabled'' False,
       cfg_ai_count = value_or (value_int T) (sec_ai q) ''count'' 10,
       cfg_ai_update_rate_hz = value_or (value_int T) (sec_ai q) ''update_rate_hz'' 20,
       cfg_ai_speed_limit = narrow T (value_or (value_double T) (sec_ai q) ''speed_limit'' dbl_14),
       cfg_ai_despawn_dist = narrow T (value_or (value_double T) (sec_ai q) ''despawn_dist'' dbl_500),
       cfg_ai_spawn_dist = narrow T (value_or (value_double T) (sec_ai q) ''spawn_dist'' dbl_300),
       cfg_ai_path_replan_secs = narrow T (value_or (value_double T) (sec_ai q) ''path_replan_secs'' dbl_10),
       cfg_ai_mode = value_or (value_string T) (sec_ai q) ''mode'' ''traffic'',
       cfg_ai_vehicle_pool = (if pool = [] then [''etk800'', ''vivace'', ''pessima''] else pool),
       cfg_authority_mode = value_or (value_string T) (sec_auth q) ''mode'' ''auto'',
       cfg_beamng_exe_path = value_or (value_string T) (sec_auth q) ''beamng_exe_path'' [],
       cfg_authority_timeout_sec = value_or (value_int T) (sec_auth q) ''timeout_sec'' 15,
       cfg_bridge_token = value_or (value_string T) (sec_auth q) ''bridge_token'' ''changeme_bridge'',
       cfg_rcon_enabled = value_or (value_bool T) (sec_rcon q) ''enabled'' False,
       cfg_rcon_port = value_or (value_int T) (sec_rcon q) ''port'' 4445,
       cfg_rcon_password = value_or (value_string T) (sec_rcon q) ''password'' ''changeme'',
       cfg_resources_dir = value_or (value_string T) (sec_res q) ''directory'' ''Resources/Server'',
       cfg_resources_auto_reload = value_or (value_bool T) (sec_res q) ''auto_reload'' False\<rparr>)"

text \<open>\<open>parsed\<close> is the result of \<open>toml::parse_file\<close>; \<open>None\<close> is a parse error.\<close>

definition load_config :: "'n toml_lib \<Rightarrow> 'n table option \<Rightarrow> fault + ServerConfig" where
  "load_config T parsed = (case parsed of
     None \<Rightarrow> Inl (Uncaught ''Config parse error'')
   | Some t \<Rightarrow> bindE (load_sections T t) (\<lambda>q. Inr (config_of T q)))"

text \<open>
  \<open>main\<close> loads the configuration inside \<open>try\<close> and returns 1 after an exception; a null pointer is no
  exception.
\<close>

section \<open>Which files load\<close>

text \<open>The table under a name, if there is one.\<close>

definition get_section :: "'n toml_lib \<Rightarrow> 'n table \<Rightarrow> string \<Rightarrow> 'n table option" where
  "get_section T t name = (case t name of None \<Rightarrow> None | Some n \<Rightarrow> as_table T n)"

definition required_sections :: "string list" where
  "required_sections = [''server'', ''master'', ''gameplay'', ''ai_traffic'', ''rcon'', ''resources'']"

definition loads :: "'n toml_lib \<Rightarrow> 'n table \<Rightarrow> bool" where
  "loads T t \<longleftrightarrow> list_all (\<lambda>n. get_section T t n \<noteq> None) required_sections
     \<and> (t ''ai_authority'' = None \<or> get_section T t ''ai_authority'' \<noteq> None)"

definition section_or_empty :: "'n toml_lib \<Rightarrow> 'n table \<Rightarrow> string \<Rightarrow> 'n table" where
  "section_or_empty T t name = (case get_section T t name of None \<Rightarrow> (\<lambda>_. None) | Some s \<Rightarrow> s)"

lemma sectionE_get: "sectionE T t name = (case get_section T t name of None \<Rightarrow> Inl NullDeref | Some s \<Rightarrow> Inr s)"
  by (simp add: sectionE_def get_section_def split: option.split)

definition sections_of :: "'n toml_lib \<Rightarrow> 'n table \<Rightarrow> 'n sections" where
  "sections_of T t = \<lparr>sec_srv = section_or_empty T t ''server'',
      sec_mst = section_or_empty T t ''master'', sec_gp = section_or_empty T t ''gameplay'',
      sec_ai = section_or_empty T t ''ai_traffic'', sec_auth = section_or_empty T t ''ai_authority'',
      sec_rcon = section_or_empty T t ''rcon'', sec_res = section_or_empty T t ''resources''\<rparr>"

lemma load_sections_eq:
  "load_sections T t = (if loads T t then Inr (sections_of T t) else Inl NullDeref)"
proof -
  have "get_section T t ''ai_authority'' = None" if "t ''ai_authority'' = None"
    using that by (simp add: get_section_def)
  then show ?thesis
    by (simp add: load_sections_def sectionE_get loads_def required_sections_def section_or_empty_def
        sections_of_def split: option.split)
qed

text \<open>
  Loading a parsed file gives the configuration of its sections exactly when the six sections
  \<open>server\<close>, \<open>master\<close>, \<open>gameplay\<close>, \<open>ai_traffic\<close>, \<open>rcon\<close> and \<open>resources\<close> are tables (and
  \<open>ai_authority\<close>, where it is present). Otherwise it dereferences a null pointer, which \<open>main\<close> cannot
  report, although every single key of a section has a default.
\<close>

theorem config_needs_every_section:
  "load_config T (Some t) =
     (if (\<forall>n \<in> set required_sections. get_section T t n \<noteq> None)
         \<and> (t ''ai_authority'' = None \<or> get_section T t ''ai_authority'' \<noteq> None)
      then Inr (config_of T (sections_of T t)) else Inl NullDeref)"
  by (simp add: load_config_def load_sections_eq loads_def list_all_iff)

text \<open>A library whose nodes are strings and tables, for the witness.\<close>

datatype demo_node = NStr string | NTable "(string \<times> demo_node) list"

definition demo_toml :: "demo_node toml_lib" where
  "demo_toml = \<lparr>as_table = (\<lambda>n. case n of NTable kvs \<Rightarrow> Some (map_of kvs) | _ \<Rightarrow> None),
     as_array = (\<lambda>_. None), as_string = (\<lambda>n. case n of NStr s \<Rightarrow> Some s | _ \<Rightarrow> None),
     value_string = (\<lambda>n. case n of NStr s \<Rightarrow> Some s | _ \<Rightarrow> None), value_int = (\<lambda>_. None),
     value_bool = (\<lambda>_. None), value_double = (\<lambda>_. None), narrow = ucast\<rparr>"

definition demo_file :: "demo_node table" where
  "demo_file = map_of ((''server'', NTable [(''map'', NStr ''utah'')])
     # map (\<lambda>n. (n, NTable [])) (tl required_sections))"

theorem config_needs_every_section_witness:
  "\<exists>c. load_config demo_toml (Some demo_file) = Inr c \<and> cfg_map c = ''utah'' \<and> cfg_port c = 4444
     \<and> load_config demo_toml (Some (demo_file(''rcon'' := None))) = Inl NullDeref"
  unfolding config_needs_every_section
  by (simp add: required_sections_def demo_file_def demo_toml_def get_section_def config_of_def
      sections_of_def section_or_empty_def value_or_def Let_def)

end
