(* ===== verification/Console.thy ===== *)
theory Console
  imports Server_Demo
begin

text \<open>
  The administrator's two entrances: class \<open>Console\<close> (\<^verbatim>\<open>servers/src/console/console.cpp\<close>), which parses
  a line with a \<open>std::istringstream\<close> and calls the server, and class \<open>RconServer\<close> (\<^verbatim>\<open>rcon.cpp\<close>), which
  hands lines of a TCP connection to a console after a password. Log output is left out.
\<close>

section \<open>Console\<close>

text \<open>
  What the surroundings of \<open>dispatch\<close> decide: the value the uninitialised \<open>uint16_t pid\<close> happens to
  hold, and how the library reads a \<open>float\<close>.
\<close>

record console_env =
  garbage :: u16
  read_float :: "string \<Rightarrow> f32"

text \<open>The two lines \<open>kick\<close> and \<open>ban\<close> share: the id and the reason.\<close>

definition parse_target :: "console_env \<Rightarrow> istream \<Rightarrow> string \<Rightarrow> u16 \<times> string" where
  "parse_target C st dflt =
     (let (pid, st) = read_u16 (garbage C) st; reason = drop_space (get_line st)
      in (pid, if reason = [] then dflt else reason))"

definition dispatch :: "console_env \<Rightarrow> env \<Rightarrow> string \<Rightarrow> server \<Rightarrow> fault + (bool \<times> server)" where
  "dispatch C E line s =
     (let go = (\<lambda>m. bindE m (\<lambda>s. Inr (True, s))); cb = onDisconnect E in
      if line = [] then Inr (True, s)
      else let (cmd, ss) = read_word (Some line) in
      if cmd = ''stop'' \<or> cmd = ''quit'' \<or> cmd = ''exit''
      then bindE (stop_server cb E s) (\<lambda>s. Inr (False, s))
      else if cmd = ''help'' then Inr (True, s)
      else if cmd = ''players'' then bindE (playerCount s) (\<lambda>_. Inr (True, s))
      else if cmd = ''kick''
      then let (pid, reason) = parse_target C ss ''Kicked by admin'' in go (kickPlayer cb pid reason s)
      else if cmd = ''ban''
      then let (pid, reason) = parse_target C ss ''Banned by admin'' in go (banPlayer cb pid reason s)
      else if cmd = ''say'' then go (sendChat (-1) (''[Admin] '' @ drop_space (get_line ss)) s)
      else if cmd = ''lua''
      then bindE (lua_enter cb E (LuaChunk (c_str (get_line ss))) s) (\<lambda>(_, s). Inr (True, s))
      else if cmd = ''ai.spawn'' then go (lua_api cb (LAI (AISpawn ''etk800'' 0 0 0)) s)
      else if cmd = ''ai.despawn_all'' then go (lua_api cb (LAI AIDespawnAll) s)
      else if cmd = ''ai.set_count'' then go (lua_api cb (LAI (AISetCount (fst (read_int 0 ss)))) s)
      else if cmd = ''ai.set_speed_limit''
      then go (lua_api cb (LAI (AISetSpeedLimit (case ss of None \<Rightarrow> 0 | Some r \<Rightarrow> read_float C r))) s)
      else Inr (True, s))"

text \<open>\<open>Console::run\<close> on the lines of standard input.\<close>

fun console_run :: "console_env \<Rightarrow> env \<Rightarrow> string list \<Rightarrow> server \<Rightarrow> fault + server" where
  "console_run C E [] s = Inr s"
| "console_run C E (line # ls) s = bindE (dispatch C E line s) (\<lambda>(go_on, s).
     if go_on then console_run C E ls s else Inr s)"

section \<open>Rcon\<close>

datatype rcon_state = RconAuth | RconReady | RconClosed

definition strip_eol :: "string \<Rightarrow> string" where
  "strip_eol s = rev (dropWhile (\<lambda>c. c = CHR 0x0A \<or> c = CHR 0x0D) (rev s))"

text \<open>
  One line of a connection: the next state, the reply and the server. After the first command the
  handler calls \<open>readCmd\<close>, a local variable of the authentication handler that it captured by
  reference; that handler has returned, so the call uses a destroyed \<open>std::function\<close>.
\<close>

definition rcon_line :: "console_env \<Rightarrow> env \<Rightarrow> rcon_state \<Rightarrow> string \<Rightarrow> server
    \<Rightarrow> fault + (rcon_state \<times> string \<times> server)" where
  "rcon_line C E st line s = (case st of
     RconAuth \<Rightarrow> if strip_eol line \<noteq> cfg_rcon_password (e_cfg E)
       then Inr (RconClosed, ''ERR: Bad password'' @ [CHR 0x0A], s)
       else Inr (RconReady, ''OK'' @ [CHR 0x0A], s)
   | RconReady \<Rightarrow> bindE (dispatch C E (strip_eol line) s) (\<lambda>(_, s). Inl Dangling)
   | RconClosed \<Rightarrow> Inr (RconClosed, [], s))"

fun rcon_session :: "console_env \<Rightarrow> env \<Rightarrow> rcon_state \<Rightarrow> string list \<Rightarrow> server
    \<Rightarrow> fault + (string \<times> server)" where
  "rcon_session C E st [] s = Inr ([], s)"
| "rcon_session C E st (l # ls) s = bindE (rcon_line C E st l s) (\<lambda>(st, reply, s).
     bindE (rcon_session C E st ls s) (\<lambda>(out, s). Inr (reply @ out, s)))"

section \<open>Commands are events of the server\<close>

text \<open>
  Every command changes the server by at most one of the events of \<open>Game_Server\<close>, so what holds in
  every reachable state also holds under an administrator at the console or behind RCON.
\<close>

definition at_most_one_event :: "env \<Rightarrow> server \<Rightarrow> server \<Rightarrow> bool" where
  "at_most_one_event E s t \<longleftrightarrow> t = s \<or> (\<exists>e. handle E e s = Inr t)"

lemma at_most_one_eventI: "handle E e s = Inr t \<Longrightarrow> at_most_one_event E s t"
  by (auto simp: at_most_one_event_def)

lemma at_most_one_event_reachable: "reachable E s \<Longrightarrow> at_most_one_event E s t \<Longrightarrow> reachable E t"
  by (auto simp: at_most_one_event_def intro: reachable.event)

lemma dispatch_event:
  assumes "dispatch C E line s = Inr (b, t)"
  shows "at_most_one_event E s t"
proof -
  obtain cmd ss where w: "read_word (Some line) = (cmd, ss)" by fastforce
  note ev = at_most_one_eventI [of E "EvKick _ _"] at_most_one_eventI [of E "EvBan _ _"]
    at_most_one_eventI [of E "EvSay _"] at_most_one_eventI [of E "EvLua _"]
    at_most_one_eventI [of E "EvAI _"] at_most_one_eventI [of E EvStop]
  have lua: "at_most_one_event E s t" if "lua_enter (onDisconnect E) E (LuaChunk (c_str code)) s = Inr (r, t)"
    for code r using that by (intro at_most_one_eventI [of E "EvLua code"]) simp
  have same: "at_most_one_event E x x" for x by (simp add: at_most_one_event_def)
  show ?thesis using assms
    by (auto simp: dispatch_def w Let_def bindE_Inr_iff split_beta same split: if_splits intro: ev lua)
qed

lemma console_run_reachable:
  "reachable E s \<Longrightarrow> console_run C E ls s = Inr t \<Longrightarrow> reachable E t"
  by (induction ls arbitrary: s)
    (auto simp: bindE_Inr_iff split: if_splits
      dest: at_most_one_event_reachable [OF _ dispatch_event])

lemma rcon_session_reachable:
  "reachable E s \<Longrightarrow> rcon_session C E st ls s = Inr (out, t) \<Longrightarrow> reachable E t"
proof (induction ls arbitrary: s st out)
  case (Cons l ls)
  then obtain st' reply s' out' where "rcon_line C E st l s = Inr (st', reply, s')"
      "rcon_session C E st' ls s' = Inr (out', t)"
    by (auto simp: bindE_Inr_iff)
  moreover then have "s' = s"
    by (auto simp: rcon_line_def bindE_Inr_iff split: rcon_state.splits if_splits)
  ultimately show ?case using Cons by blast
qed simp

section \<open>Properties\<close>

definition demo_console :: console_env where
  "demo_console = \<lparr>garbage = 0xBEEF, read_float = (\<lambda>_. 0)\<rparr>"

lemma console_reachable_demo:
  "reachable demo (initial_server\<lparr>ai_history := [AISpawn ''etk800'' 0 0 0, AISetCount 12]\<rparr>)"
proof -
  have "read_word (Some ''ai.spawn'') = (''ai.spawn'', None)"
    "read_word (Some ''ai.set_count 12'') = (''ai.set_count'', Some '' 12'')"
    "read_int 0 (Some '' 12'') = (12, None)"
    by code_simp+
  then have "console_run demo_console demo [''ai.spawn'', ''ai.set_count 12''] initial_server
      = Inr (initial_server\<lparr>ai_history := [AISpawn ''etk800'' 0 0 0, AISetCount 12]\<rparr>)"
    by (simp add: dispatch_def initial_server_def)
  with console_run_reachable [OF reachable.init] show ?thesis by blast
qed

lemma read_command:
  assumes "cmd \<noteq> []" "\<forall>c \<in> set cmd. \<not> is_space c"
  shows "read_word (Some (cmd @ CHR '' '' # args)) = (cmd, Some (CHR '' '' # args))"
  using read_word_command [of cmd "CHR '' '' # args"] assms by (simp add: rest_of_def is_space_def)

lemma parse_target_printed:
  assumes "reason \<noteq> []" "CHR 0x0A \<notin> set reason"
  shows "parse_target C (Some (CHR '' '' # to_string pid @ '' '' @ reason)) d = (pid, reason)"
proof -
  have n: "read_u16 (garbage C) (Some (CHR '' '' # to_string pid @ '' '' @ reason))
      = (pid, Some (CHR '' '' # reason))"
    by (subst read_u16_to_string) (simp_all add: is_digit_def rest_of_def)
  have "get_line (Some (CHR '' '' # reason)) = CHR '' '' # reason"
    using assms(2) by (auto simp: get_line_def takeWhile_eq_all_conv)
  then show ?thesis using assms(1) by (simp add: parse_target_def n [simplified] drop_space_def Let_def)
qed

text \<open>
  C34. What the administrator types reaches the server as he means it, as long as he types an id: the commands
  \<open>kick <id> <reason>\<close> and \<open>ban <id> <reason>\<close>, with the id printed by \<open>std::to_string\<close>, kick and ban exactly
  that player for exactly that reason, and \<open>say <text>\<close> sends exactly that text to everybody, for every 16-bit
  id and every one-line reason or text. Without an id the server is called with whatever the uninitialised
  variable holds.
\<close>

theorem admin_commands_parsed:
  assumes "reason \<noteq> []" and "CHR 0x0A \<notin> set reason"
  shows "dispatch C E (''kick '' @ to_string pid @ '' '' @ reason) s =
      bindE (kickPlayer (onDisconnect E) pid reason s) (\<lambda>s. Inr (True, s))
    \<and> dispatch C E (''ban '' @ to_string pid @ '' '' @ reason) s =
      bindE (banPlayer (onDisconnect E) pid reason s) (\<lambda>s. Inr (True, s))
    \<and> dispatch C E (''say '' @ reason) s = bindE (sendChat (-1) (''[Admin] '' @ reason) s) (\<lambda>s. Inr (True, s))
    \<and> dispatch C E ''kick'' s =
      bindE (kickPlayer (onDisconnect E) (garbage C) ''Kicked by admin'' s) (\<lambda>s. Inr (True, s))"
proof -
  note w = read_command [of "''kick''" "to_string pid @ '' '' @ reason"]
    read_command [of "''ban''" "to_string pid @ '' '' @ reason"] read_command [of "''say''" reason]
  have k: "read_word (Some ''kick'') = (''kick'', None)"
    by (simp add: read_word_def is_space_def rest_of_def)
  have l: "get_line (Some (CHR '' '' # reason)) = CHR '' '' # reason"
    using assms(2) by (auto simp: get_line_def takeWhile_eq_all_conv)
  have p: "parse_target C None d = (garbage C, d)" for d
    by (simp add: parse_target_def read_u16_def get_line_def drop_space_def)
  show ?thesis
    using w k l p parse_target_printed [OF assms, of C pid]
    by (simp add: dispatch_def is_space_def drop_space_def)
qed

theorem admin_commands_parsed_witness:
  "dispatch demo_console demo (''kick '' @ to_string (3 :: u16) @ '' '' @ ''bad language'') initial_server
     = Inr (True, initial_server)
   \<and> dispatch demo_console demo ''kick'' initial_server
     = bindE (kickPlayer (onDisconnect demo) 0xBEEF ''Kicked by admin'' initial_server) (\<lambda>s. Inr (True, s))"
proof -
  have "kickPlayer (onDisconnect demo) 3 ''bad language'' initial_server = Inr initial_server"
    by (simp add: kickPlayer_def with_lock_def initial_server_def find_session_def)
  with admin_commands_parsed [of "''bad language''" demo_console demo 3 initial_server]
  show ?thesis by (simp add: demo_console_def)
qed

text \<open>
  C14. RCON needs its password and then breaks: lines on a connection whose first line is not the password
  change nothing and are answered by one error line; after the password no command ever completes,
  because the handler of the first command calls a destroyed function object. (\<^verbatim>\<open>docs/ai_traffic.md\<close> describes
  another dialogue: a banner, \<open>AUTH <password>\<close>, \<open>DENIED\<close>, and a \<open>quit\<close> that closes the connection; the line
  \<open>quit\<close> stops the server here.)
\<close>

theorem rcon_needs_password_then_breaks:
  "rcon_session C E RconAuth (l # ls) s =
     (if strip_eol l \<noteq> cfg_rcon_password (e_cfg E)
      then Inr (''ERR: Bad password'' @ [CHR 0x0A], s)
      else if ls = [] then Inr (''OK'' @ [CHR 0x0A], s)
      else bindE (dispatch C E (strip_eol (hd ls)) s) (\<lambda>_. Inl Dangling))"
proof -
  have closed: "rcon_session C E RconClosed ms s = Inr ([], s)" for ms
    by (induction ms) (simp_all add: rcon_line_def)
  have "rcon_session C E RconReady (m # ms) s = bindE (dispatch C E (strip_eol m) s) (\<lambda>_. Inl Dangling)"
    for m ms by (cases "dispatch C E (strip_eol m) s") (auto simp: rcon_line_def)
  then show ?thesis
    by (cases ls) (simp_all add: rcon_line_def closed bindE_assoc del: rcon_session.simps(2)
      add: rcon_session.simps(2) [of C E RconAuth])
qed

end
