(* ===== verification/Network_Client.thy ===== *)
theory Network_Client
  imports Server_State
begin

text \<open>
  The client's copy of the protocol (\<^verbatim>\<open>client/src/network/packet.hpp\<close>) and class \<open>NetworkClient\<close>
  (\<^verbatim>\<open>client/src/network/client.cpp\<close>): its framing, its packet handler and its counters. The
  definitions of the copy are translated from the client's file and proved equal to the server's.
  Handlers run on the thread of \<open>m_ioc\<close>; a fault there ends the launcher.
\<close>

section \<open>The client's copy of the packet class\<close>

text \<open>The client's enumeration lacks the three authority types.\<close>

definition client_packet_types :: "PacketType list" where
  "client_packet_types =
     [HEARTBEAT, AUTH_REQUEST, AUTH_RESPONSE, PLAYER_JOIN, PLAYER_LEAVE, PLAYER_INFO,
      VEHICLE_SPAWN, VEHICLE_DELETE, VEHICLE_UPDATE, VEHICLE_DAMAGE, VEHICLE_ELECTRICS,
      CHAT_MESSAGE, SERVER_INFO, MOD_LIST, MOD_DATA, MOD_OK, PING, PONG, RCON_AUTH, RCON_COMMAND,
      RCON_RESPONSE, SERVER_EVENT, PLAYER_TELEPORT, READY, KICK, BAN, ERROR]"

definition client_type_of_byte :: "u8 \<Rightarrow> PacketType option" where
  "client_type_of_byte b = find (\<lambda>t. type_code t = b) client_packet_types"

definition client_build :: "PacketType \<Rightarrow> u16 \<Rightarrow> u32 \<Rightarrow> bytes option \<Rightarrow> u16 \<Rightarrow> u8 \<Rightarrow> bytes" where
  "client_build t sid sq p plen f =
     header_bytes \<lparr>hdr_type = type_code t, hdr_sender_id = sid, hdr_sequence = sq,
       hdr_payload_len = plen, hdr_flags = f\<rparr>
     @ (case p of Some d \<Rightarrow> take (unat plen) d | None \<Rightarrow> replicate (unat plen) 0)"

definition client_buildStr :: "PacketType \<Rightarrow> u16 \<Rightarrow> u32 \<Rightarrow> string \<Rightarrow> bytes" where
  "client_buildStr t sid sq s =
     client_build t sid sq (Some (bytes_of_string s)) (word_of_nat (length s)) 0"

definition client_buildVehicleUpdate :: "u16 \<Rightarrow> u32 \<Rightarrow> VehicleState \<Rightarrow> bytes" where
  "client_buildVehicleUpdate sid sq vs =
     client_build VEHICLE_UPDATE sid sq (Some (state_bytes vs)) (word_of_nat STATE_SIZE) 0"

definition client_parseHeader :: "bytes \<Rightarrow> fault + PacketHeader" where
  "client_parseHeader d =
     (if length d < HEADER_SIZE then Inl (Uncaught ''too short'') else Inr (header_of_bytes d))"

section \<open>State\<close>

record ServerInfo =
  si_name :: string
  si_description :: string
  si_map :: string
  si_version :: string
  si_current_players :: int
  si_max_players :: int
  si_password_protected :: bool
  si_ai_enabled :: bool

text \<open>The calls of the callbacks, in their order.\<close>

datatype net_callback = ConnCb bool string | DiscCb string | PktCb u8 bytes

record net_client =
  nc_has_pkt_cb :: bool
  nc_has_conn_cb :: bool
  nc_has_disc_cb :: bool
  nc_udp_ep :: UDPEndpoint
  nc_connected :: bool
  nc_player_id :: u16
  nc_tcp_seq :: u32
  nc_udp_seq :: u32
  nc_server_info :: ServerInfo
  nc_tcp_open :: bool
  nc_tcp_out :: "bytes list"
  nc_udp_out :: "(UDPEndpoint \<times> bytes) list"
  nc_calls :: "net_callback list"

text \<open>
  The JSON library as the client uses it; \<open>None\<close> of \<open>cj_parse\<close> and of the \<open>value\<close> functions is an
  exception (no JSON, not an object, or a member of another type).
\<close>

record client_json =
  cj_parse :: "string \<Rightarrow> json option"
  cj_dump :: "json \<Rightarrow> string option"
  cj_bool :: "json \<Rightarrow> string \<Rightarrow> bool \<Rightarrow> bool option"
  cj_str :: "json \<Rightarrow> string \<Rightarrow> string \<Rightarrow> string option"
  cj_int :: "json \<Rightarrow> string \<Rightarrow> int \<Rightarrow> int option"
  cj_u16 :: "json \<Rightarrow> string \<Rightarrow> u16 \<Rightarrow> u16 option"

definition conn_cb :: "bool \<Rightarrow> string \<Rightarrow> net_client \<Rightarrow> net_client" where
  "conn_cb ok err c = (if nc_has_conn_cb c then c\<lparr>nc_calls := nc_calls c @ [ConnCb ok err]\<rparr> else c)"

definition disc_cb_call :: "string \<Rightarrow> net_client \<Rightarrow> net_client" where
  "disc_cb_call reason c =
     (if nc_has_disc_cb c then c\<lparr>nc_calls := nc_calls c @ [DiscCb reason]\<rparr> else c)"

section \<open>Sending\<close>

definition net_frame :: "bytes \<Rightarrow> bytes" where
  "net_frame data = le32 (word_of_nat (length data)) @ data"

definition net_sendTCP :: "PacketType \<Rightarrow> string \<Rightarrow> net_client \<Rightarrow> net_client" where
  "net_sendTCP t p c = (let sq = nc_tcp_seq c + 1 in c
     \<lparr>nc_tcp_seq := sq, nc_tcp_out := nc_tcp_out c
        @ [net_frame (client_buildStr t (nc_player_id c) sq p)]\<rparr>)"

definition net_sendUDP :: "bytes \<Rightarrow> net_client \<Rightarrow> net_client" where
  "net_sendUDP data c = c\<lparr>nc_udp_out := nc_udp_out c @ [(nc_udp_ep c, data)]\<rparr>"

definition net_sendVehicleUpdate :: "VehicleState \<Rightarrow> net_client \<Rightarrow> net_client" where
  "net_sendVehicleUpdate vs c = (let sq = nc_udp_seq c + 1 in
     net_sendUDP (client_buildVehicleUpdate (nc_player_id c) sq vs) (c\<lparr>nc_udp_seq := sq\<rparr>))"

section \<open>Connecting\<close>

text \<open>
  The completion handler of \<open>async_connect\<close>: \<open>Inl\<close> an error message, or \<open>Inr\<close> the peer's address.
\<close>

definition net_on_connected :: "client_json \<Rightarrow> string + string \<Rightarrow> u16 \<Rightarrow> string \<Rightarrow> string \<Rightarrow> string
    \<Rightarrow> net_client \<Rightarrow> fault + net_client" where
  "net_on_connected J r port username jwt_token server_password c = (case r of
     Inl msg \<Rightarrow> Inr (conn_cb False msg c)
   | Inr ip \<Rightarrow>
     (case cj_dump J (JObj [(''username'', JStr username), (''token'', JStr jwt_token),
         (''server_password'', JStr server_password), (''version'', JStr ''1.0.0'')]) of
       None \<Rightarrow> Inl (Uncaught ''json type_error'')
     | Some auth \<Rightarrow> Inr (net_sendTCP AUTH_REQUEST auth
         (c\<lparr>nc_tcp_open := True, nc_udp_ep := \<lparr>ep_ip = ip, ep_port = port\<rparr>\<rparr>))))"

text \<open>
  \<open>disconnect\<close> on a thread other than that of \<open>m_ioc\<close>; on the thread of \<open>m_ioc\<close> itself \<open>join\<close> of the
  running thread throws \<open>std::system_error\<close> (resource deadlock would occur).
\<close>

definition net_disconnect :: "bool \<Rightarrow> net_client \<Rightarrow> fault + net_client" where
  "net_disconnect on_ioc_thread c =
     (if on_ioc_thread then Inl (Uncaught ''resource deadlock would occur'')
      else Inr (c\<lparr>nc_connected := False, nc_tcp_open := False\<rparr>))"

section \<open>Receiving\<close>

text \<open>The body of a packet: \<open>payload_len\<close> bytes behind the header, whatever the buffer holds.\<close>

definition packet_body :: "bytes \<Rightarrow> u16 \<Rightarrow> fault + string" where
  "packet_body data plen = bindE (read_bytes (drop HEADER_SIZE data) (unat plen))
     (\<lambda>b. Inr (string_of_bytes b))"

text \<open>The two \<open>try\<close> blocks; an exception leaves what was assigned before it.\<close>

definition on_auth_response :: "client_json \<Rightarrow> string \<Rightarrow> net_client \<Rightarrow> net_client" where
  "on_auth_response J body c = (case cj_parse J body of None \<Rightarrow> c | Some j \<Rightarrow>
     (case cj_bool J j ''ok'' False of
       None \<Rightarrow> c
     | Some True \<Rightarrow> (case cj_u16 J j ''player_id'' 0 of
         None \<Rightarrow> c
       | Some i \<Rightarrow> conn_cb True [] (c\<lparr>nc_player_id := i, nc_connected := True\<rparr>))
     | Some False \<Rightarrow> if \<not> nc_has_conn_cb c then c else (case cj_str J j ''error'' ''Unknown error'' of
         None \<Rightarrow> c
       | Some e \<Rightarrow> conn_cb False e c)))"

definition on_server_info :: "client_json \<Rightarrow> string \<Rightarrow> ServerInfo \<Rightarrow> ServerInfo" where
  "on_server_info J body i = (case cj_parse J body of None \<Rightarrow> i | Some j \<Rightarrow>
     (case cj_str J j ''name'' [] of None \<Rightarrow> i | Some n \<Rightarrow> let i = i\<lparr>si_name := n\<rparr> in
     (case cj_str J j ''map'' [] of None \<Rightarrow> i | Some m \<Rightarrow> let i = i\<lparr>si_map := m\<rparr> in
     (case cj_int J j ''max_players'' 0 of None \<Rightarrow> i | Some k \<Rightarrow> let i = i\<lparr>si_max_players := k\<rparr> in
     (case cj_int J j ''current'' 0 of None \<Rightarrow> i | Some k \<Rightarrow> let i = i\<lparr>si_current_players := k\<rparr> in
     (case cj_bool J j ''ai_enabled'' False of None \<Rightarrow> i | Some b \<Rightarrow> i\<lparr>si_ai_enabled := b\<rparr>))))))"

definition net_onPacket :: "client_json \<Rightarrow> bytes \<Rightarrow> net_client \<Rightarrow> fault + net_client" where
  "net_onPacket J data c =
     bindE (client_parseHeader data) (\<lambda>hdr. let type = client_type_of_byte (hdr_type hdr) in
     bindE (if type = Some AUTH_RESPONSE
            then bindE (packet_body data (hdr_payload_len hdr)) (\<lambda>body. Inr (on_auth_response J body c))
            else Inr c) (\<lambda>c.
     bindE (if type = Some SERVER_INFO
            then bindE (packet_body data (hdr_payload_len hdr)) (\<lambda>body.
              Inr (c\<lparr>nc_server_info := on_server_info J body (nc_server_info c)\<rparr>))
            else Inr c) (\<lambda>c.
     Inr (if nc_has_pkt_cb c then c\<lparr>nc_calls := nc_calls c @ [PktCb (hdr_type hdr) data]\<rparr> else c))))"

text \<open>\<open>tcpReadLen\<close> and \<open>tcpReadPayload\<close> on the bytes that have arrived.\<close>

definition net_read_frame :: "bytes \<Rightarrow> bytes dec_step" where
  "net_read_frame b =
     (if length b < 4 then NeedMore
      else let len = un_le32 (take 4 b) in
        if len = 0 \<or> unat len > 4 * 1024 * 1024 then BadFrame
        else if length (drop 4 b) < unat len then NeedMore
        else Got (take (unat len) (drop 4 b)) (drop (unat len) (drop 4 b)))"

lemma net_read_frame_shrinks: "net_read_frame b = Got p r \<Longrightarrow> length r < length b"
  by (auto simp: net_read_frame_def Let_def split: if_splits)

text \<open>
  The read loop on a stream: the frames go to \<open>onPacket\<close>, a bad length calls \<open>disconnect\<close> on the
  thread of \<open>m_ioc\<close>; the result keeps the bytes of an incomplete frame.
\<close>

function net_read_loop :: "client_json \<Rightarrow> bytes \<Rightarrow> net_client \<Rightarrow> fault + (bytes \<times> net_client)" where
  "net_read_loop J b c = (case net_read_frame b of
     NeedMore \<Rightarrow> Inr (b, c)
   | BadFrame \<Rightarrow> bindE (net_disconnect True c) (\<lambda>c. Inr ([], c))
   | Got p r \<Rightarrow> bindE (net_onPacket J p c) (net_read_loop J r))"
  by pat_completeness auto

termination net_read_loop
  by (relation "measure (\<lambda>(J, b, c). length b)") (auto dest: net_read_frame_shrinks)

declare net_read_loop.simps [simp del]

text \<open>The connection ends with an error on a read.\<close>

definition net_on_read_error :: "string \<Rightarrow> net_client \<Rightarrow> net_client" where
  "net_on_read_error msg c = disc_cb_call msg c"

text \<open>
  \<open>udpRecv\<close>: \<open>async_receive_from\<close> stores the sender of the datagram in \<open>m_udp_ep\<close>, the very endpoint
  that \<open>sendUDP\<close> sends to.
\<close>

definition net_on_datagram :: "client_json \<Rightarrow> UDPEndpoint \<Rightarrow> bytes \<Rightarrow> net_client \<Rightarrow> fault + net_client" where
  "net_on_datagram J from data c =
     (let c = c\<lparr>nc_udp_ep := from\<rparr>
      in if HEADER_SIZE \<le> length data then net_onPacket J data c else Inr c)"

section \<open>The copies agree\<close>

lemma client_build_eq: "client_build = build"
  by (intro ext) (simp add: client_build_def build_def)

lemma client_buildStr_eq: "client_buildStr = buildStr"
  by (intro ext) (simp add: client_buildStr_def buildStr_def client_build_eq)

lemma client_buildVehicleUpdate_eq: "client_buildVehicleUpdate = buildVehicleUpdate"
  by (intro ext) (simp add: client_buildVehicleUpdate_def buildVehicleUpdate_def client_build_eq)

lemma net_frame_eq: "net_frame = session_frame"
  by (intro ext) (simp add: net_frame_def session_frame_def)

lemma net_read_frame_eq: "net_read_frame = read_frame"
  by (intro ext) (simp add: net_read_frame_def read_frame_def MAX_FRAME_def)

lemma client_parseHeader_ok: "10 \<le> length d \<Longrightarrow> client_parseHeader d = Inr (header_of_bytes d)"
  by (simp add: client_parseHeader_def)

definition authority_types :: "PacketType set" where
  "authority_types = {AUTHORITY_CLAIM, AUTHORITY_GRANT, AUTHORITY_REVOKE}"

lemma client_type_of_byte_code:
  "client_type_of_byte (type_code t) = (if t \<in> authority_types then None else Some t)"
  by (cases t) (simp_all add: client_type_of_byte_def client_packet_types_def authority_types_def)

text \<open>
  The client's copy of the protocol agrees with the server's in everything it defines: it builds the
  same bytes, reads every header of at least ten bytes in the same way and frames the TCP stream in
  the same way. The copies are not identical as the file says: the client does not know the types
  \<open>AUTHORITY_CLAIM\<close>, \<open>AUTHORITY_GRANT\<close> and \<open>AUTHORITY_REVOKE\<close>, and knows every other one.
\<close>

theorem protocol_copies_agree:
  "client_build = build \<and> client_buildStr = buildStr
   \<and> client_buildVehicleUpdate = buildVehicleUpdate
   \<and> net_frame = session_frame \<and> net_read_frame = read_frame
   \<and> (\<forall>h rest. client_parseHeader (header_bytes h @ rest) = parseHeader (header_bytes h @ rest))
   \<and> (\<forall>t. client_type_of_byte (type_code t)
        = (if t \<in> {AUTHORITY_CLAIM, AUTHORITY_GRANT, AUTHORITY_REVOKE} then None else Some t))"
  by (simp add: client_build_eq client_buildStr_eq client_buildVehicleUpdate_eq net_frame_eq
      net_read_frame_eq client_parseHeader_def parseHeader_def client_type_of_byte_code authority_types_def)

section \<open>Streams\<close>

definition self_join :: fault where
  "self_join = Uncaught ''resource deadlock would occur''"

text \<open>The loop is the packet handler folded over the frames of the framing contract.\<close>

lemma net_read_loop_fold:
  "bindE (net_read_loop J b c) (\<lambda>(_, c). Inr c) =
     bindE (foldE (net_onPacket J) (fst (read_frames b)) c)
       (\<lambda>c. if snd (read_frames b) = Closed then Inl self_join else Inr c)"
proof (induction J b c rule: net_read_loop.induct)
  case (1 J b c)
  show ?case
  proof (cases "read_frame b")
    case (Got p r)
    with 1 [of p r] show ?thesis
      by (subst net_read_loop.simps)
        (cases "net_onPacket J p c"; simp add: net_read_frame_eq read_frames.simps [of b])
  qed (subst net_read_loop.simps;
      simp add: net_read_frame_eq read_frames.simps [of b] net_disconnect_def self_join_def)+
qed

text \<open>
  Everything the server writes to a session arrives at the client's packet handler, completely, in
  order and once, whatever the network does to the boundaries: reading the server's
  frames is handling the packets one after the other.
\<close>

theorem server_frames_reach_handler:
  assumes "\<forall>p \<in> set ps. p \<noteq> [] \<and> length p \<le> MAX_FRAME"
  shows "bindE (net_read_loop J (concat (map session_frame ps)) c) (\<lambda>(_, c). Inr c)
    = foldE (net_onPacket J) ps c"
proof -
  have "\<forall>p \<in> set ps. frame_ok p" using assms by (simp add: frame_ok_def)
  from tcp.run_encoded [OF this, of "[]"] show ?thesis
    by (simp add: net_read_loop_fold read_frames.simps [of "[]"] read_frame_def)
qed

definition demo_client :: net_client where
  "demo_client = \<lparr>nc_has_pkt_cb = True, nc_has_conn_cb = True, nc_has_disc_cb = True,
     nc_udp_ep = \<lparr>ep_ip = ''198.51.100.7'', ep_port = 4444\<rparr>, nc_connected = False, nc_player_id = 0,
     nc_tcp_seq = 0, nc_udp_seq = 0,
     nc_server_info = \<lparr>si_name = [], si_description = [], si_map = [], si_version = [],
       si_current_players = 0, si_max_players = 0, si_password_protected = False,
       si_ai_enabled = False\<rparr>,
     nc_tcp_open = True, nc_tcp_out = [], nc_udp_out = [], nc_calls = []\<rparr>"

definition no_json :: client_json where
  "no_json = \<lparr>cj_parse = (\<lambda>_. None), cj_dump = (\<lambda>_. None), cj_bool = (\<lambda>_ _ _. None),
     cj_str = (\<lambda>_ _ _. None), cj_int = (\<lambda>_ _ _. None), cj_u16 = (\<lambda>_ _ _. None)\<rparr>"

theorem server_frames_reach_handler_witness:
  "\<exists>c. bindE (net_read_loop no_json (concat (map session_frame [buildStr CHAT_MESSAGE 0 0 ''hi'',
      build PONG 0 7 None 0 0])) demo_client) (\<lambda>(_, c). Inr c) = Inr c
    \<and> nc_calls c = [PktCb 0x0B (buildStr CHAT_MESSAGE 0 0 ''hi''), PktCb 0x11 (build PONG 0 7 None 0 0)]"
  by (subst server_frames_reach_handler)
    (simp_all add: MAX_FRAME_def buildStr_def build_def net_onPacket_def client_parseHeader_def
      demo_client_def header_of_bytes_def header_bytes_def client_type_of_byte_def
      client_packet_types_def Let_def)

text \<open>
  A bad frame length ends the launcher. After the frames before it are handled, the read handler
  calls \<open>disconnect\<close>, which joins the thread it runs on: \<open>std::thread::join\<close> throws and nothing
  catches it.
\<close>

theorem bad_length_ends_client:
  assumes "\<forall>p \<in> set ps. p \<noteq> [] \<and> length p \<le> MAX_FRAME"
    and "n = 0 \<or> unat n > MAX_FRAME"
    and "foldE (net_onPacket J) ps c = Inr c'"
  shows "bindE (net_read_loop J (concat (map session_frame ps) @ le32 n @ rest) c) (\<lambda>(_, c). Inr c)
    = Inl (Uncaught ''resource deadlock would occur'')"
proof -
  have "\<forall>p \<in> set ps. frame_ok p" using assms(1) by (simp add: frame_ok_def)
  moreover have "read_frame (le32 n @ rest) = BadFrame"
    using assms(2) by (simp add: read_frame_def Let_def)
  ultimately have "read_frames (concat (map session_frame ps) @ le32 n @ rest) = (ps, Closed)"
    by (rule tcp.run_bad_after)
  then show ?thesis using assms(3) by (simp add: net_read_loop_fold self_join_def)
qed

theorem bad_length_ends_client_witness:
  "bindE (net_read_loop no_json (concat (map session_frame []) @ le32 0 @ []) demo_client) (\<lambda>(_, c). Inr c)
    = Inl (Uncaught ''resource deadlock would occur'')"
  by (rule bad_length_ends_client) simp_all

text \<open>What handling a packet leaves alone.\<close>

definition unreceived :: "net_client \<Rightarrow> net_client \<Rightarrow> bool" where
  "unreceived c c' \<longleftrightarrow> nc_udp_out c' = nc_udp_out c \<and> nc_udp_ep c' = nc_udp_ep c
     \<and> nc_udp_seq c' = nc_udp_seq c \<and> nc_has_disc_cb c' = nc_has_disc_cb c"

lemma unreceived_auth [simp]: "unreceived c (on_auth_response J b c)"
  by (simp add: on_auth_response_def conn_cb_def unreceived_def split: option.split bool.split)

lemma net_onPacket_unreceived: "postE (unreceived c) (net_onPacket J d c)"
proof -
  obtain hdr where "client_parseHeader d = Inl (Uncaught ''too short'') \<or> client_parseHeader d = Inr hdr"
    by (metis client_parseHeader_def)
  moreover obtain f body where "packet_body d (hdr_payload_len hdr) = Inl f
      \<or> packet_body d (hdr_payload_len hdr) = Inr body"
    by (metis obj_sumE)
  moreover have "unreceived c c" "unreceived c c' \<Longrightarrow> unreceived c (c'\<lparr>nc_server_info := i\<rparr>)"
    "unreceived c c' \<Longrightarrow> unreceived c (c'\<lparr>nc_calls := l\<rparr>)" for c' i l
    by (simp_all add: unreceived_def)
  ultimately show ?thesis by (auto simp: net_onPacket_def Let_def)
qed

text \<open>
  Any host can redirect the client's vehicle updates: a datagram of any size from any address
  becomes the endpoint the next update is sent to, because \<open>udpRecv\<close> receives the sender's address
  into \<open>m_udp_ep\<close>.
\<close>

theorem datagram_redirects_updates:
  assumes "net_on_datagram J from d c = Inr c'"
  shows "nc_udp_out (net_sendVehicleUpdate vs c') = nc_udp_out c
    @ [(from, buildVehicleUpdate (nc_player_id c') (nc_udp_seq c + 1) vs)]"
proof -
  have "nc_udp_out c' = nc_udp_out c \<and> nc_udp_ep c' = from \<and> nc_udp_seq c' = nc_udp_seq c"
    using assms net_onPacket_unreceived [of "c\<lparr>nc_udp_ep := from\<rparr>" J d]
    by (auto simp: net_on_datagram_def unreceived_def Let_def split: if_splits)
  then show ?thesis
    by (simp add: net_sendVehicleUpdate_def net_sendUDP_def client_buildVehicleUpdate_eq Let_def)
qed

theorem datagram_redirects_updates_witness:
  "\<exists>c'. net_on_datagram no_json \<lparr>ep_ip = ''203.0.113.66'', ep_port = 9\<rparr> [] demo_client = Inr c'
    \<and> map fst (nc_udp_out (net_sendVehicleUpdate zero_state c')) = [\<lparr>ep_ip = ''203.0.113.66'', ep_port = 9\<rparr>]"
proof -
  have d: "net_on_datagram no_json \<lparr>ep_ip = ''203.0.113.66'', ep_port = 9\<rparr> [] demo_client
      = Inr (demo_client\<lparr>nc_udp_ep := \<lparr>ep_ip = ''203.0.113.66'', ep_port = 9\<rparr>\<rparr>)"
    by (simp add: net_on_datagram_def)
  show ?thesis using datagram_redirects_updates [OF d] d by (simp add: demo_client_def)
qed

end
