(* ===== verification/Beammp_Protocol.thy ===== *)
theory Beammp_Protocol
  imports Stream_Framing Nova_Text
begin

text \<open>
  The wire format of the BeamMP compatibility layer (\<^verbatim>\<open>client/src/compat/beammp_protocol.hpp\<close> and
  \<^verbatim>\<open>.cpp\<close>): frames of a code, a 24-bit length and data, and the text form of vehicle transforms. How
  the C library prints and reads floating-point numbers is a parameter (\<open>float_text\<close>).
\<close>

section \<open>Codes\<close>

datatype Code = CODE_AUTH_PLAYER | CODE_AUTH_KICK | CODE_CHAT | CODE_DISCONNECT | CODE_MAP | CODE_OK
  | CODE_PING | CODE_PONG | CODE_READY | CODE_SYNC | CODE_VEHICLE_SPAWN | CODE_VEHICLE_DEL
  | CODE_VEHICLE_RESET | CODE_ELECTRICS | CODE_NODE_MOVED | CODE_SPLIT | CODE_SPLIT_FINISH
  | CODE_SERVER_INFO | CODE_WAIT

fun code_char :: "Code \<Rightarrow> char" where
  "code_char CODE_AUTH_PLAYER = CHR ''P''" | "code_char CODE_AUTH_KICK = CHR ''K''"
| "code_char CODE_CHAT = CHR ''C''" | "code_char CODE_DISCONNECT = CHR ''D''"
| "code_char CODE_MAP = CHR ''M''" | "code_char CODE_OK = CHR ''O''"
| "code_char CODE_PING = CHR ''p''" | "code_char CODE_PONG = CHR ''q''"
| "code_char CODE_READY = CHR ''R''" | "code_char CODE_SYNC = CHR ''T''"
| "code_char CODE_VEHICLE_SPAWN = CHR ''V''" | "code_char CODE_VEHICLE_DEL = CHR ''X''"
| "code_char CODE_VEHICLE_RESET = CHR ''Z''" | "code_char CODE_ELECTRICS = CHR ''E''"
| "code_char CODE_NODE_MOVED = CHR ''N''" | "code_char CODE_SPLIT = CHR ''S''"
| "code_char CODE_SPLIT_FINISH = CHR ''F''" | "code_char CODE_SERVER_INFO = CHR ''I''"
| "code_char CODE_WAIT = CHR ''W''"

definition all_codes :: "Code list" where
  "all_codes = [CODE_AUTH_PLAYER, CODE_AUTH_KICK, CODE_CHAT, CODE_DISCONNECT, CODE_MAP, CODE_OK,
     CODE_PING, CODE_PONG, CODE_READY, CODE_SYNC, CODE_VEHICLE_SPAWN, CODE_VEHICLE_DEL,
     CODE_VEHICLE_RESET, CODE_ELECTRICS, CODE_NODE_MOVED, CODE_SPLIT, CODE_SPLIT_FINISH,
     CODE_SERVER_INFO, CODE_WAIT]"

text \<open>\<open>static_cast<Code>\<close> of a byte; \<open>None\<close> is a byte without an enumerator.\<close>

definition code_of_char :: "char \<Rightarrow> Code option" where
  "code_of_char c = find (\<lambda>k. code_char k = c) all_codes"

lemma code_of_char_code [simp]: "code_of_char (code_char k) = Some k"
  by (cases k) (simp_all add: code_of_char_def all_codes_def)

lemma code_of_char_eq_Some: "code_of_char c = Some k \<longleftrightarrow> c = code_char k"
  by (auto simp: code_of_char_def find_Some_iff dest: arg_cong [of _ _ code_of_char])
    (metis code_of_char_code code_of_char_def find_Some_iff)

section \<open>Frames\<close>

text \<open>
  Sizes are \<open>uint32_t\<close>; the frame of data of \<open>2\<^sup>3\<^sup>2 - 4\<close> bytes or more, whose buffer size wraps, is not
  modelled.
\<close>

definition buildPacket :: "char \<Rightarrow> string \<Rightarrow> bytes" where
  "buildPacket code data = (let sz = word_of_nat (length data) :: u32 in
     [word_of_nat (of_char code), ucast sz, ucast (drop_bit 8 sz), ucast (drop_bit 16 sz)]
     @ take (unat sz) (bytes_of_string data))"

text \<open>The overload for a vector of bytes goes through a string.\<close>

definition buildPacket_bytes :: "char \<Rightarrow> bytes \<Rightarrow> bytes" where
  "buildPacket_bytes code data = buildPacket code (string_of_bytes data)"

lemma buildPacket_overloads: "buildPacket_bytes code (bytes_of_string data) = buildPacket code data"
  by (simp add: buildPacket_bytes_def)

definition parseFrameSize :: "bytes \<Rightarrow> u32" where
  "parseFrameSize buf = (if length buf < 4 then 0
     else ucast (buf ! 1) OR push_bit 8 (ucast (buf ! 2)) OR push_bit 16 (ucast (buf ! 3)))"

lemma frame_size_mask:
  "(ucast (ucast sz :: u8) :: u32) OR push_bit 8 (ucast (ucast (drop_bit 8 sz) :: u8))
     OR push_bit 16 (ucast (ucast (drop_bit 16 sz) :: u8)) = take_bit 24 (sz :: u32)"
proof (rule bit_word_eqI)
  fix n
  assume "n < LENGTH(32)"
  then have "n < 8 \<or> 8 \<le> n \<and> n < 16 \<or> 16 \<le> n \<and> n < 24 \<or> 24 \<le> n \<and> n < 32" by auto
  then show "bit ((ucast (ucast sz :: u8) :: u32) OR push_bit 8 (ucast (ucast (drop_bit 8 sz) :: u8))
     OR push_bit 16 (ucast (ucast (drop_bit 16 sz) :: u8))) n = bit (take_bit 24 sz) n"
    by (auto simp: bit_simps)
qed

lemma unat_frame_size:
  "unat (take_bit 24 (word_of_nat k :: u32)) = k mod 2 ^ 24"
  by (simp only: unsigned_take_bit_eq unsigned_of_nat take_bit_take_bit) (simp add: take_bit_eq_mod mod_mod_cancel)

lemma parseFrameSize_buildPacket:
  "unat (parseFrameSize (buildPacket c d @ rest)) = length d mod 2 ^ 24"
  unfolding parseFrameSize_def buildPacket_def Let_def
  by (simp add: frame_size_mask unat_frame_size)

text \<open>One turn of \<open>readLoop\<close>, up to the split handling: the header and the payload.\<close>

definition read_beam :: "bytes \<Rightarrow> (char \<times> string) dec_step" where
  "read_beam b =
     (if length b < 4 then NeedMore
      else let size = (ucast (b ! 1) :: u32) OR push_bit 8 (ucast (b ! 2)) OR push_bit 16 (ucast (b ! 3)) in
        if unat size > 50 * 1024 * 1024 then BadFrame
        else if length (drop 4 b) < unat size then NeedMore
        else Got (char_of (unat (b ! 0)), string_of_bytes (take (unat size) (drop 4 b)))
               (drop (unat size) (drop 4 b)))"

lemma unat_24_bits: "unat ((ucast (x :: u8) :: u32) OR push_bit 8 (ucast (y :: u8)) OR push_bit 16 (ucast (z :: u8)))
    < 2 ^ 24"
proof -
  have "take_bit 24 ((ucast x :: u32) OR push_bit 8 (ucast y) OR push_bit 16 (ucast z))
      = (ucast x :: u32) OR push_bit 8 (ucast y) OR push_bit 16 (ucast z)"
  proof (rule bit_word_eqI)
    fix n
    assume "n < LENGTH(32)"
    show "bit (take_bit 24 ((ucast x :: u32) OR push_bit 8 (ucast y) OR push_bit 16 (ucast z))) n
      = bit ((ucast x :: u32) OR push_bit 8 (ucast y) OR push_bit 16 (ucast z)) n"
    proof (cases "n < 24")
      case False
      then have "\<not> bit x n" "\<not> bit y (n - 8)" "\<not> bit z (n - 16)"
        by (auto dest!: bit_imp_le_length)
      with False show ?thesis by (simp add: bit_simps)
    qed (simp add: bit_simps)
  qed
  from arg_cong [OF this, of unat] show ?thesis
    using take_bit_nat_less_exp [of 24 "unat ((ucast x :: u32) OR push_bit 8 (ucast y) OR push_bit 16 (ucast z))"]
    by (simp only: unsigned_take_bit_eq)
qed

text \<open>The guard against frames of more than 50 MB can never fire: the length has 24 bits.\<close>

lemma read_beam_not_bad: "read_beam b \<noteq> BadFrame"
proof -
  have "\<not> unat ((ucast (x :: u8) :: u32) OR push_bit 8 (ucast (y :: u8)) OR push_bit 16 (ucast (z :: u8)))
      > 50 * 1024 * 1024" for x y z
    using unat_24_bits [of x y z] by simp
  then show ?thesis by (auto simp: read_beam_def Let_def)
qed

lemma read_beam_shrinks: "read_beam b = Got p r \<Longrightarrow> length r < length b"
  by (auto simp: read_beam_def Let_def split: if_splits)

lemma read_beam_extend:
  "read_beam b = Got p r \<Longrightarrow> read_beam (b @ x) = Got p (r @ x)"
  by (cases b) (auto simp: read_beam_def Let_def nth_append split: if_splits)

function read_beams :: "bytes \<Rightarrow> (char \<times> string) list \<times> stream_end" where
  "read_beams b = (case read_beam b of NeedMore \<Rightarrow> ([], Waiting) | BadFrame \<Rightarrow> ([], Closed)
     | Got p r \<Rightarrow> (p # fst (read_beams r), snd (read_beams r)))"
  by pat_completeness auto

termination read_beams
  by (relation "measure length") (auto dest: read_beam_shrinks)

declare read_beams.simps [simp del]

definition beam_frame :: "char \<times> string \<Rightarrow> bytes" where
  "beam_frame p = buildPacket (fst p) (snd p)"

definition beam_frame_ok :: "char \<times> string \<Rightarrow> bool" where
  "beam_frame_ok p \<longleftrightarrow> length (snd p) < 2 ^ 24"

lemma read_beam_frame: "beam_frame_ok p \<Longrightarrow> read_beam (beam_frame p @ b) = Got p b"
proof -
  assume p: "beam_frame_ok p"
  obtain c d where pd: "p = (c, d)" by (cases p)
  have l: "length d < 2 ^ 24" using p by (simp add: beam_frame_ok_def pd)
  then have "unat (word_of_nat (length d) :: u32) = length d" by (simp add: unat_of_nat)
  moreover have "unat (take_bit 24 (word_of_nat (length d) :: u32)) = length d"
    using l by (simp only: unat_frame_size mod_less)
  ultimately show ?thesis using l
    by (simp add: read_beam_def beam_frame_def buildPacket_def pd Let_def frame_size_mask)
qed

interpretation beam: stream_framing beam_frame read_beam read_beams beam_frame_ok
proof (unfold_locales, goal_cases)
  case (1 p b)
  then show ?case by (rule read_beam_frame)
next
  case (2 b p r x)
  then show ?case by (rule read_beam_extend)
next
  case (3 b x)
  then show ?case by (simp add: read_beam_not_bad)
next
  case (4 b p r)
  then show ?case by (rule read_beam_shrinks)
next
  case (5 b)
  then show ?case by (rule read_beams.simps)
qed

section \<open>Transforms\<close>

text \<open>Three and four floats.\<close>

type_synonym f3 = "f32 \<times> f32 \<times> f32"
type_synonym f4 = "f32 \<times> f32 \<times> f32 \<times> f32"

record BeamMPTransform =
  bt_player_id :: u16
  bt_vehicle_id :: u8
  bt_pos :: f3
  bt_rot :: f4
  bt_vel :: f3
  bt_ang_vel :: f3
  bt_timestamp :: "64 word"

text \<open>\<open>std::stof\<close>, \<open>std::stod\<close> (\<open>None\<close> is an exception) and the conversion \<open>%.6f\<close> of \<open>snprintf\<close>.\<close>

record float_text =
  stof :: "string \<Rightarrow> f32 option"
  stod :: "string \<Rightarrow> 64 word option"
  fmt6 :: "f32 \<Rightarrow> string"

definition stof3 :: "float_text \<Rightarrow> string \<Rightarrow> string \<Rightarrow> string \<Rightarrow> f3 option" where
  "stof3 F a b c = (case (stof F a, stof F b, stof F c) of
     (Some x, Some y, Some z) \<Rightarrow> Some (x, y, z) | _ \<Rightarrow> None)"

definition stof4 :: "float_text \<Rightarrow> string \<Rightarrow> string \<Rightarrow> string \<Rightarrow> string \<Rightarrow> f4 option" where
  "stof4 F a b c d = (case (stof3 F a b c, stof F d) of
     (Some (x, y, z), Some w) \<Rightarrow> Some (x, y, z, w) | _ \<Rightarrow> None)"

text \<open>
  The result when \<open>parseTransform\<close> returns true; callers ignore \<open>out\<close> when it returns false. A member
  the text does not give keeps its default.
\<close>

definition parse_ids :: "string \<Rightarrow> (u16 \<times> u8) option" where
  "parse_ids s = (case split_at CHR ''-'' s of
     None \<Rightarrow> None
   | Some (a, b) \<Rightarrow> (case (stoi a, stoi b) of
       (Some p, Some v) \<Rightarrow> Some (word_of_int p, word_of_int v) | _ \<Rightarrow> None))"

definition parseTransform :: "float_text \<Rightarrow> string \<Rightarrow> BeamMPTransform option" where
  "parseTransform F data =
     (let parts = getline_split CHR '':'' data; at = (\<lambda>i. parts ! i) in
      if length parts < 14 then None
      else (case parse_ids (at 0) of
        None \<Rightarrow> None
      | Some (pid, vid) \<Rightarrow>
        (case (stof3 F (at 1) (at 2) (at 3), stof4 F (at 4) (at 5) (at 6) (at 7),
            stof3 F (at 8) (at 9) (at 10), stof3 F (at 11) (at 12) (at 13),
            if length parts > 14 then stod F (at 14) else Some 0) of
          (Some p, Some r, Some v, Some w, Some ts) \<Rightarrow>
            Some \<lparr>bt_player_id = pid, bt_vehicle_id = vid, bt_pos = p, bt_rot = r, bt_vel = v,
              bt_ang_vel = w, bt_timestamp = ts\<rparr>
        | _ \<Rightarrow> None)))"

fun list3 :: "f3 \<Rightarrow> f32 list" where "list3 (x, y, z) = [x, y, z]"
fun list4 :: "f4 \<Rightarrow> f32 list" where "list4 (x, y, z, w) = [x, y, z, w]"

text \<open>\<open>snprintf\<close> into \<open>char buf[512]\<close>.\<close>

definition encodeTransform :: "float_text \<Rightarrow> u16 \<Rightarrow> u8 \<Rightarrow> f3 \<Rightarrow> f4 \<Rightarrow> f3 \<Rightarrow> f3 \<Rightarrow> string" where
  "encodeTransform F pid vid pos rot vel ang_vel = take 511
     (to_string pid @ ''-'' @ to_string vid @ '':''
      @ concat (map (\<lambda>x. fmt6 F x @ '':'') (list3 pos @ list4 rot @ list3 vel @ list3 ang_vel)) @ ''0'')"

text \<open>
  What the C library documents of \<open>%.6f\<close>, \<open>stof\<close> and \<open>stod\<close>: the text of a float is no more than 36
  characters long and has no colon, it reads back as the float rounded to six decimals (\<open>rnd\<close>), and
  \<open>0\<close> reads as zero.
\<close>

definition float_text_ok :: "float_text \<Rightarrow> (f32 \<Rightarrow> f32) \<Rightarrow> f32 set \<Rightarrow> bool" where
  "float_text_ok F rnd X \<longleftrightarrow> stod F ''0'' = Some 0 \<and> (\<forall>x \<in> X. CHR '':'' \<notin> set (fmt6 F x)
     \<and> length (fmt6 F x) \<le> 36 \<and> stof F (fmt6 F x) = Some (rnd x))"

lemma to_string_no: "c \<in> set (to_string w) \<Longrightarrow> is_digit c"
  by (simp add: to_string_def dec_nat_digits)

lemma dec_nat_length: "n < 10 ^ k \<Longrightarrow> 0 < k \<Longrightarrow> length (dec_nat n) \<le> k"
proof (induction n arbitrary: k rule: dec_nat.induct)
  case (1 n)
  show ?case
  proof (cases "n < 10")
    case True
    then show ?thesis using 1 by (subst dec_nat.simps) simp
  next
    case False
    then obtain j where k: "k = Suc (Suc j)"
      using 1(2,3) by (metis One_nat_def not0_implies_Suc less_numeral_extra(3) power_one_right)
    have "n div 10 < 10 ^ Suc j" using 1(2) k by (simp add: less_mult_imp_div_less mult.commute)
    then have "length (dec_nat (n div 10)) \<le> Suc j" using 1(1) False by blast
    then show ?thesis using False k by (subst dec_nat.simps) simp
  qed
qed

lemma parse_ids_print: "parse_ids (to_string (pid :: u16) @ CHR ''-'' # to_string (vid :: u8)) = Some (pid, vid)"
proof -
  have "unat pid < 2147483648"
    using unsigned_less [of pid, where ?'a = nat] by simp
  moreover have "unat vid < 2147483648" by (rule less_trans [OF unat_u8_less]) simp
  ultimately have "stoi (to_string pid) = Some (uint pid)" "stoi (to_string vid) = Some (uint vid)"
    using stoi_dec_nat [of "[]"] by (simp_all add: to_string_def)
  moreover have "CHR ''-'' \<notin> set (to_string pid)"
    using to_string_no [of "CHR ''-''" pid] by (auto simp: is_digit_def)
  ultimately show ?thesis by (simp add: parse_ids_def split_at_first)
qed

text \<open>The loop over the colons takes apart what a loop over the floats put together.\<close>

lemma getline_split_fields:
  "(\<forall>x \<in> set xs. CHR '':'' \<notin> set (g x)) \<Longrightarrow>
     getline_split CHR '':'' (concat (map (\<lambda>x. g x @ '':'') xs) @ r)
       = map g xs @ getline_split CHR '':'' r"
  by (induction xs) (auto simp: getline_split_Cons)

lemma length_fields:
  "(\<forall>x \<in> set xs. length (g x) \<le> n) \<Longrightarrow> length (concat (map (\<lambda>x. g x @ '':'') xs)) \<le> length xs * (n + 1)"
  by (induction xs) auto

definition map3 :: "('a \<Rightarrow> 'b) \<Rightarrow> 'a \<times> 'a \<times> 'a \<Rightarrow> 'b \<times> 'b \<times> 'b" where
  "map3 g v = (case v of (x, y, z) \<Rightarrow> (g x, g y, g z))"

definition map4 :: "('a \<Rightarrow> 'b) \<Rightarrow> 'a \<times> 'a \<times> 'a \<times> 'a \<Rightarrow> 'b \<times> 'b \<times> 'b \<times> 'b" where
  "map4 g v = (case v of (x, y, z, w) \<Rightarrow> (g x, g y, g z, g w))"

definition floats_of :: "f3 \<Rightarrow> f4 \<Rightarrow> f3 \<Rightarrow> f3 \<Rightarrow> f32 list" where
  "floats_of pos rot vel ang_vel = list3 pos @ list4 rot @ list3 vel @ list3 ang_vel"

lemma length_floats_of: "length (floats_of pos rot vel ang_vel) = 13"
  by (cases pos; cases rot; cases vel; cases ang_vel) (simp add: floats_of_def)

lemma to_string_lengths: "length (to_string (p :: u16)) \<le> 5" "length (to_string (v :: u8)) \<le> 3"
proof -
  have "unat p < 10 ^ 5" using unsigned_less [of p, where ?'a = nat] by simp
  then show "length (to_string p) \<le> 5" unfolding to_string_def by (rule dec_nat_length) simp
  have "unat v < 10 ^ 3" by (rule less_trans [OF unat_u8_less]) simp
  then show "length (to_string v) \<le> 3" unfolding to_string_def by (rule dec_nat_length) simp
qed

lemma encodeTransform_fits:
  assumes "float_text_ok F rnd (set (floats_of pos rot vel ang_vel))"
  shows "encodeTransform F pid vid pos rot vel ang_vel = (to_string pid @ ''-'' @ to_string vid) @ CHR '':''
    # concat (map (\<lambda>x. fmt6 F x @ '':'') (floats_of pos rot vel ang_vel)) @ ''0''"
proof -
  have "\<forall>x \<in> set (floats_of pos rot vel ang_vel). length (fmt6 F x) \<le> 36"
    using assms by (simp add: float_text_ok_def)
  from length_fields [OF this]
  have "length (concat (map (\<lambda>x. fmt6 F x @ '':'') (floats_of pos rot vel ang_vel))) \<le> 481"
    by (simp only: length_floats_of) simp
  then show ?thesis
    using to_string_lengths(1) [of pid] to_string_lengths(2) [of vid]
    by (simp add: encodeTransform_def floats_of_def)
qed

text \<open>
  Transforms survive the text form: what \<open>encodeTransform\<close> prints, \<open>parseTransform\<close> reads back as
  the same player, the same vehicle and the same position, rotation and velocities rounded to six
  decimals, with time stamp zero. The assumption on the C library holds up to floats of 36 characters;
  thirteen of these still fit into the 512-byte buffer.
\<close>

theorem transform_roundtrip:
  assumes "float_text_ok F rnd (set (floats_of pos rot vel ang_vel))"
  shows "parseTransform F (encodeTransform F pid vid pos rot vel ang_vel) = Some
    \<lparr>bt_player_id = pid, bt_vehicle_id = vid, bt_pos = map3 rnd pos, bt_rot = map4 rnd rot,
     bt_vel = map3 rnd vel, bt_ang_vel = map3 rnd ang_vel, bt_timestamp = 0\<rparr>"
proof -
  obtain p1 p2 p3 r1 r2 r3 r4 v1 v2 v3 a1 a2 a3 where v: "pos = (p1, p2, p3)" "rot = (r1, r2, r3, r4)"
      "vel = (v1, v2, v3)" "ang_vel = (a1, a2, a3)"
    by (cases pos; cases rot; cases vel; cases ang_vel) auto
  let ?xs = "floats_of pos rot vel ang_vel"
  have n1: "CHR '':'' \<notin> set (to_string pid @ ''-'' @ to_string vid)"
    using to_string_no [of "CHR '':''" pid] to_string_no [of "CHR '':''" vid] by (auto simp: is_digit_def)
  have n2: "\<forall>x \<in> set ?xs. CHR '':'' \<notin> set (fmt6 F x)"
    using assms by (simp add: float_text_ok_def)
  have "getline_split CHR '':'' (encodeTransform F pid vid pos rot vel ang_vel)
      = (to_string pid @ ''-'' @ to_string vid) # map (fmt6 F) ?xs @ [''0'']"
    unfolding encodeTransform_fits [OF assms]
    by (simp only: getline_split_Cons [OF n1] getline_split_fields [OF n2]) (simp add: getline_split_last)
  then show ?thesis
    using assms parse_ids_print [of pid vid]
    by (simp add: parseTransform_def v floats_of_def float_text_ok_def stof3_def stof4_def
        map3_def map4_def)
qed

text \<open>A library that prints every float as \<open>1.000000\<close>.\<close>

definition demo_floats :: float_text where
  "demo_floats = \<lparr>stof = (\<lambda>s. if s = ''1.000000'' then Some 0x3F800000 else None),
     stod = (\<lambda>s. if s = ''0'' then Some 0 else None), fmt6 = (\<lambda>_. ''1.000000'')\<rparr>"

theorem transform_roundtrip_witness:
  "parseTransform demo_floats (encodeTransform demo_floats 12 3 (1, 2, 3) (0, 0, 0, 1) (4, 5, 6) (7, 8, 9))
     = Some \<lparr>bt_player_id = 12, bt_vehicle_id = 3, bt_pos = (0x3F800000, 0x3F800000, 0x3F800000),
         bt_rot = (0x3F800000, 0x3F800000, 0x3F800000, 0x3F800000),
         bt_vel = (0x3F800000, 0x3F800000, 0x3F800000),
         bt_ang_vel = (0x3F800000, 0x3F800000, 0x3F800000), bt_timestamp = 0\<rparr>"
  using transform_roundtrip [of demo_floats "\<lambda>_. 0x3F800000"]
  by (simp add: float_text_ok_def demo_floats_def map3_def map4_def)

section \<open>Frames survive the wire\<close>

text \<open>
  C28. Frames of less than 16 MiB survive the wire: the read loop delivers the codes and the data of any
  sequence of them, completely and in order. At 16 MiB the 24-bit length field is too small: the
  length on the wire is the true one modulo \<open>2^24\<close>, and the guard of the read loop against frames of
  more than 50 MB can never fire.
\<close>

theorem beam_stream_roundtrip:
  assumes "\<forall>p \<in> set ps. length (snd p) < 2 ^ 24"
  shows "read_beams (concat (map (\<lambda>(c, d). buildPacket c d) ps)) = (ps, Waiting)
    \<and> unat (parseFrameSize (buildPacket c d)) = length d mod 2 ^ 24
    \<and> read_beam b \<noteq> BadFrame"
proof -
  have "\<forall>p \<in> set ps. beam_frame_ok p" using assms by (simp add: beam_frame_ok_def)
  moreover have "(\<lambda>(c, d). buildPacket c d) = beam_frame" by (auto simp: beam_frame_def)
  ultimately have "read_beams (concat (map (\<lambda>(c, d). buildPacket c d) ps)) = (ps, Waiting)"
    using beam.run_encoded [of ps "[]"] by (simp add: read_beams.simps [of "[]"] read_beam_def)
  then show ?thesis
    using parseFrameSize_buildPacket [of c d "[]"] by (simp add: read_beam_not_bad)
qed

theorem beam_stream_roundtrip_witness:
  "read_beams (buildPacket CHR ''C'' ''hello'' @ buildPacket CHR ''p'' []) = ([(CHR ''C'', ''hello''), (CHR ''p'', [])], Waiting)"
  using beam_stream_roundtrip [of "[(CHR ''C'', ''hello''), (CHR ''p'', [])]"] by simp

end
