(* ===== verification/Beammp_Client.thy ===== *)
theory Beammp_Client
  imports Beammp_Protocol Server_State
begin

text \<open>
  Class \<open>BeamMPClient\<close> of \<^verbatim>\<open>client/src/compat/beammp_client.cpp\<close>: connecting, the read loop with the
  reassembly of split packets, the packet handler and the callbacks it makes. The bytes a server sends
  until it closes the connection are the argument of the read loop. \<open>httpGet\<close> and the server list are in
  \<open>Server_Browser\<close>.
\<close>

section \<open>State\<close>

datatype beam_call = BConnect bool string | BDisconnect string | BChat string
  | BVehicle BeamMPTransform | BSpawn u16 u8 string | BDelete u16 u8

text \<open>Which callbacks are set.\<close>

record beam_callbacks =
  on_connect :: bool
  on_disconnect :: bool
  on_chat :: bool
  on_vehicle :: bool
  on_spawn :: bool
  on_delete :: bool

text \<open>
  \<open>bc_write_error n\<close> tells whether write number \<open>n\<close> of the connection fails; \<open>bc_threads\<close> is the number
  of joinable threads in \<open>m_threads\<close>.
\<close>

record beam_client =
  bc_cbs :: beam_callbacks
  bc_connected :: bool
  bc_player_id :: u16
  bc_map_name :: string
  bc_private_key :: string
  bc_split_buf :: string
  bc_in_split :: bool
  bc_writes :: nat
  bc_write_error :: "nat \<Rightarrow> bool"
  bc_sent :: "bytes list"
  bc_threads :: nat
  bc_calls :: "beam_call list"

text \<open>The JSON library: parsing, and whether the four \<open>value\<close> calls of the log line succeed.\<close>

record beam_env =
  be_floats :: float_text
  be_parse :: "string \<Rightarrow> json option"
  be_info_ok :: "json \<Rightarrow> bool"

definition beam_callback :: "(beam_callbacks \<Rightarrow> bool) \<Rightarrow> beam_call \<Rightarrow> beam_client \<Rightarrow> beam_client" where
  "beam_callback sel call c = (if sel (bc_cbs c) then c\<lparr>bc_calls := bc_calls c @ [call]\<rparr> else c)"

section \<open>Operations\<close>

definition beam_send :: "Code \<Rightarrow> string \<Rightarrow> beam_client \<Rightarrow> beam_client" where
  "beam_send code data c =
     (if \<not> bc_connected c then c
      else let n = bc_writes c; c = c\<lparr>bc_writes := n + 1\<rparr> in
        if bc_write_error c n then c\<lparr>bc_connected := False\<rparr>
        else c\<lparr>bc_sent := bc_sent c @ [buildPacket (code_char code) data]\<rparr>)"

definition sendTransform :: "float_text \<Rightarrow> u16 \<Rightarrow> u8 \<Rightarrow> f3 \<Rightarrow> f4 \<Rightarrow> f3 \<Rightarrow> f3 \<Rightarrow> beam_client \<Rightarrow> beam_client" where
  "sendTransform F pid vid pos rot vel ang_vel =
     beam_send CODE_SYNC (encodeTransform F pid vid pos rot vel ang_vel)"

definition beam_sendChat :: "string \<Rightarrow> beam_client \<Rightarrow> beam_client" where
  "beam_sendChat msg = beam_send CODE_CHAT msg"

definition handlePacket :: "beam_env \<Rightarrow> char \<Rightarrow> string \<Rightarrow> beam_client \<Rightarrow> fault + beam_client" where
  "handlePacket B code data c = (case code_of_char code of
     Some CODE_MAP \<Rightarrow> Inr (beam_send CODE_AUTH_PLAYER (bc_private_key c) (c\<lparr>bc_map_name := data\<rparr>))
   | Some CODE_AUTH_PLAYER \<Rightarrow>
       if data \<noteq> [] \<and> is_digit (hd data)
       then (case stoi data of None \<Rightarrow> Inr c
         | Some i \<Rightarrow> Inr (beam_callback on_connect (BConnect True [])
             (beam_send CODE_READY [] (c\<lparr>bc_player_id := word_of_int i\<rparr>))))
       else Inr (beam_callback on_connect (BConnect False data) c)
   | Some CODE_AUTH_KICK \<Rightarrow>
       Inr (beam_callback on_disconnect (BDisconnect (''Kicked: '' @ data)) (c\<lparr>bc_connected := False\<rparr>))
   | Some CODE_CHAT \<Rightarrow> Inr (beam_callback on_chat (BChat data) c)
   | Some CODE_SYNC \<Rightarrow> (case parseTransform (be_floats B) data of None \<Rightarrow> Inr c
       | Some t \<Rightarrow> Inr (beam_callback on_vehicle (BVehicle t) c))
   | Some CODE_VEHICLE_SPAWN \<Rightarrow> (case split_at CHR '':'' data of None \<Rightarrow> Inr c
       | Some (id_part, model_data) \<Rightarrow> (case parse_ids id_part of None \<Rightarrow> Inr c
         | Some (pid, vid) \<Rightarrow> Inr (beam_callback on_spawn (BSpawn pid vid model_data) c)))
   | Some CODE_VEHICLE_DEL \<Rightarrow> (case parse_ids data of None \<Rightarrow> Inr c
       | Some (pid, vid) \<Rightarrow> Inr (beam_callback on_delete (BDelete pid vid) c))
   | Some CODE_SERVER_INFO \<Rightarrow> (case be_parse B data of None \<Rightarrow> Inr c
       | Some j \<Rightarrow> if be_info_ok B j then Inr c else Inl (Uncaught ''json type_error''))
   | Some CODE_WAIT \<Rightarrow> Inr (beam_send CODE_OK [] c)
   | Some CODE_PING \<Rightarrow> Inr (beam_send CODE_PONG [] c)
   | _ \<Rightarrow> Inr c)"

text \<open>One frame in \<open>readLoop\<close>: split packets are collected, all others handled.\<close>

definition beam_on_frame :: "beam_env \<Rightarrow> char \<Rightarrow> string \<Rightarrow> beam_client \<Rightarrow> fault + beam_client" where
  "beam_on_frame B code data c =
     (if code = code_char CODE_SPLIT
      then Inr (c\<lparr>bc_in_split := True, bc_split_buf := bc_split_buf c @ data\<rparr>)
      else if code = code_char CODE_SPLIT_FINISH
      then let c = c\<lparr>bc_split_buf := bc_split_buf c @ data\<rparr> in
        bindE (if bc_split_buf c \<noteq> []
               then handlePacket B (hd (bc_split_buf c)) (tl (bc_split_buf c)) c else Inr c)
          (\<lambda>c. Inr (c\<lparr>bc_split_buf := [], bc_in_split := False\<rparr>))
      else handlePacket B code data c)"

definition beam_loop_end :: "beam_client \<Rightarrow> beam_client" where
  "beam_loop_end c = beam_callback on_disconnect (BDisconnect ''connection closed'') (c\<lparr>bc_connected := False\<rparr>)"

text \<open>\<open>readLoop\<close> on the bytes the server sends before it closes; a read error leaves the loop.\<close>

function beam_readLoop :: "beam_env \<Rightarrow> bytes \<Rightarrow> beam_client \<Rightarrow> fault + beam_client" where
  "beam_readLoop B b c =
     (if \<not> bc_connected c then Inr (beam_loop_end c)
      else (case read_beam b of
        NeedMore \<Rightarrow> Inr (beam_loop_end c)
      | BadFrame \<Rightarrow> Inr (beam_loop_end c)
      | Got (code, data) r \<Rightarrow> bindE (beam_on_frame B code data c) (beam_readLoop B r)))"
  by pat_completeness auto

termination beam_readLoop
  by (relation "measure (\<lambda>(B, b, c). length b)") (auto dest: read_beam_shrinks)

declare beam_readLoop.simps [simp del]

text \<open>
  \<open>disconnect\<close> from another thread. Joining the read loop lets it finish, with its own callback.
\<close>

definition beam_disconnect :: "beam_client \<Rightarrow> beam_client" where
  "beam_disconnect c =
     (if \<not> bc_connected c then c
      else beam_callback on_disconnect (BDisconnect ''disconnected'')
        (beam_loop_end c)\<lparr>bc_threads := 0\<rparr>)"

text \<open>\<open>connect\<close>: \<open>r\<close> is the result of resolving and connecting, \<open>Inl\<close> an exception.\<close>

definition beam_connect :: "string + unit \<Rightarrow> string \<Rightarrow> beam_client \<Rightarrow> beam_client" where
  "beam_connect r private_key c =
     (let c = (if bc_connected c then beam_disconnect c else c)
        \<lparr>bc_private_key := private_key, bc_split_buf := [], bc_in_split := False, bc_player_id := 0,
         bc_map_name := []\<rparr> in
      case r of
        Inl e \<Rightarrow> beam_callback on_connect (BConnect False e) c
      | Inr _ \<Rightarrow> c\<lparr>bc_connected := True, bc_threads := bc_threads c + 2\<rparr>)"

text \<open>The destructor: \<open>disconnect\<close>, then the vector of threads goes; a joinable one terminates.\<close>

definition beam_destroy :: "beam_client \<Rightarrow> fault + beam_client" where
  "beam_destroy c = (let c = beam_disconnect c in
     if bc_threads c > 0 then Inl (Uncaught ''std::terminate: joinable thread'') else Inr c)"

text \<open>A connected client and a library, for the witnesses.\<close>

definition demo_beam :: beam_client where
  "demo_beam = \<lparr>bc_cbs = \<lparr>on_connect = True, on_disconnect = True, on_chat = True, on_vehicle = True,
       on_spawn = True, on_delete = True\<rparr>, bc_connected = True, bc_player_id = 0, bc_map_name = [],
     bc_private_key = ''key'', bc_split_buf = [], bc_in_split = False, bc_writes = 0,
     bc_write_error = (\<lambda>_. False), bc_sent = [], bc_threads = 2, bc_calls = []\<rparr>"

definition demo_beam_env :: beam_env where
  "demo_beam_env = \<lparr>be_floats = demo_floats, be_parse = (\<lambda>_. None), be_info_ok = (\<lambda>_. True)\<rparr>"

section \<open>Handlers and the split buffer\<close>

text \<open>What the packet handler does not look at and does not change.\<close>

definition with_split :: "string \<Rightarrow> bool \<Rightarrow> beam_client \<Rightarrow> beam_client" where
  "with_split x y c = c\<lparr>bc_split_buf := x, bc_in_split := y\<rparr>"

lemma with_split_frame [simp]:
  "bc_connected (with_split x y c) = bc_connected c" "bc_cbs (with_split x y c) = bc_cbs c"
  "bc_split_buf (with_split x y c) = x" "bc_in_split (with_split x y c) = y"
  "with_split x y (with_split x' y' c) = with_split x y c"
  by (simp_all add: with_split_def)

lemma beam_callback_split: "beam_callback sel call (with_split x y c) = with_split x y (beam_callback sel call c)"
  by (simp add: beam_callback_def with_split_def)

lemma beam_send_split: "beam_send k d (with_split x y c) = with_split x y (beam_send k d c)"
  by (simp add: beam_send_def with_split_def Let_def)

definition mapE :: "('a \<Rightarrow> 'b) \<Rightarrow> fault + 'a \<Rightarrow> fault + 'b" where
  "mapE f m = bindE m (\<lambda>x. Inr (f x))"

lemma mapE_simps [simp]: "mapE f (Inr x) = Inr (f x)" "mapE f (Inl e) = Inl e"
  by (simp_all add: mapE_def)

lemma handlePacket_split:
  "handlePacket B code data (with_split x y c) = mapE (with_split x y) (handlePacket B code data c)"
proof -
  have u: "(with_split x y c)\<lparr>bc_map_name := m\<rparr> = with_split x y (c\<lparr>bc_map_name := m\<rparr>)"
    "(with_split x y c)\<lparr>bc_player_id := i\<rparr> = with_split x y (c\<lparr>bc_player_id := i\<rparr>)"
    "(with_split x y c)\<lparr>bc_connected := b\<rparr> = with_split x y (c\<lparr>bc_connected := b\<rparr>)"
    "bc_private_key (with_split x y c) = bc_private_key c" for m i b
    by (simp_all add: with_split_def)
  show ?thesis
    by (cases "code_of_char code"; (cases "the (code_of_char code)")?)
      (auto simp: handlePacket_def u beam_callback_split beam_send_split split: option.split)
qed

lemma handlePacket_keeps_split:
  assumes "handlePacket B code data c = Inr c'"
  shows "with_split (bc_split_buf c) (bc_in_split c) c' = c'"
proof -
  have "with_split (bc_split_buf c) (bc_in_split c) c = c" by (simp add: with_split_def)
  with handlePacket_split [of B code data "bc_split_buf c" "bc_in_split c" c] assms
  show ?thesis by simp
qed

section \<open>Split packets\<close>

text \<open>The frames of a packet sent in pieces: all but the last with \<open>S\<close>, the last with \<open>F\<close>.\<close>

definition split_frames :: "string list \<Rightarrow> string \<Rightarrow> bytes" where
  "split_frames ds lst = concat (map (\<lambda>d. buildPacket (code_char CODE_SPLIT) d) ds)
     @ buildPacket (code_char CODE_SPLIT_FINISH) lst"

lemma readLoop_frame:
  assumes "bc_connected c" "length d < 2 ^ 24"
  shows "beam_readLoop B (buildPacket k d @ r) c = bindE (beam_on_frame B k d c) (beam_readLoop B r)"
  using read_beam_frame [of "(k, d)" r] assms
  by (subst beam_readLoop.simps) (simp add: beam_frame_ok_def beam_frame_def)

lemma readLoop_collects:
  assumes "\<forall>d \<in> set ds. length d < 2 ^ 24" "bc_connected c"
  shows "beam_readLoop B (concat (map (\<lambda>d. buildPacket (code_char CODE_SPLIT) d) ds) @ r) c
    = beam_readLoop B r (with_split (bc_split_buf c @ concat ds) (bc_in_split c \<or> ds \<noteq> []) c)"
  using assms
proof (induction ds arbitrary: c)
  case (Cons d ds)
  have "beam_on_frame B (code_char CODE_SPLIT) d c = Inr (with_split (bc_split_buf c @ d) True c)"
    by (simp add: beam_on_frame_def with_split_def)
  with Cons.IH [of "with_split (bc_split_buf c @ d) True c"] Cons.prems show ?case
    by (simp add: readLoop_frame)
qed (simp add: with_split_def)

text \<open>
  C24. Splitting is transparent: a packet (of any length) that a server sends in pieces of less than
  16 MiB is handled exactly like the same packet sent in one frame, whatever follows it on the
  stream, and the buffer is empty again afterwards.
\<close>

theorem split_is_transparent:
  assumes "bc_connected c" and "bc_split_buf c = []" and "\<not> bc_in_split c"
    and "\<forall>d \<in> set ds. length d < 2 ^ 24" and "length lst < 2 ^ 24"
    and "concat ds @ lst = code # data" and "length data < 2 ^ 24"
    and "code \<noteq> code_char CODE_SPLIT" and "code \<noteq> code_char CODE_SPLIT_FINISH"
  shows "beam_readLoop B (split_frames ds lst @ rest) c = beam_readLoop B (buildPacket code data @ rest) c"
proof -
  let ?c = "with_split (concat ds) (ds \<noteq> []) c"
  have c: "with_split [] False c = c" using assms(2,3) by (simp add: with_split_def)
  have swap: "c\<lparr>bc_in_split := y, bc_split_buf := x\<rparr> = c\<lparr>bc_split_buf := x, bc_in_split := y\<rparr>" for x y
    by simp
  have "beam_on_frame B (code_char CODE_SPLIT_FINISH) lst ?c
      = bindE (handlePacket B code data (with_split (code # data) (ds \<noteq> []) c))
          (\<lambda>c. Inr (with_split [] False c))"
    using assms(6) by (simp add: beam_on_frame_def with_split_def swap)
  also have "\<dots> = mapE (with_split [] False) (handlePacket B code data c)"
    by (simp only: handlePacket_split) (cases "handlePacket B code data c"; simp)
  also have "\<dots> = handlePacket B code data c"
    using handlePacket_split [of B code data "[]" False c] by (simp add: c)
  finally have "beam_on_frame B (code_char CODE_SPLIT_FINISH) lst ?c = beam_on_frame B code data c"
    using assms(8,9) by (simp add: beam_on_frame_def)
  then show ?thesis using assms
    by (simp add: split_frames_def readLoop_collects readLoop_frame del: code_char.simps)
qed

theorem split_is_transparent_witness:
  "beam_readLoop demo_beam_env (split_frames [''Che'', ''ll''] ''o'' @ []) demo_beam
   = beam_readLoop demo_beam_env (buildPacket CHR ''C'' ''hello'' @ []) demo_beam"
  by (rule split_is_transparent) (simp_all add: demo_beam_def)

section \<open>Kicks, ends and destruction\<close>


definition same_object :: "beam_client \<Rightarrow> beam_client \<Rightarrow> bool" where
  "same_object c c' \<longleftrightarrow> bc_cbs c' = bc_cbs c \<and> bc_threads c' = bc_threads c"

lemma same_object_rules [simp]:
  "same_object c (beam_send k d c') = same_object c c'" "same_object c (beam_callback sel call c') = same_object c c'"
  "same_object c (c'\<lparr>bc_map_name := m\<rparr>) = same_object c c'" "same_object c (c'\<lparr>bc_player_id := i\<rparr>) = same_object c c'"
  "same_object c (c'\<lparr>bc_connected := b\<rparr>) = same_object c c'" "same_object c (c'\<lparr>bc_split_buf := x\<rparr>) = same_object c c'"
  "same_object c (c'\<lparr>bc_in_split := y\<rparr>) = same_object c c'" "same_object c c"
  "same_object (c\<lparr>bc_split_buf := x\<rparr>) c' = same_object c c'"
  by (auto simp: same_object_def beam_send_def beam_callback_def Let_def)








text \<open>
  A kick is reported twice and the client object cannot be destroyed after it: the disconnect
  callback runs for the kick and again for the end of the loop, and since \<open>m_connected\<close> is already
  false, \<open>disconnect\<close> never joins the two threads, so that the destructor terminates the process.
\<close>

theorem kick_reports_twice_and_leaks_threads:
  assumes "bc_connected c" and "on_disconnect (bc_cbs c)" and "length reason < 2 ^ 24"
    and "0 < bc_threads c"
  shows "\<exists>c'. beam_readLoop B (buildPacket (code_char CODE_AUTH_KICK) reason @ rest) c = Inr c'
    \<and> bc_calls c' = bc_calls c @ [BDisconnect (''Kicked: '' @ reason), BDisconnect ''connection closed'']
    \<and> beam_destroy c' = Inl (Uncaught ''std::terminate: joinable thread'')"
proof -
  let ?k = "beam_callback on_disconnect (BDisconnect (''Kicked: '' @ reason)) (c\<lparr>bc_connected := False\<rparr>)"
  have "beam_on_frame B (code_char CODE_AUTH_KICK) reason c = Inr ?k"
    using code_of_char_code [of CODE_AUTH_KICK] by (simp add: beam_on_frame_def handlePacket_def)
  moreover have "beam_readLoop B rest ?k = Inr (beam_loop_end ?k)"
    by (subst beam_readLoop.simps) (simp add: beam_callback_def)
  ultimately show ?thesis using assms
    by (simp add: readLoop_frame beam_callback_def beam_loop_end_def beam_destroy_def
        beam_disconnect_def)
qed

theorem kick_reports_twice_and_leaks_threads_witness:
  "\<exists>c'. beam_readLoop demo_beam_env (buildPacket CHR ''K'' ''bye'' @ []) demo_beam = Inr c'
    \<and> bc_calls c' = [BDisconnect ''Kicked: bye'', BDisconnect ''connection closed'']
    \<and> beam_destroy c' = Inl (Uncaught ''std::terminate: joinable thread'')"
  using kick_reports_twice_and_leaks_threads [of demo_beam "''bye''" demo_beam_env "[]"]
  by (simp add: demo_beam_def)

section \<open>Handshake\<close>

text \<open>
  The handshake: to the name of the map the client answers with its private key, to a player id with
  \<open>READY\<close>, and then it is in the game under that id, with one success callback.
\<close>

theorem handshake:
  assumes "bc_connected c" and "on_connect (bc_cbs c)" and "\<forall>n. \<not> bc_write_error c n"
    and "length m < 2 ^ 24"
  shows "beam_readLoop B (buildPacket (code_char CODE_MAP) m
        @ buildPacket (code_char CODE_AUTH_PLAYER) (to_string (pid :: u16)) @ rest) c
    = beam_readLoop B rest (c\<lparr>bc_map_name := m, bc_player_id := pid, bc_writes := bc_writes c + 2,
        bc_sent := bc_sent c @ [buildPacket (code_char CODE_AUTH_PLAYER) (bc_private_key c),
          buildPacket (code_char CODE_READY) []],
        bc_calls := bc_calls c @ [BConnect True []]\<rparr>)"
proof -
  let ?m = "beam_send CODE_AUTH_PLAYER (bc_private_key c) (c\<lparr>bc_map_name := m\<rparr>)"
  have m: "beam_on_frame B (code_char CODE_MAP) m c = Inr ?m" "bc_connected ?m"
    using assms(1,3) code_of_char_code [of CODE_MAP]
    by (simp_all add: beam_on_frame_def handlePacket_def beam_send_def)
  have d: "to_string pid \<noteq> []" "is_digit (hd (to_string pid))"
    using to_string_no [of "hd (to_string pid)" pid] by (simp_all add: to_string_def)
  have "unat pid < 2147483648" using unsigned_less [of pid, where ?'a = nat] by simp
  then have s: "stoi (to_string pid) = Some (uint pid)"
    using stoi_dec_nat [of "[]" "unat pid"] by (simp add: to_string_def)
  have l: "length (to_string pid) < 2 ^ 24" using to_string_lengths(1) [of pid] by simp
  have "beam_on_frame B (code_char CODE_AUTH_PLAYER) (to_string pid) ?m
      = Inr (beam_callback on_connect (BConnect True []) (beam_send CODE_READY [] (?m\<lparr>bc_player_id := pid\<rparr>)))"
    using d s code_of_char_code [of CODE_AUTH_PLAYER] by (simp add: beam_on_frame_def handlePacket_def)
  then show ?thesis
    using assms m l
    by (simp add: readLoop_frame) (simp add: beam_send_def beam_callback_def Let_def)
qed

theorem handshake_witness:
  "\<exists>c'. beam_readLoop demo_beam_env (buildPacket CHR ''M'' ''/levels/utah/'' @ buildPacket CHR ''P'' (to_string (7 :: u16)) @ [])
      demo_beam = beam_readLoop demo_beam_env [] c' \<and> bc_player_id c' = 7
    \<and> bc_sent c' = [buildPacket CHR ''P'' ''key'', buildPacket CHR ''R'' []]"
proof -
  have "bc_connected demo_beam" "on_connect (bc_cbs demo_beam)" "\<forall>n. \<not> bc_write_error demo_beam n"
    by (simp_all add: demo_beam_def)
  note h = handshake [OF this, of "''/levels/utah/''" demo_beam_env 7 "[]"]
  let ?c = "demo_beam\<lparr>bc_map_name := ''/levels/utah/'', bc_player_id := 7, bc_writes := bc_writes demo_beam + 2,
    bc_sent := bc_sent demo_beam @ [buildPacket CHR ''P'' (bc_private_key demo_beam), buildPacket CHR ''R'' []],
    bc_calls := bc_calls demo_beam @ [BConnect True []]\<rparr>"
  have "beam_readLoop demo_beam_env (buildPacket CHR ''M'' ''/levels/utah/''
      @ buildPacket CHR ''P'' (to_string (7 :: u16)) @ []) demo_beam = beam_readLoop demo_beam_env [] ?c"
    using h by simp
  moreover have "bc_player_id ?c = 7"
    "bc_sent ?c = [buildPacket CHR ''P'' ''key'', buildPacket CHR ''R'' []]"
    by (simp_all add: demo_beam_def)
  ultimately show ?thesis by blast
qed

end
