(* ===== verification/Http.thy ===== *)
theory Http
  imports Nova_Exec Nova_Text
begin

text \<open>
  The four small HTTP functions of the client: \<open>NovaAuth::httpPost\<close>, \<open>BeamMPAuth::httpPost\<close>,
  \<open>BeamMPClient::httpGet\<close> and \<open>http_get\<close> of the server browser. Each takes a URL apart, sends a request
  over one connection, reads until the peer closes and cuts the headers off. The connection is a
  parameter (\<open>network\<close>); \<open>None\<close> is the exception of a call that fails.
\<close>

section \<open>Searching\<close>

text \<open>\<open>s.find(pat)\<close>: the text before and behind the first occurrence.\<close>

fun find_sub :: "string \<Rightarrow> string \<Rightarrow> (string \<times> string) option" where
  "find_sub pat [] = (if pat = [] then Some ([], []) else None)"
| "find_sub pat (c # s) = (if take (length pat) (c # s) = pat
     then Some ([], drop (length pat) (c # s))
     else map_option (\<lambda>(a, b). (c # a, b)) (find_sub pat s))"

text \<open>\<open>s.rfind(c)\<close>: the text before and behind the last occurrence of a character.\<close>

definition rsplit_at :: "char \<Rightarrow> string \<Rightarrow> (string \<times> string) option" where
  "rsplit_at c s = map_option (\<lambda>(a, b). (rev b, rev a)) (split_at c (rev s))"

lemma rsplit_at_last: "c \<notin> set b \<Longrightarrow> rsplit_at c (a @ c # b) = Some (a, b)"
  by (simp add: rsplit_at_def split_at_first)

lemma rsplit_at_none: "c \<notin> set s \<Longrightarrow> rsplit_at c s = None"
  by (simp add: rsplit_at_def split_at_def)

lemma split_at_none: "c \<notin> set s \<Longrightarrow> split_at c s = None"
  by (simp add: split_at_def)

lemma find_sub_skip:
  "p \<notin> set w \<Longrightarrow> find_sub (p # ps) (w @ s)
     = map_option (\<lambda>(a, b). (w @ a, b)) (find_sub (p # ps) s)"
  by (induction w; cases "find_sub (p # ps) s") auto

lemma find_sub_here: "find_sub (p # ps) (p # ps @ s) = Some ([], s)"
  by simp

section \<open>URLs\<close>

definition scheme_sep :: string where "scheme_sep = ''://''"

text \<open>The lines that take a URL apart, common to all four functions: what is left of the scheme, the
  host and the path.\<close>

definition after_scheme :: "string \<Rightarrow> string" where
  "after_scheme url = (case find_sub scheme_sep url of Some (_, rest) \<Rightarrow> rest | None \<Rightarrow> url)"

definition host_path :: "string \<Rightarrow> string \<times> string" where
  "host_path rest = (case split_at CHR ''/'' rest of
     Some (h, p) \<Rightarrow> (h, CHR ''/'' # p) | None \<Rightarrow> (rest, ''/''))"

lemma after_scheme_simp: "CHR '':'' \<notin> set sch \<Longrightarrow> after_scheme (sch @ scheme_sep @ r) = r"
  using find_sub_skip [of "CHR '':''" sch "''//''" "''://'' @ r"]
  by (simp add: after_scheme_def scheme_sep_def)

lemma host_path_simp: "CHR ''/'' \<notin> set h \<Longrightarrow> host_path (h @ CHR ''/'' # p) = (h, CHR ''/'' # p)"
  by (simp add: host_path_def split_at_first)

lemma host_path_bare: "CHR ''/'' \<notin> set h \<Longrightarrow> host_path h = (h, ''/'')"
  by (simp add: host_path_def split_at_none)

section \<open>Requests and responses\<close>

definition crlf :: string where "crlf = [CHR 0x0D, CHR 0x0A]"

definition get_request :: "string \<Rightarrow> string \<Rightarrow> string" where
  "get_request host path = ''GET '' @ path @ '' HTTP/1.0'' @ crlf @ ''Host: '' @ host @ crlf
     @ ''Connection: close'' @ crlf @ crlf"

definition post_request :: "string \<Rightarrow> string \<Rightarrow> string \<Rightarrow> string \<Rightarrow> string" where
  "post_request host path content_type body =
     ''POST '' @ path @ '' HTTP/1.0'' @ crlf @ ''Host: '' @ host @ crlf
     @ ''Content-Type: '' @ content_type @ crlf
     @ ''Content-Length: '' @ dec_nat (length body) @ crlf
     @ ''Connection: close'' @ crlf @ crlf @ body"

definition response_body :: "string \<Rightarrow> string" where
  "response_body response = (case find_sub (crlf @ crlf) response of
     Some (_, body) \<Rightarrow> body | None \<Rightarrow> response)"

text \<open>
  One exchange: whether TLS is used, the host, the port and the request; the answer is everything the
  peer sends until the connection ends.
\<close>

type_synonym network = "bool \<Rightarrow> string \<Rightarrow> string \<Rightarrow> string \<Rightarrow> string option"

definition nova_httpPost :: "network \<Rightarrow> string \<Rightarrow> string \<Rightarrow> string \<Rightarrow> string option" where
  "nova_httpPost net url body content_type =
     (let (host, path) = host_path (after_scheme url)
      in map_option response_body (net True host ''443'' (post_request host path content_type body)))"

definition beam_httpPost :: "network \<Rightarrow> string \<Rightarrow> string \<Rightarrow> string \<Rightarrow> string option" where
  "beam_httpPost net url body content_type =
     (let (host, path) = host_path (after_scheme url)
      in map_option response_body (net True host ''443'' (post_request host path content_type body)))"

text \<open>\<open>std::stoi\<close> of the port throws when there is no number, or one out of range.\<close>

definition http_get :: "network \<Rightarrow> string \<Rightarrow> string option" where
  "http_get net url =
     (let (host, path) = host_path (after_scheme url) in
      case (case rsplit_at CHR '':'' host of
          None \<Rightarrow> Some (host, 80)
        | Some (h, p) \<Rightarrow> map_option (\<lambda>n. (h, n)) (stoi p)) of
        None \<Rightarrow> None
      | Some (host, port) \<Rightarrow>
          map_option response_body (net False host (dec_int port) (get_request host path)))"

definition httpGet :: "network \<Rightarrow> string \<Rightarrow> string option" where
  "httpGet net url =
     (let scheme = (case find_sub scheme_sep url of Some (sch, _) \<Rightarrow> sch | None \<Rightarrow> ''http'');
          (host, path) = host_path (after_scheme url);
          tls = (scheme = ''https'');
          (host, port) = (case rsplit_at CHR '':'' host of
            None \<Rightarrow> (host, if tls then ''443'' else ''80'') | Some (h, p) \<Rightarrow> (h, p))
      in map_option response_body (net tls host port (get_request host path)))"

section \<open>Properties\<close>

lemma find_sub_crlf:
  "c \<noteq> CHR 0x0D \<Longrightarrow> find_sub (crlf @ crlf) (crlf @ c # s)
     = map_option (\<lambda>(a, b). (crlf @ a, b)) (find_sub (crlf @ crlf) (c # s))"
  by (cases "find_sub (crlf @ crlf) (c # s)") (auto simp: crlf_def)

lemma find_blank_line:
  assumes "lines \<noteq> []" "\<forall>l \<in> set lines. l \<noteq> [] \<and> CHR 0x0D \<notin> set l"
  shows "\<exists>h. find_sub (crlf @ crlf) (concat (map (\<lambda>l. l @ crlf) lines) @ crlf @ body) = Some (h, body)"
  using assms
proof (induction lines)
  case (Cons l ls)
  let ?rest = "concat (map (\<lambda>l. l @ crlf) ls) @ crlf @ body"
  have skip: "\<exists>h. find_sub (crlf @ crlf) (l @ s) = Some (h, body)"
    if "\<exists>h. find_sub (crlf @ crlf) s = Some (h, body)" for s
    using that Cons.prems find_sub_skip [of "CHR 0x0D" l "CHR 0x0A # crlf" s] by (auto simp: crlf_def)
  show ?case
  proof (cases ls)
    case Nil
    then show ?thesis using skip [of "crlf @ crlf @ body"] by (simp add: crlf_def)
  next
    case (Cons l' ls')
    then obtain c cs where "l' = c # cs" "c \<noteq> CHR 0x0D" using Cons.prems by (cases l') auto
    moreover obtain h where "find_sub (crlf @ crlf) ?rest = Some (h, body)"
      using Cons.IH Cons.prems \<open>ls = l' # ls'\<close> by auto
    ultimately have "\<exists>h. find_sub (crlf @ crlf) (crlf @ ?rest) = Some (h, body)"
      using \<open>ls = l' # ls'\<close> find_sub_crlf [of c "cs @ crlf @ concat (map (\<lambda>l. l @ crlf) ls') @ crlf @ body"]
      by simp
    from skip [OF this] show ?thesis by simp
  qed
qed simp

text \<open>
  Headers are cut off exactly: from a response of any number of non-empty lines without carriage
  returns, a blank line and a body, all four functions return the body, whatever it contains.
\<close>

theorem response_body_exact:
  assumes "lines \<noteq> []" "\<forall>l \<in> set lines. l \<noteq> [] \<and> CHR 0x0D \<notin> set l"
  shows "response_body (concat (map (\<lambda>l. l @ crlf) lines) @ crlf @ body) = body"
  using find_blank_line [OF assms, of body] by (auto simp: response_body_def)

theorem response_body_exact_witness:
  "response_body (concat (map (\<lambda>l. l @ crlf) [''HTTP/1.0 200 OK'', ''Server: x'']) @ crlf
     @ crlf @ crlf @ ''{}'') = crlf @ crlf @ ''{}''"
  by (rule response_body_exact) simp_all

text \<open>
  The request goes where the URL points: for \<open>scheme://host:port/path\<close> the two GET functions connect
  to that host and port and ask for that path, over TLS exactly when \<open>httpGet\<close> is given \<open>https\<close>; the
  POST functions, given \<open>scheme://host/path\<close>, always use TLS on port 443.
\<close>

theorem request_target:
  assumes "CHR '':'' \<notin> set sch" "CHR ''/'' \<notin> set h" "n < 65536"
  shows "http_get net (sch @ scheme_sep @ h @ CHR '':'' # dec_nat n @ CHR ''/'' # p)
      = map_option response_body (net False h (dec_nat n) (get_request h (CHR ''/'' # p)))
    \<and> httpGet net (sch @ scheme_sep @ h @ CHR '':'' # dec_nat n @ CHR ''/'' # p)
      = map_option response_body (net (sch = ''https'') h (dec_nat n) (get_request h (CHR ''/'' # p)))
    \<and> nova_httpPost net (sch @ scheme_sep @ h @ CHR ''/'' # p) body ct
      = map_option response_body (net True h ''443'' (post_request h (CHR ''/'' # p) ct body))
    \<and> beam_httpPost net (sch @ scheme_sep @ h @ CHR ''/'' # p) body ct
      = map_option response_body (net True h ''443'' (post_request h (CHR ''/'' # p) ct body))"
proof -
  have d: "CHR '':'' \<notin> set (dec_nat n)" "CHR ''/'' \<notin> set (dec_nat n)"
    using dec_nat_digits [of "CHR '':''" n] dec_nat_digits [of "CHR ''/''" n]
    by (auto simp: is_digit_def)
  have s: "stoi (dec_nat n) = Some (int n)" using stoi_dec_nat [of "[]" n] assms(3) by simp
  have a: "after_scheme (sch @ scheme_sep @ r) = r" for r by (rule after_scheme_simp [OF assms(1)])
  have f: "find_sub scheme_sep (sch @ scheme_sep @ r) = Some (sch, r)" for r
    using find_sub_skip [of "CHR '':''" sch "''//''" "''://'' @ r"] assms(1) by (simp add: scheme_sep_def)
  have hp: "host_path (h @ CHR '':'' # dec_nat n @ CHR ''/'' # p) = (h @ CHR '':'' # dec_nat n, CHR ''/'' # p)"
    using host_path_simp [of "h @ CHR '':'' # dec_nat n" p] assms(2) d by simp
  have rs: "rsplit_at CHR '':'' (h @ CHR '':'' # dec_nat n) = Some (h, dec_nat n)"
    by (rule rsplit_at_last [OF d(1)])
  show ?thesis
    by (simp add: http_get_def httpGet_def nova_httpPost_def beam_httpPost_def a f hp rs s
        host_path_simp [OF assms(2)] Let_def)
qed

theorem request_target_witness:
  "http_get (\<lambda>tls h p r. Some (h @ p)) (''http'' @ scheme_sep @ ''10.0.0.1'' @ CHR '':'' # dec_nat 8080
     @ CHR ''/'' # ''servers'') = Some (response_body (''10.0.0.1'' @ dec_nat 8080))"
  using request_target [of "''http''" "''10.0.0.1''" 8080 "\<lambda>tls h p r. Some (h @ p)" "''servers''"
      "[]" "[]"] by simp

end
