(* ===== verification/Accounts.thy ===== *)
theory Accounts
  imports Http Network_Client
begin

text \<open>
  The two account classes of the client: \<open>NovaAuth\<close> (\<^verbatim>\<open>client/src/auth/nova_auth.cpp\<close>) and \<open>BeamMPAuth\<close>
  (\<^verbatim>\<open>client/src/compat/beammp_auth.cpp\<close>). Both log in over HTTPS, write the token to a cache file and
  fall back on that file. What they have in common is the locale \<open>account_login\<close>, interpreted on both.

  The file system is the content of the cache file (\<open>None\<close>: no file that can be opened) and two flags;
  JSON, SHA-256 and the network are parameters; \<open>now\<close> is the clock at the call, in seconds. The
  \<open>path.parent_path()\<close> of \<open>saveCache\<close> is read as that of a \<open>std::filesystem::path\<close>. Log lines are left
  out, except for the \<open>j.value\<close> among their arguments.
\<close>

section \<open>State and environment\<close>

record account =
  acc_username :: string
  acc_token :: string
  acc_cache :: "string option"

record account_json = client_json +
  cj_dump2 :: "json \<Rightarrow> string option"
  cj_int64 :: "json \<Rightarrow> string \<Rightarrow> int \<Rightarrow> int option"

record account_env =
  ae_json :: account_json
  ae_sha256 :: "bytes \<Rightarrow> bytes"
  ae_mkdirs :: bool
  ae_can_write :: bool
  ae_can_remove :: bool

text \<open>A member function of the JSON library that throws outside every \<open>try\<close>.\<close>

definition jsonE :: "'a option \<Rightarrow> fault + 'a" where
  "jsonE r = (case r of None \<Rightarrow> Inl (Uncaught ''json type_error'') | Some x \<Rightarrow> Inr x)"

lemma jsonE_simps [simp]: "jsonE (Some x) = Inr x" "jsonE None = Inl (Uncaught ''json type_error'')"
  by (simp_all add: jsonE_def)

text \<open>\<open>now - saved_at\<close> of two \<open>int64_t\<close>.\<close>

definition sub64 :: "int \<Rightarrow> int \<Rightarrow> fault + int" where
  "sub64 x y = (if - (2 ^ 63) \<le> x - y \<and> x - y < 2 ^ 63 then Inr (x - y) else Inl SignedOverflow)"

text \<open>\<open>saveCache\<close> from the directory on: the text is written when the file can be opened.\<close>

definition write_cache :: "account_env \<Rightarrow> json \<Rightarrow> account \<Rightarrow> fault + account" where
  "write_cache A j a =
     (if \<not> ae_mkdirs A then Inl (Uncaught ''filesystem_error'')
      else if \<not> ae_can_write A then Inr a
      else bindE (jsonE (cj_dump2 (ae_json A) j)) (\<lambda>t. Inr (a\<lparr>acc_cache := Some t\<rparr>)))"

text \<open>The part of \<open>tryLiveAuth\<close> inside \<open>try\<close>, up to the parsed answer; \<open>None\<close> is \<open>return false\<close>.\<close>

definition ask :: "(string \<Rightarrow> string \<Rightarrow> string \<Rightarrow> string option) \<Rightarrow> account_json \<Rightarrow> string \<Rightarrow> json
    \<Rightarrow> json option" where
  "ask post J url body =
     (case cj_dump J body of None \<Rightarrow> None | Some b \<Rightarrow>
     (case post url b ''application/json'' of None \<Rightarrow> None | Some response \<Rightarrow>
     if response = [] then None else cj_parse J response))"

section \<open>NovaAuth\<close>

definition NOVA_CACHE_TTL :: int where "NOVA_CACHE_TTL = 30 * 24 * 3600"

definition nova_ask :: "account_env \<Rightarrow> network \<Rightarrow> string \<Rightarrow> string \<Rightarrow> json option" where
  "nova_ask A net username password =
     ask (nova_httpPost net) (ae_json A) ''https://master.novaMP.gg/auth/login''
       (JObj [(''username'', JStr username), (''password'', JStr password)])"

definition nova_doc :: "string \<Rightarrow> string \<Rightarrow> int \<Rightarrow> int \<Rightarrow> json" where
  "nova_doc username token now expires_in =
     JObj [(''username'', JStr username), (''token'', JStr token), (''saved_at'', JInt now),
       (''expires_in'', JInt expires_in)]"

definition nova_saveCache :: "account_env \<Rightarrow> int \<Rightarrow> string \<Rightarrow> string \<Rightarrow> int \<Rightarrow> account
    \<Rightarrow> fault + account" where
  "nova_saveCache A now username token expires_in a =
     write_cache A (nova_doc username token now expires_in) a"

definition nova_tryLiveAuth :: "account_env \<Rightarrow> network \<Rightarrow> int \<Rightarrow> string \<Rightarrow> string \<Rightarrow> account
    \<Rightarrow> fault + (bool \<times> account)" where
  "nova_tryLiveAuth A net now username password a = (let J = ae_json A in
     case nova_ask A net username password of
       None \<Rightarrow> Inr (False, a)
     | Some j \<Rightarrow>
       bindE (jsonE (cj_bool J j ''success'' False)) (\<lambda>success.
       if \<not> success
       then bindE (jsonE (cj_str J j ''message'' ''unknown error'')) (\<lambda>_. Inr (False, a))
       else bindE (jsonE (cj_str J j ''token'' [])) (\<lambda>token. let a = a\<lparr>acc_token := token\<rparr> in
         if token = [] then Inr (False, a)
         else bindE (jsonE (cj_int64 J j ''expires_in'' NOVA_CACHE_TTL)) (\<lambda>expires_in.
           bindE (nova_saveCache A now username token expires_in a) (\<lambda>a. Inr (True, a))))))"

definition nova_tryCache :: "account_env \<Rightarrow> int \<Rightarrow> string \<Rightarrow> account \<Rightarrow> fault + (bool \<times> account)" where
  "nova_tryCache A now username a = (let J = ae_json A in
     case acc_cache a of None \<Rightarrow> Inr (False, a) | Some content \<Rightarrow>
     (case cj_parse J content of None \<Rightarrow> Inr (False, a) | Some j \<Rightarrow>
       bindE (jsonE (cj_str J j ''username'' [])) (\<lambda>u. if u \<noteq> username then Inr (False, a) else
       bindE (jsonE (cj_int64 J j ''saved_at'' 0)) (\<lambda>saved_at.
       bindE (jsonE (cj_int64 J j ''expires_in'' NOVA_CACHE_TTL)) (\<lambda>expires_in.
       bindE (sub64 now saved_at) (\<lambda>age. if age > expires_in then Inr (False, a) else
       bindE (jsonE (cj_str J j ''token'' [])) (\<lambda>token.
         Inr (token \<noteq> [], a\<lparr>acc_token := token\<rparr>))))))))"

definition nova_authenticate :: "account_env \<Rightarrow> network \<Rightarrow> int \<Rightarrow> string \<Rightarrow> string \<Rightarrow> account
    \<Rightarrow> fault + (bool \<times> account)" where
  "nova_authenticate A net now username password a =
     bindE (nova_tryLiveAuth A net now username password (a\<lparr>acc_username := username, acc_token := []\<rparr>))
       (\<lambda>(ok, a). if ok then Inr (True, a)
         else bindE (nova_tryCache A now username a) (\<lambda>(ok, a). if ok then Inr (True, a) else Inr (False, a)))"

definition nova_loadCached :: "account_env \<Rightarrow> int \<Rightarrow> string \<Rightarrow> account \<Rightarrow> fault + (bool \<times> account)" where
  "nova_loadCached A now username a = nova_tryCache A now username (a\<lparr>acc_username := username\<rparr>)"

definition nova_clearCache :: "account_env \<Rightarrow> account \<Rightarrow> fault + account" where
  "nova_clearCache A a = (if acc_cache a \<noteq> None \<and> \<not> ae_can_remove A
     then Inl (Uncaught ''filesystem_error'')
     else Inr (a\<lparr>acc_cache := None, acc_token := []\<rparr>))"

definition nova_isLoggedIn :: "account \<Rightarrow> bool" where
  "nova_isLoggedIn a \<longleftrightarrow> acc_token a \<noteq> []"

lemma nova_logged_out: "nova_clearCache A a = Inr a' \<Longrightarrow> \<not> nova_isLoggedIn a' \<and> acc_cache a' = None"
  by (auto simp: nova_clearCache_def nova_isLoggedIn_def split: if_splits)

section \<open>BeamMPAuth\<close>

definition beam_isLoggedIn :: "account \<Rightarrow> bool" where
  "beam_isLoggedIn a \<longleftrightarrow> acc_token a \<noteq> []"

text \<open>\<open>std::hex << std::setw(2) << std::setfill('0')\<close> of every byte of the hash\<close>

definition hex_digit :: "nat \<Rightarrow> char" where
  "hex_digit n = (if n < 10 then char_of (48 + n) else char_of (87 + n))"

definition sha256Hex :: "account_env \<Rightarrow> string \<Rightarrow> string" where
  "sha256Hex A s = concat (map (\<lambda>b. [hex_digit (unat b div 16), hex_digit (unat b mod 16)])
     (ae_sha256 A (bytes_of_string s)))"

definition BEAM_CACHE_TTL :: int where "BEAM_CACHE_TTL = 7 * 24 * 3600"

definition beam_ask :: "account_env \<Rightarrow> network \<Rightarrow> string \<Rightarrow> string \<Rightarrow> json option" where
  "beam_ask A net username password =
     ask (beam_httpPost net) (ae_json A) ''https://auth.beammp.com/userlogin''
       (JObj [(''username'', JStr username), (''password'', JStr (sha256Hex A password))])"

definition beam_doc :: "string \<Rightarrow> string \<Rightarrow> int \<Rightarrow> json" where
  "beam_doc username key now =
     JObj [(''username'', JStr username), (''key'', JStr key), (''saved_at'', JInt now)]"

definition beam_saveCache :: "account_env \<Rightarrow> int \<Rightarrow> string \<Rightarrow> string \<Rightarrow> account \<Rightarrow> fault + account" where
  "beam_saveCache A now username key a = write_cache A (beam_doc username key now) a"

definition beam_tryLiveAuth :: "account_env \<Rightarrow> network \<Rightarrow> string \<Rightarrow> string \<Rightarrow> account
    \<Rightarrow> fault + (bool \<times> account)" where
  "beam_tryLiveAuth A net username password a = (let J = ae_json A in
     case beam_ask A net username password of
       None \<Rightarrow> Inr (False, a)
     | Some j \<Rightarrow>
       bindE (jsonE (cj_bool J j ''success'' False)) (\<lambda>success.
       if \<not> success
       then bindE (jsonE (cj_str J j ''message'' ''unknown error'')) (\<lambda>_. Inr (False, a))
       else bindE (jsonE (cj_str J j ''message'' [])) (\<lambda>key.
         Inr (key \<noteq> [], a\<lparr>acc_token := key\<rparr>))))"

definition beam_tryCache :: "account_env \<Rightarrow> int \<Rightarrow> string \<Rightarrow> account \<Rightarrow> fault + (bool \<times> account)" where
  "beam_tryCache A now username a = (let J = ae_json A in
     case acc_cache a of None \<Rightarrow> Inr (False, a) | Some content \<Rightarrow>
     (case cj_parse J content of None \<Rightarrow> Inr (False, a) | Some j \<Rightarrow>
       bindE (jsonE (cj_str J j ''username'' [])) (\<lambda>u. if u \<noteq> username then Inr (False, a) else
       bindE (jsonE (cj_int64 J j ''saved_at'' 0)) (\<lambda>saved_at.
       bindE (sub64 now saved_at) (\<lambda>age. if age > BEAM_CACHE_TTL then Inr (False, a) else
       bindE (jsonE (cj_str J j ''key'' [])) (\<lambda>key.
         Inr (key \<noteq> [], a\<lparr>acc_token := key\<rparr>)))))))"

definition beam_authenticate :: "account_env \<Rightarrow> network \<Rightarrow> int \<Rightarrow> string \<Rightarrow> string \<Rightarrow> account
    \<Rightarrow> fault + (bool \<times> account)" where
  "beam_authenticate A net now username password a =
     bindE (beam_tryLiveAuth A net username password (a\<lparr>acc_username := username, acc_token := []\<rparr>))
       (\<lambda>(ok, a). if ok
         then bindE (beam_saveCache A now username (acc_token a) a) (\<lambda>a. Inr (True, a))
         else bindE (beam_tryCache A now username a) (\<lambda>(ok, a). if ok then Inr (True, a) else Inr (False, a)))"

definition beam_loadCached :: "account_env \<Rightarrow> int \<Rightarrow> string \<Rightarrow> account \<Rightarrow> fault + (bool \<times> account)" where
  "beam_loadCached A now username a = beam_tryCache A now username (a\<lparr>acc_username := username\<rparr>)"

definition beam_clearCache :: "account_env \<Rightarrow> account \<Rightarrow> fault + account" where
  "beam_clearCache A a = (if acc_cache a \<noteq> None \<and> \<not> ae_can_remove A
     then Inl (Uncaught ''filesystem_error'')
     else Inr (a\<lparr>acc_cache := None, acc_token := []\<rparr>))"

section \<open>What the two have in common\<close>

text \<open>
  What the cache relies on, of one document: the directory can be made and the file written, the
  library reads back what it prints, and \<open>value\<close> of a member that is there gives the member.
\<close>

definition reads :: "account_json \<Rightarrow> json \<Rightarrow> bool" where
  "reads J j \<longleftrightarrow> (case j of JObj ms \<Rightarrow> list_all (\<lambda>(k, v). case v of
       JStr s \<Rightarrow> (\<forall>d. cj_str J j k d = Some s)
     | JInt i \<Rightarrow> (\<forall>d. cj_int64 J j k d = Some i)
     | _ \<Rightarrow> True) ms | _ \<Rightarrow> False)"

definition storable :: "account_env \<Rightarrow> json \<Rightarrow> bool" where
  "storable A j \<longleftrightarrow> ae_mkdirs A \<and> ae_can_write A \<and> reads (ae_json A) j
     \<and> (\<exists>t. cj_dump2 (ae_json A) j = Some t \<and> cj_parse (ae_json A) t = Some j)"

lemma bindE_bool_id [simp]: "bindE m (\<lambda>(ok, a). if ok then Inr (True, a) else Inr (False, a)) = m"
  by (cases m) auto

definition fits64 :: "int \<Rightarrow> bool" where
  "fits64 i \<longleftrightarrow> - (2 ^ 63) \<le> i \<and> i < 2 ^ 63"

lemma sub64_fits [simp]: "fits64 (x - y) \<Longrightarrow> sub64 x y = Inr (x - y)"
  by (simp add: sub64_def fits64_def)

text \<open>
  An account class: \<open>live\<close> is the login over the network with the saving of its result, \<open>cached\<close> the
  fallback. \<open>grants\<close> says that the service answers with a token and a lifetime, \<open>refuses\<close> that it does
  not answer, answers with something that is no JSON text, or rejects the password.
\<close>

locale account_login =
  fixes doc :: "string \<Rightarrow> string \<Rightarrow> int \<Rightarrow> int \<Rightarrow> json"
    and lifetime :: "int \<Rightarrow> bool"
    and live :: "account_env \<Rightarrow> network \<Rightarrow> int \<Rightarrow> string \<Rightarrow> string \<Rightarrow> account \<Rightarrow> fault + (bool \<times> account)"
    and cached :: "account_env \<Rightarrow> int \<Rightarrow> string \<Rightarrow> account \<Rightarrow> fault + (bool \<times> account)"
    and auth :: "account_env \<Rightarrow> network \<Rightarrow> int \<Rightarrow> string \<Rightarrow> string \<Rightarrow> account \<Rightarrow> fault + (bool \<times> account)"
    and load :: "account_env \<Rightarrow> int \<Rightarrow> string \<Rightarrow> account \<Rightarrow> fault + (bool \<times> account)"
    and grants :: "account_env \<Rightarrow> network \<Rightarrow> string \<Rightarrow> string \<Rightarrow> string \<Rightarrow> int \<Rightarrow> bool"
    and refuses :: "account_env \<Rightarrow> network \<Rightarrow> string \<Rightarrow> string \<Rightarrow> bool"
  assumes live_granted: "grants A net u p k d \<Longrightarrow>
        live A net t u p a = bindE (write_cache A (doc u k t d) (a\<lparr>acc_token := k\<rparr>)) (\<lambda>a. Inr (True, a))"
    and granted: "grants A net u p k d \<Longrightarrow> k \<noteq> [] \<and> lifetime d"
    and live_refused: "refuses A net u p \<Longrightarrow> acc_token a = [] \<Longrightarrow> live A net t u p a = Inr (False, a)"
    and cached_doc: "reads (ae_json A) (doc u k s d) \<Longrightarrow> lifetime d \<Longrightarrow> k \<noteq> [] \<Longrightarrow> fits64 (t - s) \<Longrightarrow>
        acc_cache a = Some content \<Longrightarrow> cj_parse (ae_json A) content = Some (doc u k s d) \<Longrightarrow>
        cached A t u' a = Inr (if u' = u \<and> t - s \<le> d then (True, a\<lparr>acc_token := k\<rparr>) else (False, a))"
    and auth_eq: "auth A net t u p a =
        bindE (live A net t u p (a\<lparr>acc_username := u, acc_token := []\<rparr>))
          (\<lambda>(ok, a). if ok then Inr (True, a) else cached A t u a)"
    and load_eq: "load A t u a = cached A t u (a\<lparr>acc_username := u\<rparr>)"
begin

lemma auth_granted:
  assumes "grants A net u p k d" "storable A (doc u k s d)"
  shows "\<exists>content. cj_parse (ae_json A) content = Some (doc u k s d) \<and> auth A net s u p a
    = Inr (True, a\<lparr>acc_username := u, acc_token := k, acc_cache := Some content\<rparr>)"
  using assms live_granted [OF assms(1)] by (auto simp: auth_eq storable_def write_cache_def)

lemma auth_refused:
  "refuses A net u p \<Longrightarrow> auth A net t u p a = cached A t u (a\<lparr>acc_username := u, acc_token := []\<rparr>)"
  by (simp add: auth_eq live_refused)

lemma token_until_expiry:
  assumes g: "grants A net u p k d" and st: "storable A (doc u k s d)" and ft: "fits64 (t - s)"
    and r: "refuses A net' u p'"
  shows "\<exists>a1. auth A net s u p a = Inr (True, a1) \<and> acc_token a1 = k \<and>
    (\<forall>b. acc_cache b = acc_cache a1 \<longrightarrow>
      auth A net' t u p' b = Inr (if t - s \<le> d then (True, b\<lparr>acc_username := u, acc_token := k\<rparr>)
        else (False, b\<lparr>acc_username := u, acc_token := []\<rparr>))
      \<and> (\<forall>v. v \<noteq> u \<longrightarrow> load A t v b = Inr (False, b\<lparr>acc_username := v\<rparr>)))"
proof -
  obtain content where p: "cj_parse (ae_json A) content = Some (doc u k s d)"
    and a: "auth A net s u p a = Inr (True, a\<lparr>acc_username := u, acc_token := k, acc_cache := Some content\<rparr>)"
    using auth_granted [OF g st] by blast
  have c: "cached A t u' b = Inr (if u' = u \<and> t - s \<le> d then (True, b\<lparr>acc_token := k\<rparr>) else (False, b))"
    if "acc_cache b = Some content" for u' b
    using cached_doc [of A u k s d t b content u'] granted [OF g] st ft p that by (simp add: storable_def)
  have o: "auth A net' t u p' b = Inr (if t - s \<le> d then (True, b\<lparr>acc_username := u, acc_token := k\<rparr>)
        else (False, b\<lparr>acc_username := u, acc_token := []\<rparr>))"
    if "acc_cache b = Some content" for b using that by (simp add: auth_refused [OF r] c)
  have l: "load A t v b = Inr (False, b\<lparr>acc_username := v\<rparr>)"
    if "v \<noteq> u" "acc_cache b = Some content" for v b
    using that by (simp add: load_eq c)
  show ?thesis using a o l by simp
qed

end

section \<open>The interpretations\<close>

definition nova_grants :: "account_env \<Rightarrow> network \<Rightarrow> string \<Rightarrow> string \<Rightarrow> string \<Rightarrow> int \<Rightarrow> bool" where
  "nova_grants A net u p k d \<longleftrightarrow> k \<noteq> [] \<and> (case nova_ask A net u p of None \<Rightarrow> False | Some j \<Rightarrow>
     cj_bool (ae_json A) j ''success'' False = Some True \<and> cj_str (ae_json A) j ''token'' [] = Some k
     \<and> cj_int64 (ae_json A) j ''expires_in'' NOVA_CACHE_TTL = Some d)"

definition no_success :: "account_env \<Rightarrow> json option \<Rightarrow> bool" where
  "no_success A answer \<longleftrightarrow> (case answer of None \<Rightarrow> True | Some j \<Rightarrow>
     cj_bool (ae_json A) j ''success'' False = Some False
     \<and> cj_str (ae_json A) j ''message'' ''unknown error'' \<noteq> None)"

interpretation nova: account_login nova_doc "\<lambda>_. True" nova_tryLiveAuth nova_tryCache
  nova_authenticate nova_loadCached nova_grants "\<lambda>A net u p. no_success A (nova_ask A net u p)"
proof unfold_locales
  fix A net u p k d t a
  assume "nova_grants A net u p k d"
  then show "nova_tryLiveAuth A net t u p a
    = bindE (write_cache A (nova_doc u k t d) (a\<lparr>acc_token := k\<rparr>)) (\<lambda>a. Inr (True, a))"
    by (auto simp: nova_grants_def nova_tryLiveAuth_def nova_saveCache_def Let_def split: option.splits)
next
  fix A net u p and a :: account and t
  assume "no_success A (nova_ask A net u p)"
  then show "nova_tryLiveAuth A net t u p a = Inr (False, a)"
    by (auto simp: no_success_def nova_tryLiveAuth_def Let_def split: option.splits)
next
  fix A :: account_env and u k s d t and a :: account and content u'
  assume "reads (ae_json A) (nova_doc u k s d)" "k \<noteq> []" "fits64 (t - s)" "acc_cache a = Some content"
    "cj_parse (ae_json A) content = Some (nova_doc u k s d)"
  then show "nova_tryCache A t u' a
      = Inr (if u' = u \<and> t - s \<le> d then (True, a\<lparr>acc_token := k\<rparr>) else (False, a))"
    by (auto simp: nova_tryCache_def reads_def nova_doc_def Let_def)
qed (simp_all add: nova_grants_def nova_authenticate_def nova_loadCached_def cong: if_cong)

definition beam_grants :: "account_env \<Rightarrow> network \<Rightarrow> string \<Rightarrow> string \<Rightarrow> string \<Rightarrow> int \<Rightarrow> bool" where
  "beam_grants A net u p k d \<longleftrightarrow> k \<noteq> [] \<and> d = BEAM_CACHE_TTL \<and> (case beam_ask A net u p of None \<Rightarrow> False
   | Some j \<Rightarrow> cj_bool (ae_json A) j ''success'' False = Some True
     \<and> cj_str (ae_json A) j ''message'' [] = Some k)"

definition beam_live :: "account_env \<Rightarrow> network \<Rightarrow> int \<Rightarrow> string \<Rightarrow> string \<Rightarrow> account
    \<Rightarrow> fault + (bool \<times> account)" where
  "beam_live A net t u p a = bindE (beam_tryLiveAuth A net u p a) (\<lambda>(ok, a). if ok
     then bindE (beam_saveCache A t u (acc_token a) a) (\<lambda>a. Inr (True, a)) else Inr (False, a))"

interpretation beam: account_login "\<lambda>u k s _. beam_doc u k s" "\<lambda>d. d = BEAM_CACHE_TTL" beam_live
  beam_tryCache beam_authenticate beam_loadCached beam_grants
  "\<lambda>A net u p. no_success A (beam_ask A net u p)"
proof unfold_locales
  fix A net u p k d t a
  assume "beam_grants A net u p k d"
  then show "beam_live A net t u p a
    = bindE (write_cache A (beam_doc u k t) (a\<lparr>acc_token := k\<rparr>)) (\<lambda>a. Inr (True, a))"
    by (auto simp: beam_grants_def beam_live_def beam_tryLiveAuth_def beam_saveCache_def Let_def
        split: option.splits)
next
  fix A net u p and a :: account and t
  assume "no_success A (beam_ask A net u p)"
  then show "beam_live A net t u p a = Inr (False, a)"
    by (auto simp: no_success_def beam_live_def beam_tryLiveAuth_def Let_def split: option.splits)
next
  fix A :: account_env and u k s d t and a :: account and content u'
  assume "reads (ae_json A) (beam_doc u k s)" "d = BEAM_CACHE_TTL" "k \<noteq> []" "fits64 (t - s)"
    "acc_cache a = Some content" "cj_parse (ae_json A) content = Some (beam_doc u k s)"
  then show "beam_tryCache A t u' a
      = Inr (if u' = u \<and> t - s \<le> d then (True, a\<lparr>acc_token := k\<rparr>) else (False, a))"
    by (auto simp: beam_tryCache_def reads_def beam_doc_def Let_def)
next
  fix A net t u p a
  show "beam_authenticate A net t u p a =
      bindE (beam_live A net t u p (a\<lparr>acc_username := u, acc_token := []\<rparr>))
        (\<lambda>(ok, a). if ok then Inr (True, a) else beam_tryCache A t u a)"
    by (cases "beam_tryLiveAuth A net u p (a\<lparr>acc_username := u, acc_token := []\<rparr>)")
      (auto simp: beam_authenticate_def beam_live_def bindE_assoc)
qed (simp_all add: beam_grants_def beam_loadCached_def)

section \<open>Properties\<close>

text \<open>
  C25. A NovaMP token is kept for the lifetime the service grants, on its own clock and no longer: after a
  login that the service granted (token \<open>k\<close>, \<open>d\<close> seconds), a later login that the service does not
  answer, or refuses, succeeds with \<open>k\<close> exactly until \<open>d\<close> seconds have passed, with any password and also
  in a new process that has only the file; under another name the file gives nothing, but a token the
  object already holds stays where it is.
\<close>

theorem nova_token_until_expiry:
  assumes "nova_grants A net u p k d" and "storable A (nova_doc u k s d)" and "fits64 (t - s)"
    and "no_success A (nova_ask A net' u p')"
  shows "\<exists>a1. nova_authenticate A net s u p a = Inr (True, a1) \<and> acc_token a1 = k \<and>
    (\<forall>b. acc_cache b = acc_cache a1 \<longrightarrow>
      nova_authenticate A net' t u p' b = Inr (if t - s \<le> d
        then (True, b\<lparr>acc_username := u, acc_token := k\<rparr>)
        else (False, b\<lparr>acc_username := u, acc_token := []\<rparr>))
      \<and> (\<forall>v. v \<noteq> u \<longrightarrow> nova_loadCached A t v b = Inr (False, b\<lparr>acc_username := v\<rparr>)))"
  by (rule nova.token_until_expiry [OF assms])

text \<open>
  A BeamMP key is kept for seven days, whatever the service answers about it later: the fallback is
  that of the previous property with the fixed lifetime.
\<close>

theorem beam_key_for_seven_days:
  assumes "beam_grants A net u p k BEAM_CACHE_TTL" and "storable A (beam_doc u k s)"
    and "fits64 (t - s)" and "no_success A (beam_ask A net' u p')"
  shows "\<exists>a1. beam_authenticate A net s u p a = Inr (True, a1) \<and> acc_token a1 = k \<and>
    (\<forall>b. acc_cache b = acc_cache a1 \<longrightarrow>
      beam_authenticate A net' t u p' b = Inr (if t - s \<le> 7 * 24 * 3600
        then (True, b\<lparr>acc_username := u, acc_token := k\<rparr>)
        else (False, b\<lparr>acc_username := u, acc_token := []\<rparr>))
      \<and> (\<forall>v. v \<noteq> u \<longrightarrow> beam_loadCached A t v b = Inr (False, b\<lparr>acc_username := v\<rparr>)))"
  using beam.token_until_expiry [OF assms, of a] by (simp add: BEAM_CACHE_TTL_def)

text \<open>A library that knows the few texts of one login.\<close>

fun member_str :: "json \<Rightarrow> string \<Rightarrow> string \<Rightarrow> string option" where
  "member_str (JObj ms) k d = (case map_of ms k of None \<Rightarrow> Some d | Some (JStr v) \<Rightarrow> Some v | _ \<Rightarrow> None)"
| "member_str _ k d = None"

fun member_int :: "json \<Rightarrow> string \<Rightarrow> int \<Rightarrow> int option" where
  "member_int (JObj ms) k d = (case map_of ms k of None \<Rightarrow> Some d | Some (JInt v) \<Rightarrow> Some v | _ \<Rightarrow> None)"
| "member_int _ k d = None"

fun member_bool :: "json \<Rightarrow> string \<Rightarrow> bool \<Rightarrow> bool option" where
  "member_bool (JObj ms) k d = (case map_of ms k of None \<Rightarrow> Some d | Some (JBool v) \<Rightarrow> Some v | _ \<Rightarrow> None)"
| "member_bool _ k d = None"

definition one_text_json :: "json \<Rightarrow> json \<Rightarrow> account_json" where
  "one_text_json answer doc = \<lparr>cj_parse = (\<lambda>t. if t = ''answer'' then Some answer
       else if t = ''file'' then Some doc else None),
     cj_dump = (\<lambda>_. Some ''request''), cj_bool = member_bool, cj_str = member_str, cj_int = member_int,
     cj_u16 = (\<lambda>j k d. map_option word_of_int (member_int j k (uint d))),
     cj_dump2 = (\<lambda>_. Some ''file''), cj_int64 = member_int\<rparr>"

definition one_text_env :: "json \<Rightarrow> json \<Rightarrow> account_env" where
  "one_text_env answer doc = \<lparr>ae_json = one_text_json answer doc, ae_sha256 = (\<lambda>b. b), ae_mkdirs = True,
     ae_can_write = True, ae_can_remove = True\<rparr>"

definition ok_response :: string where
  "ok_response = ''HTTP/1.0 200 OK'' @ crlf @ crlf @ ''answer''"

definition answering :: network where
  "answering tls host port request = Some ok_response"

definition silent_net :: network where "silent_net tls host port request = None"

lemma response_answering: "response_body ok_response = ''answer''"
  by (simp add: response_body_def ok_response_def crlf_def)

lemma ask_answering: "ask (nova_httpPost answering) (one_text_json answer doc) url b = Some answer"
  "ask (beam_httpPost answering) (one_text_json answer doc) url b = Some answer"
  by (simp_all add: ask_def one_text_json_def nova_httpPost_def beam_httpPost_def answering_def
      response_answering split: prod.split)

lemma ask_silent: "ask (nova_httpPost silent_net) J url b = None" "ask (beam_httpPost silent_net) J url b = None"
  by (simp_all add: ask_def nova_httpPost_def beam_httpPost_def silent_net_def split: prod.split option.split)

lemma ae_json_one [simp]: "ae_json (one_text_env answer doc) = one_text_json answer doc"
  by (simp add: one_text_env_def)

lemma storable_one: "reads (one_text_json answer doc) doc \<Longrightarrow> storable (one_text_env answer doc) doc"
  by (simp add: storable_def) (simp add: one_text_json_def one_text_env_def)

definition nova_answer :: json where
  "nova_answer = JObj [(''success'', JBool True), (''token'', JStr ''jwt''), (''expires_in'', JInt 60)]"

definition nova_demo :: account_env where
  "nova_demo = one_text_env nova_answer (nova_doc ''ann'' ''jwt'' 1000 60)"

definition fresh_account :: account where
  "fresh_account = \<lparr>acc_username = [], acc_token = [], acc_cache = None\<rparr>"

lemma nova_demo_facts: "nova_grants nova_demo answering ''ann'' ''pw'' ''jwt'' 60"
  "storable nova_demo (nova_doc ''ann'' ''jwt'' 1000 60)"
  "no_success nova_demo (nova_ask nova_demo silent_net ''ann'' ''pw'')"
proof -
  show "nova_grants nova_demo answering ''ann'' ''pw'' ''jwt'' 60"
    by (simp add: nova_grants_def nova_demo_def nova_ask_def ask_answering)
      (simp add: nova_answer_def one_text_json_def)
  show "storable nova_demo (nova_doc ''ann'' ''jwt'' 1000 60)" unfolding nova_demo_def
    by (rule storable_one) (simp add: reads_def nova_doc_def one_text_json_def)
  show "no_success nova_demo (nova_ask nova_demo silent_net ''ann'' ''pw'')"
    by (simp add: no_success_def nova_ask_def ask_silent)
qed

theorem nova_token_until_expiry_witness:
  "\<exists>a1. nova_authenticate nova_demo answering 1000 ''ann'' ''pw'' fresh_account = Inr (True, a1)
    \<and> acc_token a1 = ''jwt'' \<and> nova_authenticate nova_demo silent_net 1061 ''ann'' ''pw'' a1
      = Inr (False, a1\<lparr>acc_username := ''ann'', acc_token := []\<rparr>)"
proof -
  have "fits64 (1061 - 1000)" by (simp add: fits64_def)
  from nova_token_until_expiry [OF nova_demo_facts(1,2) this nova_demo_facts(3), of fresh_account]
  show ?thesis by force
qed

definition beam_answer :: json where
  "beam_answer = JObj [(''success'', JBool True), (''message'', JStr ''key'')]"

definition beam_demo :: account_env where
  "beam_demo = one_text_env beam_answer (beam_doc ''ann'' ''key'' 1000)"

lemma beam_demo_facts: "beam_grants beam_demo answering ''ann'' ''pw'' ''key'' BEAM_CACHE_TTL"
  "storable beam_demo (beam_doc ''ann'' ''key'' 1000)"
  "no_success beam_demo (beam_ask beam_demo silent_net ''ann'' ''wrong'')"
proof -
  show "beam_grants beam_demo answering ''ann'' ''pw'' ''key'' BEAM_CACHE_TTL"
    by (simp add: beam_grants_def beam_demo_def beam_ask_def ask_answering)
      (simp add: beam_answer_def one_text_json_def)
  show "storable beam_demo (beam_doc ''ann'' ''key'' 1000)" unfolding beam_demo_def
    by (rule storable_one) (simp add: reads_def beam_doc_def one_text_json_def)
  show "no_success beam_demo (beam_ask beam_demo silent_net ''ann'' ''wrong'')"
    by (simp add: no_success_def beam_ask_def ask_silent)
qed

theorem beam_key_for_seven_days_witness:
  "\<exists>a1. beam_authenticate beam_demo answering 1000 ''ann'' ''pw'' fresh_account = Inr (True, a1)
    \<and> beam_authenticate beam_demo silent_net 1061 ''ann'' ''wrong'' a1
      = Inr (True, a1\<lparr>acc_username := ''ann'', acc_token := ''key''\<rparr>)"
proof -
  have "fits64 (1061 - 1000)" by (simp add: fits64_def)
  from beam_key_for_seven_days [OF beam_demo_facts(1,2) this beam_demo_facts(3), of fresh_account]
  show ?thesis by force
qed

section \<open>Where the cache files are\<close>

text \<open>\<open>cacheFilePath\<close> of the two classes on Linux; the argument is \<open>$HOME\<close>.\<close>

definition nova_cacheFilePath :: "string option \<Rightarrow> string" where
  "nova_cacheFilePath home = (case home of Some h \<Rightarrow> h | None \<Rightarrow> ''/tmp'')
     @ ''/.config/NovaMP/novamp_token.json''"

definition beam_cacheFilePath :: "string option \<Rightarrow> string" where
  "beam_cacheFilePath home = (case home of Some h \<Rightarrow> h | None \<Rightarrow> ''/tmp'')
     @ ''/.config/NovaMP/beammp_token.json''"

text \<open>The two accounts never share a file, so the one cache of the model is that of its class alone.\<close>

lemma cache_files_apart: "nova_cacheFilePath home \<noteq> beam_cacheFilePath home'"
  unfolding nova_cacheFilePath_def beam_cacheFilePath_def by (simp add: append_eq_append_conv)

end
