(* ===== verification/Server_Browser.thy ===== *)
theory Server_Browser
  imports Accounts "HOL-Library.Product_Lexorder" "HOL-Library.Monad_Syntax" "HOL-Library.Multiset"
begin

text \<open>
  The server browser of the client (\<^verbatim>\<open>client/src/ui/server_browser.cpp\<close>) with
  \<open>BeamMPClient::fetchServerList\<close>: fetching the two lists, the console dialogue with its filter, the
  order of the list and the selection. JSON and the network are parameters, standard input is a stream
  and standard output a list of lines.
\<close>

section \<open>Entries\<close>

datatype ServerNetwork = NOVAMP | BEAMMP

text \<open>The order of the enumerators: NovaMP first.\<close>

instantiation ServerNetwork :: linorder
begin

fun less_eq_ServerNetwork :: "ServerNetwork \<Rightarrow> ServerNetwork \<Rightarrow> bool" where
  "less_eq_ServerNetwork NOVAMP n = True"
| "less_eq_ServerNetwork BEAMMP n = (n = BEAMMP)"

definition less_ServerNetwork :: "ServerNetwork \<Rightarrow> ServerNetwork \<Rightarrow> bool" where
  "less_ServerNetwork m n = (m = NOVAMP \<and> n = BEAMMP)"

instance
proof
  fix x y z :: ServerNetwork
  show "(x < y) = (x \<le> y \<and> \<not> y \<le> x)" by (cases x; cases y) (simp_all add: less_ServerNetwork_def)
  show "x \<le> x" by (cases x) simp_all
  show "x \<le> y \<Longrightarrow> y \<le> z \<Longrightarrow> x \<le> z" by (cases x; cases y) simp_all
  show "x \<le> y \<Longrightarrow> y \<le> x \<Longrightarrow> x = y" by (cases x; cases y) simp_all
  show "x \<le> y \<or> y \<le> x" by (cases x; cases y) simp_all
qed

end

record ServerEntry =
  se_id :: int
  se_name :: string
  se_description :: string
  se_host :: string
  se_map :: string
  se_version :: string
  se_port :: int
  se_current_players :: int
  se_max_players :: int
  se_password_protected :: bool
  se_modded :: bool
  se_network :: ServerNetwork

record BeamMPServerEntry =
  be_name :: string
  be_description :: string
  be_host :: string
  be_map :: string
  be_version :: string
  be_port :: int
  be_current_players :: int
  be_max_players :: int
  be_password_protected :: bool
  be_modded :: bool

section \<open>Fetching\<close>

text \<open>
  \<open>j[key]\<close> of a mutable value (\<open>None\<close> is the exception; a missing member becomes null), the elements a
  range-based loop visits, and \<open>is_array\<close>.
\<close>

record browser_json = account_json +
  cj_index :: "json \<Rightarrow> string \<Rightarrow> json option"
  cj_elems :: "json \<Rightarrow> json list"
  cj_is_array :: "json \<Rightarrow> bool"

definition nova_entry :: "browser_json \<Rightarrow> json \<Rightarrow> ServerEntry option" where
  "nova_entry J s = do {
     id \<leftarrow> cj_int64 J s ''id'' 0;
     name \<leftarrow> cj_str J s ''name'' [];
     description \<leftarrow> cj_str J s ''description'' [];
     host \<leftarrow> cj_str J s ''host'' [];
     port \<leftarrow> cj_int J s ''port'' 4444;
     mp \<leftarrow> cj_str J s ''map'' [];
     current \<leftarrow> cj_int J s ''current_players'' 0;
     maximum \<leftarrow> cj_int J s ''max_players'' 0;
     pw \<leftarrow> cj_bool J s ''password'' False;
     version \<leftarrow> cj_str J s ''version'' [];
     Some \<lparr>se_id = id, se_name = name, se_description = description, se_host = host, se_map = mp,
       se_version = version, se_port = port, se_current_players = current, se_max_players = maximum,
       se_password_protected = pw, se_modded = False, se_network = NOVAMP\<rparr> }"

text \<open>The loop inside \<open>try\<close>: the entries before a bad one are kept.\<close>

fun add_entries :: "('j \<Rightarrow> 'e option) \<Rightarrow> 'j list \<Rightarrow> 'e list \<Rightarrow> 'e list \<times> bool" where
  "add_entries entry [] servers = (servers, True)"
| "add_entries entry (s # ss) servers = (case entry s of
     None \<Rightarrow> (servers, False) | Some e \<Rightarrow> add_entries entry ss (servers @ [e]))"

definition fetchNovaMP :: "browser_json \<Rightarrow> network \<Rightarrow> string \<Rightarrow> ServerEntry list
    \<Rightarrow> ServerEntry list \<times> bool" where
  "fetchNovaMP J net master_url servers =
     (case do { body \<leftarrow> http_get net (master_url @ ''/servers''); j \<leftarrow> cj_parse J body; cj_index J j ''servers'' } of
        None \<Rightarrow> (servers, False)
      | Some l \<Rightarrow> add_entries (nova_entry J) (cj_elems J l) servers)"

text \<open>An entry without a host is not added, so an entry of the list here is an option.\<close>

definition beam_entry :: "browser_json \<Rightarrow> json \<Rightarrow> BeamMPServerEntry option" where
  "beam_entry J s = do {
     name \<leftarrow> cj_str J s ''sname'' [];
     description \<leftarrow> cj_str J s ''sdesc'' [];
     host \<leftarrow> cj_str J s ''ip'' [];
     port \<leftarrow> cj_int J s ''port'' 4444;
     mp \<leftarrow> cj_str J s ''map'' [];
     version \<leftarrow> cj_str J s ''version'' [];
     current \<leftarrow> cj_int J s ''players'' 0;
     maximum \<leftarrow> cj_int J s ''maxplayers'' 0;
     pw \<leftarrow> cj_bool J s ''pass'' False;
     mods \<leftarrow> cj_int J s ''mods'' 0;
     Some \<lparr>be_name = name, be_description = description, be_host = host, be_map = mp,
       be_version = version, be_port = port, be_current_players = current, be_max_players = maximum,
       be_password_protected = pw, be_modded = mods > 0\<rparr> }"

definition fetchServerList :: "browser_json \<Rightarrow> network \<Rightarrow> BeamMPServerEntry list" where
  "fetchServerList J net =
     (case do { body \<leftarrow> httpGet net ''https://backend.beammp.com/servers-info''; cj_parse J body } of
        None \<Rightarrow> []
      | Some j \<Rightarrow> if \<not> cj_is_array J j then []
          else filter (\<lambda>e. be_host e \<noteq> []) (fst (add_entries (beam_entry J) (cj_elems J j) [])))"

definition of_beam :: "BeamMPServerEntry \<Rightarrow> ServerEntry" where
  "of_beam b = \<lparr>se_id = 0, se_name = be_name b, se_description = be_description b, se_host = be_host b,
     se_map = be_map b, se_version = be_version b, se_port = be_port b,
     se_current_players = be_current_players b, se_max_players = be_max_players b,
     se_password_protected = be_password_protected b, se_modded = be_modded b, se_network = BEAMMP\<rparr>"

definition fetchBeamMP :: "browser_json \<Rightarrow> network \<Rightarrow> ServerEntry list \<Rightarrow> ServerEntry list \<times> bool" where
  "fetchBeamMP J net servers = (let entries = fetchServerList J net
     in (servers @ map of_beam entries, entries \<noteq> []))"

definition refresh :: "browser_json \<Rightarrow> network \<Rightarrow> string \<Rightarrow> bool \<Rightarrow> ServerEntry list \<times> bool" where
  "refresh J net master_url fetch_beammp =
     (let (servers, nova_ok) = fetchNovaMP J net master_url [];
          (servers, beam_ok) = (if fetch_beammp then fetchBeamMP J net servers else (servers, False))
      in (servers, nova_ok \<or> beam_ok))"

section \<open>The console dialogue\<close>

definition matches :: "int \<Rightarrow> ServerEntry \<Rightarrow> bool" where
  "matches flt s \<longleftrightarrow> \<not> (flt = 2 \<and> se_network s \<noteq> NOVAMP) \<and> \<not> (flt = 3 \<and> se_network s \<noteq> BEAMMP)"

text \<open>The comparison the code sorts by.\<close>

definition listed_before :: "ServerEntry \<Rightarrow> ServerEntry \<Rightarrow> bool" where
  "listed_before a b = (if se_network a \<noteq> se_network b then se_network a = NOVAMP
     else se_current_players a > se_current_players b)"

text \<open>\<open>std::stable_sort\<close> with a comparison: elements that it does not tell apart keep their order.\<close>

fun insert_by :: "('e \<Rightarrow> 'e \<Rightarrow> bool) \<Rightarrow> 'e \<Rightarrow> 'e list \<Rightarrow> 'e list" where
  "insert_by lt x [] = [x]"
| "insert_by lt x (y # ys) = (if lt y x then y # insert_by lt x ys else x # y # ys)"

definition stable_sort :: "('e \<Rightarrow> 'e \<Rightarrow> bool) \<Rightarrow> 'e list \<Rightarrow> 'e list" where
  "stable_sort lt xs = foldr (insert_by lt) xs []"

definition visible :: "int \<Rightarrow> ServerEntry list \<Rightarrow> ServerEntry list" where
  "visible flt servers = stable_sort listed_before (filter (matches flt) servers)"

text \<open>\<open>std::left << std::setw(n)\<close>\<close>

definition setw :: "nat \<Rightarrow> string \<Rightarrow> string" where
  "setw n s = s @ replicate (n - length s) CHR '' ''"

definition browser_row :: "nat \<Rightarrow> ServerEntry \<Rightarrow> string" where
  "browser_row i s =
     setw 4 (dec_nat (i + 1)) @ setw 6 (if se_network s = NOVAMP then ''NMP'' else ''BMP'')
     @ setw 30 (take 29 (se_name s)) @ setw 20 (take 19 (se_map s))
     @ setw 9 (dec_int (se_current_players s) @ ''/'' @ dec_int (se_max_players s))
     @ setw 10 ((if se_password_protected s then ''[P]'' else []) @ (if se_modded s then ''[M]'' else []))"

definition browser_header :: "string list" where
  "browser_header =
     [setw 4 ''#'' @ setw 6 ''Net'' @ setw 30 ''Name'' @ setw 20 ''Map'' @ setw 9 ''Players''
        @ setw 10 ''Flags'', replicate 79 CHR ''-'']"

text \<open>\<open>std::cin.ignore()\<close>\<close>

definition ignore1 :: "istream \<Rightarrow> istream" where
  "ignore1 st = (case st of Some (c # r) \<Rightarrow> Some r | _ \<Rightarrow> None)"

text \<open>The result is what was printed of the list, the server given to \<open>on_select\<close>, and the input left.\<close>

definition runConsoleUI :: "ServerEntry list \<Rightarrow> istream \<Rightarrow> string list \<times> ServerEntry option \<times> istream" where
  "runConsoleUI servers cin =
     (if servers = [] then ([''No servers found on any network.''], None, cin)
      else let (flt, cin) = read_int 1 cin; cin = ignore1 cin; vis = visible flt servers in
        if vis = [] then ([''No servers match the filter.''], None, cin)
        else let rows = browser_header @ map (\<lambda>i. browser_row i (vis ! i)) [0..<length vis];
                 (choice, cin) = read_int 0 cin; cin = ignore1 cin in
          if choice < 1 \<or> choice > int (length vis) then (rows, None, cin)
          else (rows, Some (vis ! nat (choice - 1)), cin))"

section \<open>Properties\<close>

text \<open>The key whose order is that of the comparison.\<close>

definition list_key :: "ServerEntry \<Rightarrow> ServerNetwork \<times> int" where
  "list_key s = (se_network s, - se_current_players s)"

lemma listed_before_key: "listed_before a b \<longleftrightarrow> list_key a < list_key b"
  by (cases "se_network a"; cases "se_network b")
    (auto simp: listed_before_def list_key_def less_prod_simp less_ServerNetwork_def)

lemma insert_by_key: "insert_by listed_before x ys = insort_key list_key x ys"
  by (induction ys) (auto simp: listed_before_key)

lemma visible_key: "visible flt servers = sort_key list_key (filter (matches flt) servers)"
proof -
  have "insert_by listed_before = insort_key list_key" by (intro ext) (rule insert_by_key)
  then show ?thesis by (simp add: visible_def stable_sort_def sort_key_def)
qed

lemma visible_same_key: "filter (\<lambda>s. se_network s = n \<and> se_current_players s = k) (visible flt servers)
    = filter (\<lambda>s. se_network s = n \<and> se_current_players s = k) (filter (matches flt) servers)"
proof -
  have "(\<lambda>s. se_network s = n \<and> se_current_players s = k) = (\<lambda>s. list_key s = (n, - k))"
    by (auto simp: list_key_def)
  then show ?thesis
    using sort_key_stable [of list_key "(n, - k)" "filter (matches flt) servers"]
    by (simp only: visible_key)
qed

lemma filter_shown: "filter (\<lambda>s. se_network s = n \<and> P s) (filter (matches flt) servers) =
    (if flt = (case n of NOVAMP \<Rightarrow> 3 | BEAMMP \<Rightarrow> 2) then [] else filter (\<lambda>s. se_network s = n \<and> P s) servers)"
  by (cases n) (auto simp: matches_def filter_empty_conv intro!: filter_cong)

lemma sorted_networks:
  assumes "sorted (map list_key xs)"
  shows "xs = filter (\<lambda>s. se_network s = NOVAMP) xs @ filter (\<lambda>s. se_network s = BEAMMP) xs"
    and "sorted_wrt (\<ge>) (map se_current_players (filter (\<lambda>s. se_network s = n) xs))"
proof -
  have "sorted_wrt (\<lambda>a b. list_key a \<le> list_key b) (filter (\<lambda>s. se_network s = n) xs)"
    using assms by (intro sorted_wrt_filter) (simp add: sorted_wrt_map)
  then show "sorted_wrt (\<ge>) (map se_current_players (filter (\<lambda>s. se_network s = n) xs))"
    unfolding sorted_wrt_map by (rule sorted_wrt_mono_rel [rotated]) (auto simp: list_key_def less_ServerNetwork_def)
  show "xs = filter (\<lambda>s. se_network s = NOVAMP) xs @ filter (\<lambda>s. se_network s = BEAMMP) xs" using assms
  proof (induction xs)
    case (Cons x xs)
    show ?case
    proof (cases "se_network x")
      case BEAMMP
      have "se_network s = BEAMMP" if "s \<in> set xs" for s
        using Cons.prems that BEAMMP by (cases "se_network s") (auto simp: list_key_def less_ServerNetwork_def)
      then show ?thesis using BEAMMP by (simp add: filter_empty_conv)
    qed (use Cons in simp)
  qed simp
qed

text \<open>
  C37. The list shows what it should, in the order the comment promises (``NovaMP first, then by player count
  descending''). It is the NovaMP servers followed by the BeamMP servers, without the latter under filter 2 and
  without the former under filter 3; in either part the numbers of players descend, and servers with the same
  number of players stand in the order in which they were fetched, each as often as it was fetched.
\<close>

theorem browser_order:
  "\<exists>nova beam. visible flt servers = nova @ beam
    \<and> mset nova = mset (if flt = 3 then [] else filter (\<lambda>s. se_network s = NOVAMP) servers)
    \<and> mset beam = mset (if flt = 2 then [] else filter (\<lambda>s. se_network s = BEAMMP) servers)
    \<and> sorted_wrt (\<ge>) (map se_current_players nova) \<and> sorted_wrt (\<ge>) (map se_current_players beam)
    \<and> (\<forall>k. filter (\<lambda>s. se_current_players s = k) nova = (if flt = 3 then []
          else filter (\<lambda>s. se_network s = NOVAMP \<and> se_current_players s = k) servers)
      \<and> filter (\<lambda>s. se_current_players s = k) beam = (if flt = 2 then []
          else filter (\<lambda>s. se_network s = BEAMMP \<and> se_current_players s = k) servers))"
proof -
  let ?part = "\<lambda>n. filter (\<lambda>s. se_network s = n) (visible flt servers)"
  have sorted: "sorted (map list_key (visible flt servers))" by (simp add: visible_key)
  have part: "filter (\<lambda>s. se_current_players s = k) (?part n) = (if flt = (case n of NOVAMP \<Rightarrow> 3 | BEAMMP \<Rightarrow> 2) then []
      else filter (\<lambda>s. se_network s = n \<and> se_current_players s = k) servers)" for n k
    using visible_same_key [of n k flt servers] unfolding filter_shown by (simp add: conj_commute)
  have all: "mset (?part n) = mset (if flt = (case n of NOVAMP \<Rightarrow> 3 | BEAMMP \<Rightarrow> 2) then []
      else filter (\<lambda>s. se_network s = n) servers)" for n
  proof -
    have "mset (?part n) = mset (filter (\<lambda>s. se_network s = n) (filter (matches flt) servers))"
      by (simp only: visible_key mset_filter mset_sort)
    then show ?thesis using filter_shown [of n "\<lambda>_. True" flt servers] by (simp only: simp_thms)
  qed
  show ?thesis
    using sorted_networks [OF sorted] part [of _ NOVAMP] part [of _ BEAMMP] all [of NOVAMP] all [of BEAMMP]
    by (intro exI [of _ "?part NOVAMP"] exI [of _ "?part BEAMMP"]) simp
qed

lemma is_digit_newline [simp]: "\<not> is_digit CHR 0x0A"
  by (simp add: is_digit_def)

lemma browser_row_number: "browser_row i s = setw 4 (dec_nat (i + 1)) @ drop 4 (browser_row 0 s)"
proof -
  have "length (dec_nat 1) = 1" by (subst dec_nat.simps) simp
  then have "length (setw 4 (dec_nat 1)) = 4" by (simp add: setw_def)
  then show ?thesis by (simp add: browser_row_def)
qed

lemma browser_header_length [simp]: "length browser_header = 2"
  by (simp add: browser_header_def)

text \<open>
  The user gets the server whose row shows the number he types: after a filter and a number, each
  on a line of its own, \<open>on_select\<close> is called with the server of that row, and not at all when there is
  no such row; both lines and nothing else are consumed.
\<close>

theorem browser_selects_shown_row:
  assumes "visible (int f) servers \<noteq> []" "f < 2147483648" "n < 2147483648"
  shows "\<exists>rows. runConsoleUI servers (Some (dec_nat f @ CHR 0x0A # dec_nat n @ CHR 0x0A # r))
      = (rows, if 1 \<le> n \<and> n \<le> length (visible (int f) servers)
          then Some (visible (int f) servers ! (n - 1)) else None, Some r)
    \<and> (1 \<le> n \<and> n \<le> length (visible (int f) servers) \<longrightarrow>
        rows ! (n + 1) = setw 4 (dec_nat n) @ drop 4 (browser_row 0 (visible (int f) servers ! (n - 1))))"
proof -
  let ?v = "visible (int f) servers"
  let ?rows = "browser_header @ map (\<lambda>i. browser_row i (?v ! i)) [0..<length ?v]"
  have ne: "servers \<noteq> []" using assms(1) by (auto simp: visible_def stable_sort_def)
  have "runConsoleUI servers (Some (dec_nat f @ CHR 0x0A # dec_nat n @ CHR 0x0A # r))
      = (?rows, if 1 \<le> n \<and> n \<le> length ?v then Some (?v ! (n - 1)) else None, Some r)"
    using ne assms by (auto simp: runConsoleUI_def read_int_dec_nat ignore1_def Let_def nat_diff_distrib)
  moreover have "?rows ! (n + 1) = setw 4 (dec_nat n) @ drop 4 (browser_row 0 (?v ! (n - 1)))"
    if "1 \<le> n" "n \<le> length ?v"
  proof -
    have "n - 1 < length ?v" using that by linarith
    then show ?thesis using that browser_row_number [of "n - 1" "?v ! (n - 1)"] by (simp add: nth_append)
  qed
  ultimately show ?thesis by blast
qed

definition two_servers :: "ServerEntry list" where
  "two_servers = (let e = \<lparr>se_id = 0, se_name = ''one'', se_description = [], se_host = ''h'', se_map = [],
     se_version = [], se_port = 4444, se_current_players = 3, se_max_players = 8,
     se_password_protected = False, se_modded = False, se_network = BEAMMP\<rparr>
   in [e, e\<lparr>se_name := ''two'', se_network := NOVAMP\<rparr>])"

lemma two_visible: "visible (int 1) two_servers = rev two_servers"
  by (simp add: visible_def two_servers_def Let_def matches_def stable_sort_def listed_before_def)

theorem browser_selects_shown_row_witness:
  "\<exists>rows. runConsoleUI two_servers (Some (dec_nat 1 @ CHR 0x0A # dec_nat 1 @ CHR 0x0A # []))
    = (rows, Some (two_servers ! 1), Some [])"
proof -
  have "visible (int 1) two_servers \<noteq> []" unfolding two_visible by (simp add: two_servers_def Let_def)
  from browser_selects_shown_row [OF this, of 1 "[]"] show ?thesis
    unfolding two_visible by (auto simp: two_servers_def Let_def)
qed

lemma add_entries_good: "map entry good = map Some es \<Longrightarrow> rest = [] \<or> entry (hd rest) = None \<Longrightarrow>
    add_entries entry (good @ rest) acc = (acc @ es, rest = [])"
proof (induction good arbitrary: es acc)
  case Nil
  then show ?case by (cases rest) auto
next
  case (Cons s ss)
  then show ?case by (cases es) auto
qed

lemma nova_entry_network: "nova_entry J s = Some e \<Longrightarrow> se_network e = NOVAMP"
  by (auto simp: nova_entry_def Option.bind_eq_Some_conv)

text \<open>
  Refreshing gives the NovaMP servers in the order of the answer, up to the first one that cannot be
  read, and behind them the BeamMP servers that have a host; it counts as failed only when a NovaMP
  server could not be read (or no list was fetched) and there is no BeamMP server.
\<close>

theorem refresh_combines_lists:
  assumes "http_get net (url @ ''/servers'') = Some body" and "cj_parse J body = Some j"
    and "cj_index J j ''servers'' = Some l" and "cj_elems J l = good @ rest"
    and "map (nova_entry J) good = map Some entries" and "rest = [] \<or> nova_entry J (hd rest) = None"
  shows "refresh J net url True = (entries @ map of_beam (fetchServerList J net),
      rest = [] \<or> fetchServerList J net \<noteq> [])
    \<and> (\<forall>s \<in> set (fst (refresh J net url True)). se_network s = BEAMMP \<longrightarrow> se_host s \<noteq> [])"
proof -
  have nova: "fetchNovaMP J net url [] = (entries, rest = [])"
    using assms by (simp add: fetchNovaMP_def add_entries_good)
  have beam: "be_host b \<noteq> []" if "b \<in> set (fetchServerList J net)" for b
    using that by (auto simp: fetchServerList_def split: option.splits if_splits)
  have net: "se_network e = NOVAMP" if "e \<in> set entries" for e
  proof -
    from that have "Some e \<in> set (map (nova_entry J) good)" unfolding assms(5) by simp
    then obtain s where "nova_entry J s = Some e" by auto
    then show ?thesis by (rule nova_entry_network)
  qed
  show ?thesis using nova beam net
    by (auto simp: refresh_def fetchBeamMP_def of_beam_def Let_def)
qed

definition empty_json :: browser_json where
  "empty_json = \<lparr>cj_parse = (\<lambda>t. if t = ''answer'' then Some (JArr [JNull]) else None), cj_dump = (\<lambda>_. None),
     cj_bool = (\<lambda>_ _ d. Some d), cj_str = (\<lambda>_ k d. Some (if k = ''ip'' then ''h'' else d)),
     cj_int = (\<lambda>_ _ d. Some d), cj_u16 = (\<lambda>_ _ d. Some d), cj_dump2 = (\<lambda>_. None),
     cj_int64 = (\<lambda>_ _ d. None), cj_index = (\<lambda>j _. Some j),
     cj_elems = (\<lambda>j. case j of JArr l \<Rightarrow> l | _ \<Rightarrow> []), cj_is_array = (\<lambda>j. True)\<rparr>"

theorem refresh_combines_lists_witness:
  "snd (refresh empty_json answering ''http://m'' True) \<longleftrightarrow> fetchServerList empty_json answering \<noteq> []"
proof -
  have "http_get answering (''http://m'' @ ''/servers'') = Some ''answer''"
    by (simp add: http_get_def after_scheme_def scheme_sep_def host_path_def split_at_def rsplit_at_def
        answering_def response_answering)
  from refresh_combines_lists [OF this, of empty_json "JArr [JNull]" "JArr [JNull]" "[]" "[JNull]" "[]"]
  show ?thesis by (simp add: empty_json_def nova_entry_def)
qed

end
