(* ===== verification/Client_Main.thy ===== *)
theory Client_Main
  imports Server_Browser Beammp_Client
begin

text \<open>
  The client program: class \<open>Launcher\<close> (\<^verbatim>\<open>client/src/launcher.cpp\<close>, the Linux branch) and \<open>main\<close> with its
  two flows (\<^verbatim>\<open>client/src/main.cpp\<close>). The operating system is a parameter; what the program writes and
  starts is recorded. The flows end where the connection objects take over: \<open>runNovaMP\<close> with the call of
  \<open>NetworkClient::connect\<close>, \<open>runBeamMP\<close> with that of \<open>BeamMPClient::connect\<close>.
\<close>

section \<open>Launcher\<close>

text \<open>
  What the system answers: \<open>$HOME\<close>, which files exist, whether a directory can be made and a file opened
  for writing, the result of copying a file (\<open>Inl\<close>: the text of the exception), and what \<open>fork\<close> returns
  in the parent.
\<close>

record client_os =
  os_home :: "string option"
  os_exists :: "string \<Rightarrow> bool"
  os_mkdirs :: "string \<Rightarrow> bool"
  os_open :: "string \<Rightarrow> bool"
  os_copy :: "string \<Rightarrow> string \<Rightarrow> string + unit"
  os_fork :: int

record LaunchConfig =
  lc_beamng_path :: string
  lc_mod_path :: string
  lc_master_url :: string
  lc_username :: string
  lc_password :: string

text \<open>The calls of the status callback, the files written and copied, and the programs started.\<close>

record launcher =
  m_jwt_token :: string
  la_status :: "string list"
  la_written :: "(string \<times> string) list"
  la_copied :: "(string \<times> string) list"
  la_started :: "string list"

definition detectBeamNGPath :: "client_os \<Rightarrow> string" where
  "detectBeamNGPath W = (case os_home W of
     Some home \<Rightarrow>
       (let p = home @ ''/.steam/steam/steamapps/common/BeamNG.drive/BinLinux64/BeamNG.drive.x64''
        in if os_exists W p then p else ''/usr/local/bin/BeamNG.drive'')
   | None \<Rightarrow> ''/usr/local/bin/BeamNG.drive'')"

definition beamngModsDir :: "client_os \<Rightarrow> string" where
  "beamngModsDir W = (case os_home W of Some home \<Rightarrow> home | None \<Rightarrow> ''.'')
     @ ''/.local/share/BeamNG.drive/mods''"

text \<open>\<open>parent_path\<close> of a path that does not end in a slash.\<close>

definition parent_path :: "string \<Rightarrow> string" where
  "parent_path p = (case rsplit_at CHR ''/'' p of Some (d, _) \<Rightarrow> d | None \<Rightarrow> [])"

definition say_status :: "string \<Rightarrow> launcher \<Rightarrow> launcher" where
  "say_status m l = l\<lparr>la_status := la_status l @ [m]\<rparr>"

text \<open>The two methods that write into the directories of the game, with the directory as an argument.\<close>

definition write_connect_in :: "string \<Rightarrow> client_os \<Rightarrow> account_json \<Rightarrow> LaunchConfig \<Rightarrow> string \<Rightarrow> u16
    \<Rightarrow> launcher \<Rightarrow> fault + (bool \<times> launcher)" where
  "write_connect_in config_dir W J cfg host port l =
     (let f = config_dir @ ''/novaMP_connect.json'' in
      if \<not> os_open W f then Inr (False, l)
      else bindE (jsonE (cj_dump2 J (JObj [(''host'', JStr host), (''port'', JInt (uint port)),
          (''username'', JStr (lc_username cfg)), (''token'', JStr (m_jwt_token l)),
          (''master_url'', JStr (lc_master_url cfg))])))
        (\<lambda>t. Inr (True, l\<lparr>la_written := la_written l @ [(f, t)]\<rparr>)))"

text \<open>\<open>create_directories\<close> stands outside the \<open>try\<close>.\<close>

definition install_in :: "string \<Rightarrow> client_os \<Rightarrow> LaunchConfig \<Rightarrow> launcher \<Rightarrow> fault + (bool \<times> launcher)" where
  "install_in mods_dir W cfg l =
     (let dest = mods_dir @ ''/novaMP.zip'' in
      if \<not> os_mkdirs W mods_dir then Inl (Uncaught ''filesystem_error'')
      else let l = say_status ''Installing NovaMP mod...'' l in
        (case os_copy W (lc_mod_path cfg) dest of
           Inr _ \<Rightarrow> Inr (True, say_status ''Mod installed.''
             (l\<lparr>la_copied := la_copied l @ [(lc_mod_path cfg, dest)]\<rparr>))
         | Inl e \<Rightarrow> Inr (False, say_status (''Mod install failed: '' @ e) l)))"

definition writeConnectConfig :: "client_os \<Rightarrow> account_json \<Rightarrow> LaunchConfig \<Rightarrow> string \<Rightarrow> u16 \<Rightarrow> launcher
    \<Rightarrow> fault + (bool \<times> launcher)" where
  "writeConnectConfig W = write_connect_in (parent_path (beamngModsDir W)) W"

definition installMod :: "client_os \<Rightarrow> LaunchConfig \<Rightarrow> launcher \<Rightarrow> fault + (bool \<times> launcher)" where
  "installMod W = install_in (beamngModsDir W) W"

text \<open>\<open>fork\<close> and, in the child, \<open>execl\<close>.\<close>

definition start_game :: "client_os \<Rightarrow> string \<Rightarrow> launcher \<Rightarrow> bool \<times> launcher" where
  "start_game W exe l =
     (if os_fork W < 0 then (False, l) else (True, l\<lparr>la_started := la_started l @ [exe]\<rparr>))"

definition launchGame :: "client_os \<Rightarrow> account_json \<Rightarrow> LaunchConfig \<Rightarrow> string \<Rightarrow> u16 \<Rightarrow> launcher
    \<Rightarrow> fault + (bool \<times> launcher)" where
  "launchGame W J cfg host port l =
     bindE (writeConnectConfig W J cfg host port l) (\<lambda>(written, l).
     if \<not> written then Inr (False, l)
     else let exe = (if lc_beamng_path cfg = [] then detectBeamNGPath W else lc_beamng_path cfg) in
       if \<not> os_exists W exe then Inr (False, say_status (''BeamNG.drive not found: '' @ exe) l)
       else let l = say_status ''Launching BeamNG.drive...'' l in
         Inr (start_game W exe l))"

definition launcher_authenticate :: "LaunchConfig \<Rightarrow> string" where
  "launcher_authenticate cfg = []"

section \<open>The two flows\<close>

text \<open>\<open>std::getline(std::cin, s)\<close> into an empty string, with the input left.\<close>

definition read_line :: "istream \<Rightarrow> string \<times> istream" where
  "read_line st = (case st of None \<Rightarrow> ([], None)
   | Some s \<Rightarrow> (takeWhile (\<lambda>c. c \<noteq> CHR 0x0A) s,
       case dropWhile (\<lambda>c. c \<noteq> CHR 0x0A) s of [] \<Rightarrow> None | _ # r \<Rightarrow> Some r))"

text \<open>The whole program reads and changes the launcher, the account of \<open>BeamMPAuth\<close> and standard input.\<close>

record client_world =
  w_os :: client_os
  w_json :: browser_json
  w_account :: account_env
  w_net :: network
  w_clock :: int

text \<open>What the program ends up doing.\<close>

datatype outcome =
    NothingSelected
  | NovaConnect string u16 string string string   \<comment> \<open>host, port, user name, token, server password\<close>
  | BeamRefused
  | BeamConnect string u16 account

definition port_of :: "ServerEntry \<Rightarrow> u16" where
  "port_of e = word_of_int (se_port e)"

definition runNovaMP :: "client_world \<Rightarrow> LaunchConfig \<Rightarrow> ServerEntry \<Rightarrow> string \<Rightarrow> launcher
    \<Rightarrow> fault + (outcome \<times> launcher)" where
  "runNovaMP W cfg server username l =
     bindE (launchGame (w_os W) (account_json.truncate (w_json W)) cfg (se_host server) (port_of server) l)
       (\<lambda>(_, l). Inr (NovaConnect (se_host server) (port_of server) username [] [], l))"

definition runBeamMP :: "client_world \<Rightarrow> LaunchConfig \<Rightarrow> ServerEntry \<Rightarrow> string \<Rightarrow> string \<Rightarrow> account
    \<Rightarrow> istream \<Rightarrow> launcher \<Rightarrow> fault + (outcome \<times> launcher)" where
  "runBeamMP W cfg server username password a cin l = (let A = w_account W in
     bindE (if password \<noteq> [] then beam_authenticate A (w_net W) (w_clock W) username password a
       else bindE (beam_loadCached A (w_clock W) username a) (\<lambda>(authed, a).
         if authed then Inr (True, a)
         else beam_authenticate A (w_net W) (w_clock W) username (fst (read_line cin)) a))
     (\<lambda>(authed, a). if \<not> authed then Inr (BeamRefused, l)
       else bindE (launchGame (w_os W) (account_json.truncate (w_json W)) cfg (se_host server) (port_of server) l)
         (\<lambda>(_, l). Inr (BeamConnect (se_host server) (port_of server) a, l))))"

section \<open>main\<close>

definition default_entry :: ServerEntry where
  "default_entry = \<lparr>se_id = 0, se_name = [], se_description = [], se_host = [], se_map = [],
     se_version = [], se_port = 4444, se_current_players = 0, se_max_players = 0,
     se_password_protected = False, se_modded = False, se_network = NOVAMP\<rparr>"

text \<open>\<open>argv\<close> without the name of the program.\<close>

definition select_server :: "client_world \<Rightarrow> string \<Rightarrow> string list \<Rightarrow> istream
    \<Rightarrow> fault + (ServerEntry option \<times> istream)" where
  "select_server W master_url args cin = (case args of
     ip # port # opts \<Rightarrow>
       (case stoi port of None \<Rightarrow> Inl (Uncaught ''stoi'')
        | Some p \<Rightarrow> Inr (Some (default_entry\<lparr>se_host := ip, se_port := p, se_name := ip,
            se_network := (case opts of m # _ \<Rightarrow> if m = ''beammp'' then BEAMMP else NOVAMP
              | [] \<Rightarrow> NOVAMP)\<rparr>), cin))
   | _ \<Rightarrow> let (servers, _) = refresh (w_json W) (w_net W) master_url True;
             (_, selected, cin) = runConsoleUI servers cin
         in Inr (selected, cin))"

definition client_main :: "client_world \<Rightarrow> string list \<Rightarrow> istream \<Rightarrow> account
    \<Rightarrow> fault + (outcome \<times> launcher)" where
  "client_main W args cin a =
     (let master_url = ''http://master.novaMP.gg'';
          (username, cin) = read_line cin; (password, cin) = read_line cin;
          cfg = \<lparr>lc_beamng_path = [], lc_mod_path = ''Resources/Client/novaMP.zip'',
            lc_master_url = master_url, lc_username = username, lc_password = password\<rparr>;
          l = \<lparr>m_jwt_token = [], la_status = [], la_written = [], la_copied = [], la_started = []\<rparr>
      in bindE (installMod (w_os W) cfg l) (\<lambda>(_, l).
         bindE (select_server W master_url args cin) (\<lambda>(selected, cin).
         case selected of
           None \<Rightarrow> Inr (NothingSelected, l)
         | Some server \<Rightarrow>
             if se_network server = BEAMMP then runBeamMP W cfg server username password a cin l
             else runNovaMP W cfg server username l)))"

section \<open>Properties\<close>

lemma write_cache_token: "write_cache A j a = Inr a' \<Longrightarrow> acc_token a' = acc_token a"
  by (auto simp: write_cache_def bindE_Inr_iff split: if_splits)

lemma beam_tryCache_token: "beam_tryCache A t u a = Inr (True, a') \<Longrightarrow> acc_token a' \<noteq> []"
  by (auto simp: beam_tryCache_def Let_def bindE_Inr_iff split: option.splits if_splits)

lemma beam_tryLiveAuth_token: "beam_tryLiveAuth A net u p a = Inr (True, a') \<Longrightarrow> acc_token a' \<noteq> []"
  by (auto simp: beam_tryLiveAuth_def Let_def bindE_Inr_iff split: option.splits if_splits)

lemma beam_authenticate_token: "beam_authenticate A net t u p a = Inr (True, a') \<Longrightarrow> acc_token a' \<noteq> []"
  by (fastforce simp: beam_authenticate_def bindE_Inr_iff beam_saveCache_def write_cache_token
      split: if_splits dest: beam_tryLiveAuth_token beam_tryCache_token)

lemma beam_authenticated: "beam_authenticate A net t u p a = Inr (True, a') \<Longrightarrow> beam_isLoggedIn a'"
  using beam_authenticate_token by (simp add: beam_isLoggedIn_def)

lemma beam_loadCached_token: "beam_loadCached A t u a = Inr (True, a') \<Longrightarrow> acc_token a' \<noteq> []"
  by (auto simp: beam_loadCached_def dest: beam_tryCache_token)

definition outcome_ok :: "string \<Rightarrow> outcome \<times> launcher \<Rightarrow> bool" where
  "outcome_ok u r = (case fst r of
     NothingSelected \<Rightarrow> la_started (snd r) = [] \<and> la_written (snd r) = []
   | BeamRefused \<Rightarrow> la_started (snd r) = [] \<and> la_written (snd r) = []
   | NovaConnect h p u' tok pw \<Rightarrow> u' = u \<and> tok = [] \<and> pw = []
   | BeamConnect h p a \<Rightarrow> acc_token a \<noteq> [])"

lemma installMod_silent: "installMod W cfg l = Inr (b, l') \<Longrightarrow>
    la_started l' = la_started l \<and> la_written l' = la_written l"
  by (auto simp: installMod_def install_in_def say_status_def Let_def split: if_splits sum.splits)

lemma runNovaMP_ok: "runNovaMP W cfg s u l = Inr r \<Longrightarrow> outcome_ok u r"
  by (auto simp: runNovaMP_def bindE_Inr_iff outcome_ok_def)

lemma runBeamMP_ok:
  assumes "runBeamMP W cfg s u p a cin l = Inr r" "la_started l = []" "la_written l = []"
  shows "outcome_ok v r"
  using assms by (auto simp: runBeamMP_def Let_def bindE_Inr_iff outcome_ok_def split: if_splits
      dest: beam_authenticate_token beam_loadCached_token)

text \<open>
  C31. Whatever the user types, the servers answer and the system does: the client connects to a BeamMP
  server only with a key, starts the game and writes its connection file only for a server that was
  selected (and, for BeamMP, after authentication); and to a NovaMP server it always presents the empty
  token and the empty server password, although it asks for a password.
\<close>

theorem client_main_outcome:
  assumes "client_main W args cin a = Inr r"
  shows "outcome_ok (fst (read_line cin)) r"
proof -
  obtain u c1 p c2 where lines: "read_line cin = (u, c1)" "read_line c1 = (p, c2)" by fastforce
  let ?url = "''http://master.novaMP.gg''"
  let ?cfg = "\<lparr>lc_beamng_path = [], lc_mod_path = ''Resources/Client/novaMP.zip'',
    lc_master_url = ?url, lc_username = u, lc_password = p\<rparr>"
  from assms obtain b l sel c3 where
    inst: "installMod (w_os W) ?cfg \<lparr>m_jwt_token = [], la_status = [], la_written = [], la_copied = [],
      la_started = []\<rparr> = Inr (b, l)"
    and run: "(case sel of None \<Rightarrow> Inr (NothingSelected, l)
      | Some server \<Rightarrow> if se_network server = BEAMMP then runBeamMP W ?cfg server u p a c3 l
          else runNovaMP W ?cfg server u l) = Inr r"
    by (auto simp: client_main_def lines Let_def bindE_Inr_iff)
  have l: "la_started l = []" "la_written l = []" using installMod_silent [OF inst] by simp_all
  show ?thesis
  proof (cases sel)
    case None
    then show ?thesis using run l by (auto simp: outcome_ok_def)
  next
    case (Some server)
    then show ?thesis using run l runBeamMP_ok runNovaMP_ok
      by (auto simp: lines split: if_splits)
  qed
qed

definition demo_os :: client_os where
  "demo_os = \<lparr>os_home = Some ''/home/ann'', os_exists = (\<lambda>_. False), os_mkdirs = (\<lambda>_. True),
     os_open = (\<lambda>_. True), os_copy = (\<lambda>_ _. Inr ()), os_fork = 42\<rparr>"

definition demo_world :: client_world where
  "demo_world = \<lparr>w_os = demo_os, w_json = empty_json\<lparr>cj_dump2 := (\<lambda>_. Some ''{}'')\<rparr>,
     w_account = beam_demo, w_net = silent_net, w_clock = 0\<rparr>"

lemma demo_run: "client_main demo_world [''10.0.0.1'', ''4444''] (Some ''ann'') fresh_account
    = Inr (NovaConnect ''10.0.0.1'' 4444 ''ann'' [] [], \<lparr>m_jwt_token = [],
        la_status = [''Installing NovaMP mod...'', ''Mod installed.'',
          ''BeamNG.drive not found: /usr/local/bin/BeamNG.drive''],
        la_written = [(''/home/ann/.local/share/BeamNG.drive/novaMP_connect.json'', ''{}'')],
        la_copied = [(''Resources/Client/novaMP.zip'',
          ''/home/ann/.local/share/BeamNG.drive/mods/novaMP.zip'')],
        la_started = []\<rparr>)"
  by code_simp

theorem client_main_outcome_witness:
  "outcome_ok ''ann'' (NovaConnect ''10.0.0.1'' 4444 ''ann'' [] [], \<lparr>m_jwt_token = [],
     la_status = [''Installing NovaMP mod...'', ''Mod installed.'',
       ''BeamNG.drive not found: /usr/local/bin/BeamNG.drive''],
     la_written = [(''/home/ann/.local/share/BeamNG.drive/novaMP_connect.json'', ''{}'')],
     la_copied = [(''Resources/Client/novaMP.zip'', ''/home/ann/.local/share/BeamNG.drive/mods/novaMP.zip'')],
     la_started = []\<rparr>)"
  using client_main_outcome [OF demo_run] by (simp add: read_line_def)

end
