(* ===== verification/Login.thy ===== *)
theory Login
  imports Server_Auth Network_Client
begin

text \<open>
  The login from end to end: the frame the client writes once it is connected is handled by a reachable
  server, and what the server writes to the session is read by the client. The two JSON libraries are
  linked by hypotheses on the few documents that are exchanged: printing succeeds, the other side
  parses the text, and \<open>value\<close> returns the member that is there, or the default.
\<close>

section \<open>Documents on the wire\<close>

definition carries_up :: "client_json \<Rightarrow> env \<Rightarrow> (string \<times> json) list \<Rightarrow> bool" where
  "carries_up J E ms \<longleftrightarrow> (\<exists>t j. cj_dump J (JObj ms) = Some t \<and> length t < 65536
     \<and> json_parse E t = Some j
     \<and> (\<forall>k d. json_value_str E j k d = (case map_of ms k of None \<Rightarrow> Some d
         | Some (JStr v) \<Rightarrow> Some v | Some _ \<Rightarrow> None)))"

definition reads_member :: "client_json \<Rightarrow> json \<Rightarrow> string \<Rightarrow> json \<Rightarrow> bool" where
  "reads_member J j k v = (case v of
     JStr s \<Rightarrow> (\<forall>d. cj_str J j k d = Some s)
   | JInt i \<Rightarrow> (\<forall>d. cj_int J j k d = Some i) \<and> (\<forall>d. cj_u16 J j k d = Some (word_of_int i))
   | JBool b \<Rightarrow> (\<forall>d. cj_bool J j k d = Some b)
   | _ \<Rightarrow> True)"

definition carries_down :: "env \<Rightarrow> client_json \<Rightarrow> json \<Rightarrow> bool" where
  "carries_down E J doc \<longleftrightarrow> (\<exists>t j. json_dump E doc = Some t \<and> length t < 65536 \<and> cj_parse J t = Some j
     \<and> (case doc of JObj ms \<Rightarrow> list_all (\<lambda>(k, v). reads_member J j k v) ms | _ \<Rightarrow> False))"

text \<open>What the client's \<open>connect\<close> puts into its login.\<close>

definition auth_members :: "string \<Rightarrow> string \<Rightarrow> string \<Rightarrow> (string \<times> json) list" where
  "auth_members name tok pw = [(''username'', JStr name), (''token'', JStr tok),
     (''server_password'', JStr pw), (''version'', JStr ''1.0.0'')]"

section \<open>Packets at the two ends\<close>

lemma net_onPacket_buildStr:
  assumes "length t < 65536"
  shows "net_onPacket J (buildStr T i q t) c =
    (let c = (if T = AUTH_RESPONSE then on_auth_response J t c else c);
         c = (if T = SERVER_INFO then c\<lparr>nc_server_info := on_server_info J t (nc_server_info c)\<rparr> else c)
     in Inr (if nc_has_pkt_cb c
       then c\<lparr>nc_calls := nc_calls c @ [PktCb (type_code T) (buildStr T i q t)]\<rparr> else c))"
proof -
  have n: "unat (word_of_nat (length t) :: u16) = length t" using assms by (simp add: unat_word_of_nat_u16)
  have h: "client_parseHeader (buildStr T i q t) = Inr \<lparr>hdr_type = type_code T, hdr_sender_id = i,
      hdr_sequence = q, hdr_payload_len = word_of_nat (length t), hdr_flags = 0\<rparr>"
    by (simp add: buildStr_def build_def client_parseHeader_def)
  have b: "packet_body (buildStr T' i q t) (word_of_nat (length t)) = Inr t" for T'
    by (simp add: packet_body_def buildStr_def build_def n read_bytes_def)
  show ?thesis
    by (simp add: net_onPacket_def h b client_type_of_byte_code authority_types_def Let_def)
qed

lemma frame_ok_buildStr: "length t < 65536 \<Longrightarrow> frame_ok (buildStr T i q t)"
  by (auto simp: frame_ok_def buildStr_def build_def unat_word_of_nat_u16 MAX_FRAME_def header_bytes_def)

lemma net_read_loop_frames:
  "\<forall>p \<in> set ps. frame_ok p \<Longrightarrow> net_read_loop J (concat (map session_frame ps)) c
     = bindE (foldE (net_onPacket J) ps c) (\<lambda>c. Inr ([], c))"
proof (induction ps arbitrary: c)
  case Nil
  then show ?case by (subst net_read_loop.simps) (simp add: net_read_frame_def)
next
  case (Cons p ps)
  then have "net_read_frame (concat (map session_frame (p # ps))) = Got p (concat (map session_frame ps))"
    by (simp add: net_read_frame_eq read_frame_session_frame)
  with Cons show ?case by (subst net_read_loop.simps) (cases "net_onPacket J p c"; simp)
qed

text \<open>The client after the positive answer and the server information.\<close>

lemma client_after_login:
  assumes ok: "carries_down E J (auth_ok_json E pid)" and info: "carries_down E J (server_info_json E n)"
  shows "\<exists>ok info c'. json_dump E (auth_ok_json E pid) = Some ok
    \<and> json_dump E (server_info_json E n) = Some info
    \<and> net_read_loop J (session_frame (buildStr AUTH_RESPONSE 0 0 ok)
        @ session_frame (buildStr SERVER_INFO 0 0 info)) c = Inr ([], c')
    \<and> nc_connected c' \<and> nc_player_id c' = pid
    \<and> si_name (nc_server_info c') = cfg_name (e_cfg E) \<and> si_map (nc_server_info c') = cfg_map (e_cfg E)
    \<and> si_max_players (nc_server_info c') = cfg_max_players (e_cfg E)
    \<and> si_current_players (nc_server_info c') = int n
    \<and> si_ai_enabled (nc_server_info c') = cfg_ai_enabled (e_cfg E)"
proof -
  obtain okt jo where o: "json_dump E (auth_ok_json E pid) = Some okt" "length okt < 65536"
      "cj_parse J okt = Some jo" "cj_bool J jo ''ok'' False = Some True"
      "cj_u16 J jo ''player_id'' 0 = Some pid"
    using ok by (auto simp: carries_down_def auth_ok_json_def reads_member_def)
  obtain it ji where i: "json_dump E (server_info_json E n) = Some it" "length it < 65536"
      "cj_parse J it = Some ji" "cj_str J ji ''name'' [] = Some (cfg_name (e_cfg E))"
      "cj_str J ji ''map'' [] = Some (cfg_map (e_cfg E))"
      "cj_int J ji ''max_players'' 0 = Some (cfg_max_players (e_cfg E))"
      "cj_int J ji ''current'' 0 = Some (int n)"
      "cj_bool J ji ''ai_enabled'' False = Some (cfg_ai_enabled (e_cfg E))"
    using info by (auto simp: carries_down_def server_info_json_def reads_member_def)
  let ?ps = "[buildStr AUTH_RESPONSE 0 0 okt, buildStr SERVER_INFO 0 0 it]"
  have "net_read_loop J (concat (map session_frame ?ps)) c
      = bindE (foldE (net_onPacket J) ?ps c) (\<lambda>c. Inr ([], c))"
    by (rule net_read_loop_frames) (simp add: frame_ok_buildStr o i)
  then show ?thesis using o i
    by (simp add: net_onPacket_buildStr on_auth_response_def on_server_info_def conn_cb_def Let_def)
qed

lemma client_login_frame:
  assumes "carries_up J E (auth_members name tok pw)"
  shows "\<exists>t j c1. length t < 65536 \<and> json_parse E t = Some j
    \<and> json_value_str E j ''username'' [] = Some name
    \<and> json_value_str E j ''server_password'' [] = Some pw
    \<and> json_value_str E j ''role'' ''player'' = Some ''player''
    \<and> net_on_connected J (Inr host) port name tok pw c = Inr c1
    \<and> nc_tcp_out c1 = nc_tcp_out c
        @ [session_frame (buildStr AUTH_REQUEST (nc_player_id c) (nc_tcp_seq c + 1) t)]"
  using assms
  by (auto simp: carries_up_def auth_members_def net_on_connected_def net_sendTCP_def net_frame_eq
      client_buildStr_eq Let_def)

lemma read_one_frame: "frame_ok p \<Longrightarrow> read_frames (session_frame p) = ([p], Waiting)"
  using tcp.run_encoded [of "[p]" "[]"] by (simp add: read_frames.simps [of "[]"] read_frame_def)

section \<open>Properties\<close>

text \<open>
  C1. Logging in works from end to end: the client's first frame crosses the TCP framing as one packet,
  the server admits the player, and the client, reading exactly what the server wrote to its session,
  is connected under the id the server gave it and holds the server's name, map, limit and number of
  players. (For a server without password that is not full, and plugins that make no calls and do not
  veto.)
\<close>

theorem login_handshake:
  assumes "reachable E s" and "silent E" and "map_of (m_sessions s) sid = Some ip"
    and "cfg_password (e_cfg E) = []" and "int (length (m_players s)) < cfg_max_players (e_cfg E)"
    and "name \<noteq> []" and "name \<noteq> BRIDGE_NAME"
    and "\<not> vetoed (lua_answer E ''onPlayerAuth'' [to_string (next_id s), name]
           (logged_in sid ip name ''player'' s))"
    and "carries_up J E (auth_members name [] [])"
    and "carries_down E J (auth_ok_json E (next_id s))"
    and "carries_down E J
      (server_info_json E (length (m_players (logged_in sid ip name ''player'' s))))"
  shows "\<exists>c1 p u written c2.
      net_on_connected J (Inr host) port name [] [] c = Inr c1
    \<and> nc_tcp_out c1 = nc_tcp_out c @ [session_frame p] \<and> read_frames (session_frame p) = ([p], Waiting)
    \<and> handle E (EvFrame sid p) s = Inr u
    \<and> tcp_out u = tcp_out s @ map (Pair sid) written
    \<and> net_read_loop J (concat written) c1 = Inr ([], c2)
    \<and> nc_connected c2 \<and> map_of (m_session_to_player u) sid = Some (nc_player_id c2)
    \<and> map_option pl_username (map_of (m_players u) (nc_player_id c2)) = Some name
    \<and> si_name (nc_server_info c2) = cfg_name (e_cfg E) \<and> si_map (nc_server_info c2) = cfg_map (e_cfg E)
    \<and> si_max_players (nc_server_info c2) = cfg_max_players (e_cfg E)
    \<and> si_current_players (nc_server_info c2) = int (length (m_players u))"
proof -
  let ?s = "logged_in sid ip name ''player'' s"
  have h: "held s = []" by (rule reachable_held [OF assms(1)])
  obtain t j c1 where up: "length t < 65536" "json_parse E t = Some j"
      "json_value_str E j ''username'' [] = Some name"
      "json_value_str E j ''server_password'' [] = Some []"
      "json_value_str E j ''role'' ''player'' = Some ''player''"
    and c1: "net_on_connected J (Inr host) port name [] [] c = Inr c1" "nc_tcp_out c1 = nc_tcp_out c
        @ [session_frame (buildStr AUTH_REQUEST (nc_player_id c) (nc_tcp_seq c + 1) t)]"
    using client_login_frame [OF assms(9)] by blast
  obtain ok info c2 where dumps: "json_dump E (auth_ok_json E (next_id s)) = Some ok"
      "json_dump E (server_info_json E (length (m_players ?s))) = Some info"
    and c2: "net_read_loop J (session_frame (buildStr AUTH_RESPONSE 0 0 ok)
        @ session_frame (buildStr SERVER_INFO 0 0 info)) c1 = Inr ([], c2)"
      "nc_connected c2" "nc_player_id c2 = next_id s"
      "si_name (nc_server_info c2) = cfg_name (e_cfg E)" "si_map (nc_server_info c2) = cfg_map (e_cfg E)"
      "si_max_players (nc_server_info c2) = cfg_max_players (e_cfg E)"
      "si_current_players (nc_server_info c2) = int (length (m_players ?s))"
    using client_after_login [OF assms(10,11), of c1] by blast
  let ?p = "buildStr AUTH_REQUEST (nc_player_id c) (nc_tcp_seq c + 1) t"
  let ?w = "[session_frame (buildStr AUTH_RESPONSE 0 0 ok), session_frame (buildStr SERVER_INFO 0 0 info)]"
  let ?u = "log_event ''onPlayerAuth'' [to_string (next_id s), name] ?s
      \<lparr>tcp_out := tcp_out s @ [(sid, session_frame (buildStr AUTH_RESPONSE 0 0 ok)),
         (sid, session_frame (buildStr SERVER_INFO 0 0 info))]\<rparr>"
  have "\<not> rejected E name [] s" using assms(4,5,7) by (simp add: rejected_def)
  from handle_auth_player [OF h up(1-4) assms(6,7) this]
    handleAuth_player_ok [OF h assms(2,3) up(5) assms(8) dumps]
  have u: "handle E (EvFrame sid ?p) s = Inr ?u" by simp
  have b: "map_of (m_session_to_player ?s) sid = Some (next_id s)"
    "map_option pl_username (map_of (m_players ?s) (next_id s)) = Some name"
    by (simp_all add: logged_in_def Let_def update_conv)
  show ?thesis
    by (rule exI [of _ c1], rule exI [of _ ?p], rule exI [of _ ?u], rule exI [of _ ?w], rule exI [of _ c2])
      (use c1 c2 u b read_one_frame [OF frame_ok_buildStr [OF up(1)]] in simp)
qed

text \<open>Two libraries that know the documents of one login, and a server with and without a password.\<close>

fun demo_int :: "json \<Rightarrow> string \<Rightarrow> int \<Rightarrow> int option" where
  "demo_int (JObj ms) k d = (case map_of ms k of Some (JInt v) \<Rightarrow> Some v | _ \<Rightarrow> Some d)"
| "demo_int _ k d = None"

fun demo_bool :: "json \<Rightarrow> string \<Rightarrow> bool \<Rightarrow> bool option" where
  "demo_bool (JObj ms) k d = (case map_of ms k of Some (JBool v) \<Rightarrow> Some v | _ \<Rightarrow> Some d)"
| "demo_bool _ k d = None"

definition link_json :: client_json where
  "link_json = \<lparr>cj_parse = (\<lambda>t. if t = ''ok'' then Some (auth_ok_json demo 1)
       else if t = ''info'' then Some (server_info_json demo 1) else None),
     cj_dump = (\<lambda>_. Some ''up''), cj_bool = demo_bool, cj_str = demo_value, cj_int = demo_int,
     cj_u16 = (\<lambda>j k d. map_option word_of_int (demo_int j k (uint d)))\<rparr>"

definition link_env :: "string \<Rightarrow> env" where
  "link_env pw = (demo_env (sample_config\<lparr>cfg_password := pw\<rparr>))
     \<lparr>json_parse := (\<lambda>t. if t = ''up'' then Some (JObj (auth_members ''ann'' [] [])) else None),
      json_dump := (\<lambda>j. if j = auth_ok_json demo 1 then Some ''ok'' else Some ''info'')\<rparr>"

lemma link_env_facts [simp]: "e_cfg (link_env pw) = sample_config\<lparr>cfg_password := pw\<rparr>"
  "silent (link_env pw)" "lua_answer (link_env pw) ev args s = []"
  "auth_ok_json (link_env pw) i = auth_ok_json demo i"
  "server_info_json (link_env pw) n = server_info_json demo n"
  by (simp_all add: link_env_def demo_env_def silent_def lua_answer_def lua_string_def auth_ok_json_def
      server_info_json_def demo_def)

lemma link_reachable: "reachable (link_env pw) accepted"
proof (rule reachable.event [OF reachable.init])
  show "handle (link_env pw) (EvAccept ''10.0.0.1'') initial_server = Inr accepted"
    by (simp add: accepted_def initial_server_def)
qed

lemma link_up: "carries_up link_json (link_env pw) (auth_members ''ann'' [] [])"
  unfolding carries_up_def
  by (intro exI [of _ "''up''"] exI [of _ "JObj (auth_members ''ann'' [] [])"])
    (auto simp: link_json_def link_env_def demo_env_def auth_members_def split: option.split)

lemma link_down: "carries_down (link_env pw) link_json (auth_ok_json demo 1)"
  "carries_down (link_env pw) link_json (server_info_json demo 1)"
  unfolding carries_down_def
  by (intro exI [of _ "''ok''"] exI [of _ "auth_ok_json demo 1"],
      simp add: link_env_def link_json_def auth_ok_json_def reads_member_def)
    (intro exI [of _ "''info''"] exI [of _ "server_info_json demo 1"],
      simp add: link_env_def link_json_def auth_ok_json_def server_info_json_def reads_member_def)

theorem login_handshake_witness:
  "\<exists>c1 p u written c2. net_on_connected link_json (Inr ''h'') 4444 ''ann'' [] [] demo_client = Inr c1
    \<and> nc_tcp_out c1 = [session_frame p] \<and> handle (link_env []) (EvFrame 1 p) accepted = Inr u
    \<and> tcp_out u = map (Pair 1) written \<and> net_read_loop link_json (concat written) c1 = Inr ([], c2)
    \<and> nc_connected c2 \<and> map_of (m_session_to_player u) 1 = Some (nc_player_id c2)"
proof -
  have n: "next_id accepted = 1" "length (m_players (logged_in 1 ''10.0.0.1'' ''ann'' ''player'' accepted)) = 1"
    "tcp_out accepted = []" "nc_tcp_out demo_client = []"
    by (simp_all add: next_id_def logged_in_def Let_def accepted_def initial_server_def demo_client_def)
  note r = login_handshake [OF link_reachable [of "[]"], of 1 "''10.0.0.1''" "''ann''" link_json "''h''" 4444
      demo_client]
  have "map_of (m_sessions accepted) 1 = Some ''10.0.0.1''" "int (length (m_players accepted)) < 10"
    by (simp_all add: accepted_def initial_server_def)
  with r link_up [of "[]"] link_down [of "[]"] show ?thesis
    by (simp add: n BRIDGE_NAME_def vetoed_def sample_config_def) blast
qed

text \<open>
  C32. A server with a password does not admit the client as its \<open>main\<close> uses it: \<open>main\<close> passes an empty
  server password (see \<open>client_main_outcome\<close>), and handling the frame of that login either ends in the
  self-deadlock of \<open>disconnect\<close> or leaves players and bindings as they were.
\<close>

theorem password_server_unreachable:
  assumes "reachable E s" and "cfg_password (e_cfg E) \<noteq> []"
    and "name \<noteq> []" and "name \<noteq> BRIDGE_NAME"
    and "carries_up J E (auth_members name [] [])"
    and "net_on_connected J (Inr host) port name [] [] c = Inr c1"
  shows "\<exists>p. nc_tcp_out c1 = nc_tcp_out c @ [session_frame p] \<and> read_frames (session_frame p) = ([p], Waiting)
    \<and> (case handle E (EvFrame sid p) s of Inl _ \<Rightarrow> True
      | Inr u \<Rightarrow> m_players u = m_players s \<and> m_session_to_player u = m_session_to_player s)"
proof -
  have h: "held s = []" by (rule reachable_held [OF assms(1)])
  obtain t j where up: "length t < 65536" "json_parse E t = Some j"
      "json_value_str E j ''username'' [] = Some name"
      "json_value_str E j ''server_password'' [] = Some []"
    and c1: "nc_tcp_out c1 = nc_tcp_out c
        @ [session_frame (buildStr AUTH_REQUEST (nc_player_id c) (nc_tcp_seq c + 1) t)]"
    using client_login_frame [OF assms(5), of host port c] assms(6) by auto
  have "rejected E name [] s" using assms(2-4) by (simp add: rejected_def)
  from handle_auth_rejected [OF h up this] obtain err where
    "handle E (EvFrame sid (buildStr AUTH_REQUEST (nc_player_id c) (nc_tcp_seq c + 1) t)) s
      = auth_reject (onDisconnect E) E sid err s" by blast
  moreover have "case auth_reject (onDisconnect E) E sid err s of Inl _ \<Rightarrow> True
      | Inr u \<Rightarrow> sid \<notin> fst ` set (m_sessions s) \<and> core u = core s"
    by (rule auth_reject_live [OF h])
  moreover note c1 read_one_frame [OF frame_ok_buildStr [OF up(1)]]
  ultimately show ?thesis
    by (intro exI [of _ "buildStr AUTH_REQUEST (nc_player_id c) (nc_tcp_seq c + 1) t"])
      (auto simp: core_eq_iff split: sum.splits)
qed

theorem password_server_unreachable_witness:
  "\<exists>c1 p. net_on_connected link_json (Inr ''h'') 4444 ''ann'' [] [] demo_client = Inr c1
    \<and> nc_tcp_out c1 = [session_frame p]
    \<and> (case handle (link_env ''secret'') (EvFrame 1 p) accepted of Inl _ \<Rightarrow> True | Inr u \<Rightarrow> m_players u = [])"
proof -
  obtain t j c1 where c1: "net_on_connected link_json (Inr ''h'') 4444 ''ann'' [] [] demo_client = Inr c1"
    using client_login_frame [OF link_up [of "''secret''"]] by blast
  note r = password_server_unreachable [OF link_reachable [of "''secret''"] _ _ _ link_up c1, of 1]
  then show ?thesis using c1
    by (auto simp: BRIDGE_NAME_def demo_client_def accepted_def initial_server_def split: sum.splits)
qed

end
