(* ===== verification/Headless.thy ===== *)
theory Headless
  imports Server_Demo
begin

text \<open>
  Class \<open>HeadlessLauncher\<close> of \<^verbatim>\<open>servers/src/headless_launcher.cpp\<close>, the Linux branch, as a state machine
  over the POSIX process table: the child processes of the server that exist (running, or exited and
  not yet waited for). \<open>fork\<close>, \<open>kill\<close> and \<open>waitpid\<close> have their documented effects on it; which path
  exists, what \<open>fork\<close> returns and when a child exits comes from outside.
\<close>

section \<open>The process table\<close>

datatype proc = Running | Exited

record headless =
  m_pid :: int
  m_exe_path :: string
  children :: "int \<rightharpoonup> proc"
  signalled :: "int list"     \<comment> \<open>targets of \<open>kill(pid, SIGTERM)\<close>\<close>
  progress :: "string list"

definition initial_headless :: headless where
  "initial_headless = \<lparr>m_pid = -1, m_exe_path = [], children = Map.empty, signalled = [], progress = []\<rparr>"

text \<open>
  \<open>waitpid(pid, nullptr, WNOHANG)\<close>: 0 for a running child, the pid for one that has exited, which is
  reaped, and -1 when there is no such child.
\<close>

definition waitpid_nohang :: "int \<Rightarrow> headless \<Rightarrow> int \<times> headless" where
  "waitpid_nohang pid h = (case children h pid of
     None \<Rightarrow> (-1, h)
   | Some Running \<Rightarrow> (0, h)
   | Some Exited \<Rightarrow> (pid, h\<lparr>children := (children h)(pid := None)\<rparr>))"

text \<open>
  \<open>waitpid(pid, nullptr, 0)\<close> reaps a child that has exited and returns at once without such a child; for a
  child that runs, and that nobody has told to end, it does not return.
\<close>

definition waitpid_block :: "int \<Rightarrow> headless \<Rightarrow> fault + headless" where
  "waitpid_block pid h = (case children h pid of
     None \<Rightarrow> Inr h
   | Some Running \<Rightarrow> Inl Forever
   | Some Exited \<Rightarrow> Inr (h\<lparr>children := (children h)(pid := None)\<rparr>))"

text \<open>\<open>SIGTERM\<close> ends the process that gets it; the launched game does not handle the signal.\<close>

definition kill_term :: "int \<Rightarrow> headless \<Rightarrow> headless" where
  "kill_term pid h = h\<lparr>signalled := signalled h @ [pid],
     children := (case children h pid of Some Running \<Rightarrow> (children h)(pid \<mapsto> Exited) | _ \<Rightarrow> children h)\<rparr>"

section \<open>The class\<close>

text \<open>The bytes of the dash in the messages.\<close>

definition em_dash :: string where "em_dash = [CHR 0xE2, CHR 0x80, CHR 0x94]"

definition home_game :: string where
  "home_game = ''/.steam/steam/steamapps/common/BeamNG.drive/BeamNG.drive.x86_64''"

definition detectLinux :: "(string \<Rightarrow> bool) \<Rightarrow> string option \<Rightarrow> string" where
  "detectLinux exists home =
     (case find exists [''/home/user/.steam/steam/steamapps/common/BeamNG.drive/BeamNG.drive.x86_64'',
         ''/opt/steam/steamapps/common/BeamNG.drive/BeamNG.drive.x86_64''] of
        Some p \<Rightarrow> p
      | None \<Rightarrow> (case home of
          Some h \<Rightarrow> if exists (h @ home_game) then h @ home_game else []
        | None \<Rightarrow> []))"

definition headless_detect :: "(string \<Rightarrow> bool) \<Rightarrow> string option \<Rightarrow> ServerConfig \<Rightarrow> string" where
  "headless_detect exists home cfg =
     (if cfg_beamng_exe_path cfg \<noteq> [] \<and> exists (cfg_beamng_exe_path cfg) then cfg_beamng_exe_path cfg
      else detectLinux exists home)"

definition report :: "string \<Rightarrow> headless \<Rightarrow> headless" where
  "report m h = h\<lparr>progress := progress h @ [m]\<rparr>"

text \<open>\<open>exe\<close> is the path found and \<open>pid\<close> what \<open>fork\<close> returns in the parent.\<close>

definition headless_fork :: "int \<Rightarrow> headless \<Rightarrow> bool \<times> headless" where
  "headless_fork pid h =
     (if pid < 0 then (False, report (''fork() failed '' @ em_dash @ '' cannot launch headless BeamNG.'') h)
      else (True, report (''Headless BeamNG launched (PID='' @ dec_int pid @ '').'')
         (h\<lparr>children := (children h)(pid \<mapsto> Running), m_pid := pid\<rparr>)))"

definition headless_launch :: "string \<Rightarrow> int \<Rightarrow> headless \<Rightarrow> bool \<times> headless" where
  "headless_launch exe pid h = (let h = h\<lparr>m_exe_path := exe\<rparr> in
     if exe = []
     then (False, report (''BeamNG.drive not found '' @ em_dash @ '' cannot launch headless instance.'') h)
     else headless_fork pid (report (''Found BeamNG.drive at: '' @ exe) h))"

definition headless_terminate :: "headless \<Rightarrow> fault + headless" where
  "headless_terminate h = (if m_pid h > 0
     then bindE (waitpid_block (m_pid h) (kill_term (m_pid h) h)) (\<lambda>h. Inr (h\<lparr>m_pid := -1\<rparr>)) else Inr h)"

definition headless_isRunning :: "headless \<Rightarrow> bool \<times> headless" where
  "headless_isRunning h = (if m_pid h \<le> 0 then (False, h)
     else let (r, h) = waitpid_nohang (m_pid h) h in (r = 0, h))"

section \<open>Runs\<close>

text \<open>
  What can happen to a launcher that is launched only while it holds no process, as \<open>GameServer::run\<close>
  does: a launch (\<open>fork\<close> gives a positive number that no child has, or fails), the child exits, the
  server polls or terminates it.
\<close>

inductive hl_step :: "headless \<Rightarrow> headless \<Rightarrow> bool" where
  launch: "m_pid h \<le> 0 \<Longrightarrow> pid \<noteq> 0 \<Longrightarrow> children h pid = None \<Longrightarrow>
     hl_step h (snd (headless_launch exe pid h))"
| exits: "children h pid = Some Running \<Longrightarrow> hl_step h (h\<lparr>children := (children h)(pid \<mapsto> Exited)\<rparr>)"
| poll: "hl_step h (snd (headless_isRunning h))"
| terminate: "headless_terminate h = Inr h' \<Longrightarrow> hl_step h h'"

inductive hl_reach :: "headless \<Rightarrow> bool" where
  hl_init: "hl_reach initial_headless"
| hl_step: "hl_reach h \<Longrightarrow> hl_step h h' \<Longrightarrow> hl_reach h'"

lemmas headless_simps = headless_launch_def headless_fork_def headless_terminate_def headless_isRunning_def
  waitpid_nohang_def waitpid_block_def kill_term_def report_def Let_def

text \<open>Every child is the one the launcher holds.\<close>

lemma clear_only_child: "dom m \<subseteq> {x} \<Longrightarrow> m(x := None) = Map.empty"
  by (auto simp: fun_eq_iff)

lemma headless_terminated:
  assumes "dom (children h) \<subseteq> {m_pid h} \<inter> {0<..}"
  shows "\<exists>h'. headless_terminate h = Inr h' \<and> children h' = Map.empty \<and> m_pid h' \<le> 0
    \<and> signalled h' = signalled h @ (if 0 < m_pid h then [m_pid h] else [])"
proof (cases "0 < m_pid h")
  case False
  then have "dom (children h) = {}" using assms by fastforce
  then show ?thesis using False by (simp add: headless_terminate_def)
next
  case True
  have gone: "(children h)(m_pid h := None) = Map.empty" using assms by (auto intro: clear_only_child)
  show ?thesis
  proof (cases "children h (m_pid h)")
    case None
    then have "children h = Map.empty" using gone by (metis fun_upd_triv)
    then show ?thesis using True by (simp add: headless_simps)
  next
    case (Some p)
    then show ?thesis using True gone by (cases p) (simp_all add: headless_simps)
  qed
qed

lemma hl_step_children:
  assumes "hl_step h h'" "dom (children h) \<subseteq> {m_pid h} \<inter> {0<..}"
  shows "dom (children h') \<subseteq> {m_pid h'} \<inter> {0<..}"
  using assms
proof (cases rule: hl_step.cases)
  case terminate
  then show ?thesis using headless_terminated [OF assms(2)] by auto
qed (use assms(2) in \<open>auto simp: headless_simps clear_only_child split: option.splits proc.splits if_splits\<close>)

lemma hl_reach_children: "hl_reach h \<Longrightarrow> dom (children h) \<subseteq> {m_pid h} \<inter> {0<..}"
proof (induction rule: hl_reach.induct)
  case hl_init
  then show ?case by (simp add: initial_headless_def)
qed (rule hl_step_children)

text \<open>
  The launcher leaks no process: in every reachable state the only child, running or exited, is the
  one whose number it holds, and after \<open>terminate\<close> there is none, neither an orphan nor a zombie.
\<close>

theorem headless_no_leak:
  assumes "hl_reach h"
  shows "dom (children h) \<subseteq> {m_pid h} \<and> (\<exists>h'. headless_terminate h = Inr h' \<and> children h' = Map.empty)"
  using hl_reach_children [OF assms] headless_terminated [OF hl_reach_children [OF assms]] by blast

theorem headless_no_leak_witness:
  "\<exists>h'. headless_terminate (snd (headless_launch ''/g'' 77 initial_headless)) = Inr h' \<and> children h' = Map.empty"
proof -
  have "hl_reach (snd (headless_launch ''/g'' 77 initial_headless))"
    by (rule hl_reach.hl_step [OF hl_reach.hl_init]) (rule hl_step.launch; simp add: initial_headless_def)
  from headless_no_leak [OF this] show ?thesis by simp
qed

text \<open>
  Polling is not safe before terminating: when the child of a reachable launcher has exited,
  \<open>isRunning\<close> reaps it but keeps its number, and the next \<open>terminate\<close> sends \<open>SIGTERM\<close> to that number,
  which no longer belongs to a child of the server (the system may have given it to any process).
\<close>

theorem poll_then_terminate_signals_stranger:
  assumes "hl_reach h" "children h (m_pid h) = Some Exited"
  shows "\<exists>h'. headless_isRunning h = (False, h') \<and> hl_reach h' \<and> children h' = Map.empty
    \<and> (\<exists>h''. headless_terminate h' = Inr h'' \<and> signalled h'' = signalled h @ [m_pid h])"
proof -
  have d: "dom (children h) \<subseteq> {m_pid h} \<inter> {0<..}" by (rule hl_reach_children [OF assms(1)])
  then have p: "0 < m_pid h" using assms(2) by auto
  let ?h = "h\<lparr>children := (children h)(m_pid h := None)\<rparr>"
  have r: "headless_isRunning h = (False, ?h)" using p assms(2) by (simp add: headless_simps)
  moreover have "hl_reach ?h" using hl_reach.hl_step [OF assms(1) hl_step.poll] r by simp
  moreover have "children ?h = Map.empty" using d by (auto simp: fun_eq_iff)
  ultimately show ?thesis using p by (simp add: headless_simps)
qed

theorem poll_then_terminate_signals_stranger_witness:
  "\<exists>h h' h''. hl_reach h \<and> headless_isRunning h = (False, h') \<and> children h' = Map.empty
    \<and> headless_terminate h' = Inr h'' \<and> signalled h'' = [77]"
proof -
  let ?h = "snd (headless_launch ''/g'' 77 initial_headless)"
  let ?x = "?h\<lparr>children := (children ?h)(77 \<mapsto> Exited)\<rparr>"
  have "hl_reach ?h"
    by (rule hl_reach.hl_step [OF hl_reach.hl_init]) (rule hl_step.launch; simp add: initial_headless_def)
  then have x: "hl_reach ?x"
    by (rule hl_reach.hl_step) (rule hl_step.exits, simp add: headless_simps)
  have f: "m_pid ?x = 77" "children ?x (m_pid ?x) = Some Exited" "signalled ?x = []"
    by (simp_all add: headless_simps initial_headless_def)
  from poll_then_terminate_signals_stranger [OF x f(2)] show ?thesis
    using x unfolding f by auto
qed

text \<open>
  A path that is found exists, and the configured one comes first: \<open>detectBeamNGPath\<close> gives an
  existing file or nothing, the configured file whenever that exists, and nothing only when none of the
  candidates exists.
\<close>

theorem headless_path_exists:
  "(headless_detect exists home cfg = [] \<or> exists (headless_detect exists home cfg))
    \<and> (cfg_beamng_exe_path cfg \<noteq> [] \<and> exists (cfg_beamng_exe_path cfg)
        \<longrightarrow> headless_detect exists home cfg = cfg_beamng_exe_path cfg)
    \<and> (headless_detect exists home cfg = [] \<longrightarrow>
        \<not> exists ''/opt/steam/steamapps/common/BeamNG.drive/BeamNG.drive.x86_64''
        \<and> (\<forall>h. home = Some h \<longrightarrow> \<not> exists (h @ home_game)))"
  by (auto simp: headless_detect_def detectLinux_def home_game_def split: option.split)

theorem headless_path_exists_witness:
  "headless_detect (\<lambda>p. p = ''/g'') None (sample_config\<lparr>cfg_beamng_exe_path := ''/g''\<rparr>) = ''/g''"
  using headless_path_exists [of "\<lambda>p. p = ''/g''" None "sample_config\<lparr>cfg_beamng_exe_path := ''/g''\<rparr>"] by simp

end
