(* ===== verification/Server_Startup.thy ===== *)
theory Server_Startup
  imports Server_Bounds Server_Safety Server_Auth Server_Config Http
begin

text \<open>
  Starting the server: loading the plugins (\<^verbatim>\<open>lua_engine.cpp\<close>), the constructor of \<open>GameServer\<close>
  (\<^verbatim>\<open>game_server.cpp\<close>) with the sockets it opens, and \<^verbatim>\<open>servers/src/main.cpp\<close>.
\<close>

section \<open>Loading plugins\<close>

text \<open>
  The constructor of \<open>GameServer\<close> loads the plugins before it creates \<open>m_tcp\<close>, and before there is any
  session: a chat message to everybody goes through a null pointer, one to a player finds no session.
\<close>

fun construction_api :: "disc_cb \<Rightarrow> lua_call \<Rightarrow> server \<Rightarrow> fault + server" where
  "construction_api cb (LSendChatMessage pid msg) s = (if pid < 0 then Inl NullDeref else Inr s)"
| "construction_api cb c s = lua_api cb c s"

definition loadFile :: "env \<Rightarrow> string \<Rightarrow> server \<Rightarrow> fault + server" where
  "loadFile E content s =
     (let v = lua_view_of s; (calls, res) = lua_run E (lua_history s) v (LuaChunk content)
      in foldE (construction_api (onDisconnect E)) calls
           (s\<lparr>lua_history := lua_history s @ [(v, LuaChunk content)]\<rparr>))"

text \<open>\<open>path::extension()\<close> of a file name\<close>

definition file_extension :: "string \<Rightarrow> string" where
  "file_extension name = (case rsplit_at CHR ''.'' name of
     Some (stem, e) \<Rightarrow> if stem = [] then [] else CHR ''.'' # e | None \<Rightarrow> [])"

text \<open>The directory is its files with their contents, in the order of the iterator.\<close>

definition loadPlugins :: "env \<Rightarrow> (string \<times> string) list option \<Rightarrow> server \<Rightarrow> fault + server" where
  "loadPlugins E dir s = (case dir of None \<Rightarrow> Inr s | Some files \<Rightarrow>
     foldE (\<lambda>(name, content) s. if file_extension name = ''.lua'' then loadFile E content s else Inr s)
       files s)"

section \<open>The constructor\<close>

datatype protocol = UDP | TCP

text \<open>
  What the system and the missing class \<open>AITraffic\<close> give the constructor: whether the log file can be
  opened, whether loading the roads of a map returns, whether there is memory for a Lua state, whether a
  port can be bound beside the sockets the process has, and the directory of plugins.
\<close>

record startup_env =
  st_log_opens :: "string \<Rightarrow> bool"
  st_roads :: "string \<Rightarrow> bool"
  st_lua_state :: bool
  st_bind :: "(protocol \<times> u16) list \<Rightarrow> protocol \<times> u16 \<Rightarrow> bool"
  st_plugins :: "(string \<times> string) list option"

record constructed =
  gs_server :: server
  gs_sockets :: "(protocol \<times> u16) list"
  gs_authority :: bool
  gs_headless :: bool

definition open_socket ::
    "startup_env \<Rightarrow> protocol \<times> u16 \<Rightarrow> (protocol \<times> u16) list \<Rightarrow> fault + (protocol \<times> u16) list" where
  "open_socket S x socks = (if st_bind S socks x then Inr (socks @ [x]) else Inl (Uncaught ''bind''))"

text \<open>
  The constructors that can throw: of \<open>LuaEngine\<close> when there is no memory for a Lua state, of the three
  servers when their port cannot be bound. What they set up besides are the initial tables.
\<close>

definition new_LuaEngine :: "startup_env \<Rightarrow> fault + unit" where
  "new_LuaEngine S = (if st_lua_state S then Inr () else Inl (Uncaught ''Failed to create Lua state''))"

definition new_UDPServer ::
    "startup_env \<Rightarrow> u16 \<Rightarrow> (protocol \<times> u16) list \<Rightarrow> fault + (protocol \<times> u16) list" where
  "new_UDPServer S port = open_socket S (UDP, port)"

definition new_TCPServer ::
    "startup_env \<Rightarrow> u16 \<Rightarrow> (protocol \<times> u16) list \<Rightarrow> fault + (protocol \<times> u16) list" where
  "new_TCPServer S port = open_socket S (TCP, port)"

definition new_RconServer ::
    "startup_env \<Rightarrow> u16 \<Rightarrow> (protocol \<times> u16) list \<Rightarrow> fault + (protocol \<times> u16) list" where
  "new_RconServer S port = open_socket S (TCP, port)"

lemmas constructors = open_socket_def new_LuaEngine_def new_UDPServer_def new_TCPServer_def new_RconServer_def

definition has_headless :: "ServerConfig \<Rightarrow> bool" where
  "has_headless cfg \<longleftrightarrow> cfg_ai_enabled cfg \<and> cfg_authority_mode cfg \<noteq> ''builtin''
     \<and> cfg_authority_mode cfg \<noteq> ''client''"

text \<open>\<open>GameServer::GameServer\<close>; ports are cast to 16 bits.\<close>

definition construct :: "startup_env \<Rightarrow> env \<Rightarrow> fault + constructed" where
  "construct S E = (let cfg = e_cfg E in
     if \<not> st_log_opens S (cfg_log_file cfg) then Inl (Uncaught ''log file'')
     else if cfg_ai_enabled cfg \<and> \<not> st_roads S (cfg_map cfg) then Inl (Uncaught ''road network'')
     else
     bindE (new_LuaEngine S) (\<lambda>_.
     bindE (loadPlugins E (st_plugins S) initial_server) (\<lambda>s.
     bindE (new_UDPServer S (word_of_int (cfg_port cfg)) []) (\<lambda>socks.
     bindE (new_TCPServer S (word_of_int (cfg_port cfg)) socks) (\<lambda>socks.
     bindE (if cfg_rcon_enabled cfg then new_RconServer S (word_of_int (cfg_rcon_port cfg)) socks
            else Inr socks) (\<lambda>socks.
     Inr \<lparr>gs_server = s, gs_sockets = socks, gs_authority = cfg_ai_enabled cfg,
       gs_headless = has_headless cfg\<rparr>))))))"

section \<open>main\<close>

datatype process_end = ExitStatus int | Crash fault | Serving constructed

text \<open>\<open>main\<close> catches exceptions of the configuration, of the constructor and of \<open>run\<close>.\<close>

definition server_main :: "'n toml_lib \<Rightarrow> 'n table option \<Rightarrow> (ServerConfig \<Rightarrow> env) \<Rightarrow> startup_env
    \<Rightarrow> process_end" where
  "server_main T parsed mk_env S = (case load_config T parsed of
     Inl (Uncaught _) \<Rightarrow> ExitStatus 1
   | Inl f \<Rightarrow> Crash f
   | Inr cfg \<Rightarrow> (case construct S (mk_env cfg) of
       Inl (Uncaught _) \<Rightarrow> ExitStatus 1
     | Inl f \<Rightarrow> Crash f
     | Inr g \<Rightarrow> Serving g))"

text \<open>\<open>signal_handler\<close>: before \<open>main\<close> has set \<open>g_server\<close> a signal is lost.\<close>

definition signal_handler :: "env \<Rightarrow> server option \<Rightarrow> fault + server option" where
  "signal_handler E g_server = (case g_server of None \<Rightarrow> Inr None
     | Some s \<Rightarrow> bindE (stop_server (onDisconnect E) E s) (\<lambda>s. Inr (Some s)))"

section \<open>Properties of loading\<close>

definition blank :: "server \<Rightarrow> bool" where
  "blank s \<longleftrightarrow> held s = [] \<and> m_session_to_player s = [] \<and> m_players s = []"

definition broadcasts :: "lua_call \<Rightarrow> bool" where
  "broadcasts c = (case c of LSendChatMessage pid _ \<Rightarrow> pid < 0 | _ \<Rightarrow> False)"

definition note_call :: "lua_call \<Rightarrow> server \<Rightarrow> server" where
  "note_call c s = (case c of LAI a \<Rightarrow> s\<lparr>ai_history := ai_history s @ [a]\<rparr> | _ \<Rightarrow> s)"

lemma blank_initial [simp]: "blank initial_server"
  by (simp add: blank_def initial_server_def)

lemma blank_note [simp]: "blank (note_call c s) \<longleftrightarrow> blank s"
  by (simp add: note_call_def blank_def split: lua_call.split)

lemma blank_history [simp]: "blank (s\<lparr>lua_history := h\<rparr>) \<longleftrightarrow> blank s"
  by (simp add: blank_def)

lemma find_session_Nil [simp]: "find_session p [] = None"
  by (simp add: find_session_def)

lemma blank_kick: "blank s \<Longrightarrow> kickPlayer cb p r s = Inr s"
  by (simp add: kickPlayer_def with_lock_free blank_def)

lemma blank_ban: "blank s \<Longrightarrow> banPlayer cb p r s = Inr s"
  using blank_kick [of s cb p "''Banned: '' @ r"]
  by (simp add: banPlayer_def getPlayer_def read_locked_def blank_def)

lemma blank_api: "blank s \<Longrightarrow> \<not> broadcasts c \<Longrightarrow> lua_api cb c s = Inr (note_call c s)"
  by (cases c) (auto simp: note_call_def broadcasts_def blank_kick blank_ban sendChat_def
      with_lock_free blank_def)

lemma construction_api_eq:
  "blank s \<Longrightarrow> construction_api cb c s = (if broadcasts c then Inl NullDeref else Inr (note_call c s))"
  using blank_api [of s c cb] by (cases c) (auto simp: note_call_def broadcasts_def)

lemma construction_calls:
  "blank s \<Longrightarrow> foldE (construction_api cb) cs s =
     (if list_ex broadcasts cs then Inl NullDeref else Inr (fold note_call cs s))"
  by (induction cs arbitrary: s) (simp_all add: construction_api_eq)

lemma api_calls: "blank s \<Longrightarrow> \<not> list_ex broadcasts cs \<Longrightarrow> foldE (lua_api cb) cs s = Inr (fold note_call cs s)"
  by (induction cs arbitrary: s) (simp_all add: blank_api)

lemma blank_fold_note: "blank s \<Longrightarrow> blank (fold note_call cs s)"
  by (induction cs arbitrary: s) simp_all

text \<open>What loading leaves alone: everything but the histories of the plugins and the AI.\<close>

definition same_but_histories :: "server \<Rightarrow> server \<Rightarrow> bool" where
  "same_but_histories s t \<longleftrightarrow> t = s\<lparr>lua_history := lua_history t, ai_history := ai_history t\<rparr>"

lemma same_but_histories_note: "same_but_histories s (note_call c s)"
  by (simp add: same_but_histories_def note_call_def split: lua_call.split)

lemma same_but_histories_trans:
  "same_but_histories s t \<Longrightarrow> same_but_histories t u \<Longrightarrow> same_but_histories s u"
  unfolding same_but_histories_def by (cases s; cases t; cases u) simp

lemma same_but_histories_fold: "same_but_histories s (fold note_call cs s)"
proof (induction cs arbitrary: s)
  case Nil
  then show ?case by (simp add: same_but_histories_def)
next
  case (Cons c cs)
  then show ?case using same_but_histories_trans [OF same_but_histories_note [of s c]] by simp
qed

definition chunk_calls :: "env \<Rightarrow> string \<Rightarrow> server \<Rightarrow> lua_call list" where
  "chunk_calls E content s = fst (lua_run E (lua_history s) (lua_view_of s) (LuaChunk content))"

lemma loadFile_eq:
  assumes "blank s"
  shows "loadFile E content s = (if list_ex broadcasts (chunk_calls E content s) then Inl NullDeref
    else Inr (fold note_call (chunk_calls E content s)
      (s\<lparr>lua_history := lua_history s @ [(lua_view_of s, LuaChunk content)]\<rparr>)))"
  using assms by (simp add: loadFile_def chunk_calls_def construction_calls split_beta Let_def)

lemma loadFile_ok: "blank s \<Longrightarrow> loadFile E content s = Inr t \<Longrightarrow> blank t \<and> same_but_histories s t"
  using same_but_histories_trans [of s "s\<lparr>lua_history := lua_history s @ [(lua_view_of s, LuaChunk content)]\<rparr>" t]
  by (auto simp: loadFile_eq blank_fold_note same_but_histories_fold split: if_splits)
    (simp add: same_but_histories_def)

lemma loadPlugins_files:
  assumes "blank s"
  shows "case loadPlugins E (Some files) s of
      Inl f \<Rightarrow> f = NullDeref \<and> (\<exists>(name, content) \<in> set files. \<exists>s. list_ex broadcasts (chunk_calls E content s))
    | Inr t \<Rightarrow> blank t \<and> same_but_histories s t"
  using assms
proof (induction files arbitrary: s)
  case Nil
  then show ?case by (simp add: loadPlugins_def same_but_histories_def)
next
  case (Cons f files)
  obtain name content where f: "f = (name, content)" by (cases f)
  show ?case
  proof (cases "if file_extension name = ''.lua'' then loadFile E content s else Inr s")
    case (Inl e)
    then show ?thesis using Cons.prems by (auto simp: loadPlugins_def f loadFile_eq split: if_splits)
  next
    case (Inr u)
    then have u: "blank u" "same_but_histories s u"
      using Cons.prems loadFile_ok [of s E content u] by (auto simp: same_but_histories_def split: if_splits)
    then show ?thesis using Cons.IH [of u] Inr same_but_histories_trans [OF u(2)]
      by (auto simp: loadPlugins_def f split: sum.splits if_splits)
  qed
qed

text \<open>
  Plugins are loaded before the network exists. Loading ends with a dereferenced null pointer exactly
  when a plugin sends a chat message to everybody while it is loaded; otherwise it ends, with the
  same players, sessions and sockets as before: only the plugins' own state and the AI have changed.
\<close>

theorem plugins_before_network:
  "(case loadPlugins E (Some files) initial_server of
      Inl f \<Rightarrow> f = NullDeref \<and> (\<exists>(name, content) \<in> set files. \<exists>s. list_ex broadcasts (chunk_calls E content s))
    | Inr s \<Rightarrow> same_but_histories initial_server s)
    \<and> (file_extension name = ''.lua'' \<and> list_ex broadcasts (chunk_calls E content initial_server) \<longrightarrow>
        loadPlugins E (Some ((name, content) # files)) initial_server = Inl NullDeref)"
  using loadPlugins_files [where s = initial_server and E = E and files = files]
  by (auto simp: loadPlugins_def loadFile_eq split: sum.splits)

definition greeting :: env where
  "greeting = demo\<lparr>lua_run := (\<lambda>_ _ i. ([LSendChatMessage (-1) ''up''], LuaReturns None))\<rparr>"

theorem plugins_before_network_witness:
  "loadPlugins greeting (Some [(''hello.lua'', ''MP.SendChatMessage(-1, ...)'')]) initial_server = Inl NullDeref"
proof -
  have "file_extension ''hello.lua'' = ''.lua''"
    by (simp add: file_extension_def rsplit_at_def split_at_def)
  moreover have "list_ex broadcasts (chunk_calls greeting content initial_server)" for content
    by (simp add: chunk_calls_def greeting_def broadcasts_def)
  ultimately show ?thesis using plugins_before_network
      [where E = greeting and name = "''hello.lua''" and files = "[]"] by blast
qed

section \<open>The started server is one of the model\<close>

lemma chunk_is_event:
  assumes "blank s" "loadFile E content s = Inr t" "CHR 0x00 \<notin> set content"
  shows "handle E (EvLua content) s = Inr t"
proof -
  have "c_str content = content" using assms(3) by (auto simp: c_str_def takeWhile_eq_all_conv)
  then show ?thesis using assms
    by (auto simp: loadFile_eq lua_enter_def chunk_calls_def api_calls Let_def split_beta split: if_splits)
qed

lemma loadPlugins_reachable:
  assumes "blank s" "reachable E s" "\<forall>(name, content) \<in> set files. CHR 0x00 \<notin> set content"
    and "loadPlugins E (Some files) s = Inr t"
  shows "reachable E t"
  using assms
proof (induction files arbitrary: s)
  case Nil
  then show ?case by (simp add: loadPlugins_def)
next
  case (Cons f files)
  obtain name content where f: "f = (name, content)" by (cases f)
  let ?m = "if file_extension name = ''.lua'' then loadFile E content s else Inr s"
  from Cons.prems(4) obtain u where u: "?m = Inr u" "loadPlugins E (Some files) u = Inr t"
    by (auto simp: loadPlugins_def f bindE_Inr_iff split: if_splits)
  have "blank u \<and> reachable E u"
  proof (cases "file_extension name = ''.lua''")
    case True
    then have l: "loadFile E content s = Inr u" using u(1) by simp
    then have "handle E (EvLua content) s = Inr u"
      using Cons.prems(1,3) f by (intro chunk_is_event) auto
    then show ?thesis using loadFile_ok [OF Cons.prems(1) l] reachable.event [OF Cons.prems(2)] by blast
  qed (use u Cons.prems in simp)
  then show ?case using Cons.IH [of u] Cons.prems(3) u(2) by simp
qed

lemma construct_ok:
  assumes "construct S E = Inr g"
  shows "loadPlugins E (st_plugins S) initial_server = Inr (gs_server g)"
    and "gs_sockets g = [(UDP, word_of_int (cfg_port (e_cfg E))), (TCP, word_of_int (cfg_port (e_cfg E)))]
      @ (if cfg_rcon_enabled (e_cfg E) then [(TCP, word_of_int (cfg_rcon_port (e_cfg E)))] else [])"
    and "gs_authority g = has_authority E" "gs_headless g = has_headless (e_cfg E)"
    and "cfg_rcon_enabled (e_cfg E) \<Longrightarrow> st_bind S [(UDP, word_of_int (cfg_port (e_cfg E))),
      (TCP, word_of_int (cfg_port (e_cfg E)))] (TCP, word_of_int (cfg_rcon_port (e_cfg E)))"
  using assms by (auto simp: construct_def constructors Let_def bindE_Inr_iff has_authority_def split: if_splits)

lemma construct_fault:
  assumes "construct S E = Inl f"
  shows "(\<exists>e. f = Uncaught e) \<or> f = NullDeref"
proof (cases "loadPlugins E (st_plugins S) initial_server")
  case (Inl e)
  then obtain files where "loadPlugins E (Some files) initial_server = Inl e"
    by (cases "st_plugins S") (auto simp: loadPlugins_def)
  then have "e = NullDeref"
    using loadPlugins_files [where s = initial_server and E = E and files = files] by simp
  then show ?thesis using assms Inl by (auto simp: construct_def constructors Let_def split: if_splits)
next
  case (Inr s)
  then show ?thesis using assms
    by (auto simp: construct_def constructors Let_def bindE_Inl_iff split: if_splits)
qed

text \<open>Some plugin, with the state those before it have left, sends a message to everybody while it is loaded.\<close>

definition chats_while_loaded :: "env \<Rightarrow> (string \<times> string) list \<Rightarrow> server \<Rightarrow> bool" where
  "chats_while_loaded E files s \<longleftrightarrow> (\<exists>before name content rest u. files = before @ (name, content) # rest
     \<and> file_extension name = ''.lua'' \<and> loadPlugins E (Some before) s = Inr u
     \<and> list_ex broadcasts (chunk_calls E content u))"

lemma loadPlugins_Cons: "loadPlugins E (Some ((name, content) # files)) s =
    bindE (if file_extension name = ''.lua'' then loadFile E content s else Inr s) (loadPlugins E (Some files))"
  by (cases "if file_extension name = ''.lua'' then loadFile E content s else Inr s")
    (auto simp: loadPlugins_def split: if_splits)

lemma chats_Cons: "chats_while_loaded E ((name, content) # files) s \<longleftrightarrow>
    file_extension name = ''.lua'' \<and> list_ex broadcasts (chunk_calls E content s)
    \<or> (\<exists>u. (if file_extension name = ''.lua'' then loadFile E content s else Inr s) = Inr u
        \<and> chats_while_loaded E files u)"
  (is "?l \<longleftrightarrow> ?now \<or> ?later")
proof
  assume ?l
  then obtain pre n c rest u where c: "(name, content) # files = pre @ (n, c) # rest" "file_extension n = ''.lua''"
    "loadPlugins E (Some pre) s = Inr u" "list_ex broadcasts (chunk_calls E c u)"
    by (auto simp: chats_while_loaded_def)
  then show "?now \<or> ?later"
    by (cases pre) (auto simp: loadPlugins_Cons chats_while_loaded_def bindE_Inr_iff, auto simp: loadPlugins_def)
next
  assume "?now \<or> ?later"
  then show ?l
  proof
    assume ?now
    then show ?l unfolding chats_while_loaded_def
      by (intro exI [of _ "[]"] exI [of _ name] exI [of _ content] exI [of _ files]) (simp add: loadPlugins_def)
  next
    assume ?later
    then obtain u pre n c rest v where u: "(if file_extension name = ''.lua'' then loadFile E content s else Inr s) = Inr u"
      "files = pre @ (n, c) # rest" "file_extension n = ''.lua''" "loadPlugins E (Some pre) u = Inr v"
      "list_ex broadcasts (chunk_calls E c v)" by (auto simp: chats_while_loaded_def)
    then show ?l unfolding chats_while_loaded_def
      by (intro exI [of _ "(name, content) # pre"] exI [of _ n] exI [of _ c] exI [of _ rest] exI [of _ v])
        (simp only: loadPlugins_Cons u(1) bindE_simps append_Cons simp_thms)
  qed
qed

lemma loadPlugins_crashes:
  "blank s \<Longrightarrow> loadPlugins E (Some files) s = Inl NullDeref \<longleftrightarrow> chats_while_loaded E files s"
proof (induction files arbitrary: s)
  case Nil
  then show ?case by (simp add: loadPlugins_def chats_while_loaded_def)
next
  case (Cons f files)
  obtain name content where f: "f = (name, content)" by (cases f)
  show ?case
  proof (cases "if file_extension name = ''.lua'' then loadFile E content s else Inr s")
    case (Inl e)
    then show ?thesis using Cons.prems by (auto simp: f chats_Cons loadPlugins_Cons loadFile_eq split: if_splits)
  next
    case (Inr u)
    then have "blank u" using Cons.prems loadFile_ok [of s E content u] by (auto split: if_splits)
    moreover have "\<not> (file_extension name = ''.lua'' \<and> list_ex broadcasts (chunk_calls E content s))"
      using Inr Cons.prems by (auto simp: loadFile_eq split: if_splits)
    ultimately show ?thesis using Cons.IH [of u] by (simp only: f chats_Cons loadPlugins_Cons Inr bindE_simps) blast
  qed
qed

lemma construct_crashes:
  assumes "st_plugins S = Some files"
  shows "construct S E = Inl NullDeref \<longleftrightarrow> st_log_opens S (cfg_log_file (e_cfg E))
    \<and> (cfg_ai_enabled (e_cfg E) \<longrightarrow> st_roads S (cfg_map (e_cfg E))) \<and> st_lua_state S
    \<and> chats_while_loaded E files initial_server"
  using loadPlugins_crashes [OF blank_initial, of E files] assms
  by (auto simp: construct_def constructors Let_def bindE_Inl_iff split: if_splits)

lemma main_crashes:
  assumes "st_plugins S = Some files"
  shows "server_main T parsed mk_env S = Crash NullDeref \<longleftrightarrow>
      (\<exists>t. parsed = Some t \<and> ((\<exists>n \<in> set [''server'', ''master'', ''gameplay'', ''ai_traffic'', ''rcon'', ''resources''].
            get_section T t n = None) \<or> t ''ai_authority'' \<noteq> None \<and> get_section T t ''ai_authority'' = None))
      \<or> (\<exists>cfg. load_config T parsed = Inr cfg \<and> st_log_opens S (cfg_log_file (e_cfg (mk_env cfg)))
        \<and> (cfg_ai_enabled (e_cfg (mk_env cfg)) \<longrightarrow> st_roads S (cfg_map (e_cfg (mk_env cfg)))) \<and> st_lua_state S
        \<and> chats_while_loaded (mk_env cfg) files initial_server)"
proof -
  have config: "load_config T parsed = Inl NullDeref \<longleftrightarrow> (\<exists>t. parsed = Some t
      \<and> ((\<exists>n \<in> set [''server'', ''master'', ''gameplay'', ''ai_traffic'', ''rcon'', ''resources''].
            get_section T t n = None) \<or> t ''ai_authority'' \<noteq> None \<and> get_section T t ''ai_authority'' = None))"
    by (cases parsed) (auto simp: load_config_def load_sections_eq loads_def required_sections_def bindE_Inl_iff)
  show ?thesis
  proof (cases "load_config T parsed")
    case (Inl f)
    then show ?thesis unfolding config [symmetric] by (auto simp: server_main_def split: fault.split)
  next
    case (Inr cfg)
    then show ?thesis unfolding config [symmetric] using construct_crashes [OF assms, of "mk_env cfg"]
      by (cases "construct S (mk_env cfg)") (auto simp: server_main_def split: fault.split)
  qed
qed

lemma main_outcome:
  assumes "\<forall>(name, content) \<in> set files. CHR 0x00 \<notin> set content" "st_plugins S = Some files"
  shows "case server_main T parsed mk_env S of
      Serving g \<Rightarrow> (\<exists>cfg. load_config T parsed = Inr cfg
        \<and> reachable (mk_env cfg) (gs_server g) \<and> held (gs_server g) = []
        \<and> gs_sockets g = (let c = e_cfg (mk_env cfg) in
             [(UDP, word_of_int (cfg_port c)), (TCP, word_of_int (cfg_port c))]
             @ (if cfg_rcon_enabled c then [(TCP, word_of_int (cfg_rcon_port c))] else []))
        \<and> ((\<forall>socks x. st_bind S socks x \<longrightarrow> x \<notin> set socks) \<longrightarrow> distinct (gs_sockets g)))
    | ExitStatus n \<Rightarrow> n = 1 \<and> (parsed = None
        \<or> (\<exists>cfg e. load_config T parsed = Inr cfg \<and> construct S (mk_env cfg) = Inl (Uncaught e)))
    | Crash f \<Rightarrow> f = NullDeref"
proof (cases "load_config T parsed")
  case (Inl f)
  then have "parsed = None \<and> f = Uncaught ''Config parse error'' \<or> parsed \<noteq> None \<and> f = NullDeref"
    by (cases parsed) (auto simp: load_config_def load_sections_eq bindE_Inl_iff split: if_splits)
  then show ?thesis using Inl by (auto simp: server_main_def)
next
  case (Inr cfg)
  let ?E = "mk_env cfg"
  show ?thesis
  proof (cases "construct S ?E")
    case (Inl f)
    then show ?thesis using Inr construct_fault [OF Inl] by (auto simp: server_main_def)
  next
    case g: (Inr g)
    note ok = construct_ok [OF g]
    have "loadPlugins ?E (Some files) initial_server = Inr (gs_server g)" using ok(1) assms(2) by simp
    then have "reachable ?E (gs_server g)" by (rule loadPlugins_reachable [OF blank_initial reachable.init assms(1)])
    moreover have "distinct (gs_sockets g)" if "\<forall>socks x. st_bind S socks x \<longrightarrow> x \<notin> set socks"
      using ok(2,5) that by fastforce
    ultimately show ?thesis using Inr g ok(2) reachable_held by (auto simp: server_main_def Let_def)
  qed
qed

text \<open>
  C33. A server that starts is a state of the model: if the process gets past its configuration, its plugins
  (texts without NUL) and its sockets, the state it serves from is reachable, so every invariant
  proved of reachable states holds from the first connection on; it listens for UDP and TCP on its
  port and for RCON exactly where that is enabled, with the port numbers cut to 16 bits, and where the
  system gives no port to two sockets the RCON port is not that of the game. An exception ends the
  process with status 1. It crashes on a null pointer exactly when one of the six sections of the configuration
  is missing (or \<open>ai_authority\<close> is there and no table), or when the constructor gets as far as loading the
  plugins and one of them sends a message to everybody while it is loaded.
\<close>

theorem server_starts_reachable:
  assumes "\<forall>(name, content) \<in> set files. CHR 0x00 \<notin> set content" "st_plugins S = Some files"
  shows "(case server_main T parsed mk_env S of
      Serving g \<Rightarrow> (\<exists>cfg. load_config T parsed = Inr cfg
        \<and> reachable (mk_env cfg) (gs_server g) \<and> held (gs_server g) = []
        \<and> gs_sockets g = (let c = e_cfg (mk_env cfg) in
             [(UDP, word_of_int (cfg_port c)), (TCP, word_of_int (cfg_port c))]
             @ (if cfg_rcon_enabled c then [(TCP, word_of_int (cfg_rcon_port c))] else []))
        \<and> ((\<forall>socks x. st_bind S socks x \<longrightarrow> x \<notin> set socks) \<longrightarrow> distinct (gs_sockets g)))
    | ExitStatus n \<Rightarrow> n = 1 \<and> (parsed = None
        \<or> (\<exists>cfg e. load_config T parsed = Inr cfg \<and> construct S (mk_env cfg) = Inl (Uncaught e)))
    | Crash f \<Rightarrow> f = NullDeref)
    \<and> (server_main T parsed mk_env S = Crash NullDeref \<longleftrightarrow>
      (\<exists>t. parsed = Some t \<and> ((\<exists>n \<in> set [''server'', ''master'', ''gameplay'', ''ai_traffic'', ''rcon'', ''resources''].
            get_section T t n = None) \<or> t ''ai_authority'' \<noteq> None \<and> get_section T t ''ai_authority'' = None))
      \<or> (\<exists>cfg. load_config T parsed = Inr cfg \<and> st_log_opens S (cfg_log_file (e_cfg (mk_env cfg)))
        \<and> (cfg_ai_enabled (e_cfg (mk_env cfg)) \<longrightarrow> st_roads S (cfg_map (e_cfg (mk_env cfg)))) \<and> st_lua_state S
        \<and> chats_while_loaded (mk_env cfg) files initial_server))"
proof (intro conjI)
  show "server_main T parsed mk_env S = Crash NullDeref \<longleftrightarrow>
      (\<exists>t. parsed = Some t \<and> ((\<exists>n \<in> set [''server'', ''master'', ''gameplay'', ''ai_traffic'', ''rcon'', ''resources''].
            get_section T t n = None) \<or> t ''ai_authority'' \<noteq> None \<and> get_section T t ''ai_authority'' = None))
      \<or> (\<exists>cfg. load_config T parsed = Inr cfg \<and> st_log_opens S (cfg_log_file (e_cfg (mk_env cfg)))
        \<and> (cfg_ai_enabled (e_cfg (mk_env cfg)) \<longrightarrow> st_roads S (cfg_map (e_cfg (mk_env cfg)))) \<and> st_lua_state S
        \<and> chats_while_loaded (mk_env cfg) files initial_server)"
    by (rule main_crashes [OF assms(2)])
  show "case server_main T parsed mk_env S of
      Serving g \<Rightarrow> (\<exists>cfg. load_config T parsed = Inr cfg
        \<and> reachable (mk_env cfg) (gs_server g) \<and> held (gs_server g) = []
        \<and> gs_sockets g = (let c = e_cfg (mk_env cfg) in
             [(UDP, word_of_int (cfg_port c)), (TCP, word_of_int (cfg_port c))]
             @ (if cfg_rcon_enabled c then [(TCP, word_of_int (cfg_rcon_port c))] else []))
        \<and> ((\<forall>socks x. st_bind S socks x \<longrightarrow> x \<notin> set socks) \<longrightarrow> distinct (gs_sockets g)))
    | ExitStatus n \<Rightarrow> n = 1 \<and> (parsed = None
        \<or> (\<exists>cfg e. load_config T parsed = Inr cfg \<and> construct S (mk_env cfg) = Inl (Uncaught e)))
    | Crash f \<Rightarrow> f = NullDeref"
    by (rule main_outcome [OF assms])
qed

definition demo_startup :: startup_env where
  "demo_startup = \<lparr>st_log_opens = (\<lambda>_. True), st_roads = (\<lambda>_. True), st_lua_state = True,
     st_bind = (\<lambda>socks x. x \<notin> set socks), st_plugins = Some [(''a.lua'', ''x'')]\<rparr>"

theorem server_starts_reachable_witness:
  "(case server_main demo_toml (Some demo_file) (\<lambda>_. demo) demo_startup of
     Serving g \<Rightarrow> reachable demo (gs_server g) \<and> gs_sockets g = [(UDP, 4444), (TCP, 4444)]
   | ExitStatus n \<Rightarrow> n = 1 | Crash f \<Rightarrow> f = NullDeref)
   \<and> server_main demo_toml (Some (demo_file(''rcon'' := None))) (\<lambda>_. demo) demo_startup = Crash NullDeref"
proof -
  have files: "\<forall>(name, content) \<in> set [(''a.lua'', ''x'')]. CHR 0x00 \<notin> set content"
    "st_plugins demo_startup = Some [(''a.lua'', ''x'')]" by (simp_all add: demo_startup_def)
  note main = server_starts_reachable [OF files, where T = demo_toml and mk_env = "\<lambda>_. demo"]
  have "get_section demo_toml (demo_file(''rcon'' := None)) ''rcon'' = None" by (simp add: get_section_def)
  then show ?thesis
    using conjunct1 [OF main [where parsed = "Some demo_file"]]
      conjunct2 [OF main [where parsed = "Some (demo_file(''rcon'' := None))"]]
    by (auto simp: demo_def demo_env_def sample_config_def Let_def split: process_end.splits)
qed

end
