(* ===== verification/Server_Private.thy ===== *)
theory Server_Private
  imports Server_Frame
begin

text \<open>
  Parts of the server that only \<open>run\<close> and \<open>stop\<close> write: an observer that sees none of the tables, of the
  output and of the histories sees no difference after any other event. The locale extends \<open>observation\<close>
  by the updates of the tables and is interpreted for \<open>m_running\<close>.
\<close>

locale private_observation = observation obs for obs :: "server \<Rightarrow> 'o" +
  assumes obs_tables: "obs (s\<lparr>m_players := ps\<rparr>) = obs s" "obs (s\<lparr>m_session_to_player := bs\<rparr>) = obs s"
      "obs (s\<lparr>m_next_player_id := n\<rparr>) = obs s" "obs (s\<lparr>m_sessions := ss\<rparr>) = obs s"
      "obs (s\<lparr>m_next_session_id := k\<rparr>) = obs s" "obs (s\<lparr>m_entries := es\<rparr>) = obs s"
      "obs (s\<lparr>m_player_to_ep := pe\<rparr>) = obs s" "obs (s\<lparr>m_ep_to_player := ep\<rparr>) = obs s"
    and obs_udp: "obs (s\<lparr>udp_out := uo\<rparr>) = obs s" "obs (s\<lparr>m_recv_buf := rb\<rparr>) = obs s"
begin

lemmas obs_simps = obs_held obs_out obs_histories obs_tables obs_udp

lemma obs_upd [simp]: "obs (upd_player i f s) = obs s"
  by (simp add: upd_player_def obs_tables)

lemma unchanged_event_then: "obs t = obs s \<Longrightarrow> (\<And>r u. obs u = obs t \<Longrightarrow> unchanged obs u (k (r, u))) \<Longrightarrow>
    unchanged obs s (bindE (fireEvent cb E ev args t) k)"
  by (rule unchanged_from [OF unchanged_bind_pair [OF unchanged_fireEvent]]) auto

lemma unchanged_authority_then: "obs t = obs s \<Longrightarrow> (\<And>r u. obs u = obs t \<Longrightarrow> unchanged obs u (k (r, u))) \<Longrightarrow>
    unchanged obs s (bindE (call_authority E c t) k)"
  by (rule unchanged_from [OF unchanged_bind_pair [OF unchanged_call_authority]]) auto

lemma unchanged_then: "unchanged obs t m \<Longrightarrow> obs t = obs s \<Longrightarrow> (\<And>u. obs u = obs t \<Longrightarrow> unchanged obs u (k u)) \<Longrightarrow>
    unchanged obs s (bindE m k)"
  by (cases m) (auto simp: unchanged_def)

lemma unchanged_auth_answers: "unchanged obs s (auth_error E i e s)" "unchanged obs s (auth_ok E i p s)"
    "unchanged obs s (auth_reject cb E i e s)" "unchanged obs s (sendServerInfo E i s)"
  unfolding auth_reject_def auth_error_def auth_ok_def send_auth_response_def sendServerInfo_def
  by (intro unchanged_read unchanged_send unchanged_bind unchanged_disconnect)+

lemma unchanged_add_player: "unchanged obs s (add_player i p q s)"
  unfolding add_player_def by (intro unchanged_lock unchanged_Inr) (simp add: obs_simps)

lemma obs_alloc: "allocPlayerID s = (p, t) \<Longrightarrow> obs t = obs s"
  by (auto simp: allocPlayerID_def Let_def obs_simps)

lemma unchanged_handleAuth_bridge: "unchanged obs s (handleAuth_bridge cb E i pw s)"
proof -
  obtain p t where a: "allocPlayerID s = (p, t)" by (cases "allocPlayerID s")
  show ?thesis unfolding handleAuth_bridge_def a Let_def prod.case
    apply (rule unchanged_if, rule unchanged_auth_answers, rule unchanged_read)
    apply (rule unchanged_then [OF unchanged_add_player obs_alloc [OF a]], rule unchanged_bind [OF unchanged_auth_answers(2)])
    apply (rule unchanged_authority_then, rule refl, simp add: unchanged_Inr)
    done
qed

lemma unchanged_handleAuth_player: "unchanged obs s (handleAuth_player cb E i n j s)"
proof -
  obtain p t where a: "allocPlayerID s = (p, t)" by (cases "allocPlayerID s")
  show ?thesis unfolding handleAuth_player_def a Let_def prod.case
    apply (rule unchanged_read, rule unchanged_read, rule unchanged_then [OF unchanged_add_player obs_alloc [OF a]])
    apply (rule unchanged_event_then, rule refl, simp only: prod.case, rule unchanged_if)
     apply (rule unchanged_bind [OF unchanged_lock], simp add: unchanged_Inr obs_simps, rule unchanged_auth_answers)
    apply (rule unchanged_bind [OF unchanged_auth_answers(2)], rule unchanged_bind [OF unchanged_auth_answers(4)])
    apply (rule unchanged_read, rule unchanged_Inr, rule refl)
    done
qed

lemma unchanged_handleAuth: "unchanged obs s (handleAuth cb E i pl n s)"
  unfolding handleAuth_def
  by (intro unchanged_read unchanged_option unchanged_if unchanged_auth_answers unchanged_handleAuth_bridge
      unchanged_handleAuth_player)

lemma unchanged_handleReady: "unchanged obs s (handleReady cb E p s)"
  unfolding handleReady_def
  apply (rule unchanged_read, rule unchanged_option, rule unchanged_Inr, rule refl)
  apply (rule unchanged_then [OF unchanged_broadcastPlayerJoin obs_upd], rule unchanged_event_then, rule refl)
  apply (simp add: unchanged_sendChat)
  done

lemma unchanged_handleVehicleSpawn: "unchanged obs s (handleVehicleSpawn cb E p pl n s)"
  unfolding handleVehicleSpawn_def Let_def
  apply (rule unchanged_read, rule unchanged_option, rule unchanged_Inr, rule refl)
  apply (rule unchanged_read, rule unchanged_option, rule unchanged_Inr, rule refl)
  apply (rule unchanged_if, rule unchanged_Inr, rule refl, rule unchanged_read, rule unchanged_read, rule unchanged_read)
  apply (rule unchanged_then [OF unchanged_send(2) obs_upd], rule unchanged_event_then, rule refl)
  apply (simp add: unchanged_Inr)
  done

lemma unchanged_handleVehicleDelete: "unchanged obs s (handleVehicleDelete cb E p pl n s)"
  unfolding handleVehicleDelete_def Let_def
  apply (rule unchanged_if, rule unchanged_Inr, rule refl, rule unchanged_read, rule unchanged_read)
  apply (rule unchanged_option, rule unchanged_Inr, rule refl, rule unchanged_then [OF unchanged_send(2)])
   apply (simp add: obs_simps)
  apply (rule unchanged_event_then, rule refl, simp add: unchanged_Inr)
  done

lemma unchanged_handleChat: "unchanged obs s (handleChat cb E p pl n s)"
  unfolding handleChat_def Let_def
  apply (rule unchanged_read, rule unchanged_read, rule unchanged_option, rule unchanged_Inr, rule refl)
  apply (rule unchanged_if, rule unchanged_Inr, rule refl, rule unchanged_event_then, rule refl)
  apply (simp add: unchanged_Inr unchanged_sendChat)
  done

lemma unchanged_handleAuthorityClaim: "unchanged obs s (handleAuthorityClaim E p s)"
  unfolding handleAuthorityClaim_def
  apply (rule unchanged_if, rule unchanged_Inr, rule refl, rule unchanged_authority_then, rule refl)
  apply (simp add: unchanged_Inr unchanged_sendChat)
  done

lemma unchanged_onTCPPacket: "unchanged obs s (onTCPPacket cb E i d s)"
proof -
  have pt: "unchanged obs s (case t of Some AUTH_REQUEST \<Rightarrow> a | Some VEHICLE_SPAWN \<Rightarrow> b | Some VEHICLE_DELETE \<Rightarrow> c
      | Some CHAT_MESSAGE \<Rightarrow> d | Some READY \<Rightarrow> e | Some AUTHORITY_CLAIM \<Rightarrow> f | _ \<Rightarrow> Inr s)"
    if "unchanged obs s a" "unchanged obs s b" "unchanged obs s c" "unchanged obs s d" "unchanged obs s e"
      "unchanged obs s f" for t a b c d e f
    using that by (simp add: unchanged_Inr split: option.split PacketType.split)
  show ?thesis unfolding onTCPPacket_def Let_def
    by (intro unchanged_read pt unchanged_if unchanged_handleAuth unchanged_handleReady unchanged_handleVehicleSpawn
        unchanged_handleVehicleDelete unchanged_handleChat unchanged_handleAuthorityClaim unchanged_Inr refl)
qed

lemma unchanged_unmapPlayer: "unchanged obs s (unmapPlayer p s)"
  unfolding unmapPlayer_def
  by (intro unchanged_lock unchanged_option unchanged_Inr refl) (simp add: obs_simps)

lemma unchanged_onDisconnect: "unchanged obs s (onDisconnect E i s)"
proof -
  have gone: "unchanged obs u (with_lock PlayersMutex (\<lambda>s. case map_of (m_players s) pid of
      None \<Rightarrow> Inr s
    | Some _ \<Rightarrow> bindE (unmapPlayer pid (s\<lparr>m_entries := onPlayerDisconnect pid (m_entries s)\<rparr>))
        (\<lambda>s. Inr (s\<lparr>m_players := AList.delete pid (m_players s)\<rparr>))) u)" for u pid
    by (intro unchanged_lock unchanged_option unchanged_Inr refl unchanged_then [OF unchanged_unmapPlayer])
      (simp_all add: obs_simps)
  have auth: "unchanged obs u (if has_authority E then bindE (call_authority E c u) (\<lambda>(_, s). Inr s) else Inr u)" for u c
    by (intro unchanged_if unchanged_Inr refl unchanged_authority_then) (simp add: unchanged_Inr)
  show ?thesis unfolding onDisconnect_def onDisconnect_body_def Let_def
    apply (rule unchanged_bind [OF unchanged_lock], simp add: unchanged_Inr obs_simps)
    apply (rule unchanged_if, rule unchanged_Inr, rule refl, rule unchanged_bind [OF gone])
    apply (rule unchanged_bind [OF unchanged_broadcastPlayerLeave], rule unchanged_event_then, rule refl)
    apply (simp only: prod.case, rule unchanged_bind [OF auth], rule unchanged_read, rule unchanged_Inr, rule refl)
    done
qed

lemma unchanged_onSessionClose: "unchanged obs s (onSessionClose (onDisconnect E) i s)"
  unfolding onSessionClose_def
  by (intro unchanged_bind [OF unchanged_lock] unchanged_onDisconnect unchanged_Inr) (simp add: obs_simps)

lemma unchanged_udp_sendAll: "unchanged obs s (udp_sendAll d x s)"
  unfolding udp_sendAll_def by (intro unchanged_lock unchanged_Inr) (simp add: obs_simps)

lemma unchanged_onUDPPacket: "unchanged obs s (onUDPPacket E ep n s)"
proof -
  have up: "unchanged obs s (handleVehicleUpdate p k s)" for p k
    unfolding handleVehicleUpdate_def by (intro unchanged_if unchanged_read unchanged_Inr refl) (simp add: obs_simps)
  show ?thesis unfolding onUDPPacket_def
    by (intro unchanged_read unchanged_if unchanged_Inr refl up unchanged_udp_sendAll) (simp add: udp_send_def obs_simps)
qed

lemma unchanged_handle:
  assumes "e \<noteq> EvStart" "e \<noteq> EvStop"
  shows "unchanged obs s (handle E e s)"
proof (cases e)
  case (EvAccept ip)
  have "unchanged obs s (tcp_accept ip s)" unfolding tcp_accept_def Let_def
    by (rule unchanged_from [OF unchanged_lock]) (simp_all add: unchanged_Inr obs_simps)
  then show ?thesis by (simp add: EvAccept)
next
  case (EvDatagram ep d)
  then show ?thesis
    by (auto simp: udp_receive_def Let_def obs_simps intro!: unchanged_from [OF unchanged_onUDPPacket] unchanged_Inr)
next
  case EvSyncTick
  obtain es calls where b: "broadcastAll (m_entries s) = (es, calls)" by fastforce
  show ?thesis
    by (simp add: EvSyncTick vehicleSync_tick_def b)
      (rule unchanged_bind [OF unchanged_foldE], auto intro: unchanged_udp_sendAll unchanged_Inr simp: obs_simps)
next
  case EvAITick
  have "unchanged obs s (ai_tick E s)" unfolding ai_tick_def Let_def
    by (rule unchanged_read, rule unchanged_from [OF unchanged_foldE]) (simp_all add: unchanged_udp_sendAll obs_simps)
  then show ?thesis by (simp add: EvAITick unchanged_Inr)
next
  case (EvLua code)
  show ?thesis by (simp add: EvLua) (rule unchanged_bind_pair [OF unchanged_lua_enter], simp add: unchanged_Inr)
next
  case EvNegotiate
  then show ?thesis
    by (simp add: authorityNegotiationLoop_def unchanged_Inr)
      (intro impI unchanged_authority_then refl, simp add: unchanged_Inr)
qed (use assms in \<open>auto simp: unchanged_onTCPPacket unchanged_onSessionClose unchanged_kickPlayer unchanged_banPlayer
    unchanged_sendChat masterHeartbeat_def obs_simps intro: unchanged_read unchanged_Inr\<close>)

end

interpretation is_running: private_observation m_running
  by unfold_locales (simp_all add: upd_player_def)

lemma handle_m_running: "handle E e s = Inr t \<Longrightarrow> e \<noteq> EvStart \<Longrightarrow> e \<noteq> EvStop \<Longrightarrow> m_running t = m_running s"
  using is_running.unchanged_handle [of e s E] by (simp add: unchanged_def)

end
