(* ===== verification/Server_Main.thy ===== *)
theory Server_Main
  imports Server_Startup Server_Private Headless
begin

text \<open>
  Running and stopping the server: \<open>GameServer::run\<close> and \<open>stop\<close> with the headless game, the loops of
  \<^verbatim>\<open>game_server.cpp\<close> that keep time, and what the AI loop sees of the players.
\<close>

section \<open>run and stop\<close>

datatype thread = SyncThread | AIThread | HeartbeatThread | NegotiationThread | ConsoleThread | IoThread

definition run_threads :: "ServerConfig \<Rightarrow> nat \<Rightarrow> thread list" where
  "run_threads cfg hw = [SyncThread] @ (if cfg_ai_enabled cfg then [AIThread] else [])
     @ (if cfg_master_register cfg then [HeartbeatThread] else [])
     @ (if cfg_ai_enabled cfg then [NegotiationThread] else [])
     @ [ConsoleThread] @ replicate (max 2 hw) IoThread"

definition bridge_doc :: "ServerConfig \<Rightarrow> json" where
  "bridge_doc cfg = JObj [(''host'', JStr ''127.0.0.1''), (''port'', JInt (cfg_port cfg)),
     (''bridge_token'', JStr (cfg_bridge_token cfg)), (''ai_count'', JInt (cfg_ai_count cfg)),
     (''ai_speed_limit'', JFloat (cfg_ai_speed_limit cfg)), (''ai_mode'', JStr (cfg_ai_mode cfg)),
     (''ai_hz'', JInt (cfg_ai_update_rate_hz cfg)),
     (''vehicle_pool'', JArr (map JStr (cfg_ai_vehicle_pool cfg)))]"

text \<open>
  The content of the file afterwards; \<open>None\<close> when it cannot be opened. Opening truncates it, so text that
  cannot be printed leaves it empty.
\<close>

definition writeBridgeConfig :: "(json \<Rightarrow> string option) \<Rightarrow> bool \<Rightarrow> ServerConfig \<Rightarrow> string option" where
  "writeBridgeConfig dump2 can_open cfg = (if \<not> can_open then None
     else Some (case dump2 (bridge_doc cfg) of Some t \<Rightarrow> t | None \<Rightarrow> []))"

text \<open>What the system gives \<open>run\<close>.\<close>

record run_env =
  r_dump2 :: "json \<Rightarrow> string option"
  r_can_open :: bool
  r_exists :: "string \<Rightarrow> bool"
  r_home :: "string option"
  r_fork :: int
  r_hardware :: nat

record running =
  run_started :: "thread list"
  run_bridge :: "string option"
  run_headless :: headless
  run_server :: server

definition server_run :: "run_env \<Rightarrow> env \<Rightarrow> server \<Rightarrow> fault + running" where
  "server_run R E s = (let cfg = e_cfg E;
       bridge = (if cfg_ai_enabled cfg then writeBridgeConfig (r_dump2 R) (r_can_open R) cfg else None);
       h = (if has_headless cfg
            then snd (headless_launch (headless_detect (r_exists R) (r_home R) cfg) (r_fork R) initial_headless)
            else initial_headless)
     in bindE (fireEvent (onDisconnect E) E ''onInit'' [] (s\<lparr>m_running := True\<rparr>)) (\<lambda>(_, s).
       Inr \<lparr>run_started = run_threads cfg (r_hardware R), run_bridge = bridge, run_headless = h,
         run_server = s\<rparr>))"

definition stop_running :: "env \<Rightarrow> running \<Rightarrow> fault + running" where
  "stop_running E r = (if \<not> m_running (run_server r) then Inr r
     else bindE (stop_server (onDisconnect E) E (run_server r)) (\<lambda>s.
       bindE (if has_headless (e_cfg E) then headless_terminate (run_headless r) else Inr (run_headless r)) (\<lambda>h.
       Inr (r\<lparr>run_server := s, run_headless := h\<rparr>))))"

section \<open>Loops that keep time\<close>

text \<open>\<open>1000000 / m_cfg.vehicle_sync_hz\<close> in microseconds, rounded towards zero.\<close>

definition sync_interval :: "int \<Rightarrow> fault + int" where
  "sync_interval hz = (if hz = 0 then Inl DivByZero
     else Inr (if hz > 0 then 1000000 div hz else - (1000000 div (- hz))))"

text \<open>
  The times at which \<open>vehicleSyncLoop\<close> broadcasts: a turn that starts at \<open>now\<close> takes \<open>d\<close>, \<open>sleep_until\<close>
  returns at the deadline or at once when that has passed, and wakes up \<open>late\<close>.
\<close>

fun sync_times :: "int \<Rightarrow> int \<Rightarrow> int \<Rightarrow> (int \<times> int) list \<Rightarrow> int list" where
  "sync_times iv deadline now [] = []"
| "sync_times iv deadline now ((d, late) # turns) =
     now # sync_times iv (deadline + iv) (max (now + d) deadline + late) turns"

definition vehicleSyncLoop :: "int \<Rightarrow> int \<Rightarrow> (int \<times> int) list \<Rightarrow> fault + int list" where
  "vehicleSyncLoop hz start turns = bindE (sync_interval hz) (\<lambda>iv.
     Inr (sync_times iv (start + iv) start turns))"

text \<open>
  \<open>aiTrafficLoop\<close> keeps its time in the same way, with a rate that is at least 1.
\<close>

definition aiTrafficLoop :: "int \<Rightarrow> int \<Rightarrow> (int \<times> int) list \<Rightarrow> int list" where
  "aiTrafficLoop hz start turns =
     (let iv = 1000000 div max 1 hz in sync_times iv (start + iv) start turns)"

text \<open>
  \<open>heartbeatLoop\<close>: the interval in milliseconds, with the operations on doubles as parameters, and the times of
  the heartbeats. A round is whether the server runs when its loop starts, how late the thread wakes up
  after \<open>sleep_for\<close>, whether the server still runs then, and how long the heartbeat takes.
\<close>

record double_ops =
  db_less :: "64 word \<Rightarrow> 64 word \<Rightarrow> bool"
  db_div :: "64 word \<Rightarrow> 64 word \<Rightarrow> 64 word"
  db_trunc :: "64 word \<Rightarrow> int"

definition heartbeat_interval :: "double_ops \<Rightarrow> 64 word \<Rightarrow> int" where
  "heartbeat_interval D hz =
     (let smallest = 0x3F50624DD2F1A9FC \<comment> \<open>0.001\<close>; thousand = 0x408F400000000000 \<comment> \<open>1000.0\<close>
      in db_trunc D (db_div D thousand (if db_less D hz smallest then smallest else hz)))"

fun heartbeat_times :: "int \<Rightarrow> int \<Rightarrow> (bool \<times> int \<times> bool \<times> int) list \<Rightarrow> int list" where
  "heartbeat_times iv now [] = []"
| "heartbeat_times iv now ((runs, late, still_runs, d) # rounds) =
     (if runs \<and> still_runs then (now + iv + late) # heartbeat_times iv (now + iv + late + d) rounds else [])"

definition heartbeatLoop :: "int \<Rightarrow> int \<Rightarrow> (bool \<times> int \<times> bool \<times> int) list \<Rightarrow> int list" where
  "heartbeatLoop iv start rounds = start # heartbeat_times iv start rounds"

section \<open>Stopping\<close>

text \<open>
  The life of a running server: it handles events, its headless game may exit by itself, and \<open>stop\<close> may be
  called, by a signal, the console or the destructor, any number of times.
\<close>

inductive lives :: "env \<Rightarrow> running \<Rightarrow> running \<Rightarrow> bool" for E r0 where
  begins: "lives E r0 r0"
| event: "lives E r0 r \<Longrightarrow> e \<noteq> EvStart \<Longrightarrow> e \<noteq> EvStop \<Longrightarrow> handle E e (run_server r) = Inr s \<Longrightarrow>
     lives E r0 (r\<lparr>run_server := s\<rparr>)"
| exits: "lives E r0 r \<Longrightarrow> children (run_headless r) pid = Some Running \<Longrightarrow>
     lives E r0 (r\<lparr>run_headless := (run_headless r)\<lparr>children := (children (run_headless r))(pid \<mapsto> Exited)\<rparr>\<rparr>)"
| stop: "lives E r0 r \<Longrightarrow> stop_running E r = Inr r' \<Longrightarrow> lives E r0 r'"

text \<open>Every child is the game the launcher holds, and it gets at most one signal, from the \<open>stop\<close> that counts.\<close>

definition game_held :: "env \<Rightarrow> int \<Rightarrow> running \<Rightarrow> bool" where
  "game_held E pid r \<longleftrightarrow> dom (children (run_headless r)) \<subseteq> {m_pid (run_headless r)} \<inter> {0<..}
     \<and> m_pid (run_headless r) \<in> {pid, -1}
     \<and> (\<not> has_headless (e_cfg E) \<longrightarrow> children (run_headless r) = Map.empty)
     \<and> (if m_running (run_server r) then signalled (run_headless r) = []
        else children (run_headless r) = Map.empty \<and> set (signalled (run_headless r)) \<subseteq> {pid}
          \<and> length (signalled (run_headless r)) \<le> 1)"

lemma run_game_held: "server_run R E s = Inr r \<Longrightarrow> r_fork R \<noteq> 0 \<Longrightarrow> game_held E (r_fork R) r \<and> m_running (run_server r)"
proof -
  assume r: "server_run R E s = Inr r" and f: "r_fork R \<noteq> 0"
  let ?h = "if has_headless (e_cfg E)
    then snd (headless_launch (headless_detect (r_exists R) (r_home R) (e_cfg E)) (r_fork R) initial_headless)
    else initial_headless"
  obtain x t where e: "fireEvent (onDisconnect E) E ''onInit'' [] (s\<lparr>m_running := True\<rparr>) = Inr (x, t)"
      and t: "run_server r = t" "run_headless r = ?h"
    using r by (auto simp: server_run_def Let_def bindE_Inr_iff)
  have "m_running t" using is_running.fired [OF e] by simp
  moreover have "dom (children ?h) \<subseteq> {m_pid ?h} \<inter> {0<..} \<and> m_pid ?h \<in> {r_fork R, -1} \<and> signalled ?h = []
      \<and> (\<not> has_headless (e_cfg E) \<longrightarrow> children ?h = Map.empty)"
    using f by (auto simp: headless_simps initial_headless_def)
  ultimately show ?thesis using t by (simp add: game_held_def)
qed

lemma stop_game_held:
  assumes "game_held E pid r" "stop_running E r = Inr r'"
  shows "game_held E pid r' \<and> \<not> m_running (run_server r')"
proof (cases "m_running (run_server r)")
  case True
  obtain x t h where e: "fireEvent (onDisconnect E) E ''onShutdown'' [] ((run_server r)\<lparr>m_running := False\<rparr>) = Inr (x, t)"
      and h: "(if has_headless (e_cfg E) then headless_terminate (run_headless r) else Inr (run_headless r)) = Inr h"
      and r': "r' = r\<lparr>run_server := t, run_headless := h\<rparr>"
    using assms(2) True by (auto simp: stop_running_def stop_server_def bindE_Inr_iff)
  have "\<not> m_running t" using is_running.fired [OF e] by simp
  moreover have "dom (children (run_headless r)) \<subseteq> {m_pid (run_headless r)} \<inter> {0<..}"
    using assms(1) by (simp add: game_held_def)
  from headless_terminated [OF this] have "children h = Map.empty \<and> m_pid h \<in> {pid, -1}
      \<and> set (signalled h) \<subseteq> {pid} \<and> length (signalled h) \<le> 1"
    using h assms(1) True by (auto simp: game_held_def headless_terminate_def bindE_Inr_iff split: if_splits)
  ultimately show ?thesis by (simp add: game_held_def r')
next
  case False
  then show ?thesis using assms by (simp add: stop_running_def)
qed

lemma game_held_server: "m_running s = m_running (run_server r) \<Longrightarrow>
    game_held E pid (r\<lparr>run_server := s\<rparr>) \<longleftrightarrow> game_held E pid r"
  by (simp add: game_held_def)

lemma lives_game_held: "lives E r0 r \<Longrightarrow> game_held E pid r0 \<Longrightarrow> game_held E pid r"
proof (induction rule: lives.induct)
  case (event r e s)
  then have "m_running s = m_running (run_server r)" using handle_m_running by blast
  then show ?case using event.IH [OF event.prems] by (simp only: game_held_server)
next
  case (exits r pid')
  let ?h = "(run_headless r)\<lparr>children := (children (run_headless r))(pid' \<mapsto> Exited)\<rparr>"
  have "dom (children ?h) = dom (children (run_headless r))" using exits.hyps(2) by auto
  moreover have "children (run_headless r) \<noteq> Map.empty" using exits.hyps(2) by auto
  ultimately show ?case using exits.IH [OF exits.prems] by (simp add: game_held_def split: if_splits)
qed (auto dest: stop_game_held)

text \<open>
  C35. A server leaves no game process behind: however long it has run and whatever it has handled, at most
  the process that \<open>run\<close> forked is its child; \<open>stop\<close> returns as soon as the plugins let it, without waiting
  for a game that nobody has told to end, and then there is no child, neither running nor a zombie, and the
  server does not run; every further \<open>stop\<close> changes nothing, so the game gets at most one \<open>SIGTERM\<close>. (The game
  is assumed to end when it gets this signal, and \<open>fork\<close> is seen from the parent.)
\<close>

theorem stop_leaves_no_process:
  assumes "server_run R E s = Inr r0" and "r_fork R \<noteq> 0" and "lives E r0 r"
  shows "dom (children (run_headless r)) \<subseteq> {r_fork R}
    \<and> set (signalled (run_headless r)) \<subseteq> {r_fork R} \<and> length (signalled (run_headless r)) \<le> 1
    \<and> (\<not> m_running (run_server r) \<longrightarrow> children (run_headless r) = Map.empty \<and> stop_running E r = Inr r)
    \<and> (m_running (run_server r) \<longrightarrow> (\<forall>x t. fireEvent (onDisconnect E) E ''onShutdown'' []
          ((run_server r)\<lparr>m_running := False\<rparr>) = Inr (x, t) \<longrightarrow>
        (\<exists>r'. stop_running E r = Inr r' \<and> \<not> m_running (run_server r') \<and> children (run_headless r') = Map.empty)))"
proof -
  have g: "game_held E (r_fork R) r" using lives_game_held [OF assms(3)] run_game_held [OF assms(1,2)] by blast
  then have d: "dom (children (run_headless r)) \<subseteq> {m_pid (run_headless r)} \<inter> {0<..}" by (simp add: game_held_def)
  have "\<exists>r'. stop_running E r = Inr r'"
    if "m_running (run_server r)" "fireEvent (onDisconnect E) E ''onShutdown'' []
      ((run_server r)\<lparr>m_running := False\<rparr>) = Inr (x, t)" for x t
    using that headless_terminated [OF d] by (auto simp: stop_running_def stop_server_def)
  moreover have "\<not> m_running (run_server r') \<and> children (run_headless r') = Map.empty" if "stop_running E r = Inr r'" for r'
    using stop_game_held [OF g that] by (simp add: game_held_def)
  moreover have "dom (children (run_headless r)) \<subseteq> {r_fork R}"
    using d g by (fastforce simp: game_held_def)
  moreover have "length (signalled (run_headless r)) \<le> 1"
      "set (signalled (run_headless r)) \<subseteq> {r_fork R}"
      "\<not> m_running (run_server r) \<longrightarrow> children (run_headless r) = Map.empty"
    using g by (auto simp: game_held_def split: if_splits)
  moreover have "\<not> m_running (run_server r) \<longrightarrow> stop_running E r = Inr r" by (simp add: stop_running_def)
  ultimately show ?thesis by blast
qed

definition ai_demo :: env where
  "ai_demo = demo_env (sample_config\<lparr>cfg_ai_enabled := True, cfg_beamng_exe_path := ''/game''\<rparr>)"

definition forking :: run_env where
  "forking = \<lparr>r_dump2 = (\<lambda>_. None), r_can_open = True, r_exists = (\<lambda>_. True), r_home = None,
     r_fork = 77, r_hardware = 1\<rparr>"

text \<open>The server runs with its game, a connection is accepted, and the server is stopped.\<close>

theorem stop_leaves_no_process_witness:
  "\<exists>r0 r r'. server_run forking ai_demo initial_server = Inr r0 \<and> children (run_headless r0) 77 = Some Running
    \<and> lives ai_demo r0 r \<and> m_sessions (run_server r) = [(1, ''10.0.0.1'')]
    \<and> stop_running ai_demo r = Inr r' \<and> children (run_headless r') = Map.empty"
proof -
  have silent: "silent ai_demo" by (simp add: silent_def ai_demo_def demo_env_def)
  have cfg: "has_headless (e_cfg ai_demo)" "cfg_beamng_exe_path (e_cfg ai_demo) = ''/game''"
    by (simp_all add: has_headless_def ai_demo_def demo_env_def sample_config_def)
  obtain r0 where r0: "server_run forking ai_demo initial_server = Inr r0" "children (run_headless r0) 77 = Some Running"
      "run_server r0 = log_event ''onInit'' [] (initial_server\<lparr>m_running := True\<rparr>)"
    using cfg by (auto simp: server_run_def fireEvent_silent [OF silent] forking_def headless_detect_def headless_simps)
  let ?s = "(run_server r0)\<lparr>m_next_session_id := 2, m_sessions := [(1, ''10.0.0.1'')]\<rparr>"
  let ?r = "r0\<lparr>run_server := ?s\<rparr>"
  have a: "handle ai_demo (EvAccept ''10.0.0.1'') (run_server r0) = Inr ?s"
    by (simp add: r0(3) tcp_accept_def with_lock_def initial_server_def log_event_def Let_def)
  have l: "lives ai_demo r0 ?r" by (rule lives.event [OF lives.begins _ _ a]) simp_all
  have up: "m_running (run_server ?r)" by (simp add: r0(3) log_event_def)
  have f: "r_fork forking \<noteq> 0" by (simp add: forking_def)
  obtain r' where "stop_running ai_demo ?r = Inr r'" "children (run_headless r') = Map.empty"
    using stop_leaves_no_process [OF r0(1) f l] up fireEvent_silent [OF silent] by blast
  moreover have "m_sessions (run_server ?r) = [(1, ''10.0.0.1'')]" by simp
  ultimately show ?thesis using r0(1,2) l by blast
qed

section \<open>Timing of the synchronisation loop\<close>

lemma sync_times_length [simp]: "length (sync_times iv deadline now turns) = length turns"
  by (induction turns arbitrary: deadline now) auto

lemma sync_times_lower:
  assumes "0 \<le> iv" "list_all (\<lambda>(d, late). 0 \<le> d \<and> 0 \<le> late) turns" "t0 \<le> now" "t0 + iv \<le> deadline"
  shows "k < length turns \<Longrightarrow> t0 + int k * iv \<le> sync_times iv deadline now turns ! k"
  using assms(2-)
proof (induction turns arbitrary: t0 deadline now k)
  case (Cons t turns)
  obtain d late where t: "t = (d, late)" by (cases t)
  show ?case
  proof (cases k)
    case 0
    then show ?thesis using Cons.prems by (simp add: t)
  next
    case (Suc j)
    have "t0 + iv \<le> max (now + d) deadline + late" using Cons.prems t by auto
    then have "(t0 + iv) + int j * iv \<le> sync_times iv (deadline + iv) (max (now + d) deadline + late) turns ! j"
      using Cons.prems Suc t by (intro Cons.IH) auto
    then show ?thesis by (simp add: t Suc algebra_simps)
  qed
qed simp

lemma sync_times_exact:
  assumes "list_all (\<lambda>(d, late). d \<le> iv \<and> late = 0) turns"
  shows "k < length turns \<Longrightarrow> sync_times iv (now + iv) now turns ! k = now + int k * iv"
  using assms
proof (induction turns arbitrary: now k)
  case (Cons t turns)
  obtain d late where t: "t = (d, late)" by (cases t)
  show ?case
  proof (cases k)
    case (Suc j)
    have "max (now + d) (now + iv) + late = now + iv" using Cons.prems t by auto
    then show ?thesis using Cons.IH [of j "now + iv"] Cons.prems by (simp add: t Suc algebra_simps)
  qed (simp add: t)
qed simp

text \<open>
  The synchronisation loop keeps its rate: for a positive \<open>vehicle_sync_hz\<close> of at most a million, turn
  \<open>k\<close> never starts before its due time \<open>k * interval\<close>, however long turns take and however late the
  thread wakes up, and it starts exactly then as long as no turn takes longer than the interval and no
  wake-up is late: delays are caught up and do not add up. Zero divides by zero.
\<close>

theorem sync_rate_bounded:
  assumes "0 < hz" "hz \<le> 1000000" "list_all (\<lambda>(d, late). 0 \<le> d \<and> 0 \<le> late) turns"
  shows "\<exists>times. vehicleSyncLoop hz start turns = Inr times \<and> length times = length turns
    \<and> (\<forall>k < length turns. start + int k * (1000000 div hz) \<le> times ! k)
    \<and> (list_all (\<lambda>(d, late). d \<le> 1000000 div hz \<and> late = 0) turns \<longrightarrow>
        (\<forall>k < length turns. times ! k = start + int k * (1000000 div hz)))
    \<and> vehicleSyncLoop 0 start turns = Inl DivByZero"
proof -
  let ?iv = "1000000 div hz" and ?times = "sync_times (1000000 div hz) (start + 1000000 div hz) start turns"
  have iv: "0 \<le> ?iv" using assms(1) by (simp add: pos_imp_zdiv_nonneg_iff)
  have "vehicleSyncLoop hz start turns = Inr ?times" "vehicleSyncLoop 0 start turns = Inl DivByZero"
    using assms(1) by (simp_all add: vehicleSyncLoop_def sync_interval_def)
  moreover have "\<forall>k < length turns. start + int k * ?iv \<le> ?times ! k"
    using sync_times_lower [OF iv assms(3), of start start "start + ?iv"] by simp
  moreover have "list_all (\<lambda>(d, late). d \<le> ?iv \<and> late = 0) turns \<longrightarrow>
      (\<forall>k < length turns. ?times ! k = start + int k * ?iv)"
    using sync_times_exact [of ?iv turns _ start] by blast
  ultimately show ?thesis by simp
qed

theorem sync_rate_bounded_witness:
  "\<exists>times. vehicleSyncLoop 100 0 [(10, 0), (12000, 5), (10, 0), (10, 0)] = Inr times
     \<and> (\<forall>k < 4. int k * 10000 \<le> times ! k)"
proof -
  have "list_all (\<lambda>(d, late). 0 \<le> d \<and> 0 \<le> late) [(10, 0), (12000, 5), (10, 0), (10, 0 :: int) :: int \<times> int]"
    by simp
  from sync_rate_bounded [OF _ _ this, of 100 0] show ?thesis by auto
qed

text \<open>
  The heartbeats come no faster than their interval, delays add up, and after the server has stopped there
  is none.
\<close>

lemma heartbeat_times_lower:
  assumes "list_all (\<lambda>(_, late, _, d). 0 \<le> late \<and> 0 \<le> d) rounds"
  shows "k < length (heartbeat_times iv now rounds) \<Longrightarrow> now + (int k + 1) * iv \<le> heartbeat_times iv now rounds ! k"
  using assms
proof (induction rounds arbitrary: now k)
  case (Cons r rounds)
  obtain runs late still d where r: "r = (runs, late, still, d)" by (cases r)
  show ?case
  proof (cases k)
    case 0
    then show ?thesis using Cons.prems by (auto simp: r split: if_splits)
  next
    case (Suc j)
    then have "now + iv + late + d + (int j + 1) * iv \<le> heartbeat_times iv (now + iv + late + d) rounds ! j"
      using Cons.prems by (intro Cons.IH) (auto simp: r split: if_splits)
    then show ?thesis using Suc Cons.prems by (auto simp: r algebra_simps split: if_splits)
  qed
qed simp

lemma heartbeat_rate_bounded:
  assumes "list_all (\<lambda>(_, late, _, d). 0 \<le> late \<and> 0 \<le> d) rounds" "k < length (heartbeatLoop iv start rounds)"
  shows "start + int k * iv \<le> heartbeatLoop iv start rounds ! k"
  using assms heartbeat_times_lower [OF assms(1), of "k - 1" iv start]
  by (cases k) (auto simp: heartbeatLoop_def algebra_simps)

lemma heartbeat_stops: "list_all (\<lambda>(runs, _). \<not> runs) rounds \<Longrightarrow> heartbeatLoop iv start rounds = [start]"
  by (cases rounds) (auto simp: heartbeatLoop_def)

section \<open>The AI loop\<close>

text \<open>The AI loop starts at every configured rate, and turn \<open>k\<close> not before \<open>k\<close> intervals have passed.\<close>

lemma ai_rate_bounded:
  assumes "list_all (\<lambda>(d, late). 0 \<le> d \<and> 0 \<le> late) turns" and "k < length turns"
  shows "start + int k * (1000000 div max 1 hz) \<le> aiTrafficLoop hz start turns ! k"
  using sync_times_lower [OF _ assms(1), of "1000000 div max 1 hz" start start
      "start + 1000000 div max 1 hz"] assms(2)
  by (simp add: aiTrafficLoop_def Let_def pos_imp_zdiv_nonneg_iff)

interpretation rest: player_invariant E "\<lambda>p. \<forall>v \<in> set (pl_vehicles p). pv_last_state v = zero_state" for E
  by unfold_locales (auto simp: admitted_def)

text \<open>
  The AI traffic never learns where anybody is: in every reachable state each vehicle of a player still
  has the state it was spawned with, so the AI loop is given one entry per player with a vehicle, always
  at the origin and at rest.
\<close>

theorem ai_sees_players_at_origin:
  assumes "reachable E s"
  shows "\<exists>infos. ai_player_info F s = Inr infos
    \<and> length infos = length (filter (\<lambda>(_, p). pl_username p \<noteq> BRIDGE_NAME \<and> pl_vehicles p \<noteq> []) (m_players s))
    \<and> (\<forall>i \<in> set infos. pi_pos i = (0, 0, 0) \<and> pi_vel i = (0, 0, 0))"
proof -
  let ?f = "\<lambda>(pid, p). pl_username p \<noteq> BRIDGE_NAME \<and> pl_vehicles p \<noteq> []"
  let ?i = "\<lambda>(pid, p). info_of_state F (pv_last_state (hd (pl_vehicles p)))"
  have z: "info_of_state F (pv_last_state (hd (pl_vehicles p))) = info_of_state F zero_state"
    if "(pid, p) \<in> set (m_players s)" "pl_vehicles p \<noteq> []" for pid p
    using rest.invariant [OF assms] that by (auto simp: rest.all_Q_def)
  have "ai_player_info F s = Inr (map ?i (filter ?f (m_players s)))"
    using reachable_held [OF assms] by (simp add: ai_player_info_def read_locked_def)
  moreover have "\<forall>i \<in> set (map ?i (filter ?f (m_players s))). pi_pos i = (0, 0, 0) \<and> pi_vel i = (0, 0, 0)"
    using z by (auto simp: info_of_state_def zero_state_def Let_def)
  ultimately show ?thesis by (intro exI [of _ "map ?i (filter ?f (m_players s))"] conjI length_map)
qed

theorem ai_sees_players_at_origin_witness:
  "\<exists>infos. ai_player_info demo_floats_ops two_state = Inr infos \<and> infos \<noteq> []
     \<and> (\<forall>i \<in> set infos. pi_pos i = (0, 0, 0) \<and> pi_vel i = (0, 0, 0))"
proof -
  obtain p q where p: "m_players two_state = [(1, p), (2, q)]" "length (pl_vehicles p) = 1"
    "pl_username p = ''ann''"
    using two_state_facts(1,4,5) by (auto simp: map_eq_Cons_conv)
  then have "pl_username p \<noteq> BRIDGE_NAME" "pl_vehicles p \<noteq> []" by (auto simp: BRIDGE_NAME_def)
  with p show ?thesis using ai_sees_players_at_origin [OF two_reachable, of demo_floats_ops] by auto
qed

end
