(* ===== verification/Server_Output.thy ===== *)
theory Server_Output
  imports Server_Play Login
begin

text \<open>
  What a server writes to its sessions has a type: every frame holds one packet with a known type, a
  complete header and a body of exactly the length the header says, and no session has two entries in
  the table of sessions. Since every write goes through \<open>TCPServer::send\<close> and \<open>sendAll\<close>, this is an
  invariant of the methods (\<open>wires\<close> lemmas, one per method), and the reader of the other side, the
  client's read loop, never faults on what a server sends.
\<close>

section \<open>Packets as the header describes them\<close>

definition well_formed :: "bytes \<Rightarrow> bool" where
  "well_formed p \<longleftrightarrow> HEADER_SIZE \<le> length p
     \<and> length p = HEADER_SIZE + unat (hdr_payload_len (header_of_bytes p))
     \<and> type_of_byte (hdr_type (header_of_bytes p)) \<noteq> None"

lemma header_of_bytes_split:
  assumes "10 \<le> length p"
  shows "p = header_bytes (header_of_bytes p) @ drop 10 p"
proof -
  obtain a b c d e f g h i j r where "p = a # b # c # d # e # f # g # h # i # j # r"
    using assms by (auto simp: eval_nat_numeral Suc_le_length_iff)
  then show ?thesis
    using le16_un_le16 [of b c] le32_un_le32 [of d e f g] le16_un_le16 [of h i]
    by (simp add: header_bytes_def header_of_bytes_def un_le16_def un_le32_def)
qed

lemma well_formed_build: "(case p of Some d \<Rightarrow> unat n \<le> length d | None \<Rightarrow> True) \<Longrightarrow> well_formed (build t i q p n fl)"
  by (cases p) (simp_all add: well_formed_def build_def del: type_code.simps)

lemma well_formed_buildStr: "well_formed (buildStr t i q str)"
proof -
  have "unat (word_of_nat (length str) :: u16) \<le> length str"
    by (simp add: unat_of_nat)
  then show ?thesis unfolding buildStr_def by (intro well_formed_build) simp
qed

lemma well_formed_frame_ok:
  assumes "well_formed p"
  shows "frame_ok p"
proof -
  have "unat (hdr_payload_len (header_of_bytes p)) < 65536"
    using unsigned_less [of "hdr_payload_len (header_of_bytes p)", where ?'a = nat] by simp
  then show ?thesis using assms by (auto simp: well_formed_def frame_ok_def MAX_FRAME_def)
qed

section \<open>The invariant\<close>

definition wire_ok :: "server \<Rightarrow> bool" where
  "wire_ok s \<longleftrightarrow> distinct (keys (m_sessions s))
     \<and> (\<forall>(sid, f) \<in> set (tcp_out s). \<exists>p. f = session_frame p \<and> well_formed p)"

lemma wire_ok_frame [simp]:
  "wire_ok (s\<lparr>held := h\<rparr>) = wire_ok s" "wire_ok (s\<lparr>udp_out := y\<rparr>) = wire_ok s"
  "wire_ok (s\<lparr>lua_history := l\<rparr>) = wire_ok s" "wire_ok (s\<lparr>authority_history := a\<rparr>) = wire_ok s"
  "wire_ok (s\<lparr>ai_history := b\<rparr>) = wire_ok s" "wire_ok (s\<lparr>steady_now := n\<rparr>) = wire_ok s"
  "wire_ok (s\<lparr>m_recv_buf := f\<rparr>) = wire_ok s" "wire_ok (s\<lparr>m_running := r\<rparr>) = wire_ok s"
  "wire_ok (s\<lparr>m_next_session_id := i\<rparr>) = wire_ok s" "wire_ok (s\<lparr>m_players := ps\<rparr>) = wire_ok s"
  "wire_ok (s\<lparr>m_session_to_player := sp\<rparr>) = wire_ok s" "wire_ok (s\<lparr>m_entries := es\<rparr>) = wire_ok s"
  "wire_ok (s\<lparr>m_next_player_id := np\<rparr>) = wire_ok s" "wire_ok (s\<lparr>m_player_to_ep := pe\<rparr>) = wire_ok s"
  "wire_ok (s\<lparr>m_ep_to_player := ep\<rparr>) = wire_ok s" "wire_ok (upd_player pid g s) = wire_ok s"
  by (simp_all add: wire_ok_def upd_player_def)

text \<open>\<open>wires s r\<close>: from a good state the outcome \<open>r\<close> is a good state or a fault.\<close>

definition wires :: "server \<Rightarrow> fault + server \<Rightarrow> bool" where
  "wires s r \<longleftrightarrow> (wire_ok s \<longrightarrow> postE wire_ok r)"

named_theorems wires_rules \<open>methods that keep the typing of the output\<close>

lemma wires_Inl [wires_rules, simp]: "wires s (Inl f)"
  by (simp add: wires_def)

lemma wires_Inr: "(wire_ok s \<Longrightarrow> wire_ok t) \<Longrightarrow> wires s (Inr t)"
  by (simp add: wires_def)

lemma wires_refl [wires_rules, simp]: "wires s (Inr s)"
  by (simp add: wires_def)

lemma wires_from: "wires t r \<Longrightarrow> (wire_ok s \<Longrightarrow> wire_ok t) \<Longrightarrow> wires s r"
  by (simp add: wires_def)

lemma wires_bind: "wires s m \<Longrightarrow> (\<And>t. wires t (k t)) \<Longrightarrow> wires s (bindE m k)"
  by (cases m) (auto simp: wires_def)

lemma wires_bind_pair:
  "(wire_ok s \<Longrightarrow> postE (\<lambda>(b, t). wire_ok t) m) \<Longrightarrow> (\<And>b t. wires t (k (b, t))) \<Longrightarrow> wires s (bindE m k)"
  by (cases m) (auto simp: wires_def)

lemma wires_read: "(\<And>x. wires s (k x)) \<Longrightarrow> wires s (bindE m k)"
  by (cases m) auto

lemma wires_if: "(b \<Longrightarrow> wires s x) \<Longrightarrow> (\<not> b \<Longrightarrow> wires s y) \<Longrightarrow> wires s (if b then x else y)"
  by simp

lemma wires_option:
  "(v = None \<Longrightarrow> wires s x) \<Longrightarrow> (\<And>y. v = Some y \<Longrightarrow> wires s (f y))
     \<Longrightarrow> wires s (case v of None \<Rightarrow> x | Some y \<Rightarrow> f y)"
  by (cases v) auto

lemma wires_lock:
  assumes "\<And>t. wires t (body t)"
  shows "wires s (with_lock m body s)"
proof -
  have "wires (s\<lparr>held := m # held s\<rparr>) (body (s\<lparr>held := m # held s\<rparr>))" by (rule assms)
  then show ?thesis by (auto simp: wires_def intro!: postE_with_lock)
qed

lemma wires_foldE: "(\<And>x t. wires t (f x t)) \<Longrightarrow> wires s (foldE f xs s)"
  by (auto simp: wires_def intro: postE_foldE)

section \<open>The methods\<close>

lemma wires_tcp_send: "well_formed d \<Longrightarrow> wires s (tcp_send i d s)"
  unfolding tcp_send_def by (rule wires_lock) (auto simp: wires_def wire_ok_def split: option.split)

lemma wires_tcp_sendAll: "well_formed d \<Longrightarrow> wires s (tcp_sendAll d x s)"
  unfolding tcp_sendAll_def by (rule wires_lock) (auto simp: wires_def wire_ok_def)

lemma wires_send_str [wires_rules]:
  "wires s (tcp_send i (buildStr t p q str) s)" "wires s (tcp_sendAll (buildStr t p q str) x s)"
  by (simp_all add: wires_tcp_send wires_tcp_sendAll well_formed_buildStr)

lemma wires_sendAll_byte [wires_rules]: "wires s (tcp_sendAll (build t p q (Some [b]) 1 fl) x s)"
  by (rule wires_tcp_sendAll) (simp add: well_formed_build)

lemma wires_udp_sendAll [wires_rules]: "wires s (udp_sendAll d x s)"
  unfolding udp_sendAll_def by (rule wires_lock) (simp add: wires_def)

lemma wires_unmapPlayer [wires_rules]: "wires s (unmapPlayer p s)"
  unfolding unmapPlayer_def by (rule wires_lock) (simp add: wires_def split: option.split)

lemma wires_tcp_disconnect [wires_rules]: "wires s (tcp_disconnect cb i s)"
  by (cases "SessionsMutex \<in> set (held s)")
    (simp_all add: tcp_disconnect_free wires_if, simp add: tcp_disconnect_def with_lock_held)

lemma wires_sendChat [wires_rules]: "wires s (sendChat i m s)"
  unfolding sendChat_def Let_def by (intro wires_if wires_lock wires_option wires_rules)

lemma wires_kickPlayer [wires_rules]: "wires s (kickPlayer cb i r s)"
  unfolding kickPlayer_def Let_def by (intro wires_lock wires_option wires_bind wires_rules)

lemma wires_banPlayer [wires_rules]: "wires s (banPlayer cb i r s)"
  unfolding banPlayer_def
  by (intro wires_read) (rule wires_from [OF wires_kickPlayer], simp split: option.split)

lemma wires_broadcasts [wires_rules]:
  "wires s (broadcastPlayerJoin E p s)" "wires s (broadcastPlayerLeave E i r s)"
  "wires s (sendServerInfo E k s)" "wires s (send_auth_response E k ms s)"
  unfolding broadcastPlayerJoin_def broadcastPlayerLeave_def sendServerInfo_def send_auth_response_def
  by (intro wires_read wires_rules)+

lemma wires_auth [wires_rules]:
  "wires s (auth_error E k e s)" "wires s (auth_ok E k p s)" "wires s (auth_reject cb E k e s)"
  unfolding auth_error_def auth_ok_def auth_reject_def by (intro wires_bind wires_rules)+

lemma wires_authority_cb [wires_rules]: "wires s (authority_cb E c s)"
  unfolding grantAuthority_def [abs_def] revokeAuthority_def [abs_def]
  by (cases c) (auto simp: grantAuthority_def revokeAuthority_def
      intro!: wires_lock wires_option wires_read wires_rules)

lemma wire_call_authority: "wire_ok s \<Longrightarrow> postE (\<lambda>(b, t). wire_ok t) (call_authority E c s)"
proof -
  assume "wire_ok s"
  obtain b cbs where a: "authority E (authority_history s) c = (b, cbs)" by fastforce
  have "wires (s\<lparr>authority_history := authority_history s @ [c]\<rparr>)
      (foldE (authority_cb E) cbs (s\<lparr>authority_history := authority_history s @ [c]\<rparr>))"
    by (intro wires_foldE wires_rules)
  then show ?thesis using \<open>wire_ok s\<close>
    by (auto simp: call_authority_def a wires_def postE_bindE elim: postE_mono)
qed

lemma wires_after_authority:
  "(\<And>b t. wires t (k (b, t))) \<Longrightarrow> wires s (bindE (call_authority E c s) k)"
  by (rule wires_bind_pair [OF wire_call_authority])

lemma wires_lua_api [wires_rules]: "wires s (lua_api cb c s)"
  by (cases c) (auto intro: wires_rules wires_Inr)

lemma wire_lua_enter: "wire_ok s \<Longrightarrow> postE (\<lambda>(r, t). wire_ok t) (lua_enter cb E inp s)"
proof -
  assume "wire_ok s"
  obtain calls res where r: "lua_run E (lua_history s) (lua_view_of s) inp = (calls, res)"
    by fastforce
  let ?s = "s\<lparr>lua_history := lua_history s @ [(lua_view_of s, inp)]\<rparr>"
  have "wires ?s (foldE (lua_api cb) calls ?s)" by (intro wires_foldE wires_rules)
  then show ?thesis using \<open>wire_ok s\<close> by (simp add: wires_def lua_enter_def r postE_bindE Let_def)
qed

lemma wires_after_lua: "(\<And>r t. wires t (k (r, t))) \<Longrightarrow> wires s (bindE (lua_enter cb E inp s) k)"
  by (rule wires_bind_pair [OF wire_lua_enter])

lemma wires_after_event: "(\<And>r t. wires t (k (r, t))) \<Longrightarrow> wires s (bindE (fireEvent cb E ev args s) k)"
  unfolding fireEvent_def bindE_assoc by (rule wires_after_lua) simp

lemma wires_handleAuthorityClaim [wires_rules]: "wires s (handleAuthorityClaim E p s)"
  unfolding handleAuthorityClaim_def
  by (intro wires_if wires_refl wires_after_authority) (simp add: wires_if wires_rules)

lemma wires_add_player [wires_rules]: "wires s (add_player k pid p s)"
  unfolding add_player_def by (rule wires_lock) (simp add: wires_def)

lemma wires_alloc: "(\<And>pid u. wires u (k pid u)) \<Longrightarrow> wires s (case allocPlayerID s of (pid, u) \<Rightarrow> k pid u)"
  by (rule wires_from [where t = "snd (allocPlayerID s)"])
    (simp_all add: allocPlayerID_def Let_def split: prod.split)

lemma wires_then: "(\<And>t. wires t (f t)) \<Longrightarrow> wires s m \<Longrightarrow> wires s (bindE m f)"
  by (rule wires_bind)

lemma wires_handleAuth_bridge [wires_rules]: "wires s (handleAuth_bridge cb E k pw s)"
  unfolding handleAuth_bridge_def Let_def
  apply (intro wires_if wires_rules wires_alloc)
  apply (rule wires_read, rule wires_bind [OF wires_add_player], rule wires_bind [OF wires_auth(2)])
  apply (rule wires_after_authority, simp)
  done

lemma wires_handleAuth_player [wires_rules]: "wires s (handleAuth_player cb E k u j s)"
  unfolding handleAuth_player_def Let_def
  apply (rule wires_alloc, rule wires_read, rule wires_read, rule wires_bind [OF wires_add_player])
  apply (rule wires_after_event, simp only: prod.case, rule wires_if)
   apply (rule wires_bind, rule wires_lock, simp add: wires_def, rule wires_rules)
  apply (rule wires_bind [OF wires_auth(2)], rule wires_bind [OF wires_broadcasts(3)])
  apply (rule wires_read, simp)
  done

lemma wires_handleAuth [wires_rules]: "wires s (handleAuth cb E k pl n s)"
  unfolding handleAuth_def by (intro wires_read wires_option wires_if wires_rules)

lemma wires_handleReady [wires_rules]: "wires s (handleReady cb E pid s)"
  unfolding handleReady_def
  apply (rule wires_read, rule wires_option, simp)
  apply (rule wires_from, rule wires_bind [OF wires_broadcasts(1)], rule wires_after_event)
   apply (simp_all add: wires_rules)
  done

lemma wires_handleChat [wires_rules]: "wires s (handleChat cb E pid pl n s)"
  unfolding handleChat_def Let_def
  apply (rule wires_read, rule wires_read, rule wires_option, simp, rule wires_if, simp)
  apply (rule wires_after_event, simp add: wires_if wires_rules)
  done

lemma wires_handleVehicleSpawn [wires_rules]: "wires s (handleVehicleSpawn cb E pid pl n s)"
  unfolding handleVehicleSpawn_def Let_def
  apply (rule wires_read, rule wires_option, simp, rule wires_read, rule wires_option, simp)
  apply (rule wires_if, simp, rule wires_read, rule wires_read, rule wires_read)
  apply (rule wires_from, rule wires_bind [OF wires_send_str(2)], rule wires_after_event)
   apply simp_all
  done

lemma wires_handleVehicleDelete [wires_rules]: "wires s (handleVehicleDelete cb E pid pl n s)"
  unfolding handleVehicleDelete_def Let_def
  apply (rule wires_if, simp, rule wires_read, rule wires_read, rule wires_option, simp)
  apply (rule wires_from, rule wires_bind [OF wires_sendAll_byte], rule wires_after_event)
   apply simp_all
  done

lemma wires_onTCPPacket [wires_rules]: "wires s (onTCPPacket cb E k d s)"
  unfolding onTCPPacket_def Let_def
  by (intro wires_read) (simp add: wires_rules split: option.split PacketType.split)

lemma wires_onUDPPacket [wires_rules]: "wires s (onUDPPacket E ep n s)"
  unfolding onUDPPacket_def handleVehicleUpdate_def
  by (intro wires_read wires_if wires_refl wires_rules) (simp_all add: wires_def udp_send_def)

lemma wires_onDisconnect [wires_rules]: "wires s (onDisconnect E k s)"
proof -
  have leave: "wires t (with_lock PlayersMutex (\<lambda>s. case map_of (m_players s) pid of None \<Rightarrow> Inr s
     | Some _ \<Rightarrow> bindE (unmapPlayer pid (s\<lparr>m_entries := onPlayerDisconnect pid (m_entries s)\<rparr>))
         (\<lambda>s. Inr (s\<lparr>m_players := AList.delete pid (m_players s)\<rparr>))) t)" for t pid
    apply (intro wires_lock wires_option wires_refl)
    apply (rule wires_from, rule wires_bind [OF wires_unmapPlayer])
     apply (simp_all add: wires_def)
    done
  show ?thesis
    unfolding onDisconnect_def onDisconnect_body_def Let_def
    apply (rule wires_bind, rule wires_lock, simp add: wires_def)
    apply (rule wires_if, simp, rule wires_bind [OF leave], rule wires_bind [OF wires_broadcasts(2)])
    apply (rule wires_after_event, simp only: prod.case, rule wires_bind [OF wires_if])
      apply (rule wires_after_authority, simp)
     apply simp
    apply (rule wires_read, simp)
    done
qed

lemma wires_vehicleSync_tick [wires_rules]: "wires s (vehicleSync_tick s)"
  unfolding vehicleSync_tick_def case_prod_beta' Let_def
  by (rule wires_bind [OF wires_foldE], rule wires_udp_sendAll) (simp add: wires_def)

lemma wires_ai_tick [wires_rules]: "wires s (ai_tick E s)"
  unfolding ai_tick_def Let_def
  by (rule wires_read, rule wires_from, rule wires_foldE, rule wires_rules, simp)

lemma wires_masterHeartbeat [wires_rules]: "wires s (masterHeartbeat s)"
  unfolding masterHeartbeat_def by (intro wires_read wires_rules)

lemma wires_tcp_accept [wires_rules]: "wires s (tcp_accept ip s)"
  unfolding tcp_accept_def Let_def
  by (rule wires_from, rule wires_lock) (simp_all add: wires_def wire_ok_def)

lemma wires_onSessionClose [wires_rules]: "wires s (onSessionClose (onDisconnect E) k s)"
  unfolding onSessionClose_def
  by (rule wires_bind [OF wires_lock wires_onDisconnect]) (simp add: wires_def wire_ok_def)

lemma wires_handle: "wires s (handle E e s)"
proof (cases e)
  case EvStart
  then show ?thesis by simp (rule wires_from [OF wires_after_event], simp_all)
next
  case EvStop
  then show ?thesis
    by (simp add: stop_server_def) (intro impI wires_from [OF wires_after_event], simp_all)
next
  case (EvLua code)
  then show ?thesis by (simp add: wires_after_lua)
next
  case (EvDatagram ep d)
  then show ?thesis
    by (auto simp: udp_receive_def Let_def intro: wires_from [OF wires_onUDPPacket] wires_Inr)
qed (auto intro: wires_rules wires_after_event wires_after_authority wires_Inr)

theorem wire_invariant: "reachable E s \<Longrightarrow> wire_ok s"
proof (induction rule: reachable.induct)
  case init
  then show ?case by (simp add: wire_ok_def initial_server_def)
next
  case (event s e t)
  then show ?case using wires_handle [of s E e] by (simp add: wires_def)
qed simp

section \<open>What a client receives\<close>

text \<open>The bytes written to one session, in their order.\<close>

definition stream_to :: "u16 \<Rightarrow> server \<Rightarrow> bytes" where
  "stream_to sid s = concat (map snd (filter (\<lambda>(i, _). i = sid) (tcp_out s)))"

lemma stream_to_packets:
  assumes "wire_ok s"
  obtains ps where "stream_to sid s = concat (map session_frame ps)" "\<forall>p \<in> set ps. well_formed p"
proof -
  have "\<exists>ps. concat (map snd (filter (\<lambda>(i, _). i = sid) out)) = concat (map session_frame ps)
      \<and> (\<forall>p \<in> set ps. well_formed p)"
    if "\<forall>(i, f) \<in> set out. \<exists>p. f = session_frame p \<and> well_formed p" for out :: "(u16 \<times> bytes) list"
    using that
  proof (induction out)
    case (Cons x out)
    then obtain ps where "concat (map snd (filter (\<lambda>(i, _). i = sid) out)) = concat (map session_frame ps)"
      "\<forall>p \<in> set ps. well_formed p" by auto
    moreover obtain p where "snd x = session_frame p" "well_formed p" using Cons.prems by (cases x) auto
    ultimately show ?case
      by (intro exI [of _ "if fst x = sid then p # ps else ps"]) (auto simp: case_prod_beta')
  qed (auto intro: exI [of _ "[]"])
  then show thesis using that assms by (auto simp: wire_ok_def stream_to_def)
qed

lemma wire_frame_typed:
  assumes "wire_ok s" and "(sid, f) \<in> set (tcp_out s)"
  shows "\<exists>h body t. f = le32 (word_of_nat (10 + length body)) @ header_bytes h @ body
    \<and> hdr_type h = type_code t \<and> length body = unat (hdr_payload_len h)"
proof -
  obtain p where p: "f = session_frame p" "well_formed p"
    using assms by (auto simp: wire_ok_def)
  let ?h = "header_of_bytes p"
  obtain t where t: "hdr_type ?h = type_code t"
    using p(2) by (auto simp: well_formed_def dest: type_of_byte_Some)
  have hb: "p = header_bytes ?h @ drop 10 p" "length (drop 10 p) = unat (hdr_payload_len ?h)"
    using p(2) header_of_bytes_split [of p] by (simp_all add: well_formed_def)
  then have "f = le32 (word_of_nat (10 + length (drop 10 p))) @ header_bytes ?h @ drop 10 p"
    using p by (simp add: session_frame_def well_formed_def)
  with t hb(2) show ?thesis by blast
qed

text \<open>
  Every frame a reachable server has written is one complete packet: a length field, ten bytes of
  header with a type the protocol knows, and a body of exactly the length the header gives.
\<close>

theorem server_output_typed:
  assumes "reachable E s" and "(sid, f) \<in> set (tcp_out s)"
  shows "\<exists>h body t. f = le32 (word_of_nat (10 + length body)) @ header_bytes h @ body
    \<and> hdr_type h = type_code t \<and> length body = unat (hdr_payload_len h)"
  by (rule wire_frame_typed [OF wire_invariant [OF assms(1)] assms(2)])

section \<open>The client survives the server\<close>

lemma well_formed_body:
  assumes "well_formed p"
  shows "\<exists>b. packet_body p (hdr_payload_len (header_of_bytes p)) = Inr b"
  using assms by (auto simp: well_formed_def packet_body_def read_bytes_def)

lemma onPacket_total:
  assumes "well_formed p"
  shows "\<exists>c'. net_onPacket J p c = Inr c'"
proof -
  obtain b where "packet_body p (hdr_payload_len (header_of_bytes p)) = Inr b"
    using well_formed_body [OF assms] by blast
  moreover have "client_parseHeader p = Inr (header_of_bytes p)"
    using assms by (simp add: well_formed_def client_parseHeader_def)
  ultimately show ?thesis by (simp add: net_onPacket_def Let_def)
qed

lemma onPackets_total:
  "\<forall>p \<in> set ps. well_formed p \<Longrightarrow> \<exists>c'. foldE (net_onPacket J) ps c = Inr c'"
proof (induction ps arbitrary: c)
  case (Cons p ps)
  then obtain c1 where "net_onPacket J p c = Inr c1" using onPacket_total [of p J c] by auto
  with Cons show ?case by simp
qed simp

lemma wire_client_reads:
  assumes "wire_ok s" and "stream_to sid s = arrived @ pending"
  shows "\<exists>rest c'. net_read_loop J arrived c = Inr (rest, c')"
proof -
  obtain ps where ps: "stream_to sid s = concat (map session_frame ps)" "\<forall>p \<in> set ps. well_formed p"
    using stream_to_packets [OF assms(1)] by blast
  have "\<forall>p \<in> set ps. frame_ok p" using ps(2) well_formed_frame_ok by blast
  then have run: "read_frames (arrived @ pending) = (ps, Waiting)"
    using tcp.run_encoded [of ps "[]"] assms(2) ps(1)
    by (simp add: read_frames.simps [of "[]"] read_frame_def)
  obtain qs where "ps = fst (read_frames arrived) @ qs" and closed: "snd (read_frames arrived) \<noteq> Closed"
    using tcp.run_extend [of arrived pending] run by auto
  then have "\<forall>p \<in> set (fst (read_frames arrived)). well_formed p" using ps(2) by simp
  from onPackets_total [OF this] obtain c' where
    "foldE (net_onPacket J) (fst (read_frames arrived)) c = Inr c'" by blast
  with net_read_loop_fold [of J arrived c] closed show ?thesis
    by (auto simp: bindE_Inr_iff)
qed

text \<open>
  No server of this program can crash a client over TCP: whatever a reachable server has written to a
  session, however much of it has arrived and in whatever pieces, the client's read loop handles the
  complete packets in it without a fault (no length it rejects, no short header, no read past a
  packet) and waits for more.
\<close>

theorem client_survives_server:
  assumes "reachable E s" and "stream_to sid s = arrived @ pending"
  shows "\<exists>rest c'. net_read_loop J arrived c = Inr (rest, c')"
  by (rule wire_client_reads [OF wire_invariant [OF assms(1)] assms(2)])

section \<open>Witnesses\<close>

definition talked :: "server \<Rightarrow> bool" where
  "talked s \<longleftrightarrow> 1 < length (tcp_out s)"

lemma talked_run:
  "outcome talked (run_events demo [EvAccept ''10.0.0.1'', EvFrame 1 (auth_frame ''ann/'')] initial_server)"
  by code_simp

theorem server_output_typed_witness:
  "\<exists>s x. reachable demo s \<and> x \<in> set (tcp_out s)
     \<and> (\<exists>h body t. snd x = le32 (word_of_nat (10 + length body)) @ header_bytes h @ body
         \<and> hdr_type h = type_code t \<and> length body = unat (hdr_payload_len h))"
proof -
  obtain s where s: "reachable demo s" "talked s" using outcome_run [OF talked_run] by blast
  then obtain x where "x \<in> set (tcp_out s)" by (cases "tcp_out s") (auto simp: talked_def)
  then have "(fst x, snd x) \<in> set (tcp_out s)" by simp
  from server_output_typed [OF s(1) this] s(1) \<open>x \<in> set (tcp_out s)\<close> show ?thesis by blast
qed

theorem client_survives_server_witness:
  "\<exists>rest c'. net_read_loop no_json (take 33 (stream_to 1 two_state)) demo_client = Inr (rest, c')"
  by (rule client_survives_server [OF two_reachable, where pending = "drop 33 (stream_to 1 two_state)"]) simp

end
