(* ===== verification/Client_Screen.thy ===== *)
theory Client_Screen
  imports Server_Output Client_Main
begin

text \<open>
  What the user of the client sees: the callbacks that \<open>runNovaMP\<close> and \<open>runBeamMP\<close> set
  (\<^verbatim>\<open>client/src/main.cpp\<close>) and the lines they print, and with them the way of a chat message from the
  frame of one player to the terminals of all the others.
\<close>

section \<open>The callbacks\<close>

text \<open>A line on standard output, or a call of spdlog with its level.\<close>

datatype screen_line = Out string | Info string | Warn string | Err string | Trace string

text \<open>
  The three callbacks of \<open>runNovaMP\<close>; \<open>pid\<close> is the answer of \<open>client.playerID()\<close> when they run. The
  packet callback parses the header again and reads as many bytes as it says.
\<close>

fun nova_show :: "u16 \<Rightarrow> net_callback \<Rightarrow> fault + screen_line list" where
  "nova_show pid (ConnCb ok err) = Inr [if ok then Info (''Connected! Player ID='' @ to_string pid)
     else Err (''Connection failed: '' @ err)]"
| "nova_show pid (DiscCb r) = Inr [Warn (''Disconnected: '' @ r)]"
| "nova_show pid (PktCb type data) = bindE (client_parseHeader data) (\<lambda>hdr.
     if client_type_of_byte type = Some CHAT_MESSAGE
     then bindE (packet_body data (hdr_payload_len hdr)) (\<lambda>b. Inr [Out (''[Chat] '' @ b)])
     else if client_type_of_byte type = Some KICK
     then bindE (packet_body data (hdr_payload_len hdr)) (\<lambda>b. Inr [Warn (''Kicked: '' @ b)])
     else Inr [])"

text \<open>
  One packet: \<open>onPacket\<close>, whose callbacks print. A packet calls at most one callback that reads the
  player id, and sets the id before.
\<close>

definition nova_on_packet :: "client_json \<Rightarrow> bytes \<Rightarrow> net_client \<times> screen_line list
    \<Rightarrow> fault + net_client \<times> screen_line list" where
  "nova_on_packet J p x = (case x of (c, scr) \<Rightarrow> bindE (net_onPacket J p c) (\<lambda>c'.
     bindE (foldE (\<lambda>call scr. bindE (nova_show (nc_player_id c') call) (\<lambda>ls. Inr (scr @ ls)))
       (drop (length (nc_calls c)) (nc_calls c')) scr) (\<lambda>scr. Inr (c', scr))))"

text \<open>The packets of the bytes that have arrived, one after the other.\<close>

definition nova_on_bytes :: "client_json \<Rightarrow> bytes \<Rightarrow> net_client \<times> screen_line list
    \<Rightarrow> fault + net_client \<times> screen_line list" where
  "nova_on_bytes J b = foldE (nova_on_packet J) (fst (read_frames b))"

text \<open>
  The six callbacks of \<open>runBeamMP\<close>; \<open>pid\<close> and \<open>m\<close> are the answers of \<open>client.playerID()\<close> and
  \<open>client.mapName()\<close> when they run.
\<close>

fun beam_show :: "u16 \<Rightarrow> string \<Rightarrow> beam_call \<Rightarrow> screen_line" where
  "beam_show pid m (BConnect ok err) =
     (if ok then Info (''[BeamMP] Connected! Player ID='' @ to_string pid @ '', Map='' @ m)
      else Err (''[BeamMP] Connection failed: '' @ err))"
| "beam_show pid m (BDisconnect r) = Warn (''[BeamMP] Disconnected: '' @ r)"
| "beam_show pid m (BChat msg) = Out (''[BeamMP Chat] '' @ msg)"
| "beam_show pid m (BVehicle t) = Trace (''[BeamMP] VehicleUpdate pid='' @ to_string (bt_player_id t)
     @ '' vid='' @ to_string (bt_vehicle_id t))"
| "beam_show pid m (BSpawn p v model) = Info (''[BeamMP] Spawn pid='' @ to_string p @ '' vid=''
     @ to_string v @ '' model_len='' @ dec_nat (length model))"
| "beam_show pid m (BDelete p v) =
     Info (''[BeamMP] Delete pid='' @ to_string p @ '' vid='' @ to_string v)"

section \<open>Chat, from terminal to terminal\<close>

lemma nova_chat_packet:
  assumes "length t < 65536" "nc_has_pkt_cb c"
  shows "\<exists>c'. nova_on_packet J (buildStr CHAT_MESSAGE i q t) (c, scr) = Inr (c', scr @ [Out (''[Chat] '' @ t)])"
proof -
  have n: "unat (word_of_nat (length t) :: u16) = length t" using assms by (simp add: unat_word_of_nat_u16)
  have h: "client_parseHeader (buildStr CHAT_MESSAGE i q t) = Inr \<lparr>hdr_type = type_code CHAT_MESSAGE,
      hdr_sender_id = i, hdr_sequence = q, hdr_payload_len = word_of_nat (length t), hdr_flags = 0\<rparr>"
    by (simp add: buildStr_def build_def client_parseHeader_def)
  have b: "packet_body (buildStr CHAT_MESSAGE i q t) (word_of_nat (length t)) = Inr t"
    by (simp add: packet_body_def buildStr_def build_def n read_bytes_def)
  show ?thesis using assms
    by (simp add: nova_on_packet_def net_onPacket_buildStr client_type_of_byte_code authority_types_def
        h b Let_def del: type_code.simps)
qed

lemma stream_to_append:
  "tcp_out t = tcp_out s @ out \<Longrightarrow>
     stream_to k t = stream_to k s @ concat (map snd (filter (\<lambda>(i, _). i = k) out))"
  by (simp add: stream_to_def)

lemma stream_to_all:
  assumes "distinct (keys (m_sessions s))" "k \<in> set (keys (m_sessions s))" "k \<noteq> NO_EXCLUDE"
  shows "concat (map snd (filter (\<lambda>(i, _). i = k) (to_all pkt s))) = session_frame pkt"
proof -
  have "filter (\<lambda>i. i = k) (filter (\<lambda>i. i \<noteq> NO_EXCLUDE) ks) = [k]"
    if "distinct ks" "k \<in> set ks" for ks
    using that assms(3) by (induction ks) (auto simp: filter_empty_conv)
  from this [OF assms(1,2)] show ?thesis
    by (auto simp: to_all_def filter_map o_def map_eq_Cons_conv)
qed

text \<open>
  C26. What a player says on the terminals of all. The answer of the plugins to \<open>onChatMessage\<close> decides: if it
  is empty or \<open>nil\<close>, the frame makes the server add, to the stream of every session, bytes of which a NovaMP
  client prints exactly the line \<open>[Chat] name: text\<close>, the text cut to 256 characters; with any other answer no
  client prints anything, whatever the answer says. (\<^verbatim>\<open>docs/lua_api.md\<close> has it the other way round: the empty
  string is said to suppress the message and any other to replace it.) Session 65535 is left out, because
  \<open>sendAll\<close> takes this number for ``exclude nobody'' and skips it. It is assumed that the plugins make no calls of
  their own, and that the name leaves room in a packet of 65535 bytes; nobody is ever muted.
\<close>

theorem chat_reaches_screens:
  assumes "reachable E s" and "silent E" and "length msg < 65536"
    and "map_of (m_session_to_player s) sid = Some pid" and "map_of (m_players s) pid = Some p"
    and "length (pl_username p) + 258 < 65536"
    and "k \<in> set (keys (m_sessions s))" and "nc_has_pkt_cb c"
  shows "\<exists>t new c'. handle E (EvFrame sid (buildStr CHAT_MESSAGE i q msg)) s = Inr t
    \<and> stream_to k t = stream_to k s @ new
    \<and> nova_on_bytes J new (c, scr) = Inr (c', scr
        @ (if k = 0xFFFF \<or> lua_answer E ''onChatMessage'' [to_string pid, pl_username p, take 256 msg] s \<notin> {[], ''nil''}
           then [] else [Out (''[Chat] '' @ pl_username p @ '': '' @ take 256 msg)]))"
proof -
  let ?line = "pl_username p @ '': '' @ take 256 msg"
  let ?pkt = "buildStr CHAT_MESSAGE 0 0 ?line"
  let ?quiet = "lua_answer E ''onChatMessage'' [to_string pid, pl_username p, take 256 msg] s \<notin> {[], ''nil''}"
  obtain t where t: "handle E (EvFrame sid (buildStr CHAT_MESSAGE i q msg)) s = Inr t"
      "tcp_out t = tcp_out s @ (if ?quiet then [] else to_all ?pkt s)"
    using handle_chat [OF assms(1-5), of i q] nobody_muted [OF assms(1,5)] by (auto simp: vetoed_def chat_args_def)
  show ?thesis
  proof (cases "k = 0xFFFF \<or> ?quiet")
    case True
    then have "stream_to k t = stream_to k s @ []"
      using stream_to_append [OF t(2)] by (auto simp: to_all_def NO_EXCLUDE_def filter_empty_conv)
    moreover have "nova_on_bytes J [] (c, scr) = Inr (c, scr @ [])" 
      by (simp add: nova_on_bytes_def read_frames.simps [of "[]"] read_frame_def)
    ultimately show ?thesis using t(1) True by (simp only: if_P) blast
  next
    case False
    then have new: "stream_to k t = stream_to k s @ session_frame ?pkt"
      using stream_to_append [OF t(2)] stream_to_all [of s k ?pkt] wire_invariant [OF assms(1)] assms(7)
      by (simp add: wire_ok_def NO_EXCLUDE_def)
    have len: "length ?line < 65536" using assms(6) by simp
    obtain c' where "nova_on_packet J ?pkt (c, scr) = Inr (c', scr @ [Out (''[Chat] '' @ ?line)])"
      using nova_chat_packet [OF len assms(8)] by blast
    then have "nova_on_bytes J (session_frame ?pkt) (c, scr) = Inr (c', scr @ [Out (''[Chat] '' @ ?line)])"
      by (simp only: nova_on_bytes_def read_one_frame [OF frame_ok_buildStr [OF len]] fst_conv foldE.simps
          bindE_simps)
    with t(1) new False show ?thesis by (simp only: if_False) blast
  qed
qed

text \<open>Two players, the second one talks; the terminal of the first.\<close>

theorem chat_reaches_screens_witness:
  "\<exists>t new c'. handle demo (EvFrame 2 (buildStr CHAT_MESSAGE 0 0 ''hello'')) two_state = Inr t
    \<and> stream_to 1 t = stream_to 1 two_state @ new
    \<and> nova_on_bytes no_json new (demo_client, []) = Inr (c', [Out ''[Chat] bob: hello''])"
proof -
  obtain p q where q: "map_of (m_players two_state) 2 = Some q" "pl_username q = ''bob''"
    by (rule two_players_obtain)
  from chat_reaches_screens [OF two_reachable silent_demo _ two_sessions(2) q(1), of "''hello''" 1
      demo_client 0 0 no_json "[]"] q(2)
  show ?thesis
    by (auto simp: demo_json two_state_facts demo_client_def)
qed

end
