(* ===== verification/Lua_Api.thy ===== *)
theory Lua_Api
  imports Server_Play
begin

text \<open>
  What a plugin can call (\<^verbatim>\<open>servers/src/lua/lua_engine.cpp\<close>): the functions that \<open>registerAPI\<close> puts into
  the tables \<open>MP\<close> and \<open>NovaMP.AI\<close>, each with the way it reads its arguments from the Lua stack. Lua
  itself is a parameter: a type \<open>'v\<close> of values with the conversions of its C interface. What the calls
  then do to the server is \<open>lua_api\<close> of \<open>Game_Server\<close>.
\<close>

section \<open>The Lua C interface\<close>

text \<open>
  \<open>lv_integer\<close> is what \<open>luaL_checkinteger\<close> returns, \<open>None\<close> when it raises a Lua error; \<open>lv_string\<close> what
  \<open>lua_tostring\<close> returns on a value for which \<open>lua_isstring\<close> holds; \<open>lv_number\<close> the number of a value
  (\<open>None\<close> if it has none) as a \<open>float\<close>; \<open>lv_field\<close> is \<open>lua_getfield\<close>, \<open>None\<close> when a metamethod raises;
  \<open>lv_show\<close> is \<open>luaL_tolstring\<close>, \<open>None\<close> when a metamethod raises.
\<close>

record 'v lua_lib =
  lv_nil :: "'v \<Rightarrow> bool"
  lv_table :: "'v \<Rightarrow> bool"
  lv_integer :: "'v \<Rightarrow> 64 word option"
  lv_string :: "'v \<Rightarrow> string option"
  lv_number :: "'v \<Rightarrow> f32 option"
  lv_field :: "'v \<Rightarrow> string \<Rightarrow> 'v option"
  lv_show :: "'v \<Rightarrow> string option"

text \<open>Argument \<open>i\<close>, counted from 1; \<open>None\<close> behind the last one.\<close>

definition lua_arg :: "'v list \<Rightarrow> nat \<Rightarrow> 'v option" where
  "lua_arg args i = (if 1 \<le> i \<and> i \<le> length args then Some (args ! (i - 1)) else None)"

definition checkinteger :: "'v lua_lib \<Rightarrow> 'v list \<Rightarrow> nat \<Rightarrow> 64 word option" where
  "checkinteger L args i = Option.bind (lua_arg args i) (lv_integer L)"

text \<open>
  Also \<open>lua_isstring(L, i) ? lua_tostring(L, i) : d\<close>, where \<open>None\<close> stands for the default \<open>d\<close>: both
  accept strings and numbers.
\<close>

definition checkstring :: "'v lua_lib \<Rightarrow> 'v list \<Rightarrow> nat \<Rightarrow> string option" where
  "checkstring L args i = Option.bind (lua_arg args i) (lv_string L)"

definition checknumber :: "'v lua_lib \<Rightarrow> 'v list \<Rightarrow> nat \<Rightarrow> f32 option" where
  "checknumber L args i = Option.bind (lua_arg args i) (lv_number L)"

text \<open>\<open>luaL_optstring\<close> and \<open>luaL_optnumber\<close>: an absent or nil argument gives the default.\<close>

definition opt_arg :: "'v lua_lib \<Rightarrow> ('v list \<Rightarrow> nat \<Rightarrow> 'a option) \<Rightarrow> 'a \<Rightarrow> 'v list \<Rightarrow> nat \<Rightarrow> 'a option" where
  "opt_arg L check dflt args i = (case lua_arg args i of None \<Rightarrow> Some dflt
     | Some v \<Rightarrow> if lv_nil L v then Some dflt else check args i)"

text \<open>\<open>(int)\<close> of a \<open>lua_Integer\<close>.\<close>

definition int_of_lua :: "64 word \<Rightarrow> int" where
  "int_of_lua n = sint (ucast n :: 32 word)"

section \<open>The functions\<close>

text \<open>\<open>None\<close> is a Lua error; nothing of the server has been touched then.\<close>

definition lua_SendChatMessage :: "'v lua_lib \<Rightarrow> 'v list \<Rightarrow> lua_call option" where
  "lua_SendChatMessage L args = Option.bind (checkinteger L args 1) (\<lambda>pid.
     Option.bind (checkstring L args 2) (\<lambda>msg. Some (LSendChatMessage (int_of_lua pid) msg)))"

definition lua_KickPlayer :: "'v lua_lib \<Rightarrow> 'v list \<Rightarrow> lua_call option" where
  "lua_KickPlayer L args = Option.bind (checkinteger L args 1) (\<lambda>pid.
     Some (LKickPlayer (int_of_lua pid) (checkstring L args 2)))"

definition lua_BanPlayer :: "'v lua_lib \<Rightarrow> 'v list \<Rightarrow> lua_call option" where
  "lua_BanPlayer L args = Option.bind (checkinteger L args 1) (\<lambda>pid.
     Some (LBanPlayer (int_of_lua pid) (checkstring L args 2)))"

text \<open>A field of the table as a \<open>float\<close>; \<open>lua_tonumber\<close> of something else is 0.\<close>

definition number_field :: "'v lua_lib \<Rightarrow> 'v \<Rightarrow> string \<Rightarrow> f32 option" where
  "number_field L t k = map_option (\<lambda>v. case lv_number L v of Some x \<Rightarrow> x | None \<Rightarrow> 0) (lv_field L t k)"

definition lua_AISpawn :: "'v lua_lib \<Rightarrow> 'v list \<Rightarrow> lua_call option" where
  "lua_AISpawn L args = (case lua_arg args 1 of
     Some t \<Rightarrow> if lv_table L t
       then Option.bind (lv_field L t ''model'') (\<lambda>m.
         let model = (case lv_string L m of Some str \<Rightarrow> c_str str | None \<Rightarrow> ''etk800'') in
         Option.bind (number_field L t ''x'') (\<lambda>x. Option.bind (number_field L t ''y'') (\<lambda>y.
         Option.bind (number_field L t ''z'') (\<lambda>z. Some (LAI (AISpawn model x y z))))))
       else Option.bind (opt_arg L (checkstring L) ''etk800'' args 1) (\<lambda>model.
         Option.bind (opt_arg L (checknumber L) 0 args 2) (\<lambda>x.
         Option.bind (opt_arg L (checknumber L) 0 args 3) (\<lambda>y.
         Option.bind (opt_arg L (checknumber L) 0 args 4) (\<lambda>z. Some (LAI (AISpawn (c_str model) x y z))))))
   | None \<Rightarrow> Some (LAI (AISpawn ''etk800'' 0 0 0)))"

definition lua_AIDespawn :: "'v lua_lib \<Rightarrow> 'v list \<Rightarrow> lua_call option" where
  "lua_AIDespawn L args = Option.bind (checkinteger L args 1) (\<lambda>n. Some (LAI (AIDespawn (ucast n))))"

definition lua_AISetCount :: "'v lua_lib \<Rightarrow> 'v list \<Rightarrow> lua_call option" where
  "lua_AISetCount L args = Option.bind (checkinteger L args 1) (\<lambda>n. Some (LAI (AISetCount (int_of_lua n))))"

definition lua_AISetMode :: "'v lua_lib \<Rightarrow> 'v list \<Rightarrow> lua_call option" where
  "lua_AISetMode L args = Option.bind (checkstring L args 1) (\<lambda>m. Some (LAI (AISetMode (c_str m))))"

definition lua_AISetSpeedLimit :: "'v lua_lib \<Rightarrow> 'v list \<Rightarrow> lua_call option" where
  "lua_AISetSpeedLimit L args = Option.bind (checknumber L args 1) (\<lambda>v. Some (LAI (AISetSpeedLimit v)))"

text \<open>\<open>lua_TriggerEvent\<close>: the event and the one argument it is fired with.\<close>

definition lua_TriggerEvent :: "'v lua_lib \<Rightarrow> 'v list \<Rightarrow> (string \<times> string list) option" where
  "lua_TriggerEvent L args = Option.bind (checkstring L args 1) (\<lambda>ev.
     Some (c_str ev, [case checkstring L args 2 of Some d \<Rightarrow> c_str d | None \<Rightarrow> []]))"

text \<open>\<open>print\<close>: the arguments, separated by tabs; \<open>luaL_tolstring\<close> is read as a C string.\<close>

definition lua_print :: "'v lua_lib \<Rightarrow> 'v list \<Rightarrow> string option" where
  "lua_print L args =
     (if list_all (\<lambda>v. lv_show L v \<noteq> None) args
      then Some (''[Lua] '' @ concat (map (\<lambda>i. (if i > 0 then [CHR 0x09] else [])
        @ c_str (the (lv_show L (args ! i)))) [0..<length args])) else None)"

text \<open>The getters; \<open>getPlayer\<close> takes its id as 16 bits, and the count is that of the locked table.\<close>

definition lua_GetPlayerName :: "'v lua_lib \<Rightarrow> 'v list \<Rightarrow> server \<Rightarrow> fault + string option" where
  "lua_GetPlayerName L args s = (case checkinteger L args 1 of
     None \<Rightarrow> Inr None
   | Some n \<Rightarrow> bindE (getPlayer (word_of_int (int_of_lua n)) s) (\<lambda>p.
       Inr (Some (case p of Some p \<Rightarrow> c_str (pl_username p) | None \<Rightarrow> []))))"

definition lua_GetPlayerCount :: "server \<Rightarrow> fault + int" where
  "lua_GetPlayerCount s = playerCount s"

definition lua_GetPlayers :: "server \<Rightarrow> (nat \<times> int \<times> string \<times> string) list" where
  "lua_GetPlayers s = map (\<lambda>(i, _, p). (Suc i, uint (pl_id p), c_str (pl_username p), c_str (pl_role p)))
     (enumerate 0 (m_players s))"

text \<open>\<open>AITraffic::activeCount\<close> is missing: a function of the calls made so far.\<close>

definition lua_AIStatus :: "(ai_call list \<Rightarrow> int) \<Rightarrow> server \<Rightarrow> int" where
  "lua_AIStatus activeCount s = activeCount (ai_history s)"

section \<open>Registration\<close>

text \<open>
  \<open>registerAPI\<close>: the functions by their Lua names, as far as they change the server. \<open>despawnAll\<close> is a
  lambda that reads no argument.
\<close>

definition registered :: "'v lua_lib \<Rightarrow> (string \<times> ('v list \<Rightarrow> lua_call option)) list" where
  "registered L =
     [(''MP.SendChatMessage'', lua_SendChatMessage L), (''MP.KickPlayer'', lua_KickPlayer L),
      (''MP.BanPlayer'', lua_BanPlayer L),
      (''NovaMP.AI.spawn'', lua_AISpawn L), (''NovaMP.AI.despawn'', lua_AIDespawn L),
      (''NovaMP.AI.despawnAll'', (\<lambda>_. Some (LAI AIDespawnAll))),
      (''NovaMP.AI.setCount'', lua_AISetCount L), (''NovaMP.AI.setMode'', lua_AISetMode L),
      (''NovaMP.AI.setSpeedLimit'', lua_AISetSpeedLimit L)]"

text \<open>A plugin's call by name: \<open>Inr False\<close> is a Lua error or a name that is not there.\<close>

definition plugin_call :: "disc_cb \<Rightarrow> 'v lua_lib \<Rightarrow> string \<Rightarrow> 'v list \<Rightarrow> server \<Rightarrow> fault + bool \<times> server" where
  "plugin_call cb L name args s =
     (case Option.bind (map_of (registered L) name) (\<lambda>f. f args) of
        None \<Rightarrow> Inr (False, s)
      | Some c \<Rightarrow> bindE (lua_api cb c s) (\<lambda>s. Inr (True, s)))"

section \<open>Where a plugin's chat goes\<close>

lemma sint_low_negative: "sint (ucast (n :: 64 word) :: 32 word) < 0 \<longleftrightarrow> bit n 31"
  by (simp add: bit_last_iff [symmetric] bit_unsigned_iff)

lemma word_of_int_low: "(word_of_int (int_of_lua n) :: u16) = ucast n"
  unfolding int_of_lua_def by (rule bit_word_eqI) (simp add: bit_simps)

lemma registered_chat [simp]:
  "map_of (registered L) ''MP.SendChatMessage'' = Some (lua_SendChatMessage L)"
  by (simp add: registered_def)

definition plugin_chat :: "string \<Rightarrow> bytes" where
  "plugin_chat msg = buildStr CHAT_MESSAGE 0 0 (''[Server] '' @ c_str msg)"

text \<open>
  A plugin's player number is cut twice on its way to a session: to 32 bits with a sign, then to 16. So
  \<open>MP.SendChatMessage(n, msg)\<close> reaches every session exactly when bit 31 of \<open>n\<close> is set (the documented
  -1, but also 2147483648), and otherwise only the session of player \<open>n mod 65536\<close>, or nobody when
  that player has none.
\<close>

theorem plugin_chat_targets:
  assumes "reachable E s" and "checkinteger L args 1 = Some n" and "checkstring L args 2 = Some msg"
  shows "\<exists>t. plugin_call (onDisconnect E) L ''MP.SendChatMessage'' args s = Inr (True, t)
    \<and> tcp_out t = tcp_out s @ (if bit n 31 then to_all (plugin_chat msg) s
        else case find_session (ucast n) (m_session_to_player s) of
          Some sid \<Rightarrow> if sid \<in> set (keys (m_sessions s)) then [(sid, session_frame (plugin_chat msg))] else []
        | None \<Rightarrow> [])"
proof -
  have h: "held s = []" by (rule reachable_held [OF assms(1)])
  have call: "plugin_call (onDisconnect E) L ''MP.SendChatMessage'' args s =
      bindE (sendChat (int_of_lua n) (''[Server] '' @ c_str msg) s) (\<lambda>s. Inr (True, s))"
    using assms(2,3) by (simp add: plugin_call_def lua_SendChatMessage_def)
  show ?thesis
    using h by (auto simp: call sendChat_def int_of_lua_def [symmetric] word_of_int_low
        sint_low_negative [folded int_of_lua_def] tcp_sendAll_to_all with_lock_free plugin_chat_def
        map_of_eq_None_iff Let_def simp del: tcp_sendAll_free split: option.split)
qed

text \<open>Lua integers only, a library for the witness; the text of every number is \<open>hi\<close>.\<close>

definition demo_lua :: "64 word lua_lib" where
  "demo_lua = \<lparr>lv_nil = (\<lambda>_. False), lv_table = (\<lambda>_. False), lv_integer = Some,
     lv_string = (\<lambda>_. Some ''hi''), lv_number = (\<lambda>_. None), lv_field = (\<lambda>_ _. None),
     lv_show = (\<lambda>_. Some ''hi'')\<rparr>"

theorem plugin_chat_targets_witness:
  "\<exists>t. plugin_call (onDisconnect demo) demo_lua ''MP.SendChatMessage'' [65537, 0] two_state = Inr (True, t)
    \<and> tcp_out t = tcp_out two_state @ [(1, session_frame (plugin_chat ''hi''))]"
proof -
  have "find_session (ucast (65537 :: 64 word)) (m_session_to_player two_state) = Some 1"
    "(1 :: u16) \<in> set (keys (m_sessions two_state))"
    by (simp_all only: two_state_facts) (simp_all add: find_session_def)
  moreover have "checkinteger demo_lua [65537, 0] 1 = Some 65537" "checkstring demo_lua [65537, 0] 2 = Some ''hi''"
    by (simp_all add: demo_lua_def checkinteger_def checkstring_def lua_arg_def)
  ultimately show ?thesis
    using plugin_chat_targets [OF two_reachable, of demo_lua "[65537, 0]" 65537 "''hi''"]
    by (simp del: set_map)
qed

end
