(* ===== verification/Windows.thy ===== *)
theory Windows
  imports Headless Client_Main
begin

text \<open>
  The Windows branches of the two launchers (\<^verbatim>\<open>servers/src/headless_launcher.cpp\<close>,
  \<^verbatim>\<open>client/src/launcher.cpp\<close>), over the handles the process holds: \<open>RegOpenKeyExA\<close> and \<open>CreateProcessA\<close>
  return fresh handles, \<open>CloseHandle\<close> and \<open>RegCloseKey\<close> give one back, and closing a handle that is not
  open is recorded. The registry, the files and the numbers of new handles come from outside.
\<close>

section \<open>Handles\<close>

datatype win_object = RegKey | Thread | Process "u32 option"   \<comment> \<open>the exit code, when it has exited\<close>

record win =
  m_process_handle :: "nat option"
  w_exe_path :: string
  w_handles :: "nat \<rightharpoonup> win_object"
  w_bad_closes :: "nat list"
  w_cmdlines :: "string list"
  w_progress :: "string list"

definition initial_win :: win where
  "initial_win = \<lparr>m_process_handle = None, w_exe_path = [], w_handles = Map.empty, w_bad_closes = [],
     w_cmdlines = [], w_progress = []\<rparr>"

definition open_handle :: "nat \<Rightarrow> win_object \<Rightarrow> win \<Rightarrow> win" where
  "open_handle k x w = w\<lparr>w_handles := (w_handles w)(k \<mapsto> x)\<rparr>"

definition close_handle :: "nat \<Rightarrow> win \<Rightarrow> win" where
  "close_handle k w = (if w_handles w k = None then w\<lparr>w_bad_closes := w_bad_closes w @ [k]\<rparr>
     else w\<lparr>w_handles := (w_handles w)(k := None)\<rparr>)"

definition win_report :: "string \<Rightarrow> win \<Rightarrow> win" where
  "win_report m w = w\<lparr>w_progress := w_progress w @ [m]\<rparr>"

text \<open>
  What the system answers: the handle of the registry key of the Steam installation (\<open>None\<close>: no such
  key), the value read from it as a C string, which files exist, and what \<open>CreateProcessA\<close> returns: the
  process handle, the thread handle and the number of the process.
\<close>

record win_os =
  wo_key :: "nat option"
  wo_value :: "string option"
  wo_exists :: "string \<Rightarrow> bool"
  wo_create :: "(nat \<times> nat \<times> u32) option"

section \<open>Paths\<close>

definition quote :: string where "quote = [CHR 0x22]"

text \<open>Parts joined by a backslash.\<close>

fun win_path :: "string list \<Rightarrow> string" where
  "win_path [] = []"
| "win_path [p] = p"
| "win_path (p # ps) = p @ CHR 0x5C # win_path ps"

definition steam_game :: "string list" where
  "steam_game = [''steamapps'', ''common'', ''BeamNG.drive'', ''BeamNG.drive.exe'']"

definition win_candidates :: "string list" where
  "win_candidates = map win_path
     [[''C:'', ''Program Files (x86)'', ''Steam''] @ steam_game,
      [''C:'', ''Program Files'', ''Steam''] @ steam_game,
      [''D:'', ''SteamLibrary''] @ steam_game]"

section \<open>The headless launcher\<close>

text \<open>After a value was read the key is closed, and closed again when the file it names does not exist.\<close>

definition detectWindows :: "win_os \<Rightarrow> win \<Rightarrow> string \<times> win" where
  "detectWindows W w =
     (let (found, w) = (case wo_key W of
          None \<Rightarrow> (None, w)
        | Some k \<Rightarrow> let w = open_handle k RegKey w in
          (case wo_value W of
             None \<Rightarrow> (None, close_handle k w)
           | Some v \<Rightarrow> let w = close_handle k w; p = win_path [v, ''BeamNG.drive.exe''] in
               if wo_exists W p then (Some p, w) else (None, close_handle k w)))
      in case found of
           Some p \<Rightarrow> (p, w)
         | None \<Rightarrow> (case find (wo_exists W) win_candidates of Some p \<Rightarrow> (p, w) | None \<Rightarrow> ([], w)))"

definition win_detect :: "win_os \<Rightarrow> ServerConfig \<Rightarrow> win \<Rightarrow> string \<times> win" where
  "win_detect W cfg w =
     (if cfg_beamng_exe_path cfg \<noteq> [] \<and> wo_exists W (cfg_beamng_exe_path cfg)
      then (cfg_beamng_exe_path cfg, w) else detectWindows W w)"

definition win_cmdline :: "string \<Rightarrow> string" where
  "win_cmdline exe = quote @ exe @ quote
     @ '' -nosteam -window 0x0 -console -tcom-listen-ip 127.0.0.1 -nolegality''"

definition win_create :: "win_os \<Rightarrow> win \<Rightarrow> bool \<times> win" where
  "win_create W w = (case wo_create W of
     None \<Rightarrow> (False, win_report ''CreateProcess failed for headless BeamNG.'' w)
   | Some (hp, ht, pid) \<Rightarrow>
     (let w = open_handle ht Thread (open_handle hp (Process None) w)
            \<lparr>w_cmdlines := w_cmdlines w @ [win_cmdline (w_exe_path w)]\<rparr>
      in (True, win_report (''Headless BeamNG launched (PID='' @ to_string pid @ '').'')
           (close_handle ht (w\<lparr>m_process_handle := Some hp\<rparr>)))))"

definition win_launch :: "win_os \<Rightarrow> ServerConfig \<Rightarrow> win \<Rightarrow> bool \<times> win" where
  "win_launch W cfg w =
     (let (exe, w) = win_detect W cfg w; w = w\<lparr>w_exe_path := exe\<rparr> in
      if exe = []
      then (False, win_report (''BeamNG.drive not found '' @ em_dash @ '' cannot launch headless instance.'') w)
      else win_create W (win_report (''Found BeamNG.drive at: '' @ exe) w))"

text \<open>\<open>TerminateProcess(h, 0)\<close> makes a running process exit with code 0.\<close>

definition win_terminate :: "win \<Rightarrow> win" where
  "win_terminate w = (case m_process_handle w of
     None \<Rightarrow> w
   | Some k \<Rightarrow>
     (let w = (case w_handles w k of Some (Process None) \<Rightarrow> open_handle k (Process (Some 0)) w | _ \<Rightarrow> w)
      in (close_handle k w)\<lparr>m_process_handle := None\<rparr>))"

definition STILL_ACTIVE :: u32 where "STILL_ACTIVE = 259"

text \<open>\<open>GetExitCodeProcess\<close>: \<open>STILL_ACTIVE\<close> for a running process, nothing for another kind of handle.\<close>

definition exit_code :: "nat \<Rightarrow> win \<Rightarrow> u32 option" where
  "exit_code k w = (case w_handles w k of
     Some (Process None) \<Rightarrow> Some STILL_ACTIVE
   | Some (Process (Some c)) \<Rightarrow> Some c
   | _ \<Rightarrow> None)"

definition win_isRunning :: "win \<Rightarrow> bool" where
  "win_isRunning w = (case m_process_handle w of None \<Rightarrow> False | Some k \<Rightarrow> exit_code k w = Some STILL_ACTIVE)"

section \<open>The client's launcher\<close>

definition win_detectBeamNGPath :: "win_os \<Rightarrow> win \<Rightarrow> string \<times> win" where
  "win_detectBeamNGPath W w =
     (let dflt = win_path ([''C:'', ''Program Files (x86)'', ''Steam''] @ steam_game) in
      case wo_key W of
        None \<Rightarrow> (dflt, w)
      | Some k \<Rightarrow> let w = close_handle k (open_handle k RegKey w) in
          (case wo_value W of None \<Rightarrow> (dflt, w) | Some v \<Rightarrow> (win_path [v, ''BeamNG.drive.exe''], w)))"

text \<open>\<open>docs\<close> is the folder of documents, the answer of \<open>SHGetFolderPathA\<close>.\<close>

definition win_beamngModsDir :: "string \<Rightarrow> string" where
  "win_beamngModsDir docs = win_path [docs, ''BeamNG.drive'', ''mods'']"

definition win_start_game :: "win_os \<Rightarrow> string \<Rightarrow> win \<Rightarrow> bool \<times> win" where
  "win_start_game W exe w = (case wo_create W of
     None \<Rightarrow> (False, w)
   | Some (hp, ht, pid) \<Rightarrow>
     (let w = open_handle ht Thread (open_handle hp (Process None) w)
            \<lparr>w_cmdlines := w_cmdlines w @ [quote @ exe @ quote]\<rparr>
      in (True, close_handle ht (close_handle hp w))))"

text \<open>\<open>parent_path\<close> of a path whose last separator is a backslash.\<close>

definition win_parent_path :: "string \<Rightarrow> string" where
  "win_parent_path p = (case rsplit_at CHR 0x5C p of Some (d, _) \<Rightarrow> d | None \<Rightarrow> [])"

definition win_writeConnectConfig :: "string \<Rightarrow> client_os \<Rightarrow> account_json \<Rightarrow> LaunchConfig \<Rightarrow> string \<Rightarrow> u16
    \<Rightarrow> launcher \<Rightarrow> fault + (bool \<times> launcher)" where
  "win_writeConnectConfig docs = write_connect_in (win_parent_path (win_beamngModsDir docs))"

definition win_installMod :: "string \<Rightarrow> client_os \<Rightarrow> LaunchConfig \<Rightarrow> launcher \<Rightarrow> fault + (bool \<times> launcher)" where
  "win_installMod docs = install_in (win_beamngModsDir docs)"

text \<open>\<open>launchGame\<close>; \<open>C\<close> answers for the files that are written.\<close>

definition win_launchGame :: "string \<Rightarrow> client_os \<Rightarrow> win_os \<Rightarrow> account_json \<Rightarrow> LaunchConfig \<Rightarrow> string \<Rightarrow> u16
    \<Rightarrow> launcher \<Rightarrow> win \<Rightarrow> fault + (bool \<times> launcher \<times> win)" where
  "win_launchGame docs C W J cfg host port l w =
     bindE (win_writeConnectConfig docs C J cfg host port l) (\<lambda>(written, l).
     if \<not> written then Inr (False, l, w)
     else let (exe, w) = (if lc_beamng_path cfg = [] then win_detectBeamNGPath W w else (lc_beamng_path cfg, w)) in
       if \<not> wo_exists W exe then Inr (False, say_status (''BeamNG.drive not found: '' @ exe) l, w)
       else let l = say_status ''Launching BeamNG.drive...'' l; (ok, w) = win_start_game W exe w in
         Inr (ok, l, w))"

text \<open>\<open>cacheFilePath\<close> of the two account classes; \<open>appdata\<close> is the answer of \<open>SHGetFolderPathA\<close>.\<close>

definition win_nova_cacheFilePath :: "string \<Rightarrow> string" where
  "win_nova_cacheFilePath appdata = win_path [appdata, ''NovaMP'', ''novamp_token.json'']"

definition win_beam_cacheFilePath :: "string \<Rightarrow> string" where
  "win_beam_cacheFilePath appdata = win_path [appdata, ''NovaMP'', ''beammp_token.json'']"

section \<open>Runs of the headless launcher\<close>

text \<open>The handles the system gives out are not open yet, and different.\<close>

definition fresh_os :: "win_os \<Rightarrow> win \<Rightarrow> bool" where
  "fresh_os W w \<longleftrightarrow> (\<forall>k. wo_key W = Some k \<longrightarrow> w_handles w k = None)
     \<and> (\<forall>hp ht pid. wo_create W = Some (hp, ht, pid) \<longrightarrow>
          w_handles w hp = None \<and> w_handles w ht = None \<and> hp \<noteq> ht)"

inductive win_step :: "win \<Rightarrow> win \<Rightarrow> bool" where
  win_launch: "m_process_handle w = None \<Longrightarrow> fresh_os W w \<Longrightarrow> win_step w (snd (win_launch W cfg w))"
| win_exits: "w_handles w k = Some (Process None) \<Longrightarrow> win_step w (open_handle k (Process (Some c)) w)"
| win_terminate: "win_step w (win_terminate w)"

inductive win_reach :: "win \<Rightarrow> bool" where
  win_init: "win_reach initial_win"
| win_next: "win_reach w \<Longrightarrow> win_step w w' \<Longrightarrow> win_reach w'"

definition only_process :: "win \<Rightarrow> bool" where
  "only_process w \<longleftrightarrow> (case m_process_handle w of
     None \<Rightarrow> w_handles w = Map.empty
   | Some k \<Rightarrow> \<exists>x. w_handles w = [k \<mapsto> Process x])"

lemmas win_simps = open_handle_def close_handle_def win_report_def Let_def

lemma detectWindows_handles:
  assumes "w_handles w = Map.empty"
  shows "w_handles (snd (detectWindows W w)) = Map.empty
    \<and> m_process_handle (snd (detectWindows W w)) = m_process_handle w"
  using assms by (auto simp: detectWindows_def win_simps split: option.split)

lemma win_detect_handles:
  assumes "w_handles w = Map.empty"
  shows "w_handles (snd (win_detect W cfg w)) = Map.empty
    \<and> m_process_handle (snd (win_detect W cfg w)) = m_process_handle w"
  using detectWindows_handles [OF assms] assms by (simp add: win_detect_def)

lemma only_process_frame [simp]:
  "only_process (w\<lparr>w_exe_path := x\<rparr>) = only_process w"
  "only_process (win_report m w) = only_process w"
  by (simp_all add: only_process_def win_report_def split: option.split)

lemma win_create_handles:
  assumes "w_handles w = Map.empty" "m_process_handle w = None"
    and "\<forall>hp ht pid. wo_create W = Some (hp, ht, pid) \<longrightarrow> hp \<noteq> ht"
  shows "only_process (snd (win_create W w))"
  using assms by (auto simp: win_create_def only_process_def win_simps fun_eq_iff split: option.split)

lemma only_process_step:
  assumes "win_step w w'" "only_process w"
  shows "only_process w'"
  using assms(1)
proof cases
  case (win_launch W cfg)
  have e: "w_handles w = Map.empty" using assms(2) win_launch by (simp add: only_process_def)
  obtain exe u where u: "win_detect W cfg w = (exe, u)" by fastforce
  with win_detect_handles [OF e, of W cfg] win_launch(2)
  have h: "w_handles u = Map.empty" "m_process_handle u = None" by simp_all
  show ?thesis
  proof (cases "exe = []")
    case True
    with h show ?thesis by (simp add: win_launch(1) win_launch_def u) (simp add: only_process_def)
  next
    case False
    have "only_process (snd (win_create W (win_report m (u\<lparr>w_exe_path := exe\<rparr>))))" for m
      using h win_launch(3) by (intro win_create_handles) (simp_all add: win_report_def fresh_os_def)
    with False show ?thesis by (simp add: win_launch(1) win_launch_def u)
  qed
next
  case (win_exits k c)
  then show ?thesis using assms(2)
    by (auto simp: only_process_def open_handle_def split: option.splits if_splits)
next
  case win_terminate
  then show ?thesis using assms(2)
    by (auto simp: only_process_def win_terminate_def win_simps fun_eq_iff split: option.splits win_object.split)
qed

lemma win_reach_handles: "win_reach w \<Longrightarrow> only_process w"
  by (induction rule: win_reach.induct) (auto simp: only_process_step, simp add: only_process_def initial_win_def)

text \<open>
  The headless launcher leaks no handle on Windows: in every reachable state the only open handle is that of
  the process it holds, and after \<open>terminate\<close> none is open and no process is held.
\<close>

theorem windows_no_leak:
  assumes "win_reach w"
  shows "dom (w_handles w) = set_option (m_process_handle w)
    \<and> w_handles (win_terminate w) = Map.empty \<and> \<not> win_isRunning (win_terminate w)"
  using win_reach_handles [OF assms] win_reach_handles [OF win_reach.win_next [OF assms win_step.win_terminate]]
  by (auto simp: only_process_def win_terminate_def win_isRunning_def Let_def split: option.splits)

text \<open>
  The registry key is closed twice exactly when it has a value and no \<open>BeamNG.drive.exe\<close> is there; the
  second call closes a handle that is not open (or, by then, one another thread was given).
\<close>

theorem registry_key_closed_twice:
  assumes "fresh_os W w"
  shows "w_bad_closes (snd (detectWindows W w)) = w_bad_closes w @
    (case (wo_key W, wo_value W) of
       (Some k, Some v) \<Rightarrow> if wo_exists W (win_path [v, ''BeamNG.drive.exe'']) then [] else [k]
     | _ \<Rightarrow> [])"
  using assms by (auto simp: detectWindows_def win_simps fresh_os_def split: option.split)

text \<open>
  Exit code 259 is taken for life: a headless game that exits with \<open>STILL_ACTIVE\<close> counts as running until
  it is terminated; with any other code it does not.
\<close>

theorem running_by_exit_code:
  assumes "m_process_handle w = Some k" and "w_handles w k = Some (Process (Some c))"
  shows "win_isRunning w \<longleftrightarrow> c = 259"
  using assms by (simp add: win_isRunning_def exit_code_def STILL_ACTIVE_def)

lemma client_start_handles:
  assumes "w_handles w = Map.empty" and "fresh_os W w"
  shows "w_handles (snd (win_start_game W exe w)) = Map.empty
    \<and> w_bad_closes (snd (win_start_game W exe w)) = w_bad_closes w
    \<and> (fst (win_start_game W exe w) \<longleftrightarrow> wo_create W \<noteq> None)
    \<and> w_cmdlines (snd (win_start_game W exe w))
       = w_cmdlines w @ (if wo_create W = None then [] else [quote @ exe @ quote])"
  using assms by (auto simp: win_start_game_def win_simps fresh_os_def fun_eq_iff split: option.split)

lemma client_detect_handles:
  assumes "w_handles w = Map.empty"
  shows "w_handles (snd (win_detectBeamNGPath W w)) = Map.empty
    \<and> w_bad_closes (snd (win_detectBeamNGPath W w)) = w_bad_closes w
    \<and> w_cmdlines (snd (win_detectBeamNGPath W w)) = w_cmdlines w"
  using assms by (auto simp: win_detectBeamNGPath_def win_simps fun_eq_iff split: option.split)

text \<open>
  The client's launcher on Windows closes every handle it opens, each of them once, whether or not the
  game is found and can be started, and when it succeeds it has started one program, an existing file.
\<close>

theorem client_start_no_leak:
  assumes "w_handles w = Map.empty" and "fresh_os W w"
    and "win_launchGame docs C W J cfg host port l w = Inr (ok, l', w')"
  shows "w_handles w' = Map.empty \<and> w_bad_closes w' = w_bad_closes w
    \<and> (\<exists>exe. w_cmdlines w' = w_cmdlines w @ (if ok then [quote @ exe @ quote] else []) \<and> (ok \<longrightarrow> wo_exists W exe))"
proof -
  let ?d = "if lc_beamng_path cfg = [] then win_detectBeamNGPath W w else (lc_beamng_path cfg, w)"
  obtain exe u where d: "?d = (exe, u)" by fastforce
  have u: "w_handles u = Map.empty" "w_bad_closes u = w_bad_closes w" "w_cmdlines u = w_cmdlines w"
    using client_detect_handles [OF assms(1), of W] d assms(1) by (auto split: if_splits)
  then have "fresh_os W u" using assms(2) by (simp add: fresh_os_def)
  note start = client_start_handles [OF u(1) this, of exe]
  have r: "win_launchGame docs C W J cfg host port l w = bindE (win_writeConnectConfig docs C J cfg host port l)
      (\<lambda>(written, l). if \<not> written then Inr (False, l, w)
        else if \<not> wo_exists W exe then Inr (False, say_status (''BeamNG.drive not found: '' @ exe) l, u)
        else Inr (fst (win_start_game W exe u), say_status ''Launching BeamNG.drive...'' l, snd (win_start_game W exe u)))"
    unfolding win_launchGame_def d by (simp add: Let_def split_beta cong: if_cong)
  from assms(3) consider "\<not> ok" "w' = w" | "\<not> ok" "w' = u"
    | "wo_exists W exe" "ok = fst (win_start_game W exe u)" "w' = snd (win_start_game W exe u)"
    unfolding r by (auto simp: bindE_Inr_iff split: if_splits)
  then show ?thesis
  proof cases
    case 3
    with start u show ?thesis by auto
  qed (use assms(1) u in simp_all)
qed

lemma win_cache_files_apart: "win_nova_cacheFilePath d \<noteq> win_beam_cacheFilePath d"
  by (simp add: win_nova_cacheFilePath_def win_beam_cacheFilePath_def)

section \<open>Witnesses\<close>

definition demo_win_os :: win_os where
  "demo_win_os = \<lparr>wo_key = Some 4, wo_value = Some ''C:'',
     wo_exists = (\<lambda>p. p = ''/g''), wo_create = Some (8, 12, 77)\<rparr>"

lemma demo_fresh: "fresh_os demo_win_os initial_win"
  by (simp add: fresh_os_def demo_win_os_def initial_win_def)

theorem windows_no_leak_witness:
  "dom (w_handles (snd (win_launch demo_win_os (sample_config\<lparr>cfg_beamng_exe_path := ''/g''\<rparr>) initial_win)))
    = {8}"
proof -
  let ?w = "snd (win_launch demo_win_os (sample_config\<lparr>cfg_beamng_exe_path := ''/g''\<rparr>) initial_win)"
  have "win_reach ?w"
    by (rule win_reach.win_next [OF win_reach.win_init win_step.win_launch])
      (simp_all add: initial_win_def demo_fresh [unfolded initial_win_def])
  moreover have "m_process_handle ?w = Some 8"
    by (simp add: win_launch_def win_detect_def win_create_def demo_win_os_def win_simps)
  ultimately show ?thesis using windows_no_leak [of ?w] by simp
qed

theorem registry_key_closed_twice_witness:
  "w_bad_closes (snd (detectWindows demo_win_os initial_win)) = [4]"
  using registry_key_closed_twice [OF demo_fresh] by (simp add: demo_win_os_def initial_win_def)

theorem running_by_exit_code_witness:
  "win_isRunning (initial_win\<lparr>m_process_handle := Some 8, w_handles := [8 \<mapsto> Process (Some 259)]\<rparr>)"
  by (subst running_by_exit_code [where k = 8 and c = 259]) simp_all

definition demo_launch :: "fault + (bool \<times> launcher \<times> win)" where
  "demo_launch = win_launchGame ''C:'' demo_os (demo_win_os\<lparr>wo_exists := (\<lambda>_. True)\<rparr>)
     (account_json.truncate (w_json demo_world))
     \<lparr>lc_beamng_path = [], lc_mod_path = [], lc_master_url = [], lc_username = ''ann'', lc_password = []\<rparr>
     ''10.0.0.1'' 4444 \<lparr>m_jwt_token = [], la_status = [], la_written = [], la_copied = [], la_started = []\<rparr>
     initial_win"

definition launched :: "fault + (bool \<times> launcher \<times> win) \<Rightarrow> bool" where
  "launched r \<longleftrightarrow> (case r of Inl e \<Rightarrow> False | Inr x \<Rightarrow> fst x
     \<and> map fst (la_written (fst (snd x))) = [win_path [''C:'', ''BeamNG.drive''] @ ''/novaMP_connect.json''])"

lemma demo_launch_run: "launched demo_launch"
  by code_simp

theorem client_start_no_leak_witness:
  "\<exists>l w. demo_launch = Inr (True, l, w) \<and> w_handles w = Map.empty"
proof -
  obtain l w where r: "demo_launch = Inr (True, l, w)"
    using demo_launch_run by (auto simp: launched_def split: sum.splits)
  have "fresh_os (demo_win_os\<lparr>wo_exists := (\<lambda>_. True)\<rparr>) initial_win"
    using demo_fresh by (simp add: fresh_os_def demo_win_os_def)
  from client_start_no_leak [OF _ this r [unfolded demo_launch_def]] have "w_handles w = Map.empty"
    by (simp add: initial_win_def)
  with r show ?thesis by blast
qed

end
