(* ===== verification/Threads.thy ===== *)
theory Threads
  imports Nova_Exec
begin

text \<open>
  Threads. \<open>GameServer::run\<close> starts several threads that handle packets at the same time, so a handler is
  here a program: a tree of single accesses to the shared state and of lock operations. \<open>exec\<close> runs a
  program alone and gives the outcome of \<open>Nova_Exec\<close>; \<open>turn\<close> lets one of several programs make its next
  step. Two conditions on single programs give properties of all interleavings: locks taken in a fixed
  order exclude deadlock, and a component accessed only under its mutex has no data race.
\<close>

section \<open>Programs\<close>

datatype ('s, 'a) prog =
    Return 'a
  | Fail fault
  | Step "'s \<Rightarrow> 's" "'s \<Rightarrow> ('s, 'a) prog"   \<comment> \<open>one access: the new state, and what to do with the old one\<close>
  | Lock mutex "('s, 'a) prog"
  | Unlock mutex "('s, 'a) prog"

primrec bindP :: "('s, 'a) prog \<Rightarrow> ('a \<Rightarrow> ('s, 'b) prog) \<Rightarrow> ('s, 'b) prog" where
  "bindP (Return x) k = k x"
| "bindP (Fail e) k = Fail e"
| "bindP (Step g f) k = Step g (\<lambda>s. bindP (f s) k)"
| "bindP (Lock m p) k = Lock m (bindP p k)"
| "bindP (Unlock m p) k = Unlock m (bindP p k)"

text \<open>
  A read of the state, a write, an atomic exchange, a scope with a \<open>lock_guard\<close>, a value or the fault of a
  computation.
\<close>

definition getP :: "('s \<Rightarrow> 'a) \<Rightarrow> ('s, 'a) prog" where
  "getP f = Step (\<lambda>s. s) (\<lambda>s. Return (f s))"

definition modP :: "('s \<Rightarrow> 's) \<Rightarrow> ('s, unit) prog" where
  "modP g = Step g (\<lambda>_. Return ())"

definition exchangeP :: "('s \<Rightarrow> 'a) \<Rightarrow> ('s \<Rightarrow> 's) \<Rightarrow> ('s, 'a) prog" where
  "exchangeP f g = Step g (\<lambda>s. Return (f s))"

definition lockP :: "mutex \<Rightarrow> ('s, 'a) prog \<Rightarrow> ('s, 'a) prog" where
  "lockP m p = Lock m (bindP p (\<lambda>x. Unlock m (Return x)))"

definition liftP :: "fault + 'a \<Rightarrow> ('s, 'a) prog" where
  "liftP r = (case r of Inl e \<Rightarrow> Fail e | Inr x \<Rightarrow> Return x)"

fun foldP :: "('x \<Rightarrow> ('s, unit) prog) \<Rightarrow> 'x list \<Rightarrow> ('s, unit) prog" where
  "foldP f [] = Return ()"
| "foldP f (x # xs) = bindP (f x) (\<lambda>_. foldP f xs)"

lemma bindP_Return [simp]: "bindP p Return = p"
  by (induction p) auto

lemma bindP_assoc: "bindP (bindP p f) g = bindP p (\<lambda>x. bindP (f x) g)"
  by (induction p) auto

section \<open>One program alone\<close>

text \<open>The mutexes held are those of the state; locking one of them again is the fault \<open>Relock\<close>.\<close>

primrec exec :: "('z locks_scheme, 'a) prog \<Rightarrow> 'z locks_scheme \<Rightarrow> fault + 'a \<times> 'z locks_scheme" where
  "exec (Return x) s = Inr (x, s)"
| "exec (Fail e) s = Inl e"
| "exec (Step g f) s = exec (f s) (g s)"
| "exec (Lock m p) s = (if m \<in> set (held s) then Inl (Relock m) else exec p (s\<lparr>held := m # held s\<rparr>))"
| "exec (Unlock m p) s = exec p (s\<lparr>held := remove1 m (held s)\<rparr>)"

lemma exec_bindP: "exec (bindP p k) s = bindE (exec p s) (\<lambda>(x, t). exec (k x) t)"
  by (induction p arbitrary: s) auto

lemma exec_getP [simp]: "exec (getP f) s = Inr (f s, s)"
  by (simp add: getP_def)

lemma exec_modP [simp]: "exec (modP g) s = Inr ((), g s)"
  by (simp add: modP_def)

lemma exec_exchangeP [simp]: "exec (exchangeP f g) s = Inr (f s, g s)"
  by (simp add: exchangeP_def)

lemma exec_liftP [simp]: "exec (liftP r) s = bindE r (\<lambda>x. Inr (x, s))"
  by (cases r) (simp_all add: liftP_def)

lemma exec_lockP: "exec (lockP m p) s = (if m \<in> set (held s) then Inl (Relock m)
   else bindE (exec p (s\<lparr>held := m # held s\<rparr>)) (\<lambda>(x, t). Inr (x, t\<lparr>held := remove1 m (held t)\<rparr>)))"
  by (simp add: lockP_def exec_bindP)

text \<open>What a handler without a result does to the state.\<close>

definition run :: "('z locks_scheme, unit) prog \<Rightarrow> 'z locks_scheme \<Rightarrow> fault + 'z locks_scheme" where
  "run p s = bindE (exec p s) (\<lambda>(_, t). Inr t)"

named_theorems run_simps \<open>what the programs do when they run alone\<close>

lemma run_basic [run_simps]:
  "run (Return x) s = Inr s" "run (Fail e) s = Inl e" "run (modP g) s = Inr (g s)"
  by (simp_all add: run_def)

lemma run_bindP: "run (bindP p k) s = bindE (exec p s) (\<lambda>(x, t). run (k x) t)"
  by (cases "exec p s") (auto simp: run_def exec_bindP)

lemma exec_unit: "exec p s = bindE (run p s) (\<lambda>t. Inr ((), t))"
  by (cases "exec p s") (auto simp: run_def)

lemma run_seqP [run_simps]: "run (bindP (p :: (_, unit) prog) k) s = bindE (run p s) (run (k ()))"
  by (cases "run p s") (simp_all add: run_bindP exec_unit)

lemma run_lockP [run_simps]: "run (lockP m p) s = with_lock m (run p) s"
  by (cases "exec p (s\<lparr>held := m # held s\<rparr>)") (auto simp: run_def exec_lockP with_lock_def)

lemma exec_lock_read [run_simps]: "exec (lockP m (getP f)) s = bindE (read_locked m (\<lambda>t. f (t\<lparr>held := m # held s\<rparr>)) s)
    (\<lambda>x. Inr (x, s))"
  by (simp add: exec_lockP read_locked_def)

lemma run_foldP [run_simps]: "run (foldP f xs) s = foldE (\<lambda>x. run (f x)) xs s"
  by (induction xs arbitrary: s) (auto simp: run_basic run_seqP bindE_def split: sum.split)

lemma run_if [run_simps]: "run (if b then p else q) s = (if b then run p s else run q s)"
  by simp

lemma run_option [run_simps]: "run (case v of None \<Rightarrow> p | Some x \<Rightarrow> q x) s = (case v of None \<Rightarrow> run p s | Some x \<Rightarrow> run (q x) s)"
  by (cases v) simp_all

section \<open>Many programs\<close>

text \<open>
  Thread \<open>i\<close> is element \<open>i\<close> of the list, what it has still to do; \<open>owner\<close> says which thread holds a
  mutex. A thread that locks a mutex another one holds waits; one that locks its own faults, as in \<open>exec\<close>.
\<close>

record ('s, 'a) system =
  threads :: "('s, 'a) prog list"
  owner :: "mutex \<Rightarrow> nat option"
  shared :: 's

definition set_thread :: "nat \<Rightarrow> ('s, 'a) prog \<Rightarrow> ('s, 'a) system \<Rightarrow> ('s, 'a) system" where
  "set_thread i p c = c\<lparr>threads := (threads c)[i := p]\<rparr>"

text \<open>The next step of thread \<open>i\<close>; \<open>None\<close>: it is finished or waits.\<close>

definition turn :: "nat \<Rightarrow> ('s, 'a) system \<Rightarrow> (fault + ('s, 'a) system) option" where
  "turn i c = (if \<not> i < length (threads c) then None else (case threads c ! i of
     Return x \<Rightarrow> None
   | Fail e \<Rightarrow> Some (Inl e)
   | Step g f \<Rightarrow> Some (Inr (set_thread i (f (shared c)) (c\<lparr>shared := g (shared c)\<rparr>)))
   | Lock m p \<Rightarrow> (case owner c m of
       None \<Rightarrow> Some (Inr (set_thread i p (c\<lparr>owner := (owner c)(m := Some i)\<rparr>)))
     | Some j \<Rightarrow> if j = i then Some (Inl (Relock m)) else None)
   | Unlock m p \<Rightarrow> Some (Inr (set_thread i p (c\<lparr>owner := (owner c)(m := None)\<rparr>)))))"

definition start :: "('s, 'a) prog list \<Rightarrow> 's \<Rightarrow> ('s, 'a) system" where
  "start ps s = \<lparr>threads = ps, owner = (\<lambda>_. None), shared = s\<rparr>"

inductive interleaved :: "('s, 'a) system \<Rightarrow> ('s, 'a) system \<Rightarrow> bool" for c where
  now: "interleaved c c"
| later: "interleaved c d \<Longrightarrow> turn i d = Some (Inr e) \<Longrightarrow> interleaved c e"

text \<open>The turns of a schedule, skipping those that are not possible.\<close>

fun schedule :: "nat list \<Rightarrow> ('s, 'a) system \<Rightarrow> fault + ('s, 'a) system" where
  "schedule [] c = Inr c"
| "schedule (i # is) c = (case turn i c of None \<Rightarrow> schedule is c | Some r \<Rightarrow> bindE r (schedule is))"

lemma interleaved_trans: "interleaved d e \<Longrightarrow> interleaved c d \<Longrightarrow> interleaved c e"
  by (induction rule: interleaved.induct) (auto intro: interleaved.intros)

lemma schedule_interleaved: "schedule is c = Inr d \<Longrightarrow> interleaved c d"
proof (induction "is" arbitrary: c)
  case (Cons i "is")
  show ?case
  proof (cases "turn i c")
    case None
    then show ?thesis using Cons by simp
  next
    case (Some r)
    then obtain e where e: "r = Inr e" "schedule is e = Inr d" using Cons.prems by (cases r) auto
    have "interleaved c e" by (rule interleaved.later [OF interleaved.now, where i = i]) (simp add: Some e)
    then show ?thesis using Cons.IH [OF e(2)] interleaved_trans by blast
  qed
qed (simp add: interleaved.now)

lemma schedule_fault: "schedule is c = Inl e \<Longrightarrow> \<exists>d i. interleaved c d \<and> turn i d = Some (Inl e)"
proof (induction "is" arbitrary: c)
  case (Cons i "is")
  show ?case
  proof (cases "turn i c")
    case (Some r)
    show ?thesis
    proof (cases r)
      case (Inl f)
      then show ?thesis using Some Cons.prems interleaved.now by fastforce
    next
      case (Inr d)
      then have "schedule is d = Inl e" using Some Cons.prems by simp
      then show ?thesis
        using Cons.IH interleaved_trans [OF _ interleaved.later [OF interleaved.now, of i c d]] Some Inr by blast
    qed
  qed (use Cons in simp)
qed simp

text \<open>A signal handler runs on the thread it interrupts, here after \<open>n\<close> of its steps.\<close>

fun interrupted :: "nat \<Rightarrow> ('s, unit) prog \<Rightarrow> ('s, 'a) prog \<Rightarrow> ('s, 'a) prog" where
  "interrupted 0 q p = bindP q (\<lambda>_. p)"
| "interrupted (Suc n) q (Return x) = bindP q (\<lambda>_. Return x)"
| "interrupted (Suc n) q (Fail e) = Fail e"
| "interrupted (Suc n) q (Step g f) = Step g (\<lambda>s. interrupted n q (f s))"
| "interrupted (Suc n) q (Lock m p) = Lock m (interrupted n q p)"
| "interrupted (Suc n) q (Unlock m p) = Unlock m (interrupted n q p)"

section \<open>Discipline of a program\<close>

text \<open>
  A component of the state is given by the updates that change it and nothing else: a read does not see
  it when its result is the same after every such update, a write leaves it alone when it commutes with
  them.
\<close>

definition blind :: "('s \<Rightarrow> 's) set \<Rightarrow> ('s \<Rightarrow> 'b) \<Rightarrow> bool" where
  "blind U f \<longleftrightarrow> (\<forall>u \<in> U. \<forall>s. f (u s) = f s)"

definition apart :: "('s \<Rightarrow> 's) set \<Rightarrow> ('s \<Rightarrow> 's) \<Rightarrow> bool" where
  "apart U g \<longleftrightarrow> (\<forall>u \<in> U. \<forall>s. g (u s) = u (g s))"

definition touches :: "('s \<Rightarrow> 's) set \<Rightarrow> ('s, 'a) prog \<Rightarrow> bool" where
  "touches U p = (case p of Step g f \<Rightarrow> \<not> (apart U g \<and> blind U f) | _ \<Rightarrow> False)"

fun rank :: "mutex \<Rightarrow> nat" where
  "rank PlayersMutex = 0" | "rank MapMutex = 1" | "rank SessionsMutex = 2"

definition may_lock :: "mutex list \<Rightarrow> mutex \<Rightarrow> bool" where
  "may_lock h m \<longleftrightarrow> (if m \<in> set h then m = SessionsMutex else \<forall>n \<in> set h. rank n < rank m)"

text \<open>
  \<open>obeys guards good p h h'\<close>: started with the mutexes \<open>h\<close>, the program locks in the order of \<open>rank\<close> (the
  sessions mutex also when it holds it, which is a fault and no deadlock between threads), touches the
  component of a mutex only while it holds it, keeps the invariant \<open>good\<close> with every single step, and ends
  with the mutexes \<open>h'\<close>. The component \<open>None\<close> is one that no program may touch.
\<close>

definition allowed :: "(mutex option \<Rightarrow> ('s \<Rightarrow> 's) set) \<Rightarrow> (('s \<Rightarrow> 's) set \<Rightarrow> bool) \<Rightarrow> mutex list \<Rightarrow> bool" where
  "allowed guards P h \<longleftrightarrow> (\<forall>m. m \<notin> Some ` set h \<longrightarrow> P (guards m))"

primrec obeys :: "(mutex option \<Rightarrow> ('s \<Rightarrow> 's) set) \<Rightarrow> ('s \<Rightarrow> bool) \<Rightarrow> ('s, 'a) prog \<Rightarrow> mutex list \<Rightarrow> mutex list
    \<Rightarrow> bool" where
  "obeys guards good (Return x) h h' \<longleftrightarrow> h' = h"
| "obeys guards good (Fail e) h h' \<longleftrightarrow> True"
| "obeys guards good (Step g f) h h' \<longleftrightarrow>
     allowed guards (\<lambda>U. apart U g \<and> blind U f) h \<and> (\<forall>s. good s \<longrightarrow> good (g s)) \<and> (\<forall>s. obeys guards good (f s) h h')"
| "obeys guards good (Lock m p) h h' \<longleftrightarrow> may_lock h m \<and> (m \<in> set h \<or> obeys guards good p (m # h) h')"
| "obeys guards good (Unlock m p) h h' \<longleftrightarrow> m \<in> set h \<and> obeys guards good p (remove1 m h) h'"

abbreviation clean :: "(mutex option \<Rightarrow> ('s \<Rightarrow> 's) set) \<Rightarrow> ('s \<Rightarrow> bool) \<Rightarrow> mutex list \<Rightarrow> ('s, 'a) prog \<Rightarrow> bool" where
  "clean guards good h p \<equiv> obeys guards good p h h"

named_theorems clean_rules \<open>programs that keep the discipline\<close>

lemma blind_bindP: "blind U f \<Longrightarrow> blind U (\<lambda>s. bindP (f s) k)"
  by (simp add: blind_def)

lemma obeys_bindP:
  "obeys guards good p h h' \<Longrightarrow> (\<And>x. obeys guards good (k x) h' h'') \<Longrightarrow> obeys guards good (bindP p k) h h''"
  by (induction p arbitrary: h) (auto intro: blind_bindP simp: allowed_def)

lemma clean_Return [clean_rules]: "clean guards good h (Return x)"
  by simp

lemma clean_Fail [clean_rules]: "clean guards good h (Fail e)"
  by simp

lemmas clean_bindP [clean_rules] = obeys_bindP [where h = h and h' = h and h'' = h for h]

lemma clean_getP: "allowed guards (\<lambda>U. blind U f) h \<Longrightarrow> clean guards good h (getP f)"
  by (auto simp: getP_def blind_def apart_def allowed_def)

lemma clean_modP: "allowed guards (\<lambda>U. apart U g) h \<Longrightarrow> (\<And>s. good s \<Longrightarrow> good (g s)) \<Longrightarrow> clean guards good h (modP g)"
  by (auto simp: modP_def blind_def allowed_def)

lemma clean_exchangeP: "allowed guards (\<lambda>U. apart U g \<and> blind U f) h \<Longrightarrow> (\<And>s. good s \<Longrightarrow> good (g s)) \<Longrightarrow>
    clean guards good h (exchangeP f g)"
  by (auto simp: exchangeP_def blind_def allowed_def)

lemma clean_liftP [clean_rules]: "clean guards good h (liftP r)"
  by (cases r) (simp_all add: liftP_def)

lemma clean_lockP:
  assumes "may_lock h m" "m \<in> set h \<or> clean guards good (m # h) p"
  shows "clean guards good h (lockP m p)"
  using assms unfolding lockP_def by (auto intro: obeys_bindP [where h' = "m # h"])

lemma clean_foldP [clean_rules]: "(\<And>x. clean guards good h (f x)) \<Longrightarrow> clean guards good h (foldP f xs)"
  by (induction xs) (simp_all add: clean_bindP)

lemma clean_if [clean_rules]:
  "(b \<Longrightarrow> clean guards good h p) \<Longrightarrow> (\<not> b \<Longrightarrow> clean guards good h q) \<Longrightarrow> clean guards good h (if b then p else q)"
  by simp

lemma clean_option [clean_rules]:
  "clean guards good h p \<Longrightarrow> (\<And>x. clean guards good h (q x)) \<Longrightarrow> clean guards good h (case v of None \<Rightarrow> p | Some x \<Rightarrow> q x)"
  by (cases v) auto

lemma clean_prod [clean_rules]: "(\<And>x y. clean guards good h (q x y)) \<Longrightarrow> clean guards good h (case v of (x, y) \<Rightarrow> q x y)"
  by (cases v) auto

section \<open>What the discipline gives\<close>

locale disciplined_threads =
  fixes guards :: "mutex option \<Rightarrow> ('s \<Rightarrow> 's) set"
    and good :: "'s \<Rightarrow> bool"
    and ps :: "('s, 'a) prog list"
  assumes obeyed: "p \<in> set ps \<Longrightarrow> obeys guards good p [] []"
begin

text \<open>\<open>hs ! i\<close> are the mutexes of thread \<open>i\<close>.\<close>

definition owners :: "mutex list list \<Rightarrow> ('s, 'a) system \<Rightarrow> bool" where
  "owners hs c \<longleftrightarrow> length hs = length (threads c)
     \<and> (\<forall>i < length hs. obeys guards good (threads c ! i) (hs ! i) [] \<and> distinct (hs ! i))
     \<and> (\<forall>m i. owner c m = Some i \<longleftrightarrow> i < length hs \<and> m \<in> set (hs ! i))"

lemma owners_start: "owners (map (\<lambda>_. []) ps) (start ps s)"
  by (auto simp: owners_def start_def obeyed)

lemma owners_turn:
  assumes "owners hs c" "turn i c = Some (Inr d)"
  shows "\<exists>hs. owners hs d"
proof -
  have i: "i < length (threads c)" using assms(2) by (auto simp: turn_def split: if_splits)
  note o = assms(1) [unfolded owners_def]
  have oi: "obeys guards good (threads c ! i) (hs ! i) []" "distinct (hs ! i)" using o i by auto
  have keep: "owners (hs[i := h]) d" if "threads d = (threads c)[i := p]" "obeys guards good p h []"
    "distinct h" "\<And>m j. owner d m = Some j \<longleftrightarrow> j < length hs \<and> m \<in> set (hs[i := h] ! j)" for p h
    using that o i by (auto simp: owners_def nth_list_update)
  show ?thesis
  proof (cases "threads c ! i")
    case (Step g f)
    have "owners (hs[i := hs ! i]) d"
      by (rule keep [where p = "f (shared c)"]) (use Step assms(2) i oi o in \<open>auto simp: turn_def set_thread_def\<close>)
    then show ?thesis ..
  next
    case (Lock m p)
    then have m: "owner c m = None" using assms(2) i by (auto simp: turn_def split: option.splits if_splits)
    then have "m \<notin> set (hs ! j)" if "j < length hs" for j using o that by (metis option.distinct(1))
    with Lock m have "owners (hs[i := m # hs ! i]) d"
      by (intro keep [where p = p])
        (use assms(2) i oi o in \<open>auto simp: turn_def set_thread_def nth_list_update split: if_splits\<close>)
    then show ?thesis ..
  next
    case (Unlock m p)
    then have m: "owner c m = Some i" using oi o i by auto
    then have "m \<notin> set (hs ! j)" if "j \<noteq> i" "j < length hs" for j using o that by (metis option.inject)
    with Unlock m have "owners (hs[i := remove1 m (hs ! i)]) d"
      by (intro keep [where p = p])
        (use assms(2) i oi o in \<open>auto simp: turn_def set_thread_def nth_list_update split: if_splits\<close>)
    then show ?thesis ..
  qed (use assms(2) i in \<open>auto simp: turn_def\<close>)
qed

lemma turn_inv: "owners hs c \<Longrightarrow> turn i c = Some (Inr d) \<Longrightarrow> good (shared c) \<Longrightarrow> good (shared d)"
  by (cases "threads c ! i")
    (fastforce simp: turn_def set_thread_def owners_def split: if_splits option.splits)+

lemma reached_owners: "interleaved (start ps s) c \<Longrightarrow> \<exists>hs. owners hs c"
  by (induction rule: interleaved.induct) (blast intro: owners_start owners_turn)+

lemma reached_inv: "interleaved (start ps s) c \<Longrightarrow> good s \<Longrightarrow> good (shared c)"
proof (induction rule: interleaved.induct)
  case (later d i e)
  then show ?case using reached_owners [of s d] turn_inv by blast
qed (simp add: start_def)

lemma relocks_sessions:
  assumes "interleaved (start ps s) c" "i < length (threads c)" "threads c ! i = Lock m p" "owner c m = Some i"
  shows "m = SessionsMutex"
proof -
  obtain hs where "owners hs c" using reached_owners [OF assms(1)] by blast
  then have "obeys guards good (threads c ! i) (hs ! i) []" "m \<in> set (hs ! i)"
    using assms(2,4) by (auto simp: owners_def)
  with assms(3) show ?thesis by (simp add: may_lock_def)
qed

text \<open>Nobody waits in a circle: of the threads that wait, one that waits for a mutex of the highest rank
  waits for a thread that can go on.\<close>

lemma no_deadlock:
  assumes "interleaved (start ps s) c" "\<And>i. turn i c = None" "i < length (threads c)"
  shows "\<exists>x. threads c ! i = Return x"
proof (rule ccontr)
  assume unfinished: "\<not> ?thesis"
  obtain hs where hs: "owners hs c" using reached_owners [OF assms(1)] by blast
  note o = hs [unfolded owners_def]
  define waits where "waits i m \<longleftrightarrow> i < length (threads c) \<and> (\<exists>p j. threads c ! i = Lock m p
    \<and> owner c m = Some j \<and> j \<noteq> i)" for i m
  have stuck: "waits i m \<or> (\<exists>x. threads c ! i = Return x)" if "i < length (threads c)" "\<forall>n. n \<noteq> m \<longrightarrow> \<not> waits i n" for i m
    using assms(2) [of i] that by (cases "threads c ! i") (auto simp: turn_def waits_def split: option.splits if_splits)
  have next_waits: "\<exists>j n. waits j n \<and> rank m < rank n" if w: "waits i m" for i m
  proof -
    obtain j where j: "owner c m = Some j" "j \<noteq> i" using w by (auto simp: waits_def)
    then have jl: "j < length (threads c)" "m \<in> set (hs ! j)" "obeys guards good (threads c ! j) (hs ! j) []" using o by auto
    then have "\<nexists>x. threads c ! j = Return x" by auto
    then obtain n where n: "waits j n" using stuck [OF jl(1)] by blast
    then obtain p where p: "threads c ! j = Lock n p" "owner c n \<noteq> Some j" by (auto simp: waits_def)
    then have "n \<notin> set (hs ! j)" using o jl(1) by auto
    then have "rank m < rank n" using jl p by (auto simp: may_lock_def)
    with n show ?thesis by blast
  qed
  obtain m where "waits i m" using stuck [OF assms(3)] unfinished by blast
  then have "\<exists>i m. waits i m \<and> k \<le> rank m" for k
    by (induction k) (use next_waits in \<open>fastforce simp: Suc_le_eq\<close>)+
  then obtain m where "3 \<le> rank m" by blast
  then show False by (cases m) auto
qed

text \<open>Two threads never come to touch the component of a mutex at the same time.\<close>

lemma race_free:
  assumes "interleaved (start ps s) c" "i < length (threads c)" "j < length (threads c)" "i \<noteq> j"
  shows "\<not> (touches (guards (Some m)) (threads c ! i) \<and> touches (guards (Some m)) (threads c ! j))"
proof -
  obtain hs where hs: "owners hs c" using reached_owners [OF assms(1)] by blast
  note o = hs [unfolded owners_def]
  have "owner c m = Some k" if "k < length (threads c)" "touches (guards (Some m)) (threads c ! k)" for k
  proof -
    have "obeys guards good (threads c ! k) (hs ! k) []" using o that(1) by auto
    with that have "m \<in> set (hs ! k)" by (auto simp: touches_def allowed_def split: prog.splits)
    with o that(1) show ?thesis by auto
  qed
  from this [OF assms(2)] this [OF assms(3)] assms(4) show ?thesis by auto
qed

end

section \<open>All threads come to an end\<close>

fun followers :: "('s, 'a) prog \<Rightarrow> ('s, 'a) prog set" where
  "followers (Step g f) = range f"
| "followers (Lock m p) = {p}"
| "followers (Unlock m p) = {p}"
| "followers _ = {}"

lemma wf_followers: "wf {(p :: ('s, 'a) prog, q). p \<in> followers q}"
proof (rule wfUNIVI)
  fix P :: "('s, 'a) prog \<Rightarrow> bool" and x
  assume "\<forall>x. (\<forall>y. (y, x) \<in> {(p, q). p \<in> followers q} \<longrightarrow> P y) \<longrightarrow> P x"
  then have step: "P x" if "\<And>y. y \<in> followers x \<Longrightarrow> P y" for x using that by blast
  show "P x" by (induction x) (rule step; force)+
qed

lemma turn_follower: "turn i c = Some (Inr d) \<Longrightarrow>
    \<exists>p. threads d = (threads c)[i := p] \<and> p \<in> followers (threads c ! i) \<and> i < length (threads c)"
  by (auto simp: turn_def set_thread_def split: if_splits prog.splits option.splits)

text \<open>However the threads are scheduled, they take finitely many turns.\<close>

lemma turns_end: "wf {(d :: ('s, 'a) system, c). \<exists>i. turn i c = Some (Inr d)}"
proof -
  let ?r = "{(p :: ('s, 'a) prog, q). p \<in> followers q}"
  have "wf (inv_image (listrel1 ?r) threads)"
    by (rule wf_inv_image) (simp add: wf_listrel1_iff wf_followers)
  moreover have "{(d, c). \<exists>i. turn i c = Some (Inr d)} \<subseteq> inv_image (listrel1 ?r) threads"
  proof clarify
    fix d c :: "('s, 'a) system" and i
    assume "turn i c = Some (Inr d)"
    then obtain p where p: "threads d = (threads c)[i := p]" "p \<in> followers (threads c ! i)" "i < length (threads c)"
      using turn_follower by blast
    then show "(d, c) \<in> inv_image (listrel1 ?r) threads"
      by (auto simp: listrel1_iff_update intro!: exI [of _ "threads c ! i"] exI [of _ i])
  qed
  ultimately show ?thesis by (rule wf_subset)
qed

section \<open>A run alone is one of the interleavings\<close>

text \<open>No thread holds a mutex.\<close>

definition at_rest :: "('s, 'a) prog list \<Rightarrow> 's \<Rightarrow> ('s, 'a) system" where
  "at_rest qs s = \<lparr>threads = qs, owner = (\<lambda>_. None), shared = s\<rparr>"

lemma at_rest_select [simp]: "threads (at_rest qs s) = qs" "owner (at_rest qs s) = (\<lambda>_. None)"
  "shared (at_rest qs s) = s"
  by (simp_all add: at_rest_def)

lemma start_at_rest: "interleaved (start ps s) (at_rest ps s)"
  using interleaved.now [of "start ps s"] by (simp add: start_def at_rest_def)

locale lock_blind_threads = disciplined_threads guards good ps
  for guards :: "mutex option \<Rightarrow> ('z locks_scheme \<Rightarrow> 'z locks_scheme) set"
    and good :: "'z locks_scheme \<Rightarrow> bool"
    and ps :: "('z locks_scheme, unit) prog list" +
  assumes held_private: "(\<lambda>s. s\<lparr>held := h\<rparr>) \<in> guards None"
begin

lemma step_blind: "allowed guards (\<lambda>U. apart U g \<and> blind U f) h \<Longrightarrow>
    f (s\<lparr>held := x\<rparr>) = f s \<and> g (s\<lparr>held := x\<rparr>) = (g s)\<lparr>held := x\<rparr>"
  using held_private [of x] by (auto simp: allowed_def blind_def apart_def)

lemma step_held:
  assumes "allowed guards (\<lambda>U. apart U g \<and> blind U f) h"
  shows "held (g s) = held s"
proof -
  have "g (s\<lparr>held := held s\<rparr>) = (g s)\<lparr>held := held s\<rparr>" using step_blind [OF assms] by blast
  then show ?thesis by (metis held_update_id locks.select_convs(1) locks.surjective locks.update_convs(1))
qed

lemma exec_held: "obeys guards good p (held s) h' \<Longrightarrow> exec p s = Inr (x, t) \<Longrightarrow> held t = h'"
proof (induction p arbitrary: s)
  case (Step g f)
  then have "held (g s) = held s" by (auto intro: step_held)
  with Step show ?case using Step.IH [of "f s" "g s"] by simp
next
  case (Lock m p)
  then show ?case using Lock.IH [of "s\<lparr>held := m # held s\<rparr>"] by (simp split: if_splits)
next
  case (Unlock m p)
  then show ?case using Unlock.IH [of "s\<lparr>held := remove1 m (held s)\<rparr>"] by simp
qed auto

text \<open>Thread \<open>i\<close> makes the turns of a first part of its program while the others do nothing.\<close>

lemma advance:
  assumes "obeys guards good p h h'" "exec p s = Inr (x, t)" "held s = h" "i < length (threads c)"
    "threads c ! i = bindP p k" "owner c = (\<lambda>m. if m \<in> set h then Some i else None)" "distinct h"
    "shared c = s\<lparr>held := []\<rparr>"
  shows "interleaved c \<lparr>threads = (threads c)[i := k x],
     owner = (\<lambda>m. if m \<in> set h' then Some i else None), shared = t\<lparr>held := []\<rparr>\<rparr>"
  using assms
proof (induction p arbitrary: s h c)
  case (Return y)
  then have "c = \<lparr>threads = (threads c)[i := k x], owner = (\<lambda>m. if m \<in> set h' then Some i else None),
      shared = t\<lparr>held := []\<rparr>\<rparr>" using list_update_id [of "threads c" i] by (cases c) auto
  then show ?case using interleaved.now by metis
next
  case (Step g f)
  let ?d = "set_thread i (bindP (f s) k) (c\<lparr>shared := g (shared c)\<rparr>)"
  have b: "f (s\<lparr>held := []\<rparr>) = f s" "g (s\<lparr>held := []\<rparr>) = (g s)\<lparr>held := []\<rparr>" "held (g s) = held s"
    using Step.prems(1) step_blind [where h = h and f = f and g = g and s = s and x = "[]"] by (auto intro: step_held)
  have "turn i c = Some (Inr ?d)" using Step.prems b by (simp add: turn_def)
  moreover have "interleaved ?d \<lparr>threads = (threads ?d)[i := k x],
     owner = (\<lambda>m. if m \<in> set h' then Some i else None), shared = t\<lparr>held := []\<rparr>\<rparr>"
    using Step.prems b by (intro Step.IH [where h = h and s = "g s"]) (auto simp: set_thread_def)
  ultimately show ?case
    using interleaved_trans [OF _ interleaved.later [OF interleaved.now, of i c ?d]] by (simp add: set_thread_def)
next
  case (Lock m p)
  let ?d = "set_thread i (bindP p k) (c\<lparr>owner := (owner c)(m := Some i)\<rparr>)"
  have "turn i c = Some (Inr ?d)" using Lock.prems by (auto simp: turn_def split: if_splits)
  moreover have "interleaved ?d \<lparr>threads = (threads ?d)[i := k x],
     owner = (\<lambda>m. if m \<in> set h' then Some i else None), shared = t\<lparr>held := []\<rparr>\<rparr>"
    using Lock.prems
    by (intro Lock.IH [where h = "m # h" and s = "s\<lparr>held := m # h\<rparr>"]) (auto simp: set_thread_def split: if_splits)
  ultimately show ?case
    using interleaved_trans [OF _ interleaved.later [OF interleaved.now, of i c ?d]] by (simp add: set_thread_def)
next
  case (Unlock m p)
  let ?d = "set_thread i (bindP p k) (c\<lparr>owner := (owner c)(m := None)\<rparr>)"
  have "turn i c = Some (Inr ?d)" using Unlock.prems by (simp add: turn_def)
  moreover have "interleaved ?d \<lparr>threads = (threads ?d)[i := k x],
     owner = (\<lambda>m. if m \<in> set h' then Some i else None), shared = t\<lparr>held := []\<rparr>\<rparr>"
    using Unlock.prems
    by (intro Unlock.IH [where h = "remove1 m h" and s = "s\<lparr>held := remove1 m h\<rparr>"])
      (auto simp: set_thread_def)
  ultimately show ?case
    using interleaved_trans [OF _ interleaved.later [OF interleaved.now, of i c ?d]] by (simp add: set_thread_def)
qed simp

lemma alone:
  assumes "obeys guards good p h h'" "exec p s = Inr (x, t)" "held s = h" "i < length (threads c)"
    "threads c ! i = p" "owner c = (\<lambda>m. if m \<in> set h then Some i else None)" "distinct h"
    "shared c = s\<lparr>held := []\<rparr>"
  shows "interleaved c \<lparr>threads = (threads c)[i := Return x],
     owner = (\<lambda>m. if m \<in> set h' then Some i else None), shared = t\<lparr>held := []\<rparr>\<rparr>"
  using advance [where k = Return, OF assms(1-4) _ assms(6-8)] assms(5) by simp

text \<open>
  A system in which no mutex is held goes on, from a state it can reach, by the first part of the program of
  one thread, or by all of it.
\<close>

lemma onward:
  assumes "interleaved (start ps s) (at_rest qs t)" "held t = []" "i < length qs" "qs ! i = bindP p k"
    "obeys guards good p [] []" "exec p t = Inr (x, u)"
  shows "interleaved (start ps s) (at_rest (qs[i := k x]) u) \<and> held u = []"
proof -
  have u: "held u = []" using exec_held [of p t "[]" x u] assms(2,5,6) by simp
  have "interleaved (at_rest qs t) (at_rest (qs[i := k x]) u)"
    using advance [OF assms(5,6,2), of i "at_rest qs t" k] assms(2-4) u by (simp add: at_rest_def)
  then show ?thesis using interleaved_trans [OF _ assms(1)] u by blast
qed

lemma finish:
  assumes "interleaved (start ps s) (at_rest qs t)" "held t = []" "i < length qs" "run (qs ! i) t = Inr u"
  shows "interleaved (start ps s) (at_rest (qs[i := Return ()]) u) \<and> held u = []"
proof -
  obtain hs where "owners hs (at_rest qs t)" using reached_owners [OF assms(1)] by blast
  then have "m \<notin> set (hs ! i)" and o: "obeys guards good (qs ! i) (hs ! i) []" for m
    using assms(3) by (auto simp: owners_def)
  then have "hs ! i = []" by (cases "hs ! i") force+
  with o have "obeys guards good (qs ! i) [] []" by simp
  moreover have "exec (qs ! i) t = Inr ((), u)" using assms(4) by (auto simp: run_def bindE_Inr_iff)
  ultimately show ?thesis using onward [OF assms(1-3), of "qs ! i" Return] by simp
qed

text \<open>So handling one after the other, each without interruption, is one of the interleavings.\<close>

lemma one_after_the_other:
  assumes "foldE run (take k ps) s = Inr t" "held s = []" "k \<le> length ps"
  shows "interleaved (start ps s) \<lparr>threads = map (\<lambda>_. Return ()) (take k ps) @ drop k ps,
      owner = (\<lambda>_. None), shared = t\<rparr> \<and> held t = []"
  using assms(1,3)
proof (induction k arbitrary: t)
  case 0
  then show ?case using assms(2) interleaved.now [of "start ps s"] by (simp add: start_def)
next
  case (Suc k)
  let ?c = "\<lambda>k t. \<lparr>threads = map (\<lambda>_. Return ()) (take k ps) @ drop k ps, owner = (\<lambda>_. None), shared = t\<rparr>"
  have k: "k < length ps" using Suc.prems by simp
  obtain u where u: "foldE run (take k ps) s = Inr u" "run (ps ! k) u = Inr t"
    using Suc.prems by (auto simp: take_Suc_conv_app_nth [OF k] foldE_append bindE_Inr_iff)
  have c: "interleaved (start ps s) (?c k u)" "held u = []" using Suc.IH [OF u(1)] k by auto
  have p: "obeys guards good (ps ! k) [] []" using obeyed k by simp
  have x: "exec (ps ! k) u = Inr ((), t)" using u(2) by (auto simp: run_def bindE_Inr_iff)
  have t: "held t = []" using exec_held [OF _ x, of "[]"] p c(2) by simp
  have "interleaved (?c k u) \<lparr>threads = (threads (?c k u))[k := Return ()], owner = (\<lambda>_. None), shared = t\<rparr>"
    using alone [OF p x c(2), of k "?c k u"] k c(2) t by (simp add: nth_append)
  moreover have "(threads (?c k u))[k := Return ()] = threads (?c (Suc k) t)"
    using k by (simp add: take_Suc_conv_app_nth list_update_append upd_conv_take_nth_drop Cons_nth_drop_Suc [symmetric])
  ultimately show ?case using interleaved_trans [OF _ c(1)] t by simp
qed

end

end
