(* ===== verification/Server_Threads.thy ===== *)
theory Server_Threads
  imports Threads Server_Invariants
begin

text \<open>
  The handlers of the server as programs of single accesses: what \<open>Game_Server\<close> does in one transition,
  step by step, as several threads of \<open>GameServer::run\<close> do it at the same time. A \<open>Player*\<close> from
  \<open>getPlayer\<close> is followed only where the code follows it, and faults when the player is gone by then. The
  lock scopes are those of the code; what the code reads or writes outside of one is a step of its own.
  Run alone, each program is the handler (\<open>run\<close> lemmas).

  One call is one step although the code does more: \<open>async_write\<close> (\<open>session_sendP\<close>) appends a whole frame at once,
  see \<open>Tcp_Server\<close>.
\<close>

section \<open>TCP server\<close>

definition tcp_acceptP :: "string \<Rightarrow> (server, unit) prog" where
  "tcp_acceptP ip = bindP (getP m_next_session_id) (\<lambda>sid.
     bindP (modP (\<lambda>s. s\<lparr>m_next_session_id := sid + 1\<rparr>)) (\<lambda>_.
     lockP SessionsMutex (modP (\<lambda>s. s\<lparr>m_sessions := AList.update sid ip (m_sessions s)\<rparr>))))"

definition session_sendP :: "u16 \<Rightarrow> bytes \<Rightarrow> (server, unit) prog" where
  "session_sendP sid data = modP (\<lambda>s. s\<lparr>tcp_out := tcp_out s @ [(sid, session_frame data)]\<rparr>)"

definition tcp_sendP :: "u16 \<Rightarrow> bytes \<Rightarrow> (server, unit) prog" where
  "tcp_sendP session_id data = lockP SessionsMutex (
     bindP (getP (\<lambda>s. map_of (m_sessions s) session_id)) (\<lambda>v. case v of
       None \<Rightarrow> Return () | Some _ \<Rightarrow> session_sendP session_id data))"

definition tcp_sendAllP :: "bytes \<Rightarrow> u16 \<Rightarrow> (server, unit) prog" where
  "tcp_sendAllP data exclude = lockP SessionsMutex (
     bindP (getP m_sessions) (foldP (\<lambda>(i, _). if i \<noteq> exclude then session_sendP i data else Return ())))"

definition onSessionCloseP :: "(u16 \<Rightarrow> (server, unit) prog) \<Rightarrow> u16 \<Rightarrow> (server, unit) prog" where
  "onSessionCloseP disc_cb i = bindP
     (lockP SessionsMutex (modP (\<lambda>s. s\<lparr>m_sessions := AList.delete i (m_sessions s)\<rparr>)))
     (\<lambda>_. disc_cb i)"

definition tcp_disconnectP :: "(u16 \<Rightarrow> (server, unit) prog) \<Rightarrow> u16 \<Rightarrow> (server, unit) prog" where
  "tcp_disconnectP disc_cb session_id = lockP SessionsMutex (
     bindP (getP (\<lambda>s. map_of (m_sessions s) session_id)) (\<lambda>v. case v of
       None \<Rightarrow> Return () | Some _ \<Rightarrow> onSessionCloseP disc_cb session_id))"

definition getRemoteIPP :: "u16 \<Rightarrow> (server, string) prog" where
  "getRemoteIPP session_id = lockP SessionsMutex (getP (\<lambda>s. case map_of (m_sessions s) session_id of
     Some ip \<Rightarrow> ip | None \<Rightarrow> []))"

section \<open>UDP server\<close>

definition udp_sendP :: "UDPEndpoint \<Rightarrow> bytes \<Rightarrow> (server, unit) prog" where
  "udp_sendP to data = modP (udp_send to data)"

definition udp_sendAllP :: "bytes \<Rightarrow> u16 \<Rightarrow> (server, unit) prog" where
  "udp_sendAllP data exclude = lockP MapMutex (
     bindP (getP m_player_to_ep) (foldP (\<lambda>(pid, ep). if pid = exclude then Return () else udp_sendP ep data)))"

definition unmapPlayerP :: "u16 \<Rightarrow> (server, unit) prog" where
  "unmapPlayerP player_id = lockP MapMutex (
     bindP (getP (\<lambda>s. map_of (m_player_to_ep s) player_id)) (\<lambda>v. case v of
       None \<Rightarrow> Return ()
     | Some ep \<Rightarrow> bindP (modP (\<lambda>s. s\<lparr>m_ep_to_player := AList.delete ep (m_ep_to_player s)\<rparr>))
         (\<lambda>_. modP (\<lambda>s. s\<lparr>m_player_to_ep := AList.delete player_id (m_player_to_ep s)\<rparr>))))"

definition playerFromEndpointP :: "UDPEndpoint \<Rightarrow> (server, u16) prog" where
  "playerFromEndpointP ep = lockP MapMutex (getP (\<lambda>s. case map_of (m_ep_to_player s) ep of
     Some pid \<Rightarrow> pid | None \<Rightarrow> 0xFFFF))"

section \<open>Players\<close>

definition getPlayerP :: "u16 \<Rightarrow> (server, Player option) prog" where
  "getPlayerP i = lockP PlayersMutex (getP (\<lambda>s. map_of (m_players s) i))"

text \<open>Reading and writing through the pointer, without a lock.\<close>

definition derefP :: "u16 \<Rightarrow> (Player \<Rightarrow> 'a) \<Rightarrow> (server, 'a) prog" where
  "derefP i f = bindP (getP (\<lambda>s. map_of (m_players s) i)) (\<lambda>v. case v of
     None \<Rightarrow> Fail Dangling | Some p \<Rightarrow> Return (f p))"

definition pokeP :: "u16 \<Rightarrow> (Player \<Rightarrow> Player) \<Rightarrow> (server, unit) prog" where
  "pokeP i f = bindP (derefP i (\<lambda>_. ())) (\<lambda>_. modP (upd_player i f))"

definition playerCountP :: "(server, int) prog" where
  "playerCountP = lockP PlayersMutex (getP (\<lambda>s. int (length (m_players s))))"

definition allocPlayerIDP :: "(server, u16) prog" where
  "allocPlayerIDP =
     bindP (getP m_next_player_id) (\<lambda>n.
     bindP (if n = 0xFFFF then modP (\<lambda>s. s\<lparr>m_next_player_id := 1\<rparr>) else Return ()) (\<lambda>_.
     bindP (getP m_next_player_id) (\<lambda>n.
     bindP (modP (\<lambda>s. s\<lparr>m_next_player_id := n + 1\<rparr>)) (\<lambda>_.
     Return n))))"

definition sendChatP :: "int \<Rightarrow> string \<Rightarrow> (server, unit) prog" where
  "sendChatP player_id msg =
     (let pkt = buildStr CHAT_MESSAGE 0 0 msg in
      if player_id < 0 then tcp_sendAllP pkt NO_EXCLUDE
      else lockP PlayersMutex (
        bindP (getP (\<lambda>s. find_session (word_of_int player_id) (m_session_to_player s))) (\<lambda>v. case v of
          None \<Rightarrow> Return () | Some sid \<Rightarrow> tcp_sendP sid pkt)))"

definition broadcastPlayerJoinP :: "env \<Rightarrow> u16 \<Rightarrow> (server, unit) prog" where
  "broadcastPlayerJoinP E pid =
     bindP (derefP pid (\<lambda>p. (pl_id p, pl_username p, pl_role p))) (\<lambda>(i, name, role).
     bindP (liftP (dumpE E (JObj [(''type'', JStr ''player_join''), (''id'', JInt (uint i)),
         (''name'', JStr name), (''role'', JStr role)]))) (\<lambda>str.
     tcp_sendAllP (buildStr PLAYER_JOIN i 0 str) NO_EXCLUDE))"

definition broadcastPlayerLeaveP :: "env \<Rightarrow> u16 \<Rightarrow> string \<Rightarrow> (server, unit) prog" where
  "broadcastPlayerLeaveP E pid reason =
     bindP (liftP (dumpE E (JObj [(''type'', JStr ''player_leave''), (''id'', JInt (uint pid)),
         (''reason'', JStr reason)]))) (\<lambda>str.
     tcp_sendAllP (buildStr PLAYER_LEAVE pid 0 str) NO_EXCLUDE)"

definition sendServerInfoP :: "env \<Rightarrow> u16 \<Rightarrow> (server, unit) prog" where
  "sendServerInfoP E session_id = bindP playerCountP (\<lambda>n.
     bindP (liftP (dumpE E (JObj [(''name'', JStr (cfg_name (e_cfg E))),
         (''description'', JStr (cfg_description (e_cfg E))), (''map'', JStr (cfg_map (e_cfg E))),
         (''max_players'', JInt (cfg_max_players (e_cfg E))), (''current'', JInt n),
         (''ai_enabled'', JBool (cfg_ai_enabled (e_cfg E))), (''version'', JStr ''1.0.0'')]))) (\<lambda>str.
     tcp_sendP session_id (buildStr SERVER_INFO 0 0 str)))"

definition kickPlayerP :: "(u16 \<Rightarrow> (server, unit) prog) \<Rightarrow> u16 \<Rightarrow> string \<Rightarrow> (server, unit) prog" where
  "kickPlayerP cb i reason =
     (let pkt = buildStr KICK 0 0 (''Kicked: '' @ reason) in
      lockP PlayersMutex (bindP (getP (\<lambda>s. find_session i (m_session_to_player s))) (\<lambda>v. case v of
          None \<Rightarrow> Return ()
        | Some sid \<Rightarrow> bindP (tcp_sendP sid pkt) (\<lambda>_. tcp_disconnectP cb sid))))"

definition banPlayerP :: "(u16 \<Rightarrow> (server, unit) prog) \<Rightarrow> u16 \<Rightarrow> string \<Rightarrow> (server, unit) prog" where
  "banPlayerP cb i reason = bindP (getPlayerP i) (\<lambda>p.
     bindP (case p of None \<Rightarrow> Return ()
       | Some _ \<Rightarrow> bindP (pokeP i (\<lambda>p. p\<lparr>pl_is_banned := True\<rparr>)) (\<lambda>_. derefP i (\<lambda>_. ()))) (\<lambda>_.
     kickPlayerP cb i (''Banned: '' @ reason)))"

section \<open>Plugins and AI authority\<close>

fun lua_apiP :: "(u16 \<Rightarrow> (server, unit) prog) \<Rightarrow> lua_call \<Rightarrow> (server, unit) prog" where
  "lua_apiP cb (LSendChatMessage pid msg) = sendChatP pid (''[Server] '' @ c_str msg)"
| "lua_apiP cb (LKickPlayer pid reason) =
     kickPlayerP cb (word_of_int pid) (case reason of Some r \<Rightarrow> c_str r | None \<Rightarrow> ''Kicked'')"
| "lua_apiP cb (LBanPlayer pid reason) =
     banPlayerP cb (word_of_int pid) (case reason of Some r \<Rightarrow> c_str r | None \<Rightarrow> ''Banned'')"
| "lua_apiP cb (LAI c) = modP (\<lambda>s. s\<lparr>ai_history := ai_history s @ [c]\<rparr>)"

definition lua_enterP :: "(u16 \<Rightarrow> (server, unit) prog) \<Rightarrow> env \<Rightarrow> lua_input \<Rightarrow> (server, lua_result) prog" where
  "lua_enterP cb E inp = bindP (getP (\<lambda>s. (lua_history s, lua_view_of s))) (\<lambda>(h, v).
     let (calls, res) = lua_run E h v inp in
     bindP (modP (\<lambda>s. s\<lparr>lua_history := lua_history s @ [(v, inp)]\<rparr>)) (\<lambda>_.
     bindP (foldP (lua_apiP cb) calls) (\<lambda>_. Return res)))"

definition fireEventP ::
    "(u16 \<Rightarrow> (server, unit) prog) \<Rightarrow> env \<Rightarrow> string \<Rightarrow> string list \<Rightarrow> (server, string) prog" where
  "fireEventP cb E event args =
     bindP (lua_enterP cb E (LuaEvent (c_str event) (map c_str args))) (\<lambda>r. Return (lua_string r))"

definition grantAuthorityP :: "env \<Rightarrow> u16 \<Rightarrow> (server, unit) prog" where
  "grantAuthorityP E pid = lockP PlayersMutex (
     bindP (getP (\<lambda>s. find_session pid (m_session_to_player s))) (\<lambda>v. case v of
       None \<Rightarrow> Return ()
     | Some sid \<Rightarrow> bindP (liftP (dumpE E (JObj [(''ai_count'', JInt (cfg_ai_count (e_cfg E))),
           (''speed_limit'', JFloat (cfg_ai_speed_limit (e_cfg E))),
           (''mode'', JStr (cfg_ai_mode (e_cfg E))),
           (''update_hz'', JInt (cfg_ai_update_rate_hz (e_cfg E)))]))) (\<lambda>str.
         tcp_sendP sid (buildStr AUTHORITY_GRANT 0 0 str))))"

definition revokeAuthorityP :: "u16 \<Rightarrow> (server, unit) prog" where
  "revokeAuthorityP pid = lockP PlayersMutex (
     bindP (getP (\<lambda>s. find_session pid (m_session_to_player s))) (\<lambda>v. case v of
       None \<Rightarrow> Return () | Some sid \<Rightarrow> tcp_sendP sid (buildStr AUTHORITY_REVOKE 0 0 ''{}'')))"

fun authority_cbP :: "env \<Rightarrow> authority_callback \<Rightarrow> (server, unit) prog" where
  "authority_cbP E (CbGrant pid) = grantAuthorityP E pid"
| "authority_cbP E (CbRevoke pid) = revokeAuthorityP pid"
| "authority_cbP E CbFallback = Return ()"

definition call_authorityP :: "env \<Rightarrow> authority_call \<Rightarrow> (server, bool) prog" where
  "call_authorityP E c = bindP (getP authority_history) (\<lambda>h.
     let (b, cbs) = authority E h c in
     bindP (modP (\<lambda>s. s\<lparr>authority_history := authority_history s @ [c]\<rparr>)) (\<lambda>_.
     bindP (foldP (authority_cbP E) cbs) (\<lambda>_. Return b)))"

definition handleAuthorityClaimP :: "env \<Rightarrow> u16 \<Rightarrow> (server, unit) prog" where
  "handleAuthorityClaimP E pid =
     (if \<not> has_authority E then Return ()
      else bindP (call_authorityP E (AClientClaim pid)) (\<lambda>accepted.
        if \<not> accepted
        then sendChatP (uint pid) ''[Server] AI authority not available right now.''
        else Return ()))"

section \<open>Connections\<close>

definition onDisconnect_bodyP :: "(u16 \<Rightarrow> (server, unit) prog) \<Rightarrow> env \<Rightarrow> u16 \<Rightarrow> (server, unit) prog" where
  "onDisconnect_bodyP cb E session_id =
     bindP (lockP PlayersMutex (
         bindP (getP (\<lambda>s. map_of (m_session_to_player s) session_id)) (\<lambda>v. case v of
           None \<Rightarrow> Return 0xFFFF
         | Some p \<Rightarrow> bindP (modP (\<lambda>s. s
             \<lparr>m_session_to_player := AList.delete session_id (m_session_to_player s)\<rparr>)) (\<lambda>_. Return p)))) (\<lambda>pid.
     if pid = 0xFFFF then Return ()
     else
     bindP (lockP PlayersMutex (bindP (getP (\<lambda>s. map_of (m_players s) pid)) (\<lambda>v. case v of
           None \<Rightarrow> Return ()
         | Some _ \<Rightarrow>
           bindP (modP (\<lambda>s. s\<lparr>m_entries := onPlayerDisconnect pid (m_entries s)\<rparr>)) (\<lambda>_.
           bindP (unmapPlayerP pid) (\<lambda>_.
           modP (\<lambda>s. s\<lparr>m_players := AList.delete pid (m_players s)\<rparr>)))))) (\<lambda>_.
     bindP (broadcastPlayerLeaveP E pid ''disconnected'') (\<lambda>_.
     bindP (fireEventP cb E ''onPlayerDisconnect'' [to_string pid]) (\<lambda>_.
     bindP (if has_authority E
            then bindP (call_authorityP E (AAuthorityDisconnect pid)) (\<lambda>_. Return ())
            else Return ()) (\<lambda>_.
     bindP playerCountP (\<lambda>_. Return ()))))))"

definition onDisconnectP :: "env \<Rightarrow> u16 \<Rightarrow> (server, unit) prog" where
  "onDisconnectP E = onDisconnect_bodyP (\<lambda>_. Fail StackOverflow) E"

definition send_auth_responseP :: "env \<Rightarrow> u16 \<Rightarrow> (string \<times> json) list \<Rightarrow> (server, unit) prog" where
  "send_auth_responseP E session_id members = bindP (liftP (dumpE E (JObj members))) (\<lambda>str.
     tcp_sendP session_id (buildStr AUTH_RESPONSE 0 0 str))"

definition auth_errorP :: "env \<Rightarrow> u16 \<Rightarrow> string \<Rightarrow> (server, unit) prog" where
  "auth_errorP E session_id err =
     send_auth_responseP E session_id [(''ok'', JBool False), (''error'', JStr err)]"

definition auth_okP :: "env \<Rightarrow> u16 \<Rightarrow> u16 \<Rightarrow> (server, unit) prog" where
  "auth_okP E session_id pid = send_auth_responseP E session_id
     [(''ok'', JBool True), (''player_id'', JInt (uint pid)), (''map'', JStr (cfg_map (e_cfg E)))]"

definition auth_rejectP ::
    "(u16 \<Rightarrow> (server, unit) prog) \<Rightarrow> env \<Rightarrow> u16 \<Rightarrow> string \<Rightarrow> (server, unit) prog" where
  "auth_rejectP cb E session_id err =
     bindP (auth_errorP E session_id err) (\<lambda>_. tcp_disconnectP cb session_id)"

definition add_playerP :: "u16 \<Rightarrow> u16 \<Rightarrow> Player \<Rightarrow> (server, unit) prog" where
  "add_playerP session_id pid p = lockP PlayersMutex (
     bindP (modP (\<lambda>s. s\<lparr>m_session_to_player := AList.update session_id pid (m_session_to_player s)\<rparr>)) (\<lambda>_.
     modP (\<lambda>s. s\<lparr>m_players := AList.update pid p (m_players s)\<rparr>)))"

definition handleAuth_bridgeP ::
    "(u16 \<Rightarrow> (server, unit) prog) \<Rightarrow> env \<Rightarrow> u16 \<Rightarrow> string \<Rightarrow> (server, unit) prog" where
  "handleAuth_bridgeP cb E session_id password =
     (if \<not> has_authority E \<or> password \<noteq> cfg_bridge_token (e_cfg E)
      then auth_rejectP cb E session_id ''Bridge token mismatch''
      else
      bindP allocPlayerIDP (\<lambda>pid.
      bindP (getRemoteIPP session_id) (\<lambda>ip.
      bindP (getP steady_now) (\<lambda>now.
      bindP (add_playerP session_id pid (new_player\<lparr>pl_id := pid, pl_username := BRIDGE_NAME,
          pl_role := ''bridge'', pl_ip := ip, pl_state := READY_STATE,
          pl_connect_time := now, pl_last_packet_time := now\<rparr>)) (\<lambda>_.
      bindP (auth_okP E session_id pid) (\<lambda>_.
      bindP (call_authorityP E (AHeadlessConnect pid)) (\<lambda>_. Return ())))))))"

definition handleAuth_playerP ::
    "(u16 \<Rightarrow> (server, unit) prog) \<Rightarrow> env \<Rightarrow> u16 \<Rightarrow> string \<Rightarrow> json \<Rightarrow> (server, unit) prog" where
  "handleAuth_playerP cb E session_id username j =
     bindP allocPlayerIDP (\<lambda>pid.
     bindP (liftP (valueE E j ''role'' ''player'')) (\<lambda>role.
     bindP (getRemoteIPP session_id) (\<lambda>ip.
     bindP (getP steady_now) (\<lambda>now.
     bindP (add_playerP session_id pid (new_player\<lparr>pl_id := pid, pl_username := username,
         pl_role := role, pl_ip := ip, pl_state := LOADING_MODS,
         pl_connect_time := now, pl_last_packet_time := now\<rparr>)) (\<lambda>_.
     bindP (fireEventP cb E ''onPlayerAuth'' [to_string pid, username]) (\<lambda>veto.
     if vetoed veto
     then bindP (lockP PlayersMutex (
              bindP (modP (\<lambda>s. s\<lparr>m_players := AList.delete pid (m_players s)\<rparr>)) (\<lambda>_.
              modP (\<lambda>s. s\<lparr>m_session_to_player := AList.delete session_id (m_session_to_player s)\<rparr>)))) (\<lambda>_.
          auth_rejectP cb E session_id veto)
     else
     bindP (auth_okP E session_id pid) (\<lambda>_.
     bindP (sendServerInfoP E session_id) (\<lambda>_.
     bindP playerCountP (\<lambda>_. Return ())))))))))"

definition handleAuthP ::
    "(u16 \<Rightarrow> (server, unit) prog) \<Rightarrow> env \<Rightarrow> u16 \<Rightarrow> bytes \<Rightarrow> u16 \<Rightarrow> (server, unit) prog" where
  "handleAuthP cb E session_id pl len =
     bindP (liftP (read_bytes pl (unat len))) (\<lambda>body.
     case json_parse E (string_of_bytes body) of
       None \<Rightarrow> auth_errorP E session_id ''Invalid JSON''
     | Some j \<Rightarrow>
       bindP (liftP (valueE E j ''username'' [])) (\<lambda>username.
       bindP (liftP (valueE E j ''server_password'' [])) (\<lambda>password.
       if username = BRIDGE_NAME then handleAuth_bridgeP cb E session_id password
       else if username = [] then auth_errorP E session_id ''Username required''
       else if cfg_password (e_cfg E) \<noteq> [] \<and> password \<noteq> cfg_password (e_cfg E)
       then auth_rejectP cb E session_id ''Wrong password''
       else bindP playerCountP (\<lambda>n.
         if n \<ge> cfg_max_players (e_cfg E) then auth_rejectP cb E session_id ''Server full''
         else handleAuth_playerP cb E session_id username j))))"

section \<open>Packet handlers\<close>

definition handleReadyP :: "(u16 \<Rightarrow> (server, unit) prog) \<Rightarrow> env \<Rightarrow> u16 \<Rightarrow> (server, unit) prog" where
  "handleReadyP cb E pid = bindP (getPlayerP pid) (\<lambda>p. case p of
       None \<Rightarrow> Return ()
     | Some _ \<Rightarrow>
       bindP (pokeP pid (\<lambda>p. p\<lparr>pl_state := READY_STATE\<rparr>)) (\<lambda>_.
       bindP (broadcastPlayerJoinP E pid) (\<lambda>_.
       bindP (derefP pid pl_username) (\<lambda>name.
       bindP (fireEventP cb E ''onPlayerJoin'' [to_string pid, name]) (\<lambda>_.
       bindP (sendChatP (uint pid) (''Welcome to '' @ cfg_name (e_cfg E) @ ''!'')) (\<lambda>_.
       derefP pid (\<lambda>_. ())))))))"

definition handleVehicleSpawnP ::
    "(u16 \<Rightarrow> (server, unit) prog) \<Rightarrow> env \<Rightarrow> u16 \<Rightarrow> bytes \<Rightarrow> u16 \<Rightarrow> (server, unit) prog" where
  "handleVehicleSpawnP cb E pid pl len =
     bindP (liftP (read_bytes pl (unat len))) (\<lambda>body.
     case json_parse E (string_of_bytes body) of
       None \<Rightarrow> Return ()
     | Some j \<Rightarrow> bindP (getPlayerP pid) (\<lambda>p. case p of
         None \<Rightarrow> Return ()
       | Some _ \<Rightarrow> bindP (derefP pid (\<lambda>p. length (pl_vehicles p))) (\<lambda>n.
         if int n \<ge> cfg_vehicle_limit_per_player (e_cfg E) then Return ()
         else
         bindP (derefP pid (\<lambda>p. word_of_nat (length (pl_vehicles p)))) (\<lambda>vid.
         bindP (liftP (valueE E j ''model'' ''etk800'')) (\<lambda>model.
         bindP (liftP (dumpE E j)) (\<lambda>config.
         bindP (pokeP pid (\<lambda>p. p\<lparr>pl_vehicles := pl_vehicles p
               @ [\<lparr>pv_vehicle_id = vid, pv_model = model, pv_config = config,
                   pv_last_state = zero_state, pv_spawned = True\<rparr>]\<rparr>)) (\<lambda>_.
         bindP (liftP (dumpE E (JObj [(''type'', JStr ''vehicle_spawn''), (''player_id'', JInt (uint pid)),
             (''vehicle_id'', JInt (uint vid)), (''model'', JStr model),
             (''config'', JStr config)]))) (\<lambda>str.
         bindP (tcp_sendAllP (buildStr VEHICLE_SPAWN pid 0 str) NO_EXCLUDE) (\<lambda>_.
         bindP (fireEventP cb E ''onVehicleSpawn'' [to_string pid, model]) (\<lambda>_. Return ()))))))))))"

definition handleVehicleDeleteP ::
    "(u16 \<Rightarrow> (server, unit) prog) \<Rightarrow> env \<Rightarrow> u16 \<Rightarrow> bytes \<Rightarrow> u16 \<Rightarrow> (server, unit) prog" where
  "handleVehicleDeleteP cb E pid pl len =
     (if len < 1 then Return ()
      else bindP (liftP (read_bytes pl 1)) (\<lambda>b. let vid = hd b in
        bindP (getPlayerP pid) (\<lambda>p. case p of
          None \<Rightarrow> Return ()
        | Some _ \<Rightarrow>
          bindP (modP (\<lambda>s. s\<lparr>m_entries := onVehicleDelete pid vid (m_entries s)\<rparr>)) (\<lambda>_.
          bindP (pokeP pid (\<lambda>p. p\<lparr>pl_vehicles :=
                filter (\<lambda>v. \<not> pv_vehicle_id v = vid) (pl_vehicles p)\<rparr>)) (\<lambda>_.
          bindP (tcp_sendAllP (build VEHICLE_DELETE pid 0 (Some [vid]) 1 0) NO_EXCLUDE) (\<lambda>_.
          bindP (fireEventP cb E ''onVehicleDelete'' [to_string pid, to_string vid]) (\<lambda>_.
          Return ())))))))"

definition handleVehicleUpdateP :: "u16 \<Rightarrow> u16 \<Rightarrow> (server, unit) prog" where
  "handleVehicleUpdateP pid len =
     (if unat len < STATE_SIZE then Return ()
      else bindP (getP (recv_slice HEADER_SIZE STATE_SIZE)) (\<lambda>r. bindP (liftP r) (\<lambda>pl.
        bindP (liftP (parseVehicleState pl len)) (\<lambda>vs.
        modP (\<lambda>s. s\<lparr>m_entries := onVehicleUpdate pid vs (m_entries s)\<rparr>)))))"

definition handleChatP ::
    "(u16 \<Rightarrow> (server, unit) prog) \<Rightarrow> env \<Rightarrow> u16 \<Rightarrow> bytes \<Rightarrow> u16 \<Rightarrow> (server, unit) prog" where
  "handleChatP cb E pid pl len =
     bindP (liftP (read_bytes pl (unat len))) (\<lambda>body. bindP (getPlayerP pid) (\<lambda>p. case p of
         None \<Rightarrow> Return ()
       | Some _ \<Rightarrow> bindP (derefP pid pl_is_muted) (\<lambda>muted.
         if muted then Return ()
         else let msg = take 256 (string_of_bytes body) in
         bindP (derefP pid pl_username) (\<lambda>name.
         bindP (fireEventP cb E ''onChatMessage'' [to_string pid, name, msg]) (\<lambda>blocked.
         if vetoed blocked then Return ()
         else bindP (derefP pid pl_username) (\<lambda>name. sendChatP (-1) (name @ '': '' @ msg)))))))"

section \<open>Dispatch\<close>

definition onTCPPacketP ::
    "(u16 \<Rightarrow> (server, unit) prog) \<Rightarrow> env \<Rightarrow> u16 \<Rightarrow> bytes \<Rightarrow> (server, unit) prog" where
  "onTCPPacketP cb E session_id data =
     bindP (liftP (parseHeader data)) (\<lambda>hdr. let pl = payload data; plen = hdr_payload_len hdr in
     bindP (lockP PlayersMutex (getP (\<lambda>s. case map_of (m_session_to_player s) session_id of
         Some p \<Rightarrow> p | None \<Rightarrow> 0xFFFF))) (\<lambda>pid.
     case type_of_byte (hdr_type hdr) of
       Some AUTH_REQUEST \<Rightarrow> handleAuthP cb E session_id pl plen
     | Some VEHICLE_SPAWN \<Rightarrow> if pid \<noteq> 0xFFFF then handleVehicleSpawnP cb E pid pl plen else Return ()
     | Some VEHICLE_DELETE \<Rightarrow> if pid \<noteq> 0xFFFF then handleVehicleDeleteP cb E pid pl plen else Return ()
     | Some CHAT_MESSAGE \<Rightarrow> if pid \<noteq> 0xFFFF then handleChatP cb E pid pl plen else Return ()
     | Some READY \<Rightarrow> if pid \<noteq> 0xFFFF then handleReadyP cb E pid else Return ()
     | Some AUTHORITY_CLAIM \<Rightarrow> if pid \<noteq> 0xFFFF then handleAuthorityClaimP E pid else Return ()
     | _ \<Rightarrow> Return ()))"

definition onUDPPacketP :: "env \<Rightarrow> UDPEndpoint \<Rightarrow> nat \<Rightarrow> (server, unit) prog" where
  "onUDPPacketP E from len =
     bindP (getP (\<lambda>s. if len < HEADER_SIZE then Inl (Uncaught ''Packet too short'')
            else bindE (recv_slice 0 HEADER_SIZE s) parseHeader)) (\<lambda>r. bindP (liftP r) (\<lambda>hdr.
     if type_of_byte (hdr_type hdr) = Some PING
     then udp_sendP from (build PONG 0 (hdr_sequence hdr) None 0 0)
     else
     bindP (playerFromEndpointP from) (\<lambda>pid.
     if pid = 0xFFFF then Return ()
     else if type_of_byte (hdr_type hdr) = Some VEHICLE_UPDATE then
       bindP (getP (\<lambda>s. has_authority E \<and> isAuthority E (authority_history s) pid)) (\<lambda>auth.
       if auth \<and> hdr_payload_len hdr \<ge> 2
        then bindP (getP (recv_slice (HEADER_SIZE + 1) 1)) (\<lambda>r. bindP (liftP r) (\<lambda>vflags.
          if hd vflags AND VF_IS_AI \<noteq> 0
          then bindP (getP (recv_slice 0 (unat (hdr_payload_len hdr) + HEADER_SIZE))) (\<lambda>r.
            bindP (liftP r) (\<lambda>raw. udp_sendAllP raw pid))
          else handleVehicleUpdateP pid (hdr_payload_len hdr)))
        else handleVehicleUpdateP pid (hdr_payload_len hdr))
     else Return ())))"

definition udp_receiveP :: "(UDPEndpoint \<Rightarrow> nat \<Rightarrow> (server, unit) prog) \<Rightarrow> UDPEndpoint \<Rightarrow> bytes \<Rightarrow> (server, unit) prog" where
  "udp_receiveP recv_cb from data =
     (let n = length data in
      bindP (modP (\<lambda>s. s\<lparr>m_recv_buf := (\<lambda>i. if i < n then data ! i else m_recv_buf s i)\<rparr>)) (\<lambda>_.
      if HEADER_SIZE \<le> n then recv_cb from n else Return ()))"

section \<open>Loops and shutdown\<close>

text \<open>
  One round of the loop of \<open>broadcastAll\<close>. The bounds of the range are taken before the first round; an
  entry that is gone by then is read through an invalid iterator.
\<close>

definition sync_entryP :: "nat \<Rightarrow> (server, unit) prog" where
  "sync_entryP i = bindP (getP m_entries) (\<lambda>es.
     if \<not> i < length es then Fail Dangling
     else if \<not> se_dirty (es ! i) then Return ()
     else let e = es ! i; seq = se_seq e + 1 in
       bindP (modP (\<lambda>s. s\<lparr>m_entries := (m_entries s)[i := (m_entries s ! i)\<lparr>se_seq := seq\<rparr>]\<rparr>)) (\<lambda>_.
       bindP (udp_sendAllP (buildVehicleUpdate (se_owner_id e) seq (se_state e)) (se_owner_id e)) (\<lambda>_.
       modP (\<lambda>s. s\<lparr>m_entries := (m_entries s)[i := (m_entries s ! i)\<lparr>se_dirty := False\<rparr>]\<rparr>))))"

definition vehicleSync_tickP :: "(server, unit) prog" where
  "vehicleSync_tickP = bindP (getP (\<lambda>s. length (m_entries s))) (\<lambda>n. foldP sync_entryP [0..<n])"

definition ai_player_infoP :: "float_ops \<Rightarrow> (server, PlayerInfo list) prog" where
  "ai_player_infoP F = lockP PlayersMutex (getP (\<lambda>s.
     map (\<lambda>(pid, p). info_of_state F (pv_last_state (hd (pl_vehicles p))))
       (filter (\<lambda>(pid, p). pl_username p \<noteq> BRIDGE_NAME \<and> pl_vehicles p \<noteq> []) (m_players s))))"

definition ai_tickP :: "env \<Rightarrow> (server, unit) prog" where
  "ai_tickP E = bindP (ai_player_infoP (e_floats E)) (\<lambda>infos.
     bindP (modP (\<lambda>s. s\<lparr>ai_history := ai_history s @ [AITick infos]\<rparr>)) (\<lambda>_.
     bindP (getP (\<lambda>s. ai_packets E (ai_history s))) (foldP (\<lambda>pkt. udp_sendAllP pkt NO_EXCLUDE))))"

definition masterHeartbeatP :: "(server, unit) prog" where
  "masterHeartbeatP = bindP playerCountP (\<lambda>_. Return ())"

definition stop_serverP :: "(u16 \<Rightarrow> (server, unit) prog) \<Rightarrow> env \<Rightarrow> (server, unit) prog" where
  "stop_serverP cb E = bindP (exchangeP m_running (\<lambda>s. s\<lparr>m_running := False\<rparr>)) (\<lambda>was.
     if \<not> was then Return ()
     else bindP (fireEventP cb E ''onShutdown'' []) (\<lambda>_. Return ()))"

fun handleP :: "env \<Rightarrow> event \<Rightarrow> (server, unit) prog" where
  "handleP E EvStart = bindP (modP (\<lambda>s. s\<lparr>m_running := True\<rparr>)) (\<lambda>_.
     bindP (fireEventP (onDisconnectP E) E ''onInit'' []) (\<lambda>_. Return ()))"
| "handleP E (EvAccept ip) = tcp_acceptP ip"
| "handleP E (EvFrame sid data) = onTCPPacketP (onDisconnectP E) E sid data"
| "handleP E (EvClose sid) = onSessionCloseP (onDisconnectP E) sid"
| "handleP E (EvDatagram ep data) = udp_receiveP (onUDPPacketP E) ep data"
| "handleP E EvSyncTick = vehicleSync_tickP"
| "handleP E EvNegotiate = (if has_authority E
     then bindP (call_authorityP E ANegotiate) (\<lambda>_. Return ()) else Return ())"
| "handleP E EvAITick = (if has_authority E then ai_tickP E else Return ())"
| "handleP E EvHeartbeat = masterHeartbeatP"
| "handleP E (EvLua code) =
     bindP (lua_enterP (onDisconnectP E) E (LuaChunk (c_str code))) (\<lambda>_. Return ())"
| "handleP E (EvKick pid reason) = kickPlayerP (onDisconnectP E) pid reason"
| "handleP E (EvBan pid reason) = banPlayerP (onDisconnectP E) pid reason"
| "handleP E (EvSay msg) = sendChatP (-1) (''[Admin] '' @ msg)"
| "handleP E (EvAI c) = modP (\<lambda>s. s\<lparr>ai_history := ai_history s @ [c]\<rparr>)"
| "handleP E EvStop = stop_serverP (onDisconnectP E) E"

end
