(* ===== verification/Server_Alone.thy ===== *)
theory Server_Alone
  imports Server_Threads Server_Frame
begin

text \<open>
  Run alone, the program of a handler does exactly what the handler of \<open>Game_Server\<close> does.
\<close>

section \<open>Values of programs\<close>

named_theorems alone_simps \<open>what the programs of the server do when they run alone\<close>

text \<open>The simplifier enters the bodies of scopes and the continuations.\<close>

lemma with_lock_cong: "s = s' \<Longrightarrow> (\<And>t. b t = b' t) \<Longrightarrow> with_lock m b s = with_lock m b' s'"
  by (simp add: with_lock_def)

lemma bindE_cong: "m = m' \<Longrightarrow> (\<And>x. m' = Inr x \<Longrightarrow> k x = k' x) \<Longrightarrow> bindE m k = bindE m' k'"
  by (cases m) auto

lemma foldE_cong: "s = s' \<Longrightarrow> (\<And>x t. f x t = f' x t) \<Longrightarrow> foldE f xs s = foldE f' xs s'"
  by (induction xs arbitrary: s s') (auto intro: bindE_cong)

lemmas alone_cong = with_lock_cong bindE_cong option.case_cong if_cong

lemma foldE_append_out: "foldE (\<lambda>x s. Inr (h x s)) xs s = Inr (fold h xs s)"
  by (induction xs arbitrary: s) simp_all

lemma run_tcp_accept [alone_simps]: "run (tcp_acceptP ip) s = tcp_accept ip s"
  by (simp add: tcp_acceptP_def tcp_accept_def run_simps run_bindP Let_def cong: alone_cong)

lemma run_session_send: "run (session_sendP i d) s = Inr (s\<lparr>tcp_out := tcp_out s @ [(i, session_frame d)]\<rparr>)"
  by (simp add: session_sendP_def run_simps)

lemma run_tcp_send [alone_simps]: "run (tcp_sendP i d) s = tcp_send i d s"
  by (simp add: tcp_sendP_def tcp_send_def run_simps run_bindP run_session_send cong: alone_cong)

lemma fold_session_send: "fold (\<lambda>(i, _) s. if i \<noteq> x then s\<lparr>tcp_out := tcp_out s @ [(i, f)]\<rparr> else s) ss s =
    s\<lparr>tcp_out := tcp_out s @ map (\<lambda>(i, _). (i, f)) (filter (\<lambda>(i, _). i \<noteq> x) ss)\<rparr>"
  by (induction ss arbitrary: s) auto

lemma run_tcp_sendAll [alone_simps]: "run (tcp_sendAllP d x) s = tcp_sendAll d x s"
proof -
  have "run (foldP (\<lambda>(i, _). if i \<noteq> x then session_sendP i d else Return ()) ss) s =
      Inr (fold (\<lambda>(i, _) s. if i \<noteq> x then s\<lparr>tcp_out := tcp_out s @ [(i, session_frame d)]\<rparr> else s) ss s)"
    for ss :: "(u16 \<times> string) list" and s
    by (induction ss arbitrary: s) (auto simp: run_basic run_seqP run_session_send)
  then show ?thesis
    by (simp add: tcp_sendAllP_def tcp_sendAll_def run_lockP run_bindP fold_session_send cong: alone_cong)
qed

lemma fold_udp_send: "fold (\<lambda>(p, ep) s. if p = x then s else udp_send ep d s) es s =
    s\<lparr>udp_out := udp_out s @ map (\<lambda>(p, ep). (ep, d)) (filter (\<lambda>(p, ep). \<not> p = x) es)\<rparr>"
  by (induction es arbitrary: s) (auto simp: udp_send_def)

lemma run_udp_sendAll [alone_simps]: "run (udp_sendAllP d x) s = udp_sendAll d x s"
proof -
  have "run (foldP (\<lambda>(p, ep). if p = x then Return () else udp_sendP ep d) es) s =
      Inr (fold (\<lambda>(p, ep) s. if p = x then s else udp_send ep d s) es s)" for es s
    by (induction es arbitrary: s) (auto simp: run_basic run_seqP udp_sendP_def)
  then show ?thesis
    by (simp add: udp_sendAllP_def udp_sendAll_def run_lockP run_bindP fold_udp_send cong: alone_cong)
qed

lemma run_unmapPlayer [alone_simps]: "run (unmapPlayerP p) s = unmapPlayer p s"
  by (simp add: unmapPlayerP_def unmapPlayer_def run_simps run_bindP cong: alone_cong)

lemma exec_playerFromEndpoint [alone_simps]:
  "exec (playerFromEndpointP ep) s = bindE (playerFromEndpoint ep s) (\<lambda>p. Inr (p, s))"
  by (simp add: playerFromEndpointP_def playerFromEndpoint_def exec_lock_read)

lemma exec_getRemoteIP [alone_simps]: "exec (getRemoteIPP i) s = bindE (getRemoteIP i s) (\<lambda>ip. Inr (ip, s))"
  by (simp add: getRemoteIPP_def getRemoteIP_def exec_lock_read)

lemma exec_getPlayer [alone_simps]: "exec (getPlayerP i) s = bindE (getPlayer i s) (\<lambda>p. Inr (p, s))"
  by (simp add: getPlayerP_def getPlayer_def exec_lock_read)

lemma exec_playerCount [alone_simps]: "exec playerCountP s = bindE (playerCount s) (\<lambda>n. Inr (n, s))"
  by (simp add: playerCountP_def playerCount_def exec_lock_read)

lemma exec_deref [alone_simps]: "exec (derefP i f) s = (case map_of (m_players s) i of
    None \<Rightarrow> Inl Dangling | Some p \<Rightarrow> Inr (f p, s))"
  by (simp add: derefP_def exec_bindP split: option.split)

lemma run_poke [alone_simps]: "run (pokeP i f) s = (case map_of (m_players s) i of
    None \<Rightarrow> Inl Dangling | Some p \<Rightarrow> Inr (upd_player i f s))"
  by (simp add: pokeP_def run_bindP exec_deref run_basic split: option.split)

lemma exec_poke: "exec (pokeP i f) s = (case map_of (m_players s) i of
    None \<Rightarrow> Inl Dangling | Some p \<Rightarrow> Inr ((), upd_player i f s))"
  by (simp add: exec_unit run_poke split: option.split)

lemma exec_allocPlayerID [alone_simps]: "exec allocPlayerIDP s = Inr (allocPlayerID s)"
  by (simp add: allocPlayerIDP_def exec_bindP allocPlayerID_def Let_def)

lemma run_disconnect [alone_simps]:
  assumes "\<And>i s. run (cb i) s = cb' i s"
  shows "run (onSessionCloseP cb i) s = onSessionClose cb' i s"
    and "run (tcp_disconnectP cb i) s = tcp_disconnect cb' i s"
proof -
  show *: "run (onSessionCloseP cb i) s = onSessionClose cb' i s" for i s
    by (simp add: onSessionCloseP_def onSessionClose_def run_simps assms cong: alone_cong)
  show "run (tcp_disconnectP cb i) s = tcp_disconnect cb' i s"
    by (simp add: tcp_disconnectP_def tcp_disconnect_def run_simps run_bindP * cong: alone_cong)
qed

section \<open>Players\<close>

lemma run_sendChat [alone_simps]: "run (sendChatP i m) s = sendChat i m s"
  by (simp add: sendChatP_def sendChat_def Let_def run_simps run_bindP alone_simps cong: alone_cong)

lemma run_broadcastPlayerLeave [alone_simps]: "run (broadcastPlayerLeaveP E p r) s = broadcastPlayerLeave E p r s"
  by (simp add: broadcastPlayerLeaveP_def broadcastPlayerLeave_def run_bindP bindE_assoc alone_simps cong: alone_cong)

lemma run_broadcastPlayerJoin [alone_simps]: "run (broadcastPlayerJoinP E i) s = (case map_of (m_players s) i of
    None \<Rightarrow> Inl Dangling | Some p \<Rightarrow> broadcastPlayerJoin E p s)"
  by (simp add: broadcastPlayerJoinP_def broadcastPlayerJoin_def run_bindP bindE_assoc alone_simps
      split: option.split cong: with_lock_cong bindE_cong)

lemma run_sendServerInfo [alone_simps]: "run (sendServerInfoP E i) s = sendServerInfo E i s"
  by (simp add: sendServerInfoP_def sendServerInfo_def run_bindP bindE_assoc alone_simps cong: alone_cong)

lemma run_kickPlayer [alone_simps]:
  assumes "\<And>i s. run (cb i) s = cb' i s"
  shows "run (kickPlayerP cb i r) s = kickPlayer cb' i r s"
  by (simp add: kickPlayerP_def kickPlayer_def Let_def run_simps run_bindP alone_simps
      run_disconnect [OF assms] cong: alone_cong)

lemma getPlayer_Some: "getPlayer i s = Inr (Some p) \<Longrightarrow> map_of (m_players s) i = Some p"
  by (simp add: getPlayer_def read_locked_def split: if_splits)

lemma run_banPlayer [alone_simps]:
  assumes "\<And>i s. run (cb i) s = cb' i s"
  shows "run (banPlayerP cb i r) s = banPlayer cb' i r s"
  unfolding banPlayerP_def banPlayer_def
  by (simp add: run_bindP bindE_assoc alone_simps run_kickPlayer [OF assms] cong: bindE_cong)
    (auto intro!: bindE_cong split: option.split simp: exec_bindP exec_poke exec_deref getPlayer_Some map_of_upd_player)

section \<open>Plugins and AI authority\<close>

lemma run_lua_api [alone_simps]:
  assumes "\<And>i s. run (cb i) s = cb' i s"
  shows "run (lua_apiP cb c) s = lua_api cb' c s"
  by (cases c) (simp_all add: alone_simps run_basic run_kickPlayer [OF assms] run_banPlayer [OF assms])

lemma exec_foldP: "exec (foldP f xs) s = bindE (foldE (\<lambda>x. run (f x)) xs s) (\<lambda>t. Inr ((), t))"
  by (simp add: exec_unit run_foldP)

lemma exec_lua_enter [alone_simps]:
  assumes "\<And>i s. run (cb i) s = cb' i s"
  shows "exec (lua_enterP cb E inp) s = lua_enter cb' E inp s"
proof -
  have "run (lua_apiP cb c) = lua_api cb' c" for c by (rule ext) (rule run_lua_api [OF assms])
  then show ?thesis
    by (simp add: lua_enterP_def lua_enter_def exec_bindP exec_foldP bindE_assoc Let_def split_beta)
qed

lemma exec_fireEvent [alone_simps]:
  assumes "\<And>i s. run (cb i) s = cb' i s"
  shows "exec (fireEventP cb E ev args) s = fireEvent cb' E ev args s"
  by (simp add: fireEventP_def fireEvent_def exec_bindP exec_lua_enter [OF assms] split_beta)

lemma run_grantAuthority [alone_simps]: "run (grantAuthorityP E p) s = grantAuthority E p s"
  by (simp add: grantAuthorityP_def grantAuthority_def run_lockP run_option run_bindP bindE_assoc alone_simps run_basic
      cong: alone_cong)

lemma run_revokeAuthority [alone_simps]: "run (revokeAuthorityP p) s = revokeAuthority p s"
  by (simp add: revokeAuthorityP_def revokeAuthority_def run_lockP run_option run_bindP alone_simps run_basic
      cong: alone_cong)

lemma run_authority_cb [alone_simps]: "run (authority_cbP E c) s = authority_cb E c s"
  by (cases c) (simp_all add: alone_simps run_basic)

lemma exec_call_authority [alone_simps]: "exec (call_authorityP E c) s = call_authority E c s"
proof -
  have "run (authority_cbP E c) = authority_cb E c" for c by (rule ext) (rule run_authority_cb)
  then show ?thesis
    by (simp add: call_authorityP_def call_authority_def exec_bindP exec_foldP bindE_assoc Let_def split_beta)
qed

lemma run_handleAuthorityClaim [alone_simps]: "run (handleAuthorityClaimP E p) s = handleAuthorityClaim E p s"
  by (simp add: handleAuthorityClaimP_def handleAuthorityClaim_def run_bindP run_if run_basic alone_simps split_beta
      cong: alone_cong)

section \<open>Connections\<close>

lemma run_unlink: "exec (lockP PlayersMutex (
     bindP (getP (\<lambda>s. map_of (m_session_to_player s) i)) (\<lambda>v. case v of
       None \<Rightarrow> Return (0xFFFF :: u16)
     | Some p \<Rightarrow> bindP (modP (\<lambda>s. s\<lparr>m_session_to_player := AList.delete i (m_session_to_player s)\<rparr>))
         (\<lambda>_. Return p)))) s =
   bindE (with_lock PlayersMutex (\<lambda>s. Inr (s
       \<lparr>m_session_to_player := AList.delete i (m_session_to_player s)\<rparr>)) s)
     (\<lambda>t. Inr (case map_of (m_session_to_player s) i of Some p \<Rightarrow> p | None \<Rightarrow> 0xFFFF, t))"
proof (cases "map_of (m_session_to_player s) i")
  case None
  then have "AList.delete i (m_session_to_player s) = m_session_to_player s"
    by (simp add: map_of_eq_None_iff)
  with None show ?thesis by (simp add: exec_lockP exec_bindP with_lock_def)
qed (simp add: exec_lockP exec_bindP with_lock_def)

lemma run_onDisconnect_body:
  assumes "\<And>i s. run (cb i) s = cb' i s"
  shows "run (onDisconnect_bodyP cb E i) s = onDisconnect_body cb' E i s"
  unfolding onDisconnect_bodyP_def onDisconnect_body_def Let_def
  by (subst run_bindP) (simp add: run_unlink exec_unit run_lockP run_if run_option run_bindP run_basic bindE_assoc
      exec_fireEvent [OF assms] alone_simps split_beta cong: alone_cong)

lemma run_onDisconnect [alone_simps]: "run (onDisconnectP E i) s = onDisconnect E i s"
  unfolding onDisconnectP_def onDisconnect_def by (rule run_onDisconnect_body) (simp add: run_basic)

lemma run_send_auth_response: "run (send_auth_responseP E i ms) s = send_auth_response E i ms s"
  by (simp add: send_auth_responseP_def send_auth_response_def run_bindP bindE_assoc alone_simps cong: alone_cong)

lemma run_auth_answers [alone_simps]: "run (auth_errorP E i e) s = auth_error E i e s"
  "run (auth_okP E i p) s = auth_ok E i p s"
  by (simp_all add: auth_errorP_def auth_error_def auth_okP_def auth_ok_def run_send_auth_response)

lemma run_auth_reject:
  assumes "\<And>i s. run (cb i) s = cb' i s"
  shows "run (auth_rejectP cb E i e) s = auth_reject cb' E i e s"
  by (simp add: auth_rejectP_def auth_reject_def run_seqP run_auth_answers run_disconnect [OF assms] cong: alone_cong)

lemma run_add_player [alone_simps]: "run (add_playerP i p q) s = add_player i p q s"
  by (simp add: add_playerP_def add_player_def run_lockP run_seqP run_basic cong: alone_cong)

lemma steady_now_kept: "allocPlayerID s = (p, u) \<Longrightarrow> steady_now u = steady_now s"
  by (auto simp: allocPlayerID_def Let_def)

lemma run_handleAuth_bridge:
  assumes "\<And>i s. run (cb i) s = cb' i s"
  shows "run (handleAuth_bridgeP cb E i pw) s = handleAuth_bridge cb' E i pw s"
  by (simp add: handleAuth_bridgeP_def handleAuth_bridge_def run_if run_seqP run_bindP run_basic bindE_assoc
      run_auth_reject [OF assms] alone_simps split_beta Let_def cong: alone_cong)

lemma run_handleAuth_player:
  assumes "\<And>i s. run (cb i) s = cb' i s"
  shows "run (handleAuth_playerP cb E i n j) s = handleAuth_player cb' E i n j s"
  by (simp add: handleAuth_playerP_def handleAuth_player_def run_if run_lockP run_seqP run_bindP run_basic bindE_assoc
      run_auth_reject [OF assms] exec_fireEvent [OF assms] alone_simps split_beta Let_def cong: alone_cong)

lemma run_handleAuth:
  assumes "\<And>i s. run (cb i) s = cb' i s"
  shows "run (handleAuthP cb E i pl n) s = handleAuth cb' E i pl n s"
  by (simp add: handleAuthP_def handleAuth_def run_if run_option run_bindP run_basic bindE_assoc
      run_auth_reject [OF assms] run_handleAuth_bridge [OF assms] run_handleAuth_player [OF assms]
      alone_simps cong: alone_cong)

section \<open>Packet handlers\<close>

text \<open>A plugin cannot rename or remove a player: the pointer a handler keeps across an event stays good.\<close>

lemma bindE_cong_post: "postE Q m \<Longrightarrow> (\<And>x. Q x \<Longrightarrow> k x = k' x) \<Longrightarrow> bindE m k = bindE m k'"
  by (cases m) auto

lemma bindE_id_post: "postE Q m \<Longrightarrow> (\<And>x. Q x \<Longrightarrow> k x = Inr x) \<Longrightarrow> bindE m k = m"
  by (cases m) auto

lemma names_Some: "names s i = Some n \<longleftrightarrow> (\<exists>p. map_of (m_players s) i = Some p \<and> pl_username p = n)"
  by (auto simp: names_def)

lemma exec_deref_name: "names s i = Some n \<Longrightarrow> exec (derefP i pl_username) s = Inr (n, s)"
  and exec_deref_alive: "names s i = Some n \<Longrightarrow> exec (derefP i (\<lambda>_. ())) s = Inr ((), s)"
  by (auto simp: names_Some exec_deref)

lemma run_handleReady:
  assumes "\<And>i s. run (cb i) s = cb' i s"
  shows "run (handleReadyP cb E pid) s = handleReady cb' E pid s"
proof (cases "getPlayer pid s")
  case (Inr v)
  show ?thesis
  proof (cases v)
    case (Some p)
    let ?s = "upd_player pid (\<lambda>p. p\<lparr>pl_state := READY_STATE\<rparr>) s"
    have p: "map_of (m_players s) pid = Some p" by (rule getPlayer_Some) (simp add: Inr Some)
    have n: "names ?s pid = Some (pl_username p)" by (simp add: names_Some map_of_upd_player p)
    have join: "postE (\<lambda>t. names t = names ?s) (broadcastPlayerJoin E (p\<lparr>pl_state := READY_STATE\<rparr>) ?s)"
      using names.unchanged_broadcastPlayerJoin by (simp add: unchanged_def)
    show ?thesis
      unfolding handleReadyP_def handleReady_def
      apply (simp add: run_bindP exec_getPlayer bindE_assoc Inr Some exec_poke p run_basic)
      apply (simp add: exec_unit run_broadcastPlayerJoin map_of_upd_player p bindE_assoc)
      apply (rule bindE_cong_post [OF join])
      apply (simp add: exec_deref_name n run_bindP exec_fireEvent [OF assms])
      apply (rule bindE_cong_post [OF names.unchanged_fireEvent], clarsimp)
      apply (simp add: exec_unit alone_simps bindE_assoc)
      apply (rule bindE_id_post [OF names.unchanged_sendChat [unfolded unchanged_def]])
      apply (simp add: run_def exec_deref_alive n)
      done
  qed (simp add: handleReadyP_def handleReady_def run_bindP exec_getPlayer Inr run_basic)
qed (simp add: handleReadyP_def handleReady_def run_bindP exec_getPlayer)

lemma run_handleVehicleSpawn:
  assumes "\<And>i s. run (cb i) s = cb' i s"
  shows "run (handleVehicleSpawnP cb E pid pl n) s = handleVehicleSpawn cb' E pid pl n s"
  unfolding handleVehicleSpawnP_def handleVehicleSpawn_def Let_def
  by (simp add: run_bindP run_option run_if run_basic exec_unit bindE_assoc alone_simps exec_fireEvent [OF assms]
      getPlayer_Some split_beta cong: alone_cong)

lemma run_handleVehicleDelete:
  assumes "\<And>i s. run (cb i) s = cb' i s"
  shows "run (handleVehicleDeleteP cb E pid pl n) s = handleVehicleDelete cb' E pid pl n s"
  unfolding handleVehicleDeleteP_def handleVehicleDelete_def Let_def
  by (simp add: run_bindP run_option run_if run_basic exec_unit bindE_assoc alone_simps exec_fireEvent [OF assms]
      getPlayer_Some split_beta cong: alone_cong)

lemma run_handleVehicleUpdate: "run (handleVehicleUpdateP pid n) s = handleVehicleUpdate pid n s"
  unfolding handleVehicleUpdateP_def handleVehicleUpdate_def
  by (simp add: run_bindP run_if run_basic bindE_assoc cong: alone_cong)

lemma run_handleChat:
  assumes "\<And>i s. run (cb i) s = cb' i s"
  shows "run (handleChatP cb E pid pl n) s = handleChat cb' E pid pl n s"
  unfolding handleChatP_def handleChat_def Let_def
  apply (simp add: run_bindP run_option run_if run_basic bindE_assoc alone_simps exec_fireEvent [OF assms]
      getPlayer_Some cong: alone_cong)
  apply (intro bindE_cong refl option.case_cong if_cong)
  apply (clarsimp dest!: names.fired getPlayer_Some fun_cong [where x = pid] simp: names_def)
  done

section \<open>The synchronisation loop\<close>

abbreviation send_updates :: "(bytes \<times> u16) list \<Rightarrow> server \<Rightarrow> fault + server" where
  "send_updates \<equiv> foldE (\<lambda>(pkt, exclude). udp_sendAll pkt exclude)"

lemma udp_sendAll_entries: "udp_sendAll d x (s\<lparr>m_entries := es\<rparr>) =
    bindE (udp_sendAll d x s) (\<lambda>t. Inr (t\<lparr>m_entries := es\<rparr>))"
  by (simp add: udp_sendAll_def with_lock_def)

lemma send_updates_entries: "send_updates cs (s\<lparr>m_entries := es\<rparr>) =
    bindE (send_updates cs s) (\<lambda>t. Inr (t\<lparr>m_entries := es\<rparr>))"
proof (induction cs arbitrary: s)
  case (Cons c cs)
  have "send_updates cs (t\<lparr>m_entries := es\<rparr>) = bindE (send_updates cs t) (\<lambda>t. Inr (t\<lparr>m_entries := es\<rparr>))" for t
    by (rule Cons.IH)
  then show ?case by (cases c) (simp add: udp_sendAll_entries bindE_assoc cong: bindE_cong)
qed simp

lemma run_sync_entry:
  assumes "m_entries s = xs @ e # es"
  shows "run (sync_entryP (length xs)) s = (if \<not> se_dirty e then Inr s
    else bindE (udp_sendAll (buildVehicleUpdate (se_owner_id e) (se_seq e + 1) (se_state e)) (se_owner_id e) s)
      (\<lambda>t. Inr (t\<lparr>m_entries := xs @ flushed e # es\<rparr>)))"
  using assms by (simp add: sync_entryP_def run_bindP run_if run_basic exec_unit Let_def alone_simps bindE_assoc
      udp_sendAll_entries flushed_def nth_append cong: if_cong)

lemma run_sync_entries:
  assumes "m_entries s = xs @ es"
  shows "foldE (\<lambda>i. run (sync_entryP i)) [length xs..<length xs + length es] s =
    bindE (send_updates (snd (broadcastAll es)) s)
      (\<lambda>t. Inr (t\<lparr>m_entries := xs @ fst (broadcastAll es)\<rparr>))"
  using assms
proof (induction es arbitrary: xs s)
  case Nil
  then show ?case by simp
next
  case (Cons e es)
  have u: "[length xs..<length xs + length (e # es)] =
      length xs # [length (xs @ [flushed e])..<length (xs @ [flushed e]) + length es]"
    by (simp add: upt_rec)
  show ?case
  proof (cases "se_dirty e")
    case True
    have IH: "foldE (\<lambda>i. run (sync_entryP i)) [length (xs @ [flushed e])..<length (xs @ [flushed e]) + length es]
        (t\<lparr>m_entries := xs @ flushed e # es\<rparr>) = bindE (send_updates (snd (broadcastAll es)) t)
        (\<lambda>t. Inr (t\<lparr>m_entries := xs @ flushed e # fst (broadcastAll es)\<rparr>))" for t
      using Cons.IH [of "t\<lparr>m_entries := xs @ flushed e # es\<rparr>" "xs @ [flushed e]"]
      by (simp add: send_updates_entries bindE_assoc)
    obtain es' cs where b: "broadcastAll es = (es', cs)" by (cases "broadcastAll es")
    show ?thesis unfolding u foldE.simps run_sync_entry [OF Cons.prems]
      using True IH by (simp add: bindE_assoc Let_def b flushed_def del: upt.simps)
  next
    case False
    then have f: "flushed e = e" by (simp add: flushed_def)
    show ?thesis unfolding u
      using False Cons.IH [of s "xs @ [e]"] Cons.prems
      by (simp add: run_sync_entry [OF Cons.prems] f split_beta Let_def)
  qed
qed

lemma run_vehicleSync_tick [alone_simps]: "run vehicleSync_tickP s = vehicleSync_tick s"
  using run_sync_entries [of s "[]" "m_entries s"]
  by (simp add: vehicleSync_tickP_def vehicleSync_tick_def run_bindP run_foldP split_beta Let_def)

lemma run_ai_tick [alone_simps]: "run (ai_tickP E) s = ai_tick E s"
proof -
  have "exec (ai_player_infoP F) s = bindE (ai_player_info F s) (\<lambda>i. Inr (i, s))" for F s
    by (simp add: ai_player_infoP_def ai_player_info_def exec_lock_read)
  then show ?thesis
    by (simp add: ai_tickP_def ai_tick_def run_bindP run_seqP run_foldP run_basic bindE_assoc Let_def
        alone_simps cong: bindE_cong foldE_cong)
qed

lemma run_masterHeartbeat [alone_simps]: "run masterHeartbeatP s = masterHeartbeat s"
  by (simp add: masterHeartbeatP_def masterHeartbeat_def run_bindP bindE_assoc run_basic alone_simps)

section \<open>Every event\<close>

lemma run_onTCPPacket:
  assumes "\<And>i s. run (cb i) s = cb' i s"
  shows "run (onTCPPacketP cb E i d) s = onTCPPacket cb' E i d s"
proof -
  have pt: "run (case t of Some AUTH_REQUEST \<Rightarrow> a | Some VEHICLE_SPAWN \<Rightarrow> b | Some VEHICLE_DELETE \<Rightarrow> c
      | Some CHAT_MESSAGE \<Rightarrow> d | Some READY \<Rightarrow> e | Some AUTHORITY_CLAIM \<Rightarrow> f | _ \<Rightarrow> Return ()) s =
    (case t of Some AUTH_REQUEST \<Rightarrow> run a s | Some VEHICLE_SPAWN \<Rightarrow> run b s | Some VEHICLE_DELETE \<Rightarrow> run c s
      | Some CHAT_MESSAGE \<Rightarrow> run d s | Some READY \<Rightarrow> run e s | Some AUTHORITY_CLAIM \<Rightarrow> run f s | _ \<Rightarrow> Inr s)"
    for t a b c d e f s
    by (simp add: run_basic split: option.split PacketType.split)
  show ?thesis
    unfolding onTCPPacketP_def onTCPPacket_def Let_def
    by (simp add: run_bindP pt exec_lock_read bindE_assoc run_if run_basic run_handleAuth [OF assms]
        run_handleVehicleSpawn [OF assms] run_handleVehicleDelete [OF assms] run_handleChat [OF assms]
        run_handleReady [OF assms] alone_simps cong: alone_cong PacketType.case_cong)
qed

lemma run_onUDPPacket [alone_simps]: "run (onUDPPacketP E from n) s = onUDPPacket E from n s"
  unfolding onUDPPacketP_def onUDPPacket_def
  by (simp add: run_bindP run_if run_basic bindE_assoc udp_sendP_def run_handleVehicleUpdate alone_simps
      cong: alone_cong)

lemma run_udp_receive: "run (udp_receiveP (onUDPPacketP E) ep d) s = udp_receive (onUDPPacket E) ep d s"
  by (simp add: udp_receiveP_def udp_receive_def Let_def run_seqP run_if run_basic alone_simps)

lemma run_stop_server:
  assumes "\<And>i s. run (cb i) s = cb' i s"
  shows "run (stop_serverP cb E) s = stop_server cb' E s"
  by (simp add: stop_serverP_def stop_server_def run_bindP run_if run_basic exec_fireEvent [OF assms] split_beta)

lemma run_handle: "run (handleP E e) s = handle E e s"
  by (cases e) (simp_all add: run_bindP run_if run_basic exec_fireEvent [OF run_onDisconnect]
      exec_lua_enter [OF run_onDisconnect] run_onTCPPacket [OF run_onDisconnect]
      run_disconnect [OF run_onDisconnect] run_udp_receive run_kickPlayer [OF run_onDisconnect]
      run_banPlayer [OF run_onDisconnect] run_stop_server [OF run_onDisconnect] split_beta alone_simps)

end
