(* ===== verification/Server_Races.thy ===== *)
theory Server_Races
  imports Server_Alone Server_Output
begin

text \<open>
  What happens when several handlers run at the same time: what each mutex protects, that nobody waits in a
  circle, and a signal in the middle of a handler. What goes wrong where the code takes no lock is in
  \<open>Server_Overlap\<close>.
\<close>

section \<open>What the mutexes protect\<close>

text \<open>
  The tables that are touched only under their mutex: sessions with what they write, the two UDP tables
  and the bindings of sessions. That a handler does not look at the list of held mutexes is the component
  of nobody.
\<close>

fun server_guards :: "mutex option \<Rightarrow> (server \<Rightarrow> server) set" where
  "server_guards None = range (\<lambda>h s. s\<lparr>held := h\<rparr>)"
| "server_guards (Some PlayersMutex) = range (\<lambda>b s. s\<lparr>m_session_to_player := b\<rparr>)"
| "server_guards (Some SessionsMutex) = range (\<lambda>(x, y) s. s\<lparr>m_sessions := x, tcp_out := y\<rparr>)"
| "server_guards (Some MapMutex) = range (\<lambda>(x, y) s. s\<lparr>m_player_to_ep := x, m_ep_to_player := y\<rparr>)"

lemma all_mutex: "(\<forall>m. Q m) \<longleftrightarrow> Q PlayersMutex \<and> Q SessionsMutex \<and> Q MapMutex"
proof -
  have "Q m" if "Q PlayersMutex" "Q SessionsMutex" "Q MapMutex" for m by (cases m) (simp_all add: that)
  then show ?thesis by blast
qed

lemma allowed_server: "allowed server_guards P h \<longleftrightarrow> P (server_guards None)
    \<and> (PlayersMutex \<in> set h \<or> P (server_guards (Some PlayersMutex)))
    \<and> (SessionsMutex \<in> set h \<or> P (server_guards (Some SessionsMutex)))
    \<and> (MapMutex \<in> set h \<or> P (server_guards (Some MapMutex)))"
proof -
  have "(\<forall>m. m \<notin> Some ` set h \<longrightarrow> P (server_guards m)) \<longleftrightarrow> P (server_guards None)
      \<and> (\<forall>m. m \<in> set h \<or> P (server_guards (Some m)))" by (auto simp: split_option_all)
  then show ?thesis by (simp add: allowed_def all_mutex)
qed

lemma blind_server:
  "blind (server_guards None) f \<longleftrightarrow> (\<forall>h s. f (s\<lparr>held := h\<rparr>) = f s)"
  "blind (server_guards (Some PlayersMutex)) f \<longleftrightarrow> (\<forall>b s. f (s\<lparr>m_session_to_player := b\<rparr>) = f s)"
  "blind (server_guards (Some SessionsMutex)) f \<longleftrightarrow> (\<forall>x y s. f (s\<lparr>m_sessions := x, tcp_out := y\<rparr>) = f s)"
  "blind (server_guards (Some MapMutex)) f \<longleftrightarrow>
     (\<forall>x y s. f (s\<lparr>m_player_to_ep := x, m_ep_to_player := y\<rparr>) = f s)"
  by (auto simp: blind_def)

lemma apart_server:
  "apart (server_guards None) g \<longleftrightarrow> (\<forall>h s. g (s\<lparr>held := h\<rparr>) = (g s)\<lparr>held := h\<rparr>)"
  "apart (server_guards (Some PlayersMutex)) g \<longleftrightarrow>
     (\<forall>b s. g (s\<lparr>m_session_to_player := b\<rparr>) = (g s)\<lparr>m_session_to_player := b\<rparr>)"
  "apart (server_guards (Some SessionsMutex)) g \<longleftrightarrow>
     (\<forall>x y s. g (s\<lparr>m_sessions := x, tcp_out := y\<rparr>) = (g s)\<lparr>m_sessions := x, tcp_out := y\<rparr>)"
  "apart (server_guards (Some MapMutex)) g \<longleftrightarrow>
     (\<forall>x y s. g (s\<lparr>m_player_to_ep := x, m_ep_to_player := y\<rparr>) =
       (g s)\<lparr>m_player_to_ep := x, m_ep_to_player := y\<rparr>)"
  by (auto simp: apart_def)

declare server_guards.simps [simp del]

lemmas guard_simps = allowed_server blind_server apart_server

lemma may_lock_server [simp]: "may_lock h SessionsMutex"
  "set h \<subseteq> {PlayersMutex} \<Longrightarrow> may_lock h MapMutex" "may_lock [] m"
proof -
  have top: "n \<noteq> SessionsMutex \<Longrightarrow> rank n < rank SessionsMutex" for n by (cases n) simp_all
  show "may_lock h SessionsMutex" unfolding may_lock_def using top by metis
  show "set h \<subseteq> {PlayersMutex} \<Longrightarrow> may_lock h MapMutex" "may_lock [] m" by (auto simp: may_lock_def)
qed

text \<open>A program that locks a mutex it holds goes no further.\<close>

lemma clean_relock: "SessionsMutex \<in> set h \<Longrightarrow> obeys g q (bindP (lockP SessionsMutex p) k) h h'"
  by (simp add: lockP_def may_lock_def)

text \<open>
  What no single step breaks: the output is typed and the tables have no key twice.
\<close>

definition tables_good :: "server \<Rightarrow> bool" where
  "tables_good s \<longleftrightarrow> wire_ok s \<and> distinct (keys (m_players s)) \<and> distinct (keys (m_session_to_player s))"

lemma tables_good_frame [simp]:
  "tables_good (s\<lparr>held := h\<rparr>) = tables_good s" "tables_good (udp_send ep d s) = tables_good s"
  "tables_good (s\<lparr>lua_history := l\<rparr>) = tables_good s" "tables_good (s\<lparr>authority_history := a\<rparr>) = tables_good s"
  "tables_good (s\<lparr>ai_history := b\<rparr>) = tables_good s" "tables_good (s\<lparr>m_recv_buf := f\<rparr>) = tables_good s"
  "tables_good (s\<lparr>m_running := r\<rparr>) = tables_good s" "tables_good (s\<lparr>m_next_session_id := i\<rparr>) = tables_good s"
  "tables_good (s\<lparr>m_entries := es\<rparr>) = tables_good s" "tables_good (s\<lparr>m_next_player_id := np\<rparr>) = tables_good s"
  "tables_good (s\<lparr>m_player_to_ep := pe\<rparr>) = tables_good s" "tables_good (s\<lparr>m_ep_to_player := ep'\<rparr>) = tables_good s"
  "tables_good (upd_player pid g s) = tables_good s"
  by (simp_all add: tables_good_def udp_send_def) (simp add: upd_player_def)

lemma tables_good_update [simp]:
  "tables_good s \<Longrightarrow> tables_good (s\<lparr>m_sessions := AList.update i ip (m_sessions s)\<rparr>)"
  "tables_good s \<Longrightarrow> tables_good (s\<lparr>m_sessions := AList.delete i (m_sessions s)\<rparr>)"
  "tables_good s \<Longrightarrow> tables_good (s\<lparr>m_players := AList.update p q (m_players s)\<rparr>)"
  "tables_good s \<Longrightarrow> tables_good (s\<lparr>m_players := AList.delete p (m_players s)\<rparr>)"
  "tables_good s \<Longrightarrow> tables_good (s\<lparr>m_session_to_player := AList.update i p (m_session_to_player s)\<rparr>)"
  "tables_good s \<Longrightarrow> tables_good (s\<lparr>m_session_to_player := AList.delete i (m_session_to_player s)\<rparr>)"
  by (simp_all add: tables_good_def wire_ok_def)

lemma tables_good_send: "well_formed d \<Longrightarrow> tables_good s \<Longrightarrow>
    tables_good (s\<lparr>tcp_out := tcp_out s @ [(i, session_frame d)]\<rparr>)"
  by (auto simp: tables_good_def wire_ok_def)

abbreviation tidy :: "mutex list \<Rightarrow> (server, 'a) prog \<Rightarrow> bool" where
  "tidy \<equiv> clean server_guards tables_good"

section \<open>Every handler keeps the discipline\<close>

lemma tidy_get: "allowed server_guards (\<lambda>U. blind U f) h \<Longrightarrow> tidy h (getP f)"
  by (rule clean_getP)

lemma tidy_tcp_accept [clean_rules]: "tidy h (tcp_acceptP ip)"
  unfolding tcp_acceptP_def
  by (intro clean_rules clean_getP clean_modP clean_lockP disjI2) (simp_all add: guard_simps)

lemma tidy_session_send: "well_formed d \<Longrightarrow> SessionsMutex \<in> set h \<Longrightarrow> tidy h (session_sendP i d)"
  unfolding session_sendP_def by (intro clean_modP) (simp_all add: guard_simps tables_good_send)

lemma tidy_tcp_send: "well_formed d \<Longrightarrow> tidy h (tcp_sendP i d)"
  unfolding tcp_sendP_def
  by (intro clean_rules clean_getP tidy_session_send clean_lockP disjI2) (simp_all add: guard_simps)

lemma tidy_tcp_sendAll: "well_formed d \<Longrightarrow> tidy h (tcp_sendAllP d x)"
  unfolding tcp_sendAllP_def
  by (intro clean_lockP disjI2 clean_bindP clean_getP clean_foldP clean_prod clean_if tidy_session_send clean_Return)
    (simp_all add: guard_simps)

lemma tidy_sends [clean_rules]: "tidy h (tcp_sendP i (buildStr t p q str))"
  "tidy h (tcp_sendAllP (buildStr t p q str) x)" "tidy h (tcp_sendAllP (build t p q (Some [b]) 1 fl) x)"
  by (intro tidy_tcp_send tidy_tcp_sendAll well_formed_buildStr well_formed_build; simp)+

lemma tidy_onSessionClose: "(\<And>i. tidy h (cb i)) \<Longrightarrow> tidy h (onSessionCloseP cb i)"
  unfolding onSessionCloseP_def
  by (intro clean_bindP clean_lockP disjI2 clean_modP) (simp_all add: guard_simps)

lemma tidy_tcp_disconnect [clean_rules]: "tidy h (tcp_disconnectP cb i)"
  unfolding tcp_disconnectP_def onSessionCloseP_def
  by (rule clean_lockP, simp, rule disjI2, rule clean_bindP, rule clean_getP)
    (auto simp: guard_simps intro!: clean_option clean_relock)

lemma tidy_getRemoteIP [clean_rules]: "tidy h (getRemoteIPP i)"
  unfolding getRemoteIPP_def by (intro clean_lockP disjI2 clean_getP) (simp_all add: guard_simps)

lemma tidy_udp_send [clean_rules]: "tidy h (udp_sendP ep d)"
  unfolding udp_sendP_def by (intro clean_modP) (simp_all add: guard_simps, simp add: udp_send_def)

lemma tidy_udp_sendAll [clean_rules]: "set h \<subseteq> {PlayersMutex} \<Longrightarrow> tidy h (udp_sendAllP d x)"
  unfolding udp_sendAllP_def
  by (intro clean_lockP disjI2 clean_bindP clean_getP clean_foldP clean_prod clean_if clean_Return tidy_udp_send)
    (simp_all add: guard_simps)

lemma tidy_unmapPlayer [clean_rules]: "set h \<subseteq> {PlayersMutex} \<Longrightarrow> tidy h (unmapPlayerP p)"
  unfolding unmapPlayerP_def
  by (intro clean_lockP disjI2 clean_bindP clean_getP clean_option clean_Return clean_modP)
    (simp_all add: guard_simps)

lemma tidy_playerFromEndpoint [clean_rules]: "tidy [] (playerFromEndpointP ep)"
  unfolding playerFromEndpointP_def by (intro clean_lockP disjI2 clean_getP) (simp_all add: guard_simps)

lemma tidy_getPlayer [clean_rules]: "tidy [] (getPlayerP i)"
  unfolding getPlayerP_def by (intro clean_lockP disjI2 clean_getP) (simp_all add: guard_simps)

lemma tidy_deref [clean_rules]: "tidy h (derefP i f)"
  unfolding derefP_def by (intro clean_bindP clean_getP clean_option clean_Fail clean_Return) (simp add: guard_simps)

lemma tidy_poke [clean_rules]: "tidy h (pokeP i f)"
  unfolding pokeP_def by (intro clean_bindP tidy_deref clean_modP) (simp_all add: guard_simps, simp add: upd_player_def)

lemma tidy_playerCount [clean_rules]: "tidy [] playerCountP"
  unfolding playerCountP_def by (intro clean_lockP disjI2 clean_getP) (simp_all add: guard_simps)

lemma tidy_allocPlayerID [clean_rules]: "tidy h allocPlayerIDP"
  unfolding allocPlayerIDP_def
  by (intro clean_bindP clean_getP clean_modP clean_if clean_Return) (simp_all add: guard_simps)

lemma tidy_lock_players: "tidy [PlayersMutex] p \<Longrightarrow> tidy [] (lockP PlayersMutex p)"
  by (rule clean_lockP) simp_all

lemma tidy_find_session: "tidy [PlayersMutex] (getP (\<lambda>s. find_session i (m_session_to_player s)))"
  by (rule clean_getP) (simp add: guard_simps)

lemma tidy_sendChat [clean_rules]: "tidy [] (sendChatP i m)"
  unfolding sendChatP_def Let_def by (intro clean_rules tidy_lock_players tidy_find_session)

lemma tidy_broadcast [clean_rules]: "tidy h (broadcastPlayerJoinP E i)" "tidy h (broadcastPlayerLeaveP E i r)"
  unfolding broadcastPlayerJoinP_def broadcastPlayerLeaveP_def by (intro clean_rules)+

lemma tidy_sendServerInfo [clean_rules]: "tidy [] (sendServerInfoP E i)"
  unfolding sendServerInfoP_def by (intro clean_rules)

lemma tidy_kickPlayer [clean_rules]: "tidy [] (kickPlayerP cb i r)"
  unfolding kickPlayerP_def Let_def by (intro clean_rules tidy_lock_players tidy_find_session)

lemma tidy_banPlayer [clean_rules]: "tidy [] (banPlayerP cb i r)"
  unfolding banPlayerP_def by (intro clean_rules)

lemma tidy_history: "tidy h (modP (\<lambda>s. s\<lparr>lua_history := lua_history s @ x\<rparr>))"
  "tidy h (modP (\<lambda>s. s\<lparr>authority_history := authority_history s @ y\<rparr>))"
  "tidy h (modP (\<lambda>s. s\<lparr>ai_history := ai_history s @ z\<rparr>))"
  by (rule clean_modP, simp add: guard_simps, simp)+

lemma tidy_lua_api [clean_rules]: "tidy [] (lua_apiP cb c)"
  by (cases c) (simp_all only: lua_apiP.simps clean_rules tidy_history)

lemma tidy_lua_enter [clean_rules]: "tidy [] (lua_enterP cb E inp)"
  unfolding lua_enterP_def Let_def
  by (intro clean_rules clean_getP tidy_history) (simp_all add: guard_simps lua_view_of_def)

lemma tidy_fireEvent [clean_rules]: "tidy [] (fireEventP cb E ev args)"
  unfolding fireEventP_def by (intro clean_rules)

lemma tidy_grant [clean_rules]: "tidy [] (grantAuthorityP E p)" "tidy [] (revokeAuthorityP p)"
  unfolding grantAuthorityP_def revokeAuthorityP_def
  by (intro clean_rules tidy_lock_players tidy_find_session)+

lemma tidy_authority_cb [clean_rules]: "tidy [] (authority_cbP E c)"
  by (cases c) (simp_all only: authority_cbP.simps clean_rules)

lemma tidy_call_authority [clean_rules]: "tidy [] (call_authorityP E c)"
  unfolding call_authorityP_def Let_def
  by (intro clean_rules clean_getP tidy_history) (simp_all add: guard_simps)

lemma tidy_handleAuthorityClaim [clean_rules]: "tidy [] (handleAuthorityClaimP E p)"
  unfolding handleAuthorityClaimP_def by (intro clean_rules)

lemma tidy_onDisconnect_body: "tidy [] (onDisconnect_bodyP cb E i)"
  unfolding onDisconnect_bodyP_def
  by (intro clean_rules tidy_lock_players clean_getP clean_modP) (simp_all add: guard_simps)

lemma tidy_onDisconnect [clean_rules]: "tidy [] (onDisconnectP E i)"
  unfolding onDisconnectP_def by (rule tidy_onDisconnect_body)

lemma tidy_auth_answers [clean_rules]: "tidy h (auth_errorP E i e)" "tidy h (auth_okP E i p)"
  "tidy h (auth_rejectP cb E i e)"
  unfolding auth_rejectP_def auth_errorP_def auth_okP_def send_auth_responseP_def by (intro clean_rules)+

lemma tidy_add_player [clean_rules]: "tidy [] (add_playerP i p q)"
  unfolding add_playerP_def
  by (intro clean_rules tidy_lock_players clean_modP) (simp_all add: guard_simps)

lemma tidy_now [clean_rules]: "tidy h (getP steady_now)"
  by (rule clean_getP) (simp add: guard_simps)

lemma tidy_handleAuth_bridge [clean_rules]: "tidy [] (handleAuth_bridgeP cb E i pw)"
  unfolding handleAuth_bridgeP_def by (intro clean_rules)

lemma tidy_handleAuth_player [clean_rules]: "tidy [] (handleAuth_playerP cb E i n j)"
  unfolding handleAuth_playerP_def
  by (intro clean_rules tidy_lock_players clean_modP) (simp_all add: guard_simps)

lemma tidy_handleAuth [clean_rules]: "tidy [] (handleAuthP cb E i pl n)"
  unfolding handleAuthP_def by (intro clean_rules)

lemma tidy_entries: "tidy h (modP (\<lambda>s. s\<lparr>m_entries := f (m_entries s)\<rparr>))"
  by (rule clean_modP) (simp_all add: guard_simps)

lemma tidy_handleReady [clean_rules]: "tidy [] (handleReadyP cb E p)"
  unfolding handleReadyP_def by (intro clean_rules)

lemma tidy_handleVehicleSpawn [clean_rules]: "tidy [] (handleVehicleSpawnP cb E p pl n)"
  unfolding handleVehicleSpawnP_def by (intro clean_rules)

lemma tidy_handleVehicleDelete [clean_rules]: "tidy [] (handleVehicleDeleteP cb E p pl n)"
  unfolding handleVehicleDeleteP_def Let_def by (intro clean_rules tidy_entries)

lemma tidy_slice [clean_rules]: "tidy h (getP (recv_slice i n))"
  "tidy h (getP (\<lambda>s. if b then Inl e else bindE (recv_slice i n s) k))"
  by (rule clean_getP, simp add: guard_simps recv_slice_def)+

lemma tidy_handleVehicleUpdate [clean_rules]: "tidy [] (handleVehicleUpdateP p n)"
  unfolding handleVehicleUpdateP_def by (intro clean_rules tidy_entries)

lemma tidy_handleChat [clean_rules]: "tidy [] (handleChatP cb E p pl n)"
  unfolding handleChatP_def Let_def by (intro clean_rules)

lemma tidy_onTCPPacket [clean_rules]: "tidy [] (onTCPPacketP cb E i d)"
proof -
  have "tidy [] (case t of Some AUTH_REQUEST \<Rightarrow> a | Some VEHICLE_SPAWN \<Rightarrow> b | Some VEHICLE_DELETE \<Rightarrow> c
      | Some CHAT_MESSAGE \<Rightarrow> d | Some READY \<Rightarrow> e | Some AUTHORITY_CLAIM \<Rightarrow> f | _ \<Rightarrow> Return ())"
    if "tidy [] a" "tidy [] b" "tidy [] c" "tidy [] d" "tidy [] e" "tidy [] f" for t a b c d e f
    using that by (simp split: option.split PacketType.split)
  note disp = this
  show ?thesis
    unfolding onTCPPacketP_def Let_def
    by (intro clean_bindP clean_liftP tidy_lock_players clean_getP disp clean_if clean_Return tidy_handleAuth
        tidy_handleVehicleSpawn tidy_handleVehicleDelete tidy_handleChat tidy_handleReady
        tidy_handleAuthorityClaim) (simp add: guard_simps)
qed

lemma tidy_isAuthority [clean_rules]: "tidy h (getP (\<lambda>s. b \<and> isAuthority E (authority_history s) p))"
  by (rule clean_getP) (simp add: guard_simps)

lemma tidy_onUDPPacket [clean_rules]: "tidy [] (onUDPPacketP E from n)"
  unfolding onUDPPacketP_def by (intro clean_rules) simp_all

lemma tidy_udp_receive: "(\<And>n. tidy [] (cb ep n)) \<Longrightarrow> tidy [] (udp_receiveP cb ep d)"
  unfolding udp_receiveP_def Let_def by (intro clean_rules clean_modP) (simp_all add: guard_simps cong: if_cong)

lemma tidy_sync_entry [clean_rules]: "tidy [] (sync_entryP i)"
  unfolding sync_entryP_def Let_def
  by (intro clean_rules tidy_entries clean_getP) (simp_all add: guard_simps)

lemma tidy_sync_tick [clean_rules]: "tidy [] vehicleSync_tickP"
  unfolding vehicleSync_tickP_def by (intro clean_rules clean_getP) (simp_all add: guard_simps)

lemma tidy_ai_tick [clean_rules]: "tidy [] (ai_tickP E)"
  unfolding ai_tickP_def ai_player_infoP_def
  by (intro clean_rules tidy_lock_players tidy_history clean_getP) (simp_all add: guard_simps)

lemma tidy_masterHeartbeat [clean_rules]: "tidy [] masterHeartbeatP"
  unfolding masterHeartbeatP_def by (intro clean_rules)

lemma tidy_stop_server [clean_rules]: "tidy [] (stop_serverP cb E)"
  unfolding stop_serverP_def by (intro clean_rules clean_exchangeP) (simp_all add: guard_simps)

lemma tidy_running [clean_rules]: "tidy h (modP (\<lambda>s. s\<lparr>m_running := b\<rparr>))"
  by (rule clean_modP) (simp_all add: guard_simps)

lemma tidy_handle: "tidy [] (handleP E e)"
  by (cases e; simp only: handleP.simps;
      intro clean_rules tidy_history tidy_udp_receive tidy_onSessionClose tidy_onDisconnect)

interpretation server_threads: lock_blind_threads server_guards tables_good "map (handleP E) es" for E es
proof
  show "(\<lambda>s. s\<lparr>held := h\<rparr>) \<in> server_guards None" for h by (simp add: server_guards.simps)
qed (auto simp: tidy_handle)

section \<open>Several handlers at once\<close>

text \<open>The server handles the events of a list at the same time, each in a thread of its own.\<close>

definition serving :: "env \<Rightarrow> event list \<Rightarrow> server \<Rightarrow> (server, unit) system" where
  "serving E es s = start (map (handleP E) es) s"

lemma serving_threads: "interleaved (serving E es s) c \<Longrightarrow> length (threads c) = length es"
  by (induction rule: interleaved.induct)
    (auto simp: serving_def start_def dest: turn_follower)

text \<open>
  Run alone, the program of a handler does what the atomic handler does, fault by fault, and handling
  events one after the other is one of the ways in which they can be handled at the same time.
\<close>

lemma sequential_runs_are_interleavings:
  assumes "held s = []" "foldE (handle E) es s = Inr t"
  shows "interleaved (serving E es s) \<lparr>threads = map (\<lambda>_. Return ()) es, owner = (\<lambda>_. None), shared = t\<rparr>"
proof -
  have "foldE run (map (handleP E) es) s = foldE (handle E) es s"
    by (induction es arbitrary: s) (auto simp: run_handle intro: bindE_cong)
  with assms show ?thesis
    using server_threads.one_after_the_other [of "length es" E es s t] by (simp add: serving_def o_def)
qed

text \<open>
  C10. Handlers that run at the same time never wait for each other in a circle. At every moment all of them
  have returned, or one can make a step, or one has failed, or one has blocked itself: a thread that asks for
  a mutex it holds already, which can only be that of the sessions. So a server that stands still with
  requests open has crashed or suffers from that one self-deadlock, and never from the order of its locks.
\<close>

theorem no_circular_wait:
  assumes "interleaved (serving E es s) c"
  shows "((\<forall>i < length es. threads c ! i = Return ())
      \<or> (\<exists>i d. turn i c = Some (Inr d))
      \<or> (\<exists>i < length es. \<exists>e. threads c ! i = Fail e)
      \<or> (\<exists>i < length es. \<exists>p. threads c ! i = Lock SessionsMutex p \<and> owner c SessionsMutex = Some i))
    \<and> (\<forall>i m p. i < length es \<and> threads c ! i = Lock m p \<and> owner c m = Some i \<longrightarrow> m = SessionsMutex)"
proof -
  note c = assms [unfolded serving_def]
  note n = serving_threads [OF assms]
  have relock: "m = SessionsMutex" if "i < length es" "threads c ! i = Lock m p" "owner c m = Some i" for i m p
    using server_threads.relocks_sessions [OF c] n that by metis
  show ?thesis
  proof (cases "\<exists>i r. turn i c = Some r")
    case False
    then have "\<And>i. turn i c = None" by (metis option.exhaust)
    then have "\<forall>i < length es. threads c ! i = Return ()"
      using server_threads.no_deadlock [OF c] n by (metis unit.exhaust)
    then show ?thesis using relock by blast
  next
    case True
    then obtain i r where r: "turn i c = Some r" by blast
    then have i: "i < length es" using n by (auto simp: turn_def split: if_splits)
    show ?thesis
    proof (cases r)
      case (Inl e)
      then have "threads c ! i = Fail e \<or> (\<exists>m p. threads c ! i = Lock m p \<and> owner c m = Some i)"
        using r by (auto simp: turn_def split: if_splits prog.splits option.splits)
      then show ?thesis using i relock by blast
    next
      case (Inr d)
      then show ?thesis using r relock by blast
    qed
  qed
qed

text \<open>
  C11. What the mutexes protect: the table of sessions and what is written to them, the two tables of the
  UDP server, and the bindings of sessions to players are never accessed by two threads at once.
\<close>

theorem guarded_tables_race_free:
  assumes "interleaved (serving E es s) c" "i < length es" "j < length es" "i \<noteq> j"
  shows "\<not> (touches (server_guards (Some m)) (threads c ! i) \<and> touches (server_guards (Some m)) (threads c ! j))"
  using server_threads.race_free [OF assms(1) [unfolded serving_def]] serving_threads [OF assms(1)] assms(2-4)
  by simp

section \<open>A signal in the middle of a handler\<close>

text \<open>
  C16. The signal handler calls \<open>stop\<close>, which runs the plugins, on whatever thread it interrupts. When that
  thread is sending and a plugin says goodbye to everybody, the mutex of the sessions is locked twice by
  one thread: the server blocks instead of stopping.
\<close>

theorem signal_blocks_sending_thread:
  assumes "reachable E s" "m_running s"
    and "lua_run E (lua_history s) (lua_view_of s) (LuaEvent ''onShutdown'' []) = (LSendChatMessage (-1) bye # cs, res)"
  shows "exec (interrupted 1 (stop_serverP (onDisconnectP E) E) (handleP E (EvSay msg))) s
     = Inl (Relock SessionsMutex)"
proof -
  have h: "held s = []" by (rule reachable_held [OF assms(1)])
  let ?s = "s\<lparr>held := [SessionsMutex]\<rparr>"
  have v: "lua_view_of (?s\<lparr>m_running := False\<rparr>) = lua_view_of s" by (simp add: lua_view_of_def)
  have chat: "sendChat (-1) b t = Inl (Relock SessionsMutex)" if "held t = [SessionsMutex]" for b t
    by (simp add: sendChat_def Let_def tcp_sendAll_def with_lock_held that)
  have "run (stop_serverP (onDisconnectP E) E) ?s = Inl (Relock SessionsMutex)"
    using assms(2,3) v
    by (simp add: run_stop_server [OF run_onDisconnect] stop_server_def fireEvent_def lua_enter_def c_str_def chat Let_def)
  then have "exec (stop_serverP (onDisconnectP E) E) ?s = Inl (Relock SessionsMutex)"
    by (simp add: exec_unit)
  then show ?thesis
    by (simp add: sendChatP_def tcp_sendAllP_def lockP_def exec_bindP h)
qed

section \<open>Witnesses\<close>

definition polite :: env where
  "polite = demo\<lparr>lua_run := (\<lambda>_ _ _. ([LSendChatMessage (-1) ''bye''], LuaReturns None))\<rparr>"

text \<open>The server after \<open>run\<close> has called \<open>onInit\<close>; there is nobody yet to whom it could say goodbye.\<close>

definition polite_state :: server where
  "polite_state = initial_server\<lparr>m_running := True,
     lua_history := [(lua_view_of initial_server, LuaEvent ''onInit'' [])]\<rparr>"

lemma polite_reachable: "reachable polite polite_state"
proof (rule reachable.event [OF reachable.init])
  have "lua_view_of (initial_server\<lparr>m_running := True\<rparr>) = lua_view_of initial_server" by (simp add: lua_view_of_def)
  then show "handle polite EvStart initial_server = Inr polite_state"
    by (simp add: fireEvent_def lua_enter_def polite_def polite_state_def c_str_def sendChat_def
        tcp_sendAll_def with_lock_def Let_def) (simp add: initial_server_def)
qed

theorem signal_blocks_sending_thread_witness:
  "exec (interrupted 1 (stop_serverP (onDisconnectP polite) polite) (handleP polite (EvSay ''hi''))) polite_state
     = Inl (Relock SessionsMutex)"
  by (rule signal_blocks_sending_thread [OF polite_reachable, where bye = "''bye''" and cs = "[]" and res = "LuaReturns None"])
    (simp_all add: polite_state_def polite_def)

lemma login_serving: "interleaved (serving demo login initial_server) (serving demo login initial_server)"
  by (rule interleaved.now)

theorem no_circular_wait_witness:
  "(\<exists>i d. turn i (serving demo login initial_server) = Some (Inr d))
   \<or> (\<exists>i < 2. \<exists>e. threads (serving demo login initial_server) ! i = Fail e)"
proof -
  have "threads (serving demo login initial_server) ! 0 \<noteq> Return ()" "0 < length login" "length login = 2"
    "owner (serving demo login initial_server) m = None" for m
    by (simp_all add: serving_def start_def login_def tcp_acceptP_def getP_def)
  with no_circular_wait [OF login_serving] show ?thesis by fastforce
qed

theorem guarded_tables_race_free_witness:
  "\<not> (touches (server_guards (Some SessionsMutex)) (threads (serving demo login initial_server) ! 0)
     \<and> touches (server_guards (Some SessionsMutex)) (threads (serving demo login initial_server) ! 1))"
  by (rule guarded_tables_race_free [OF login_serving]) (simp_all add: login_def)

end
