(* ===== verification/Lobby.thy ===== *)
theory Lobby
  imports Server_Frame Server_Play
begin

text \<open>
  The abstract specification of the game server: a lobby. It knows who sits on which session, and of
  every member the name, the role, whether he is in the game and which cars he has; one equation says what
  each event does to it. Mutexes, sockets, JSON, plugins, the AI, the synchronisation and the order of the
  hash tables are gone. The handlers of \<open>Game_Server\<close> implement it event by event
  (\<open>server_implements_lobby\<close>), so what is proved of the lobby holds of the server.
\<close>

section \<open>The lobby\<close>

record member =
  mb_name :: string
  mb_role :: string
  mb_state :: PlayerState
  mb_cars :: "(u8 \<times> string) list"

record lobby =
  lb_next :: u16                        \<comment> \<open>the next identifier to give out\<close>
  lb_seats :: "u16 \<rightharpoonup> u16"              \<comment> \<open>who sits on a session\<close>
  lb_members :: "u16 \<rightharpoonup> member"

definition empty_lobby :: lobby where
  "empty_lobby = \<lparr>lb_next = 1, lb_seats = Map.empty, lb_members = Map.empty\<rparr>"

definition fresh_id :: "lobby \<Rightarrow> u16" where
  "fresh_id a = (if lb_next a = 0xFFFF then 1 else lb_next a)"

text \<open>A new member takes his seat; or a plugin objects to him, and his seat and his place are empty.\<close>

definition enter :: "u16 \<Rightarrow> member \<Rightarrow> lobby \<Rightarrow> lobby" where
  "enter sid m a = (let i = fresh_id a in
     \<lparr>lb_next = i + 1, lb_seats = (lb_seats a)(sid \<mapsto> i), lb_members = (lb_members a)(i \<mapsto> m)\<rparr>)"

definition turned_away :: "u16 \<Rightarrow> lobby \<Rightarrow> lobby" where
  "turned_away sid a = (let i = fresh_id a in
     \<lparr>lb_next = i + 1, lb_seats = (lb_seats a)(sid := None), lb_members = (lb_members a)(i := None)\<rparr>)"

definition leave :: "u16 \<Rightarrow> lobby \<Rightarrow> lobby" where
  "leave sid a = (case lb_seats a sid of None \<Rightarrow> a
     | Some i \<Rightarrow> a\<lparr>lb_seats := (lb_seats a)(sid := None), lb_members := (lb_members a)(i := None)\<rparr>)"

text \<open>A session acts on the member who sits on it.\<close>

definition seated :: "u16 \<Rightarrow> (member \<Rightarrow> member) \<Rightarrow> lobby \<Rightarrow> lobby" where
  "seated sid f a = (case lb_seats a sid of None \<Rightarrow> a
     | Some i \<Rightarrow> a\<lparr>lb_members := (lb_members a)(i := map_option f (lb_members a i))\<rparr>)"

definition full :: "ServerConfig \<Rightarrow> lobby \<Rightarrow> bool" where
  "full cfg a \<longleftrightarrow> int (card (dom (lb_members a))) \<ge> cfg_max_players cfg"

definition add_car :: "ServerConfig \<Rightarrow> string \<Rightarrow> member \<Rightarrow> member" where
  "add_car cfg model m = (if int (length (mb_cars m)) \<ge> cfg_vehicle_limit_per_player cfg then m
     else m\<lparr>mb_cars := mb_cars m @ [(word_of_nat (length (mb_cars m)), model)]\<rparr>)"

definition drop_car :: "u8 \<Rightarrow> member \<Rightarrow> member" where
  "drop_car vid m = m\<lparr>mb_cars := filter (\<lambda>c. fst c \<noteq> vid) (mb_cars m)\<rparr>"

text \<open>What a frame asks for.\<close>

datatype request = Login string string string   \<comment> \<open>name, password, role\<close>
  | Spawn string | Delete u8 | Ready | Nothing

definition str_field :: "env \<Rightarrow> json \<Rightarrow> string \<Rightarrow> string \<Rightarrow> string" where
  "str_field E j k d = (case json_value_str E j k d of Some v \<Rightarrow> v | None \<Rightarrow> [])"

definition request_of :: "env \<Rightarrow> bytes \<Rightarrow> request" where
  "request_of E data = (case parseHeader data of Inl _ \<Rightarrow> Nothing | Inr hdr \<Rightarrow>
     let body = take (unat (hdr_payload_len hdr)) (payload data);
         doc = json_parse E (string_of_bytes body)
     in case type_of_byte (hdr_type hdr) of
       Some AUTH_REQUEST \<Rightarrow> (case doc of None \<Rightarrow> Nothing
         | Some j \<Rightarrow> Login (str_field E j ''username'' []) (str_field E j ''server_password'' [])
             (str_field E j ''role'' ''player''))
     | Some VEHICLE_SPAWN \<Rightarrow> (case doc of None \<Rightarrow> Nothing | Some j \<Rightarrow> Spawn (str_field E j ''model'' ''etk800''))
     | Some VEHICLE_DELETE \<Rightarrow> (case body of [] \<Rightarrow> Nothing | vid # _ \<Rightarrow> Delete vid)
     | Some READY \<Rightarrow> Ready
     | _ \<Rightarrow> Nothing)"

text \<open>A bridge is admitted by its token, a player by the password, while there is room and no plugin objects.\<close>

fun serve :: "env \<Rightarrow> bool \<Rightarrow> u16 \<Rightarrow> request \<Rightarrow> lobby \<Rightarrow> lobby" where
  "serve E veto sid (Login name password role) a = (let cfg = e_cfg E in
     if name = BRIDGE_NAME then
       if cfg_ai_enabled cfg \<and> password = cfg_bridge_token cfg
       then enter sid \<lparr>mb_name = name, mb_role = ''bridge'', mb_state = READY_STATE, mb_cars = []\<rparr> a else a
     else if name = [] \<or> cfg_password cfg \<noteq> [] \<and> password \<noteq> cfg_password cfg \<or> full cfg a then a
     else if veto then turned_away sid a
     else enter sid \<lparr>mb_name = name, mb_role = role, mb_state = LOADING_MODS, mb_cars = []\<rparr> a)"
| "serve E veto sid (Spawn model) a = seated sid (add_car (e_cfg E) model) a"
| "serve E veto sid (Delete vid) a = seated sid (drop_car vid) a"
| "serve E veto sid Ready a = seated sid (\<lambda>m. m\<lparr>mb_state := READY_STATE\<rparr>) a"
| "serve E veto sid Nothing a = a"

fun lobby_next :: "env \<Rightarrow> bool \<Rightarrow> event \<Rightarrow> lobby \<Rightarrow> lobby" where
  "lobby_next E veto (EvFrame sid data) a = serve E veto sid (request_of E data) a"
| "lobby_next E veto (EvClose sid) a = leave sid a"
| "lobby_next E veto _ a = a"

text \<open>A plugin can object: some answer of the interpreter is a reason to turn somebody away.\<close>

definition objects :: "env \<Rightarrow> bool" where
  "objects E \<longleftrightarrow> (\<exists>h v c. vetoed (lua_string (snd (lua_run E h v c))))"

section \<open>The lobby of a server\<close>

definition member_of :: "Player \<Rightarrow> member" where
  "member_of p = \<lparr>mb_name = pl_username p, mb_role = pl_role p, mb_state = pl_state p,
     mb_cars = map (\<lambda>v. (pv_vehicle_id v, pv_model v)) (pl_vehicles p)\<rparr>"

definition lobby_of :: "server \<Rightarrow> lobby" where
  "lobby_of s = \<lparr>lb_next = m_next_player_id s, lb_seats = map_of (m_session_to_player s),
     lb_members = map_option member_of \<circ> map_of (m_players s)\<rparr>"

lemma lobby_fields [simp]: "lb_next (lobby_of s) = m_next_player_id s"
  "lb_seats (lobby_of s) = map_of (m_session_to_player s)"
  "lb_members (lobby_of s) i = map_option member_of (map_of (m_players s) i)"
  by (simp_all add: lobby_of_def)

lemma lobby_eqI: "lb_next a = lb_next b \<Longrightarrow> lb_seats a = lb_seats b \<Longrightarrow> (\<And>i. lb_members a i = lb_members b i) \<Longrightarrow> a = b"
  for a b :: lobby
  by (cases a; cases b) auto

lemma lobby_cong: "m_next_player_id t = m_next_player_id s \<Longrightarrow> m_session_to_player t = m_session_to_player s \<Longrightarrow>
    m_players t = m_players s \<Longrightarrow> lobby_of t = lobby_of s"
  by (simp add: lobby_of_def)

lemma lobby_core: "core t = core s \<Longrightarrow> lobby_of t = lobby_of s"
  by (simp add: core_eq_iff lobby_of_def)

lemma lobby_initial: "lobby_of initial_server = empty_lobby"
  by (simp add: lobby_of_def empty_lobby_def initial_server_def fun_eq_iff)

lemma lobby_upd: "lobby_of (upd_player i f s) = (lobby_of s)\<lparr>lb_members := (lb_members (lobby_of s))
    (i := map_option (member_of \<circ> f) (map_of (m_players s) i))\<rparr>"
  by (rule lobby_eqI) (auto simp: map_of_upd_player, simp_all add: upd_player_def option.map_comp)

interpretation lobby: observation lobby_of
proof
  show "lobby_of (upd_player i (\<lambda>p. p\<lparr>pl_is_banned := True\<rparr>) s) = lobby_of s" for i s
  proof -
    have "member_of \<circ> (\<lambda>p. p\<lparr>pl_is_banned := True\<rparr>) = member_of" by (simp add: fun_eq_iff member_of_def)
    then show ?thesis by (intro lobby_eqI) (simp_all add: lobby_upd)
  qed
qed (simp_all add: lobby_of_def)

lemma dom_card: "distinct (keys m) \<Longrightarrow> card (dom (map_of m)) = length m"
  using distinct_card [of "keys m"] by (simp add: dom_map_of_conv_image_fst)

lemma full_iff: "distinct (keys (m_players s)) \<Longrightarrow>
    full cfg (lobby_of s) \<longleftrightarrow> int (length (m_players s)) \<ge> cfg_max_players cfg"
proof -
  assume "distinct (keys (m_players s))"
  moreover have "dom (lb_members (lobby_of s)) = dom (map_of (m_players s))"
    by (auto simp: lobby_of_def dom_def)
  ultimately show ?thesis by (simp add: full_def dom_card)
qed

section \<open>The handlers implement it\<close>

abbreviation becomes :: "lobby \<Rightarrow> fault + server \<Rightarrow> bool" where
  "becomes a r \<equiv> postE (\<lambda>t. lobby_of t = a) r"

named_theorems becomes_rules \<open>what methods make of the lobby\<close>

lemma becomes_unchanged: "unchanged lobby_of s r \<Longrightarrow> lobby_of s = a \<Longrightarrow> becomes a r"
  by (simp add: unchanged_def)

lemma becomes_after_event:
  "lobby_of s = b \<Longrightarrow> (\<And>r t. lobby_of t = b \<Longrightarrow> postE Q (k (r, t))) \<Longrightarrow> postE Q (bindE (fireEvent cb E ev args s) k)"
  by (rule postE_bindI [OF lobby.unchanged_fireEvent]) auto

lemma becomes_after_authority:
  "lobby_of s = b \<Longrightarrow> (\<And>r t. lobby_of t = b \<Longrightarrow> postE Q (k (r, t))) \<Longrightarrow> postE Q (bindE (call_authority E c s) k)"
  by (rule postE_bindI [OF lobby.unchanged_call_authority]) auto

lemma becomes_after: "unchanged lobby_of s m \<Longrightarrow> lobby_of s = b \<Longrightarrow> (\<And>t. lobby_of t = b \<Longrightarrow> postE Q (k t)) \<Longrightarrow>
    postE Q (bindE m k)"
  by (rule postE_bindI [where P = "\<lambda>t. lobby_of t = b"]) (auto simp: unchanged_def)

lemma becomes_read: "(\<And>x. m = Inr x \<Longrightarrow> postE Q (k x)) \<Longrightarrow> postE Q (bindE m k)"
  by (cases m) auto

lemma getPlayer_free: "held s = [] \<Longrightarrow> getPlayer i s = Inr (map_of (m_players s) i)"
  by (simp add: getPlayer_def)

text \<open>A handler is called with the player of its session; \<open>act\<close> is what it does to that member.\<close>

definition acting :: "u16 \<Rightarrow> (member \<Rightarrow> member) \<Rightarrow> lobby \<Rightarrow> lobby" where
  "acting i f a = a\<lparr>lb_members := (lb_members a)(i := map_option f (lb_members a i))\<rparr>"

lemma seated_acting: "lb_seats a sid = Some i \<Longrightarrow> seated sid f a = acting i f a"
  by (simp add: seated_def acting_def)

lemma acting_absent: "map_of (m_players s) i = None \<Longrightarrow> acting i f (lobby_of s) = lobby_of s"
  by (rule lobby_eqI) (simp_all add: acting_def)

lemma acting_same: "(\<And>m. lb_members a i = Some m \<Longrightarrow> f m = m) \<Longrightarrow> acting i f a = a"
  by (cases "lb_members a i") (auto intro!: lobby_eqI simp: acting_def)

lemma acting_upd:
  assumes "\<And>p. map_of (m_players s) i = Some p \<Longrightarrow> member_of (g p) = f (member_of p)"
  shows "lobby_of (upd_player i g s) = acting i f (lobby_of s)"
  by (rule lobby_eqI) (use assms in \<open>auto simp: lobby_upd acting_def option.map_comp split: option.split
      cong: map_option_cong\<close>)

lemma becomes_handleReady:
  assumes "held s = []"
  shows "becomes (acting pid (\<lambda>m. m\<lparr>mb_state := READY_STATE\<rparr>) (lobby_of s)) (handleReady cb E pid s)"
proof (cases "map_of (m_players s) pid")
  case None
  then show ?thesis using assms by (simp add: handleReady_def getPlayer_free acting_absent)
next
  case (Some p)
  let ?s = "upd_player pid (\<lambda>p. p\<lparr>pl_state := READY_STATE\<rparr>) s"
  have u: "lobby_of ?s = acting pid (\<lambda>m. m\<lparr>mb_state := READY_STATE\<rparr>) (lobby_of s)"
    by (rule acting_upd) (simp add: member_of_def)
  show ?thesis unfolding handleReady_def getPlayer_free [OF assms] Some bindE_simps option.case
    by (rule becomes_after [OF lobby.unchanged_broadcastPlayerJoin u], rule becomes_after_event, assumption)
      (simp add: becomes_unchanged [OF lobby.unchanged_sendChat])
qed

lemma member_of_spawned: "member_of (p\<lparr>pl_vehicles := pl_vehicles p @ [\<lparr>pv_vehicle_id = i, pv_model = m,
    pv_config = c, pv_last_state = st, pv_spawned = b\<rparr>]\<rparr>) = (member_of p)\<lparr>mb_cars := mb_cars (member_of p) @ [(i, m)]\<rparr>"
  by (simp add: member_of_def)

lemma cars_of_member [simp]: "length (mb_cars (member_of p)) = length (pl_vehicles p)"
  by (simp add: member_of_def)

lemma valueE_field: "valueE E j k d = Inr v \<Longrightarrow> str_field E j k d = v"
  by (auto simp: valueE_def str_field_def split: option.splits)

lemma becomes_handleVehicleSpawn:
  assumes "held s = []"
  shows "becomes (case json_parse E (string_of_bytes (take (unat n) pl)) of None \<Rightarrow> lobby_of s
    | Some j \<Rightarrow> acting pid (add_car (e_cfg E) (str_field E j ''model'' ''etk800'')) (lobby_of s)) (handleVehicleSpawn cb E pid pl n s)"
proof -
  have "becomes (acting pid (add_car (e_cfg E) (str_field E j ''model'' ''etk800'')) (lobby_of s))
      (handleVehicleSpawn cb E pid pl n s)"
    if j: "json_parse E (string_of_bytes (take (unat n) pl)) = Some j" and len: "unat n \<le> length pl" for j
  proof (cases "map_of (m_players s) pid")
    case None
    then show ?thesis using assms j len
      by (simp add: handleVehicleSpawn_def getPlayer_free acting_absent read_bytes_def)
  next
    case (Some q)
    show ?thesis
    proof (cases "int (length (pl_vehicles q)) \<ge> cfg_vehicle_limit_per_player (e_cfg E)")
      case True
      then have "acting pid (add_car (e_cfg E) model) (lobby_of s) = lobby_of s" for model
        using Some by (intro acting_same) (auto simp: add_car_def)
      with True Some assms j len show ?thesis by (simp add: handleVehicleSpawn_def getPlayer_free read_bytes_def)
    next
      case False
      have u: "lobby_of (upd_player pid (\<lambda>p. p\<lparr>pl_vehicles := pl_vehicles p @ [\<lparr>pv_vehicle_id = word_of_nat (length (pl_vehicles q)),
          pv_model = model, pv_config = c, pv_last_state = st, pv_spawned = x\<rparr>]\<rparr>) s)
          = acting pid (add_car (e_cfg E) model) (lobby_of s)" for model c st x
        by (rule acting_upd) (use Some False in \<open>simp add: member_of_spawned add_car_def\<close>)
      show ?thesis
        unfolding handleVehicleSpawn_def getPlayer_free [OF assms] Let_def read_bytes_def
        apply (simp only: len if_True bindE_simps j option.case Some False if_False)
        apply (rule becomes_read, rule becomes_read, rule becomes_read)
        apply (rule becomes_after [OF lobby.unchanged_send(2) u], rule becomes_after_event, assumption)
        apply (simp add: valueE_field)
        done
    qed
  qed
  then show ?thesis
    by (cases "unat n \<le> length pl"; cases "json_parse E (string_of_bytes (take (unat n) pl))")
      (simp_all add: handleVehicleSpawn_def read_bytes_def)
qed

lemma member_of_dropped: "member_of (p\<lparr>pl_vehicles := filter (\<lambda>v. \<not> pv_vehicle_id v = vid) (pl_vehicles p)\<rparr>)
    = drop_car vid (member_of p)"
  by (simp add: member_of_def drop_car_def filter_map o_def)

lemma becomes_handleVehicleDelete:
  assumes "held s = []"
  shows "becomes (case take (unat n) pl of [] \<Rightarrow> lobby_of s | vid # _ \<Rightarrow> acting pid (drop_car vid) (lobby_of s))
    (handleVehicleDelete cb E pid pl n s)"
proof (cases "n < 1")
  case True
  then have "n = 0" by (simp add: word_less_nat_alt unat_eq_0)
  then show ?thesis by (simp add: handleVehicleDelete_def)
next
  case n: False
  then have n': "unat n \<noteq> 0" by (simp add: word_less_nat_alt)
  show ?thesis
  proof (cases pl)
    case Nil
    then show ?thesis using n by (simp add: handleVehicleDelete_def read_bytes_def)
  next
    case (Cons vid r)
    then have t: "take (unat n) pl = vid # take (unat n - 1) r" using n' by (cases "unat n") simp_all
    show ?thesis
    proof (cases "map_of (m_players s) pid")
      case None
      then show ?thesis using n Cons t assms
        by (simp add: handleVehicleDelete_def read_bytes_def getPlayer_free acting_absent)
    next
      case (Some p)
      let ?s = "s\<lparr>m_entries := onVehicleDelete pid vid (m_entries s)\<rparr>"
      have "lobby_of (upd_player pid (\<lambda>p. p\<lparr>pl_vehicles := filter (\<lambda>v. \<not> pv_vehicle_id v = vid) (pl_vehicles p)\<rparr>) ?s)
          = acting pid (drop_car vid) (lobby_of ?s)"
        by (rule acting_upd) (rule member_of_dropped)
      then have u: "lobby_of (upd_player pid (\<lambda>p. p\<lparr>pl_vehicles := filter (\<lambda>v. \<not> pv_vehicle_id v = vid) (pl_vehicles p)\<rparr>) ?s)
          = acting pid (drop_car vid) (lobby_of s)" by (simp add: lobby_cong [of ?s s])
      have rb: "read_bytes pl 1 = Inr [vid]" by (simp add: Cons read_bytes_def)
      show ?thesis unfolding t list.case handleVehicleDelete_def if_not_P [OF n] rb bindE_simps Let_def list.sel
          getPlayer_free [OF assms] Some option.case
        by (rule becomes_after [OF lobby.unchanged_send(2) u], rule becomes_after_event, assumption, simp)
    qed
  qed
qed

lemma becomes_handleChat: "becomes (lobby_of s) (handleChat cb E pid pl n s)"
  unfolding handleChat_def Let_def
  apply (rule becomes_read, rule becomes_read, rule postE_option, simp, rule postE_if, simp)
  apply (rule becomes_after_event, rule refl, simp only: prod.case, rule postE_if, simp)
  apply (rule becomes_unchanged [OF lobby.unchanged_sendChat], assumption)
  done

lemma becomes_handleAuthorityClaim: "becomes (lobby_of s) (handleAuthorityClaim E pid s)"
  unfolding handleAuthorityClaim_def
  apply (rule postE_if, simp, rule becomes_after_authority, rule refl, simp only: prod.case, rule postE_if)
   apply (rule becomes_unchanged [OF lobby.unchanged_sendChat], assumption, simp)
  done

lemma unchanged_auth: "unchanged lobby_of s (auth_error E i e s)" "unchanged lobby_of s (auth_ok E i p s)"
  unfolding auth_error_def auth_ok_def send_auth_response_def by (intro lobby.unchanged_read lobby.unchanged_send)+

lemma unchanged_auth_reject: "unchanged lobby_of s (auth_reject cb E i e s)"
  unfolding auth_reject_def by (intro lobby.unchanged_bind unchanged_auth lobby.unchanged_disconnect)

lemma unchanged_sendServerInfo: "unchanged lobby_of s (sendServerInfo E i s)"
  unfolding sendServerInfo_def by (intro lobby.unchanged_read lobby.unchanged_send)

lemma fresh_next: "fresh_id (lobby_of s) = next_id s"
  by (simp add: fresh_id_def next_id_def)

lemma becomes_add_player:
  assumes "m_next_player_id u = next_id s + 1" "m_players u = m_players s" "m_session_to_player u = m_session_to_player s"
    "m = member_of p"
  shows "becomes (enter sid m (lobby_of s)) (add_player sid (next_id s) p u)"
  unfolding add_player_def
  by (rule postE_with_lock) (auto intro!: lobby_eqI simp: assms enter_def fresh_next Let_def update_conv' fun_eq_iff)

lemma becomes_handleAuth_bridge:
  "becomes (if cfg_ai_enabled (e_cfg E) \<and> password = cfg_bridge_token (e_cfg E)
      then enter sid \<lparr>mb_name = BRIDGE_NAME, mb_role = ''bridge'', mb_state = READY_STATE, mb_cars = []\<rparr> (lobby_of s)
      else lobby_of s) (handleAuth_bridge cb E sid password s)"
proof (cases "\<not> has_authority E \<or> password \<noteq> cfg_bridge_token (e_cfg E)")
  case True
  then show ?thesis
    by (auto simp: handleAuth_bridge_def has_authority_def intro: becomes_unchanged [OF unchanged_auth_reject])
next
  case False
  then show ?thesis
    unfolding handleAuth_bridge_def if_not_P [OF False] allocPlayerID_next Let_def prod.case
    apply (subst if_P, simp add: has_authority_def)
    apply (rule becomes_read, rule postE_bindI [OF becomes_add_player])
        apply (simp_all add: member_of_def new_player_def)[4]
    apply (rule becomes_after [OF unchanged_auth(2)], assumption)
    apply (rule becomes_after_authority, assumption, simp)
    done
qed

lemma fireEvent_objects: "fireEvent cb E ev args s = Inr (r, t) \<Longrightarrow> vetoed r \<Longrightarrow> objects E"
  unfolding fireEvent_def lua_enter_def objects_def Let_def
  by (auto simp: bindE_Inr_iff split: prod.splits dest!: arg_cong [where f = snd]) blast

lemma becomes_after_asked:
  assumes "lobby_of s = b" "\<And>r t. lobby_of t = b \<Longrightarrow> vetoed r \<longrightarrow> objects E \<Longrightarrow> postE Q (k (r, t))"
  shows "postE Q (bindE (fireEvent cb E ev args s) k)"
proof (rule becomes_read)
  fix x
  assume x: "fireEvent cb E ev args s = Inr x"
  obtain r t where "x = (r, t)" by (cases x)
  with x assms lobby.fired [of cb E ev args s r t] fireEvent_objects [of cb E ev args s r t]
  show "postE Q (k x)" by auto
qed

lemma some_no_veto [simp]: "(\<forall>veto. veto) \<longleftrightarrow> False"
  by blast

lemma becomes_handleAuth_player:
  "postE (\<lambda>t. \<exists>veto. (veto \<longrightarrow> objects E) \<and> lobby_of t = (if veto then turned_away sid (lobby_of s)
      else enter sid \<lparr>mb_name = name, mb_role = str_field E j ''role'' ''player'', mb_state = LOADING_MODS, mb_cars = []\<rparr>
        (lobby_of s))) (handleAuth_player cb E sid name j s)"
proof -
  let ?m = "\<lparr>mb_name = name, mb_role = str_field E j ''role'' ''player'', mb_state = LOADING_MODS, mb_cars = []\<rparr>"
  have away: "becomes (turned_away sid (lobby_of s)) (with_lock PlayersMutex (\<lambda>s. Inr (s
      \<lparr>m_players := AList.delete (next_id u) (m_players s),
       m_session_to_player := AList.delete sid (m_session_to_player s)\<rparr>)) t)"
    if t: "lobby_of t = enter sid m (lobby_of s)" and u: "u = s" for t u m
  proof -
    have f: "m_next_player_id t = next_id s + 1" "map_of (m_session_to_player t) = (map_of (m_session_to_player s))(sid \<mapsto> next_id s)"
      "map_option member_of (map_of (m_players t) i)
        = (if i = next_id s then Some m else map_option member_of (map_of (m_players s) i))" for i
      using arg_cong [OF t, of lb_next] arg_cong [OF t, of lb_seats] arg_cong [OF t, of "\<lambda>a. lb_members a i"]
      by (simp_all add: enter_def fresh_next Let_def)
    show ?thesis
      by (rule postE_with_lock)
        (use f in \<open>auto intro!: lobby_eqI simp: turned_away_def fresh_next Let_def u delete_conv'\<close>)
  qed
  show ?thesis
    unfolding handleAuth_player_def allocPlayerID_next Let_def prod.case
    apply (rule becomes_read, rule becomes_read, rule postE_bindI [OF becomes_add_player [where m = ?m]])
        apply (simp_all add: member_of_def new_player_def valueE_field)[4]
    apply (rule becomes_after_asked, assumption, simp only: prod.case, rule postE_if)
     apply (rule postE_bindI [OF away], assumption, rule refl)
     apply (rule postE_mono [OF becomes_unchanged [OF unchanged_auth_reject]], assumption, rule exI [of _ True], simp)
    apply (rule postE_mono [where P = "\<lambda>t. lobby_of t = enter sid ?m (lobby_of s)"])
     apply (rule becomes_after [OF unchanged_auth(2)], assumption)
     apply (rule becomes_after [OF unchanged_sendServerInfo], assumption)
     apply (rule becomes_read, simp)
    apply (rule exI [of _ False], simp)
    done
qed

lemma becomes_handleAuth:
  assumes "distinct (keys (m_players s))"
  shows "postE (\<lambda>t. \<exists>veto. (veto \<longrightarrow> objects E) \<and> lobby_of t = (case json_parse E (string_of_bytes (take (unat n) pl)) of None \<Rightarrow> lobby_of s
    | Some j \<Rightarrow> serve E veto sid (Login (str_field E j ''username'' []) (str_field E j ''server_password'' [])
        (str_field E j ''role'' ''player'')) (lobby_of s))) (handleAuth cb E sid pl n s)"
proof (cases "unat n \<le> length pl \<and> (\<exists>j. json_parse E (string_of_bytes (take (unat n) pl)) = Some j)")
  case False
  then show ?thesis
    by (auto simp: handleAuth_def read_bytes_def intro: becomes_unchanged [OF unchanged_auth(1)])
next
  case True
  then obtain j where j: "json_parse E (string_of_bytes (take (unat n) pl)) = Some j" and len: "unat n \<le> length pl" by blast
  let ?name = "str_field E j ''username'' []" and ?password = "str_field E j ''server_password'' []"
  let ?Q = "\<lambda>t. \<exists>veto. (veto \<longrightarrow> objects E) \<and> lobby_of t = serve E veto sid (Login ?name ?password (str_field E j ''role'' ''player'')) (lobby_of s)"
  have keep: "postE ?Q r" if "unchanged lobby_of s r" "serve E False sid (Login ?name ?password (str_field E j ''role'' ''player''))
      (lobby_of s) = lobby_of s" for r
    by (rule postE_mono [OF becomes_unchanged [OF that(1) refl]]) (rule exI [of _ False], simp only: that(2) simp_thms)
  have bridge: "postE ?Q (handleAuth_bridge cb E sid ?password s)" if "?name = BRIDGE_NAME"
    by (rule postE_mono [OF becomes_handleAuth_bridge]) (simp add: that Let_def)
  have player: "postE ?Q (handleAuth_player cb E sid ?name j s)" if "?name \<noteq> BRIDGE_NAME" "?name \<noteq> []"
      "\<not> (cfg_password (e_cfg E) \<noteq> [] \<and> ?password \<noteq> cfg_password (e_cfg E))" "\<not> full (e_cfg E) (lobby_of s)"
    by (rule postE_mono [OF becomes_handleAuth_player], erule ex_forward) (use that in \<open>auto simp: Let_def\<close>)
  show ?thesis unfolding j option.case handleAuth_def read_bytes_def if_P [OF len] bindE_simps
    apply (rule becomes_read, rule becomes_read)
    apply (drule valueE_field, drule valueE_field, hypsubst)
    apply (rule postE_if, erule bridge)
    apply (rule postE_if, rule keep [OF unchanged_auth(1)], simp)
    apply (rule postE_if, rule keep [OF unchanged_auth_reject], simp)
    apply (rule becomes_read, rule postE_if, rule keep [OF unchanged_auth_reject])
     apply (simp add: full_iff [OF assms] playerCount_def read_locked_def split: if_splits)
    apply (rule player, assumption, assumption, assumption)
    apply (simp add: full_iff [OF assms] playerCount_def read_locked_def split: if_splits)
    done
qed

lemma request_of_type:
  assumes "parseHeader data = Inr hdr"
  shows "type_of_byte (hdr_type hdr) = Some AUTH_REQUEST \<Longrightarrow> request_of E data =
      (case json_parse E (string_of_bytes (take (unat (hdr_payload_len hdr)) (payload data))) of None \<Rightarrow> Nothing
       | Some j \<Rightarrow> Login (str_field E j ''username'' []) (str_field E j ''server_password'' []) (str_field E j ''role'' ''player''))"
    and "type_of_byte (hdr_type hdr) = Some VEHICLE_SPAWN \<Longrightarrow> request_of E data =
      (case json_parse E (string_of_bytes (take (unat (hdr_payload_len hdr)) (payload data))) of None \<Rightarrow> Nothing
       | Some j \<Rightarrow> Spawn (str_field E j ''model'' ''etk800''))"
    and "type_of_byte (hdr_type hdr) = Some VEHICLE_DELETE \<Longrightarrow> request_of E data =
      (case take (unat (hdr_payload_len hdr)) (payload data) of [] \<Rightarrow> Nothing | vid # _ \<Rightarrow> Delete vid)"
    and "type_of_byte (hdr_type hdr) = Some READY \<Longrightarrow> request_of E data = Ready"
    and "type_of_byte (hdr_type hdr) \<notin> Some ` {AUTH_REQUEST, VEHICLE_SPAWN, VEHICLE_DELETE, READY} \<Longrightarrow>
      request_of E data = Nothing"
  by (simp_all add: request_of_def assms Let_def split: option.split PacketType.split)

lemma onTCPPacket_type:
  assumes "parseHeader data = Inr hdr" "held s = []"
    "pid = (case map_of (m_session_to_player s) sid of Some p \<Rightarrow> p | None \<Rightarrow> 0xFFFF)"
  shows "type_of_byte (hdr_type hdr) = Some AUTH_REQUEST \<Longrightarrow>
      onTCPPacket cb E sid data s = handleAuth cb E sid (payload data) (hdr_payload_len hdr) s"
    and "type_of_byte (hdr_type hdr) = Some VEHICLE_SPAWN \<Longrightarrow> onTCPPacket cb E sid data s =
      (if pid \<noteq> 0xFFFF then handleVehicleSpawn cb E pid (payload data) (hdr_payload_len hdr) s else Inr s)"
    and "type_of_byte (hdr_type hdr) = Some VEHICLE_DELETE \<Longrightarrow> onTCPPacket cb E sid data s =
      (if pid \<noteq> 0xFFFF then handleVehicleDelete cb E pid (payload data) (hdr_payload_len hdr) s else Inr s)"
    and "type_of_byte (hdr_type hdr) = Some READY \<Longrightarrow> onTCPPacket cb E sid data s =
      (if pid \<noteq> 0xFFFF then handleReady cb E pid s else Inr s)"
    and "type_of_byte (hdr_type hdr) = Some CHAT_MESSAGE \<Longrightarrow> onTCPPacket cb E sid data s =
      (if pid \<noteq> 0xFFFF then handleChat cb E pid (payload data) (hdr_payload_len hdr) s else Inr s)"
    and "type_of_byte (hdr_type hdr) = Some AUTHORITY_CLAIM \<Longrightarrow> onTCPPacket cb E sid data s =
      (if pid \<noteq> 0xFFFF then handleAuthorityClaim E pid s else Inr s)"
    and "type_of_byte (hdr_type hdr) \<notin> Some ` {AUTH_REQUEST, VEHICLE_SPAWN, VEHICLE_DELETE, READY, CHAT_MESSAGE,
        AUTHORITY_CLAIM} \<Longrightarrow> onTCPPacket cb E sid data s = Inr s"
  by (simp_all add: onTCPPacket_def assms Let_def split: option.split PacketType.split)

lemma becomes_onTCPPacket:
  assumes "held s = []" "tables_ok E s"
  shows "postE (\<lambda>t. \<exists>veto. (veto \<longrightarrow> objects E) \<and> lobby_of t = serve E veto sid (request_of E data) (lobby_of s)) (onTCPPacket cb E sid data s)"
    (is "postE ?Q _")
proof (cases "parseHeader data")
  case hdr: (Inr hdr)
  let ?pl = "payload data" and ?n = "hdr_payload_len hdr"
  define pid where "pid = (case map_of (m_session_to_player s) sid of Some p \<Rightarrow> p | None \<Rightarrow> 0xFFFF)"
  note req = request_of_type [OF hdr, of E]
  note tcp = onTCPPacket_type [OF hdr assms(1) pid_def, of cb E]
  have seat: "seated sid f (lobby_of s) = (if pid \<noteq> 0xFFFF then acting pid f (lobby_of s) else lobby_of s)" for f
    using assms(2) by (auto simp: pid_def seated_def acting_def tables_ok_def real_id_def dest!: map_of_SomeD
        split: option.split)
  have acts: "postE ?Q (if pid \<noteq> 0xFFFF then r else Inr s)"
    if "becomes b r" "serve E False sid (request_of E data) (lobby_of s) = (if pid \<noteq> 0xFFFF then b else lobby_of s)" for r b
    using that(1) by (cases r) (use that(2) in \<open>auto intro!: exI [of _ False]\<close>)
  consider (auth) "type_of_byte (hdr_type hdr) = Some AUTH_REQUEST"
    | (spawn) "type_of_byte (hdr_type hdr) = Some VEHICLE_SPAWN"
    | (delete) "type_of_byte (hdr_type hdr) = Some VEHICLE_DELETE"
    | (ready) "type_of_byte (hdr_type hdr) = Some READY"
    | (chat) "type_of_byte (hdr_type hdr) = Some CHAT_MESSAGE"
    | (claim) "type_of_byte (hdr_type hdr) = Some AUTHORITY_CLAIM"
    | (other) "type_of_byte (hdr_type hdr) \<notin> Some ` {AUTH_REQUEST, VEHICLE_SPAWN, VEHICLE_DELETE, READY, CHAT_MESSAGE,
        AUTHORITY_CLAIM}" by blast
  then show ?thesis
  proof cases
    case auth
    have "distinct (keys (m_players s))" using assms(2) by (simp add: tables_ok_def)
    from becomes_handleAuth [OF this, where E = E and n = ?n and pl = ?pl and sid = sid and cb = cb] show ?thesis
      unfolding tcp(1) [OF auth] req(1) [OF auth] by (rule postE_mono) (auto split: option.splits)
  next
    case spawn
    show ?thesis unfolding tcp(2) [OF spawn]
      by (rule acts [OF becomes_handleVehicleSpawn [OF assms(1)]])
        (simp add: req(2) [OF spawn] seat split: option.split)
  next
    case delete
    show ?thesis unfolding tcp(3) [OF delete]
      by (rule acts [OF becomes_handleVehicleDelete [OF assms(1)]])
        (simp add: req(3) [OF delete] seat split: list.split)
  next
    case ready
    show ?thesis unfolding tcp(4) [OF ready]
      by (rule acts [OF becomes_handleReady [OF assms(1)]]) (simp add: req(4) [OF ready] seat)
  next
    case chat
    show ?thesis unfolding tcp(5) [OF chat] by (rule acts [OF becomes_handleChat]) (simp add: req(5) chat)
  next
    case claim
    show ?thesis unfolding tcp(6) [OF claim] by (rule acts [OF becomes_handleAuthorityClaim]) (simp add: req(5) claim)
  next
    case other
    then show ?thesis by (subst tcp(7)) (simp_all add: req(5) image_iff)
  qed
qed (simp add: onTCPPacket_def)

lemma lobby_unmap: "unmapPlayer p s = Inr u \<Longrightarrow> lobby_of u = lobby_of s"
  by (simp add: lobby_cong [of u s] unmapPlayer_frame)

lemma becomes_onDisconnect:
  assumes "tables_ok E s"
  shows "becomes (leave sid (lobby_of s)) (onDisconnect E sid s)"
proof -
  let ?pid = "case map_of (m_session_to_player s) sid of Some p \<Rightarrow> p | None \<Rightarrow> 0xFFFF"
  let ?b = "(lobby_of s)\<lparr>lb_seats := (lb_seats (lobby_of s))(sid := None)\<rparr>"
  have unlink: "becomes ?b (with_lock PlayersMutex (\<lambda>s. Inr (s
      \<lparr>m_session_to_player := AList.delete sid (m_session_to_player s)\<rparr>)) s)"
    by (rule postE_with_lock) (auto intro!: lobby_eqI simp: delete_conv')
  have gone: "becomes (b\<lparr>lb_members := (lb_members b)(pid := None)\<rparr>) (with_lock PlayersMutex (\<lambda>s. case map_of (m_players s) pid of
      None \<Rightarrow> Inr s
    | Some _ \<Rightarrow> bindE (unmapPlayer pid (s\<lparr>m_entries := onPlayerDisconnect pid (m_entries s)\<rparr>))
        (\<lambda>s. Inr (s\<lparr>m_players := AList.delete pid (m_players s)\<rparr>))) t)" if "lobby_of t = b" for t pid b
  proof -
    have None: "lb_members (lobby_of t) = (lb_members (lobby_of t))(pid := None)" if "map_of (m_players t) pid = None"
      using that by (auto simp: fun_eq_iff)
    have Some: "lobby_of (u\<lparr>m_players := AList.delete pid (m_players u), held := h\<rparr>)
        = (lobby_of t)\<lparr>lb_members := (lb_members (lobby_of t))(pid := None)\<rparr>"
      if "unmapPlayer pid (t\<lparr>held := g, m_entries := es\<rparr>) = Inr u" for u h g es
      using unmapPlayer_frame [OF that] by (auto intro!: lobby_eqI simp: delete_conv')
    show ?thesis
      by (rule postE_with_lock) (use that Some in \<open>auto simp: postE_bindE intro!: postE_I lobby_eqI split: option.split\<close>)
  qed
  show ?thesis
  proof (cases "map_of (m_session_to_player s) sid")
    case None
    then have "?b = lobby_of s" by (intro lobby_eqI) (auto simp: fun_eq_iff)
    with unlink None show ?thesis
      by (simp add: onDisconnect_def onDisconnect_body_def Let_def leave_def postE_bindE)
  next
    case (Some pid)
    have "pid \<noteq> 0xFFFF" using assms map_of_SomeD [OF Some] by (auto simp: tables_ok_def real_id_def)
    have l: "leave sid (lobby_of s) = ?b\<lparr>lb_members := (lb_members ?b)(pid := None)\<rparr>"
      by (simp add: leave_def Some)
    show ?thesis unfolding onDisconnect_def onDisconnect_body_def Let_def Some option.case if_not_P [OF \<open>pid \<noteq> 0xFFFF\<close>] l
      apply (rule postE_bindI [OF unlink], rule postE_bindI [OF gone], assumption)
      apply (rule becomes_after [OF lobby.unchanged_broadcastPlayerLeave], assumption)
      apply (rule becomes_after_event, assumption, simp only: prod.case)
      apply (rule postE_bindI [where P = "\<lambda>t. lobby_of t = ?b\<lparr>lb_members := (lb_members ?b)(pid := None)\<rparr>"])
       apply (rule postE_if, rule becomes_after_authority, assumption, simp, simp)
      apply (rule becomes_read, simp)
      done
  qed
qed

lemma becomes_quiet: "quiet s r \<Longrightarrow> becomes (lobby_of s) r"
  unfolding quiet_def by (erule postE_mono) (rule lobby_core)

lemma lobby_entries [simp]: "lobby_of (s\<lparr>m_entries := es\<rparr>) = lobby_of s"
  "lobby_of (s\<lparr>m_recv_buf := f\<rparr>) = lobby_of s" "lobby_of (s\<lparr>udp_out := x\<rparr>) = lobby_of s"
  "lobby_of (s\<lparr>m_running := r\<rparr>) = lobby_of s" "lobby_of (s\<lparr>ai_history := h\<rparr>) = lobby_of s"
  by (simp_all add: lobby_of_def)

lemma becomes_handleVehicleUpdate: "becomes (lobby_of s) (handleVehicleUpdate pid n s)"
  unfolding handleVehicleUpdate_def by (rule postE_if, simp) (rule becomes_read, rule becomes_read, simp)

lemma becomes_onUDPPacket: "becomes (lobby_of s) (onUDPPacket E ep n s)"
  unfolding onUDPPacket_def
  apply (rule becomes_read, rule postE_if, simp add: udp_send_def)
  apply (rule becomes_read, rule postE_if, simp, rule postE_if)
   apply (rule postE_if, rule becomes_read, rule postE_if)
     apply (rule becomes_read, rule becomes_quiet, rule quiet_udp_sendAll)
    apply (rule becomes_handleVehicleUpdate)+
  apply simp
  done

lemma becomes_vehicleSync_tick: "becomes (lobby_of s) (vehicleSync_tick s)"
proof -
  obtain es calls where b: "broadcastAll (m_entries s) = (es, calls)" by fastforce
  have "becomes (lobby_of s) (foldE (\<lambda>(pkt, exclude). udp_sendAll pkt exclude) calls s)"
    by (rule becomes_quiet, rule quiet_foldE) (auto intro: quiet_trans quiet_udp_sendAll)
  then show ?thesis unfolding vehicleSync_tick_def b Let_def prod.case
    by (rule postE_bindI) simp
qed

lemma becomes_onSessionClose:
  assumes "tables_ok E s"
  shows "becomes (leave sid (lobby_of s)) (onSessionClose (onDisconnect E) sid s)"
proof -
  have "quiet s (with_lock SessionsMutex (\<lambda>s. Inr (s\<lparr>m_sessions := AList.delete sid (m_sessions s)\<rparr>)) s)"
    by (rule quiet_with_lock, rule quiet_Inr) simp
  then show ?thesis unfolding onSessionClose_def quiet_def
    by (rule postE_bindI) (metis becomes_onDisconnect lobby_core tables_ok_core assms)
qed

lemma becomes_tcp_accept: "becomes (lobby_of s) (tcp_accept ip s)"
  unfolding tcp_accept_def Let_def
  by (rule becomes_quiet) (rule quiet_trans [rotated], rule quiet_with_lock, rule quiet_Inr, simp_all)

lemma becomes_udp_receive: "becomes (lobby_of s) (udp_receive (onUDPPacket E) ep d s)"
  using becomes_onUDPPacket [of "s\<lparr>m_recv_buf := g\<rparr>" for g] by (simp add: udp_receive_def Let_def)

text \<open>Every event but a frame and a close leaves the lobby alone, whatever plugins and the AI do.\<close>

lemma becomes_others: "\<forall>sid data. e \<noteq> EvFrame sid data \<and> e \<noteq> EvClose sid \<Longrightarrow> becomes (lobby_of s) (handle E e s)"
proof (cases e)
  case (EvLua code)
  show ?thesis by (simp add: EvLua, rule postE_bindI [OF lobby.unchanged_lua_enter]) auto
qed (auto simp: stop_server_def becomes_tcp_accept becomes_udp_receive becomes_vehicleSync_tick
    becomes_quiet [OF quiet_ai_tick] becomes_quiet [OF quiet_masterHeartbeat]
    becomes_unchanged [OF lobby.unchanged_kickPlayer] becomes_unchanged [OF lobby.unchanged_banPlayer]
    becomes_unchanged [OF lobby.unchanged_sendChat]
    intro!: becomes_after_event becomes_after_authority)

lemma lobby_handle:
  assumes "held s = []" "tables_ok E s"
  shows "postE (\<lambda>t. \<exists>veto. (veto \<longrightarrow> objects E) \<and> lobby_of t = lobby_next E veto e (lobby_of s)) (handle E e s)"
proof (cases "\<exists>sid data. e = EvFrame sid data \<or> e = EvClose sid")
  case True
  then show ?thesis using becomes_onTCPPacket [OF assms] becomes_onSessionClose [OF assms(2)] by auto
next
  case False
  then have "becomes (lobby_of s) (handle E e s)" "\<And>v a. lobby_next E v e a = a"
    by (blast intro: becomes_others, cases e) auto
  then show ?thesis by simp
qed

lemma lobby_step:
  assumes "reachable E s" "handle E e s = Inr t"
  obtains veto where "veto \<longrightarrow> objects E" "lobby_of t = lobby_next E veto e (lobby_of s)"
  using postE_D [OF lobby_handle [OF reachable_held [OF assms(1)] ids.invariant [OF assms(1)]] assms(2)] by blast

section \<open>Properties\<close>

text \<open>A run of the lobby: the events, each with the answer of the plugins.\<close>

definition lobby_run :: "env \<Rightarrow> (bool \<times> event) list \<Rightarrow> lobby \<Rightarrow> lobby" where
  "lobby_run E = fold (\<lambda>(veto, e). lobby_next E veto e)"

lemma lobby_run_simps [simp]: "lobby_run E [] a = a"
  "lobby_run E ((v, e) # r) a = lobby_run E r (lobby_next E v e a)"
  by (simp_all add: lobby_run_def)

definition plugins_allow :: "env \<Rightarrow> (bool \<times> event) list \<Rightarrow> bool" where
  "plugins_allow E = list_all (\<lambda>(veto, e). veto \<longrightarrow> objects E)"

lemma lobby_simulates: "reachable E s \<Longrightarrow> foldE (handle E) evs s = Inr t \<Longrightarrow>
    \<exists>answered. map snd answered = evs \<and> plugins_allow E answered \<and> lobby_of t = lobby_run E answered (lobby_of s)"
proof (induction evs arbitrary: s)
  case Nil
  then show ?case by (auto simp: plugins_allow_def)
next
  case (Cons e evs)
  then obtain u where u: "handle E e s = Inr u" "foldE (handle E) evs u = Inr t" by (auto simp: bindE_Inr_iff)
  then have "reachable E u" using Cons.prems(1) by (auto intro: reachable.event)
  with Cons.IH u(2) obtain rest where rest: "map snd rest = evs" "plugins_allow E rest"
    "lobby_of t = lobby_run E rest (lobby_of u)" by blast
  obtain veto where "veto \<longrightarrow> objects E" "lobby_of u = lobby_next E veto e (lobby_of s)"
    by (rule lobby_step [OF Cons.prems(1) u(1)])
  with rest show ?case by (intro exI [of _ "(veto, e) # rest"]) (simp add: plugins_allow_def)
qed

text \<open>
  C4. The server implements the lobby: after any sequence of events that it survives, whatever plugins, the
  AI and the clients do, the identifiers it has given out, who sits on which session, and the name, the role,
  the state and the vehicles of every player are what the equations of the lobby make of these events; a
  plugin turns somebody away only if one of its answers is an objection.
\<close>

theorem server_implements_lobby:
  assumes "run_events E evs initial_server = Inr s"
  shows "\<exists>answered. map snd answered = evs \<and> plugins_allow E answered
    \<and> lobby_of s = lobby_run E answered empty_lobby"
  using lobby_simulates [OF reachable.init, of E evs s] assms by (simp add: run_events_def lobby_initial)

text \<open>Without an objecting plugin the run of the lobby is determined by the events.\<close>

lemma demo_never_objects: "\<not> objects demo"
  by (simp add: objects_def demo_def demo_env_def lua_string_def vetoed_def)

lemma plugins_allow_demo: "plugins_allow demo answered \<Longrightarrow> answered = map (Pair False) (map snd answered)"
  by (induction answered) (auto simp: plugins_allow_def demo_never_objects)

lemma two_state_run: "run_events demo two_players initial_server = Inr two_state"
  using outcome_run [OF two_run] by (auto simp: two_state_def)

theorem server_implements_lobby_witness:
  "lobby_of two_state = lobby_run demo (map (Pair False) two_players) empty_lobby"
  using server_implements_lobby [OF two_state_run] plugins_allow_demo by metis

lemma lobby_bystander:
  assumes "lb_seats a other = Some i" "i \<noteq> fresh_id a" "\<And>sid. sid \<noteq> other \<Longrightarrow> lb_seats a sid \<noteq> Some i"
    "\<And>data. e \<noteq> EvFrame other data" "e \<noteq> EvClose other"
  shows "lb_seats (lobby_next E veto e a) other = Some i \<and> lb_members (lobby_next E veto e a) i = lb_members a i"
proof -
  have acts: "lb_seats (seated sid f a) = lb_seats a" "sid \<noteq> other \<Longrightarrow> lb_members (seated sid f a) i = lb_members a i"
    for sid f using assms(3) [of sid] by (auto simp: seated_def split: option.split)
  show ?thesis
  proof (cases e)
    case (EvFrame sid data)
    then have "sid \<noteq> other" using assms(4) by blast
    with assms(1,2) show ?thesis
      by (cases "request_of E data") (simp_all add: EvFrame acts enter_def turned_away_def Let_def)
  next
    case (EvClose sid)
    then have "sid \<noteq> other" using assms(5) by blast
    with assms(1) assms(3) [of sid] show ?thesis by (auto simp: EvClose leave_def split: option.split)
  qed (use assms(1) in simp_all)
qed

text \<open>
  C5. Nobody is touched by what others do: an event that is neither a frame nor the end of a session leaves
  that session with its player, and this player's name, role, state and vehicles as they are, even if a plugin
  or the AI acts in between. It is assumed that no other session is bound to the same player and that the
  counter of identifiers is not about to return to his, as it may after 65534 logins.
\<close>

theorem bystanders_unaffected:
  assumes "reachable E s" and "handle E e s = Inr t"
    and "map_of (m_session_to_player s) sid = Some i"
    and "\<forall>other. other \<noteq> sid \<longrightarrow> map_of (m_session_to_player s) other \<noteq> Some i"
    and "i \<noteq> fst (allocPlayerID s)"
    and "(\<forall>data. e \<noteq> EvFrame sid data) \<and> e \<noteq> EvClose sid"
  shows "map_of (m_session_to_player t) sid = Some i
    \<and> map_option member_of (map_of (m_players t) i) = map_option member_of (map_of (m_players s) i)"
proof -
  obtain veto where t: "lobby_of t = lobby_next E veto e (lobby_of s)"
    by (rule lobby_step [OF assms(1,2)])
  have "i \<noteq> fresh_id (lobby_of s)" using assms(5) by (simp add: fresh_next allocPlayerID_next Let_def)
  from lobby_bystander [of "lobby_of s" sid i e E veto] this assms(3,4,6) show ?thesis
    by (simp flip: t)
qed

lemma two_close: "fst (allocPlayerID two_state) = 3 \<and> outcome (\<lambda>_. True) (handle demo (EvClose 2) two_state)"
  by code_simp

theorem bystanders_unaffected_witness:
  "\<exists>t. handle demo (EvClose 2) two_state = Inr t \<and> map_of (m_session_to_player t) 1 = Some 1
    \<and> map_option (map pv_model \<circ> pl_vehicles) (map_of (m_players t) 1)
      = map_option (map pv_model \<circ> pl_vehicles) (map_of (m_players two_state) 1)"
proof -
  obtain t where t: "handle demo (EvClose 2) two_state = Inr t"
    using two_close by (auto simp: outcome_def split: sum.splits)
  have cars: "map pv_model \<circ> pl_vehicles = map snd \<circ> mb_cars \<circ> member_of" by (auto simp: fun_eq_iff member_of_def)
  from bystanders_unaffected [OF two_reachable t two_sessions(1)] two_close
  have "map_of (m_session_to_player t) 1 = Some 1"
    "map_option member_of (map_of (m_players t) 1) = map_option member_of (map_of (m_players two_state) 1)"
    by (simp_all add: two_state_facts)
  with t show ?thesis
    by (simp add: cars flip: option.map_comp)
qed

end
