(* ===== verification/Server_Overlap.thy ===== *)
theory Server_Overlap
  imports Server_Races Lobby
begin

text \<open>
  Handlers that overlap, step by step: what a rejected login has sent when its thread blocks itself, and what
  goes wrong where the code takes no lock. The schedules are given by the points at which a thread holds no
  mutex (\<open>onward\<close>, \<open>finish\<close>), so the properties hold for any environment, any reachable state and any texts.
\<close>

section \<open>The programs of two frames\<close>

lemma liftP_simps [simp]: "liftP (Inr x) = Return x" "liftP (Inl e) = Fail e"
  by (simp_all add: liftP_def)

definition lookup_session :: "u16 \<Rightarrow> (server, u16) prog" where
  "lookup_session sid = lockP PlayersMutex (getP (session_player sid))"

lemma tidy_lookup_session: "tidy [] (lookup_session sid)"
  unfolding lookup_session_def
  by (intro tidy_lock_players clean_getP) (simp add: guard_simps session_player_def)

lemma exec_lookup_session: "held s = [] \<Longrightarrow> exec (lookup_session sid) s = Inr (session_player sid s, s)"
  by (simp add: lookup_session_def exec_lock_read session_player_def)

lemma frame_program:
  assumes "length t < 65536"
  shows "handleP E (EvFrame sid (buildStr AUTH_REQUEST i q t)) = bindP (lookup_session sid)
      (\<lambda>_. handleAuthP (onDisconnectP E) E sid (bytes_of_string t) (word_of_nat (length t)))"
    and "handleP E (EvFrame sid (buildStr CHAT_MESSAGE i q t)) = bindP (lookup_session sid)
      (\<lambda>pid. if pid \<noteq> 0xFFFF then handleChatP (onDisconnectP E) E pid (bytes_of_string t) (word_of_nat (length t))
        else Return ())"
  using parseHeader_build [of AUTH_REQUEST i q "Some (bytes_of_string t)" "word_of_nat (length t)" 0 "[]"]
    parseHeader_build [of CHAT_MESSAGE i q "Some (bytes_of_string t)" "word_of_nat (length t)" 0 "[]"] assms
  by (simp_all add: onTCPPacketP_def buildStr_def unat_word_of_nat_u16 Let_def lookup_session_def
      session_player_def [abs_def] cong: if_cong del: type_code.simps)

lemma auth_program:
  assumes "length t < 65536" "json_parse E t = Some j" "json_value_str E j ''username'' [] = Some name"
    "json_value_str E j ''server_password'' [] = Some password"
  shows "handleAuthP cb E sid (bytes_of_string t) (word_of_nat (length t)) =
    (if name = BRIDGE_NAME then handleAuth_bridgeP cb E sid password
     else if name = [] then auth_errorP E sid ''Username required''
     else if cfg_password (e_cfg E) \<noteq> [] \<and> password \<noteq> cfg_password (e_cfg E)
     then auth_rejectP cb E sid ''Wrong password''
     else bindP playerCountP (\<lambda>n. if n \<ge> cfg_max_players (e_cfg E) then auth_rejectP cb E sid ''Server full''
       else handleAuth_playerP cb E sid name j))"
  using assms by (simp add: handleAuthP_def read_body valueE_def)

text \<open>A handler goes on, from a moment at which no mutex is held, by a first part of its program, or to its end.\<close>

lemma starts: "interleaved (serving E es s) (at_rest (map (handleP E) es) s)"
  using start_at_rest by (simp add: serving_def)

lemma goes_on:
  assumes "interleaved (serving E es s) (at_rest qs t)" "held t = []" "i < length qs" "qs ! i = bindP p k"
    "tidy [] p" "exec p t = Inr (x, u)" "qs' = qs[i := k x]"
  shows "interleaved (serving E es s) (at_rest qs' u)"
  using server_threads.onward [OF assms(1) [unfolded serving_def] assms(2-6)] by (simp add: serving_def assms(7))

lemma ends:
  assumes "interleaved (serving E es s) (at_rest qs t)" "held t = []" "i < length qs" "run (qs ! i) t = Inr u"
    "qs' = qs[i := Return ()]"
  shows "interleaved (serving E es s) (at_rest qs' u)"
  using server_threads.finish [OF assms(1) [unfolded serving_def] assms(2-4)] by (simp add: serving_def assms(5))

section \<open>A rejected login is answered, and then blocks\<close>

definition auth_error_json :: "string \<Rightarrow> json" where
  "auth_error_json err = JObj [(''ok'', JBool False), (''error'', JStr err)]"

lemma rejected_program:
  assumes "held s = []" "length t < 65536" "json_parse E t = Some j"
    "json_value_str E j ''username'' [] = Some name" "json_value_str E j ''server_password'' [] = Some password"
    "rejected E name password s"
  shows "interleaved (serving E [EvFrame sid (buildStr AUTH_REQUEST i q t)] s)
    (at_rest [auth_rejectP (onDisconnectP E) E sid (rejection E name password)] s)"
proof -
  let ?es = "[EvFrame sid (buildStr AUTH_REQUEST i q t)]"
  let ?p = "handleAuthP (onDisconnectP E) E sid (bytes_of_string t) (word_of_nat (length t))"
  have 1: "interleaved (serving E ?es s) (at_rest [?p] s)"
    by (rule goes_on [OF starts assms(1) _ _ tidy_lookup_session exec_lookup_session [OF assms(1)], where i = 0 and k = "\<lambda>_. ?p"])
      (simp_all add: frame_program(1) [OF assms(2)] del: handleP.simps)
  note prog = auth_program [OF assms(2-5)]
  show ?thesis
  proof (cases "name = BRIDGE_NAME \<or> cfg_password (e_cfg E) \<noteq> [] \<and> password \<noteq> cfg_password (e_cfg E)")
    case True
    then have "?p = auth_rejectP (onDisconnectP E) E sid (rejection E name password)"
      using assms(6) by (auto simp: prog rejected_def rejection_def handleAuth_bridgeP_def has_authority_def BRIDGE_NAME_def)
    with 1 show ?thesis by simp
  next
    case False
    let ?k = "\<lambda>n. if n \<ge> cfg_max_players (e_cfg E) then auth_rejectP (onDisconnectP E) E sid ''Server full''
        else handleAuth_playerP (onDisconnectP E) E sid name j"
    have "?p = bindP playerCountP ?k" "?k (int (length (m_players s)))
        = auth_rejectP (onDisconnectP E) E sid (rejection E name password)"
      using False assms(6) by (auto simp: prog rejected_def rejection_def)
    moreover have "exec playerCountP s = Inr (int (length (m_players s)), s)"
      using assms(1) by (simp add: exec_playerCount playerCount_def)
    ultimately show ?thesis by (intro goes_on [OF 1 assms(1) _ _ tidy_playerCount, of 0 ?k]) (simp_all only:, simp_all)
  qed
qed

lemma auth_error_sends:
  assumes "held s = []" "map_of (m_sessions s) sid = Some ip" "json_dump E (auth_error_json err) = Some str"
  shows "exec (auth_errorP E sid err) s
    = Inr ((), s\<lparr>tcp_out := tcp_out s @ [(sid, session_frame (buildStr AUTH_RESPONSE 0 0 str))]\<rparr>)"
  using assms by (simp add: exec_unit run_auth_answers auth_error_def send_auth_response_def dumpE_def auth_error_json_def)

text \<open>
  C3. A client with a wrong password, at a full server, or with the name of the AI bridge and a wrong token is
  told so and never let in. On a live session the handler writes the \<open>AUTH_RESPONSE\<close> with the reason, changes
  nothing else, and then its thread stands still for ever, asking for \<open>m_sessions_mutex\<close> while it holds it,
  because rejecting ends in \<open>TCPServer::disconnect\<close>; as an atomic handler it therefore has no result. On a
  session that has ended it changes nothing at all.
\<close>

theorem rejected_login_answered_then_blocks:
  assumes "reachable E s" and "length t < 65536" and "json_parse E t = Some j"
    and "json_value_str E j ''username'' [] = Some name"
    and "json_value_str E j ''server_password'' [] = Some password"
    and "rejected E name password s"
    and "json_dump E (auth_error_json (rejection E name password)) = Some str"
  shows "case map_of (m_sessions s) sid of
      None \<Rightarrow> handle E (EvFrame sid (buildStr AUTH_REQUEST i q t)) s = Inr s
    | Some ip \<Rightarrow> handle E (EvFrame sid (buildStr AUTH_REQUEST i q t)) s = Inl (Relock SessionsMutex)
      \<and> (\<exists>c p. interleaved (serving E [EvFrame sid (buildStr AUTH_REQUEST i q t)] s) c
        \<and> shared c = s\<lparr>tcp_out := tcp_out s @ [(sid, session_frame (buildStr AUTH_RESPONSE 0 0 str))]\<rparr>
        \<and> threads c = [Lock SessionsMutex p] \<and> owner c SessionsMutex = Some 0)"
proof -
  let ?f = "EvFrame sid (buildStr AUTH_REQUEST i q t)" and ?err = "rejection E name password"
  have h: "held s = []" by (rule reachable_held [OF assms(1)])
  note r = rejected_program [OF h assms(2-6), of sid i q]
  have atomic: "handle E ?f s = auth_reject (onDisconnect E) E sid ?err s"
    using handle_auth_rejected [OF h assms(2-6)] .
  show ?thesis
  proof (cases "map_of (m_sessions s) sid")
    case None
    have "auth_reject (onDisconnect E) E sid ?err s = Inr s"
      using None h assms(7)
      by (simp add: auth_reject_def auth_error_def send_auth_response_def dumpE_def auth_error_json_def
          tcp_disconnect_free)
    then show ?thesis using None atomic by simp
  next
    case (Some ip)
    let ?t = "s\<lparr>tcp_out := tcp_out s @ [(sid, session_frame (buildStr AUTH_RESPONSE 0 0 str))]\<rparr>"
    let ?close = "\<lambda>v. case v of None \<Rightarrow> Return () | Some _ \<Rightarrow> onSessionCloseP (onDisconnectP E) sid"
    let ?tail = "\<lambda>v. bindP (?close v) (\<lambda>x. Unlock SessionsMutex (Return x))"
    have sent: "exec (auth_errorP E sid ?err) s = Inr ((), ?t)" by (rule auth_error_sends [OF h Some assms(7)])
    let ?rest = "Lock SessionsMutex (Step (\<lambda>s. s) (\<lambda>s. ?tail (map_of (m_sessions s) sid)))"
    have "auth_rejectP (onDisconnectP E) E sid ?err = bindP (auth_errorP E sid ?err) (\<lambda>_. ?rest)"
      by (simp add: auth_rejectP_def tcp_disconnectP_def lockP_def getP_def)
    then have "interleaved (serving E [?f] s) (at_rest [?rest] ?t)" (is "interleaved _ ?c0")
      by (intro goes_on [OF r h _ _ tidy_auth_answers(1) sent, of 0 "\<lambda>_. ?rest"]) simp_all
    moreover have "\<exists>c p. interleaved ?c0 c \<and> shared c = ?t \<and> threads c = [Lock SessionsMutex p] \<and> owner c SessionsMutex = Some 0"
    proof -
      let ?c1 = "\<lparr>threads = [Step (\<lambda>s. s) (\<lambda>s. ?tail (map_of (m_sessions s) sid))],
        owner = (\<lambda>_. None)(SessionsMutex := Some 0), shared = ?t\<rparr>"
      let ?c2 = "?c1\<lparr>threads := [?tail (Some ip)]\<rparr>"
      have 1: "turn 0 ?c0 = Some (Inr ?c1)" by (simp add: turn_def set_thread_def at_rest_def)
      have 2: "turn 0 ?c1 = Some (Inr ?c2)" using Some by (simp add: turn_def set_thread_def)
      have "interleaved ?c0 ?c2" by (rule interleaved.later [OF interleaved.later [OF interleaved.now 1] 2])
      moreover obtain p where "?tail (Some ip) = Lock SessionsMutex p" by (simp add: onSessionCloseP_def lockP_def)
      ultimately show ?thesis by (intro exI [of _ ?c2] exI [of _ p]) simp
    qed
    moreover have "handle E ?f s = Inl (Relock SessionsMutex)"
      using atomic Some h assms(7)
      by (simp add: auth_reject_def auth_error_def send_auth_response_def dumpE_def auth_error_json_def
          tcp_disconnect_free)
    ultimately show ?thesis using Some interleaved_trans by fastforce
  qed
qed

text \<open>The demonstration with a password, and a session that has not logged in.\<close>

definition guarded :: env where
  "guarded = demo_env (sample_config\<lparr>cfg_password := ''secret''\<rparr>)"

lemma guarded_json: "json_parse guarded = demo_parse" "json_value_str guarded = demo_value"
    "json_dump guarded j = Some ''{}''" "e_cfg guarded = sample_config\<lparr>cfg_password := ''secret''\<rparr>"
  by (simp_all add: guarded_def demo_env_def)

lemma accepted_anywhere: "reachable E accepted"
  by (rule reachable.event [OF reachable.init, where e = "EvAccept ''10.0.0.1''"])
    (simp add: accepted_def initial_server_def)

theorem rejected_login_answered_then_blocks_witness:
  "handle guarded (EvFrame 1 (buildStr AUTH_REQUEST 0 0 ''ann/guess'')) accepted = Inl (Relock SessionsMutex)
   \<and> (\<exists>c p. interleaved (serving guarded [EvFrame 1 (buildStr AUTH_REQUEST 0 0 ''ann/guess'')] accepted) c
      \<and> tcp_out (shared c) = [(1, session_frame (buildStr AUTH_RESPONSE 0 0 ''{}''))] \<and> m_players (shared c) = []
      \<and> threads c = [Lock SessionsMutex p] \<and> owner c SessionsMutex = Some 0)"
proof -
  have "demo_parse ''ann/guess'' = Some (JObj [(''username'', JStr ''ann''), (''server_password'', JStr ''guess'')])"
    by (simp add: demo_parse_def)
  moreover have "rejected guarded ''ann'' ''guess'' accepted" by (simp add: rejected_def guarded_json BRIDGE_NAME_def)
  ultimately show ?thesis
    using rejected_login_answered_then_blocks [OF accepted_anywhere, of "''ann/guess''" guarded _ "''ann''" "''guess''" "''{}''" 1 0 0]
    by (simp add: guarded_json) (fastforce simp: accepted_def initial_server_def)
qed

section \<open>Logins that overlap\<close>

text \<open>A text with which a name logs in, and a server whose plugins let everybody in without calling back.\<close>

definition login_text :: "env \<Rightarrow> string \<Rightarrow> string \<Rightarrow> bool" where
  "login_text E t name \<longleftrightarrow> length t < 65536 \<and> name \<notin> {[], BRIDGE_NAME} \<and> (\<exists>j password role. json_parse E t = Some j
     \<and> json_value_str E j ''username'' [] = Some name
     \<and> json_value_str E j ''server_password'' [] = Some password \<and> cfg_password (e_cfg E) \<in> {[], password}
     \<and> json_value_str E j ''role'' ''player'' = Some role)"

definition welcoming :: "env \<Rightarrow> bool" where
  "welcoming E \<longleftrightarrow> silent E \<and> \<not> objects E \<and> (\<forall>pid. json_dump E (auth_ok_json E pid) \<noteq> None)
     \<and> (\<forall>n. json_dump E (server_info_json E n) \<noteq> None) \<and> json_dump E (auth_error_json ''Server full'') \<noteq> None"

abbreviation login_frame :: "u16 \<Rightarrow> string \<Rightarrow> event" where
  "login_frame sid t \<equiv> EvFrame sid (buildStr AUTH_REQUEST 0 0 t)"

lemma admits:
  assumes "welcoming E" "held s = []" "map_of (m_sessions s) sid = Some ip"
    "json_value_str E j ''role'' ''player'' = Some role"
  obtains u where "run (handleAuth_playerP (onDisconnectP E) E sid name j) s = Inr u" "held u = []"
    "m_sessions u = m_sessions s" "m_next_player_id u = next_id s + 1"
    "m_session_to_player u = AList.update sid (next_id s) (m_session_to_player s)"
    "length (m_players u) = (if next_id s \<in> set (keys (m_players s)) then length (m_players s)
        else Suc (length (m_players s)))" "set (keys (m_players u)) = insert (next_id s) (set (keys (m_players s)))"
    "map_option pl_username (map_of (m_players u) (next_id s)) = Some name"
proof -
  obtain ok info where "json_dump E (auth_ok_json E (next_id s)) = Some ok"
    "json_dump E (server_info_json E (length (m_players (logged_in sid ip name role s)))) = Some info"
    using assms(1) unfolding welcoming_def by (metis option.exhaust)
  moreover have "\<not> vetoed (lua_answer E ev args t)" for ev args t
    using assms(1) by (simp add: welcoming_def objects_def lua_answer_def)
  ultimately have "run (handleAuth_playerP (onDisconnectP E) E sid name j) s =
    Inr (log_event ''onPlayerAuth'' [to_string (next_id s), name] (logged_in sid ip name role s)
      \<lparr>tcp_out := tcp_out s @ [(sid, session_frame (buildStr AUTH_RESPONSE 0 0 ok)),
         (sid, session_frame (buildStr SERVER_INFO 0 0 info))]\<rparr>)"
    using assms unfolding run_handleAuth_player [OF run_onDisconnect]
    by (intro handleAuth_player_ok) (simp_all add: welcoming_def)
  then show ?thesis
    by (rule that) (use assms(2) in \<open>simp_all add: logged_in_def Let_def update_conv' length_update dom_update\<close>)
qed

text \<open>A login on the way: the password has been checked and the players have been counted, nothing entered yet.\<close>

lemma counted:
  assumes "login_text E t name" "held s = []" "int (length (m_players s)) < cfg_max_players (e_cfg E)"
    "interleaved (serving E es s0) (at_rest qs s)" "k < length qs" "qs ! k = handleP E (login_frame sid t)"
  obtains j role where "json_value_str E j ''role'' ''player'' = Some role"
    "interleaved (serving E es s0) (at_rest (qs[k := handleAuth_playerP (onDisconnectP E) E sid name j]) s)"
proof -
  obtain j password role where j: "length t < 65536" "name \<noteq> []" "name \<noteq> BRIDGE_NAME" "json_parse E t = Some j"
      "json_value_str E j ''username'' [] = Some name" "json_value_str E j ''server_password'' [] = Some password"
      "cfg_password (e_cfg E) \<in> {[], password}" "json_value_str E j ''role'' ''player'' = Some role"
    using assms(1) by (auto simp: login_text_def)
  let ?p = "handleAuthP (onDisconnectP E) E sid (bytes_of_string t) (word_of_nat (length t))"
  let ?k = "\<lambda>n. if n \<ge> cfg_max_players (e_cfg E) then auth_rejectP (onDisconnectP E) E sid ''Server full''
        else handleAuth_playerP (onDisconnectP E) E sid name j"
  have 1: "interleaved (serving E es s0) (at_rest (qs[k := ?p]) s)"
    using frame_program(1) [OF j(1)] assms(6)
    by (intro goes_on [OF assms(4,2,5) _ tidy_lookup_session exec_lookup_session [OF assms(2)], where k = "\<lambda>_. ?p"])
      (simp_all del: handleP.simps)
  have "?p = bindP playerCountP ?k"
    using j by (auto simp: auth_program [OF j(1,4-6)])
  moreover have "exec playerCountP s = Inr (int (length (m_players s)), s)"
    using assms(2) by (simp add: exec_playerCount playerCount_def)
  ultimately have "interleaved (serving E es s0)
      (at_rest (qs[k := handleAuth_playerP (onDisconnectP E) E sid name j]) s)"
    using assms(3,5) by (intro goes_on [OF 1 assms(2) _ _ tidy_playerCount, of k ?k]) (simp_all only:, simp_all)
  with j(8) show ?thesis by (rule that)
qed


lemma both_counted:
  assumes "login_text E t1 name1" "login_text E t2 name2" "held s = []"
    "int (length (m_players s)) < cfg_max_players (e_cfg E)"
  obtains j1 role1 j2 role2 where "json_value_str E j1 ''role'' ''player'' = Some role1"
    "json_value_str E j2 ''role'' ''player'' = Some role2"
    "interleaved (serving E [login_frame sid1 t1, login_frame sid2 t2] s)
      (at_rest [handleAuth_playerP (onDisconnectP E) E sid1 name1 j1,
        handleAuth_playerP (onDisconnectP E) E sid2 name2 j2] s)"
proof -
  let ?es = "[login_frame sid1 t1, login_frame sid2 t2]"
  obtain j1 role1 where 1: "json_value_str E j1 ''role'' ''player'' = Some role1"
    "interleaved (serving E ?es s)
      (at_rest ((map (handleP E) ?es)[0 := handleAuth_playerP (onDisconnectP E) E sid1 name1 j1]) s)"
    by (rule counted [OF assms(1,3,4) starts, of 0 ?es sid1]) (simp_all del: handleP.simps)
  obtain j2 role2 where 2: "json_value_str E j2 ''role'' ''player'' = Some role2"
    "interleaved (serving E ?es s)
      (at_rest ((map (handleP E) ?es)[0 := handleAuth_playerP (onDisconnectP E) E sid1 name1 j1,
        1 := handleAuth_playerP (onDisconnectP E) E sid2 name2 j2]) s)"
    by (rule counted [OF assms(2,3,4) 1(2), of 1 sid2]) (simp_all del: handleP.simps)
  show ?thesis by (rule that [OF 1(1) 2(1)]) (use 2(2) in simp)
qed

text \<open>A login that comes in when nobody else is at it.\<close>

lemma login_alone:
  assumes "welcoming E" "login_text E t name" "held s = []" "map_of (m_sessions s) sid = Some ip"
    "int (length (m_players s)) < cfg_max_players (e_cfg E)"
  obtains u where "handle E (login_frame sid t) s = Inr u" "held u = []"
    "m_sessions u = m_sessions s" "m_next_player_id u = next_id s + 1"
    "m_session_to_player u = AList.update sid (next_id s) (m_session_to_player s)"
    "length (m_players u) = (if next_id s \<in> set (keys (m_players s)) then length (m_players s)
        else Suc (length (m_players s)))"
proof -
  obtain j password role where j: "length t < 65536" "name \<noteq> []" "name \<noteq> BRIDGE_NAME" "json_parse E t = Some j"
      "json_value_str E j ''username'' [] = Some name" "json_value_str E j ''server_password'' [] = Some password"
      "cfg_password (e_cfg E) \<in> {[], password}" "json_value_str E j ''role'' ''player'' = Some role"
    using assms(2) by (auto simp: login_text_def)
  have "handle E (login_frame sid t) s = run (handleAuth_playerP (onDisconnectP E) E sid name j) s"
    unfolding run_handleAuth_player [OF run_onDisconnect]
    by (rule handle_auth_player [OF assms(3) j(1,4-6,2,3)]) (use j(3,7) assms(5) in \<open>auto simp: rejected_def\<close>)
  with admits [OF assms(1,3,4) j(8), of name] that show ?thesis by metis
qed



text \<open>\<open>allocPlayerID\<close> in two parts: up to the read of the counter, and from the write on.\<close>

definition read_next_id :: "(server, u16) prog" where
  "read_next_id = bindP (getP m_next_player_id) (\<lambda>n.
     bindP (if n = 0xFFFF then modP (\<lambda>s. s\<lparr>m_next_player_id := 1\<rparr>) else Return ()) (\<lambda>_. getP m_next_player_id))"

lemma allocPlayerID_parts: "bindP allocPlayerIDP k = bindP read_next_id
    (\<lambda>n. bindP (modP (\<lambda>s. s\<lparr>m_next_player_id := n + 1\<rparr>)) (\<lambda>_. k n))"
  by (simp add: allocPlayerIDP_def read_next_id_def bindP_assoc)

lemma tidy_read_next_id: "tidy [] read_next_id"
  unfolding read_next_id_def
  by (intro clean_bindP clean_getP clean_modP clean_if clean_Return) (simp_all add: guard_simps)

lemma exec_read_next_id: "exec read_next_id s = Inr (next_id s, s\<lparr>m_next_player_id := next_id s\<rparr>)"
  by (simp add: read_next_id_def exec_bindP next_id_def)

lemma run_after_read: "n \<noteq> 0xFFFF \<Longrightarrow> run (bindP (modP (\<lambda>s. s\<lparr>m_next_player_id := n + 1\<rparr>)) (\<lambda>_. k n)) u
    = run (bindP allocPlayerIDP k) (u\<lparr>m_next_player_id := n\<rparr>)"
  by (simp add: run_bindP exec_allocPlayerID allocPlayerID_next next_id_def)

lemma next_id_real: "next_id s \<noteq> 0xFFFF" "next_id (s\<lparr>m_next_player_id := next_id s + 1\<rparr>) \<noteq> next_id s"
  "next_id (s\<lparr>m_next_player_id := next_id t\<rparr>) = next_id t"
  by (auto simp: next_id_def)

text \<open>
  C13. And identifiers are fresh only as long as logins do not overlap: \<open>allocPlayerID\<close> takes no lock. Two
  logins that come in one after the other get different ids; at the same time both can return with the same id,
  so that two sessions speak for one player, whose name is that of one of them.
\<close>

theorem concurrent_logins_share_id:
  assumes "reachable E s" and "welcoming E"
    and "login_text E t1 name1" and "login_text E t2 name2"
    and "map_of (m_sessions s) sid1 = Some ip1" and "map_of (m_sessions s) sid2 = Some ip2" and "sid1 \<noteq> sid2"
    and "int (length (m_players s)) + 1 < cfg_max_players (e_cfg E)"
  shows "(\<exists>c. interleaved (serving E [login_frame sid1 t1, login_frame sid2 t2] s) c
      \<and> threads c = [Return (), Return ()]
      \<and> map_of (m_session_to_player (shared c)) sid1 = Some (next_id s)
      \<and> map_of (m_session_to_player (shared c)) sid2 = Some (next_id s)
      \<and> map_option pl_username (map_of (m_players (shared c)) (next_id s)) = Some name1)
    \<and> (\<exists>u. foldE (handle E) [login_frame sid1 t1, login_frame sid2 t2] s = Inr u
      \<and> map_of (m_session_to_player u) sid1 = Some (next_id s)
      \<and> (\<exists>i. map_of (m_session_to_player u) sid2 = Some i \<and> i \<noteq> next_id s))"
proof (intro conjI)
  let ?es = "[login_frame sid1 t1, login_frame sid2 t2]" and ?n = "next_id s"
  have h: "held s = []" by (rule reachable_held [OF assms(1)])
  have room: "int (length (m_players s)) < cfg_max_players (e_cfg E)" using assms(8) by simp
  obtain j1 role1 j2 role2 where r1: "json_value_str E j1 ''role'' ''player'' = Some role1"
    and r2: "json_value_str E j2 ''role'' ''player'' = Some role2"
    and c: "interleaved (serving E ?es s) (at_rest [handleAuth_playerP (onDisconnectP E) E sid1 name1 j1,
        handleAuth_playerP (onDisconnectP E) E sid2 name2 j2] s)" (is "interleaved _ (at_rest [?p1, ?p2] s)")
    by (rule both_counted [OF assms(3,4) h room])
  obtain k where k: "?p1 = bindP allocPlayerIDP k" by (simp add: handleAuth_playerP_def)
  let ?q = "bindP (modP (\<lambda>s. s\<lparr>m_next_player_id := ?n + 1\<rparr>)) (\<lambda>_. k ?n)"
  let ?s = "s\<lparr>m_next_player_id := ?n\<rparr>"
  have read: "interleaved (serving E ?es s) (at_rest [?q, ?p2] ?s)"
    by (rule goes_on [OF c h _ _ tidy_read_next_id exec_read_next_id, where i = 0
          and k = "\<lambda>n. bindP (modP (\<lambda>s. s\<lparr>m_next_player_id := n + 1\<rparr>)) (\<lambda>_. k n)"])
      (simp_all add: k allocPlayerID_parts)
  obtain u where u: "run ?p2 ?s = Inr u" "held u = []" "m_sessions u = m_sessions s"
      "m_session_to_player u = AList.update sid2 ?n (m_session_to_player s)"
    using admits [OF assms(2) _ _ r2, of ?s sid2 ip2 name2] assms(6) h by (simp add: next_id_real(3)) metis
  obtain v where v: "run ?p1 (u\<lparr>m_next_player_id := ?n\<rparr>) = Inr v"
      "m_session_to_player v = AList.update sid1 ?n (m_session_to_player u)"
      "map_option pl_username (map_of (m_players v) ?n) = Some name1"
    using admits [OF assms(2) _ _ r1, of "u\<lparr>m_next_player_id := ?n\<rparr>" sid1 ip1 name1] assms(5) u(2,3)
    by (simp add: next_id_real(3)) metis
  have "interleaved (serving E ?es s) (at_rest [?q, Return ()] u)"
    by (rule ends [OF read, where i = 1]) (simp_all add: u(1) h)
  then have "interleaved (serving E ?es s) (at_rest [Return (), Return ()] v)"
    by (rule ends [OF _ u(2), where i = 0]) (simp_all add: run_after_read next_id_real(1) v(1) flip: k)
  then show "\<exists>c. interleaved (serving E ?es s) c \<and> threads c = [Return (), Return ()]
      \<and> map_of (m_session_to_player (shared c)) sid1 = Some ?n \<and> map_of (m_session_to_player (shared c)) sid2 = Some ?n
      \<and> map_option pl_username (map_of (m_players (shared c)) ?n) = Some name1"
    using u(4) v(2,3) assms(7) by (intro exI [of _ "at_rest [Return (), Return ()] v"]) (simp add: update_conv')
  obtain w where w: "handle E (login_frame sid1 t1) s = Inr w" "held w = []" "m_sessions w = m_sessions s"
      "m_next_player_id w = ?n + 1" "m_session_to_player w = AList.update sid1 ?n (m_session_to_player s)"
      "int (length (m_players w)) < cfg_max_players (e_cfg E)"
    using login_alone [OF assms(2,3) h assms(5) room] assms(8) by (smt (verit) of_nat_Suc)
  obtain x where x: "handle E (login_frame sid2 t2) w = Inr x"
      "m_session_to_player x = AList.update sid2 (next_id w) (m_session_to_player w)"
    using login_alone [OF assms(2,4) w(2) _ w(6), of sid2 ip2] assms(6) w(3) by metis
  have "next_id w \<noteq> ?n" using next_id_real(2) [of s] w(4) by (simp add: next_id_def)
  then show "\<exists>u. foldE (handle E) ?es s = Inr u \<and> map_of (m_session_to_player u) sid1 = Some ?n
      \<and> (\<exists>i. map_of (m_session_to_player u) sid2 = Some i \<and> i \<noteq> ?n)"
    using w(1,5) x assms(7) by (simp add: update_conv' del: handle.simps)
qed

section \<open>A connection that closes during a message\<close>

abbreviation chat_frame :: "u16 \<Rightarrow> string \<Rightarrow> event" where
  "chat_frame sid msg \<equiv> EvFrame sid (buildStr CHAT_MESSAGE 0 0 msg)"

lemma close_removes:
  assumes "reachable E s" "map_of (m_session_to_player s) sid = Some pid" "handle E (EvClose sid) s = Inr t"
  shows "map_of (m_players t) pid = None" "map_of (m_session_to_player t) sid = None"
proof -
  have "lobby_of t = leave sid (lobby_of s)"
    using postE_D [OF becomes_onSessionClose [OF ids.invariant [OF assms(1)]], of sid t] assms(3) by simp
  then have "lb_members (lobby_of t) pid = None" "lb_seats (lobby_of t) sid = None"
    using assms(2) by (simp_all add: leave_def)
  then show "map_of (m_players t) pid = None" "map_of (m_session_to_player t) sid = None" by simp_all
qed

text \<open>
  C15. A handler keeps the pointer \<open>getPlayer\<close> gave it after the lock is gone. Whoever is in the game and says
  whatever he likes: if his connection closes at that moment (a failed write closes it from another thread), the
  chat handler can find the player, and then read him when he has been freed. If the message comes after the end
  of the connection instead, it is ignored.
\<close>

theorem chat_uses_freed_player:
  assumes "reachable E s" and "map_of (m_session_to_player s) sid = Some pid"
    and "map_of (m_players s) pid = Some p" and "length msg < 65536"
    and "handle E (EvClose sid) s = Inr t"
  shows "(\<exists>c. interleaved (serving E [chat_frame sid msg, EvClose sid] s) c \<and> shared c = t
      \<and> turn 0 c = Some (Inl Dangling))
    \<and> handle E (chat_frame sid msg) t = Inr t"
proof
  let ?es = "[chat_frame sid msg, EvClose sid]"
  have h: "held s = []" "held t = []" using reachable_held [OF assms(1)] reachable_held [OF reachable.event [OF assms(1,5)]] by simp_all
  have pid: "pid \<noteq> 0xFFFF" "session_player sid s = pid"
    using ids.invariant [OF assms(1)] map_of_SomeD [OF assms(2)] assms(2)
    by (auto simp: tables_ok_def real_id_def session_player_def)
  note gone = close_removes [OF assms(1,2,5)]
  obtain k where k: "handleChatP (onDisconnectP E) E pid (bytes_of_string msg) (word_of_nat (length msg))
      = bindP (getPlayerP pid) (\<lambda>v. case v of None \<Rightarrow> Return () | Some _ \<Rightarrow> bindP (derefP pid pl_is_muted) k)"
    unfolding handleChatP_def read_body [OF assms(4)] liftP_simps bindP.simps by blast
  let ?close = "handleP E (EvClose sid)"
  have "interleaved (serving E ?es s) (at_rest [handleChatP (onDisconnectP E) E pid (bytes_of_string msg)
      (word_of_nat (length msg)), ?close] s)"
    by (rule goes_on [OF starts h(1) _ _ tidy_lookup_session exec_lookup_session [OF h(1), of sid], where i = 0
        and k = "\<lambda>pid. if pid \<noteq> 0xFFFF then handleChatP (onDisconnectP E) E pid (bytes_of_string msg) (word_of_nat (length msg))
          else Return ()"]) (simp_all add: frame_program(2) [OF assms(4)] pid del: handleP.simps)
  then have "interleaved (serving E ?es s) (at_rest [bindP (derefP pid pl_is_muted) k, ?close] s)"
    by (rule goes_on [OF _ h(1) _ _ tidy_getPlayer [of pid], where i = 0 and x = "Some p"
        and k = "\<lambda>v. case v of None \<Rightarrow> Return () | Some _ \<Rightarrow> bindP (derefP pid pl_is_muted) k"])
      (simp_all add: k exec_getPlayer getPlayer_free h(1) assms(3) del: handleP.simps)
  then have c: "interleaved (serving E ?es s) (at_rest [bindP (derefP pid pl_is_muted) k, Return ()] t)"
    by (rule ends [OF _ h(1), where i = 1]) (simp_all add: run_handle assms(5) del: handleP.simps handle.simps)
  let ?c = "at_rest [Fail Dangling, Return ()] t"
  have "turn 0 (at_rest [bindP (derefP pid pl_is_muted) k, Return ()] t) = Some (Inr ?c)"
    using gone(1) by (simp add: turn_def derefP_def getP_def set_thread_def at_rest_def)
  then have "interleaved (serving E ?es s) ?c" by (rule interleaved.later [OF c])
  moreover have "turn 0 ?c = Some (Inl Dangling)" by (simp add: turn_def)
  ultimately show "\<exists>c. interleaved (serving E ?es s) c \<and> shared c = t \<and> turn 0 c = Some (Inl Dangling)"
    by (intro exI [of _ ?c]) simp
  show "handle E (chat_frame sid msg) t = Inr t"
    using gone(2) by (simp add: onTCPPacket_buildStr [OF h(2) assms(4)] session_player_def)
qed

section \<open>Witnesses\<close>

text \<open>Two sessions that have not logged in, on a server for any number of players.\<close>

definition two_accepted :: server where
  "two_accepted = initial_server\<lparr>m_next_session_id := 3, m_sessions := [(1, ''10.0.0.1''), (2, ''10.0.0.2'')]\<rparr>"

definition places :: "int \<Rightarrow> env" where
  "places n = demo_env (sample_config\<lparr>cfg_max_players := n\<rparr>)"

lemma places_facts: "welcoming (places n)" "login_text (places n) ''ann/'' ''ann''" "login_text (places n) ''bob/'' ''bob''"
    "reachable (places n) two_accepted" "cfg_max_players (e_cfg (places n)) = n"
proof -
  show "welcoming (places n)"
    by (simp add: welcoming_def silent_def objects_def places_def demo_env_def lua_string_def vetoed_def)
  show "login_text (places n) ''ann/'' ''ann''" "login_text (places n) ''bob/'' ''bob''"
    by (simp_all add: login_text_def places_def demo_env_def demo_parse_def sample_config_def BRIDGE_NAME_def)
  show "reachable (places n) two_accepted"
    by (rule reachable.event [OF accepted_anywhere, where e = "EvAccept ''10.0.0.2''"])
      (simp add: accepted_def two_accepted_def initial_server_def)
qed (simp add: places_def demo_env_def)

lemma two_accepted_facts: "map_of (m_sessions two_accepted) 1 = Some ''10.0.0.1''"
    "map_of (m_sessions two_accepted) 2 = Some ''10.0.0.2''" "m_players two_accepted = []" "next_id two_accepted = 1"
  by (simp_all add: two_accepted_def initial_server_def next_id_def)


theorem concurrent_logins_share_id_witness:
  "\<exists>c. interleaved (serving (places 9) [login_frame 1 ''ann/'', login_frame 2 ''bob/''] two_accepted) c
     \<and> threads c = [Return (), Return ()] \<and> map_of (m_session_to_player (shared c)) 1 = Some 1
     \<and> map_of (m_session_to_player (shared c)) 2 = Some 1"
  using concurrent_logins_share_id [OF places_facts(4,1-3) [of 9] two_accepted_facts(1,2)]
  by (auto simp: two_accepted_facts places_facts(5) simp del: handle.simps foldE.simps)

lemma two_close_1: "outcome (\<lambda>_. True) (handle demo (EvClose 1) two_state)"
  by code_simp

theorem chat_uses_freed_player_witness:
  "\<exists>c. interleaved (serving demo [chat_frame 1 ''hi'', EvClose 1] two_state) c \<and> turn 0 c = Some (Inl Dangling)"
proof -
  obtain t where "handle demo (EvClose 1) two_state = Inr t"
    using two_close_1 by (auto simp: outcome_def split: sum.splits)
  moreover obtain p where "map_of (m_players two_state) 1 = Some p"
    using two_state_facts(1) by (metis list.set_intros(1) map_of_eq_None_keys not_Some_eq)
  ultimately show ?thesis
    using chat_uses_freed_player [OF two_reachable two_sessions(1), of p "''hi''" t] by auto
qed

end
