(* ===== verification/Session_Io.thy ===== *)
theory Session_Io
  imports Server_Frame Server_Demo
begin

text \<open>
  One connection of the server (\<open>TCPSession\<close> in \<^verbatim>\<open>servers/src/network/tcp_server.cpp\<close>) as the state
  machine it is: \<open>readLen\<close> and \<open>readPayload\<close> each start an \<open>asio::async_read\<close>, which completes when its
  buffer is full or with an error; the completion handler starts the next one, delivers, or closes.
  The machine implements the function \<open>read_frames\<close> of \<open>Tcp_Server\<close>, however the bytes arrive.
\<close>

section \<open>The machine\<close>

datatype io_phase =
    ReadingLen             \<comment> \<open>\<open>m_len_buf\<close> is being filled\<close>
  | ReadingPayload nat     \<comment> \<open>\<open>m_payload_buf\<close> of this size is being filled\<close>
  | SocketClosed

record tcp_session =
  ts_id :: u16
  ts_phase :: io_phase
  ts_filled :: bytes       \<comment> \<open>what the read in progress has received\<close>

definition new_session :: "u16 \<Rightarrow> tcp_session" where
  "new_session i = \<lparr>ts_id = i, ts_phase = ReadingLen, ts_filled = []\<rparr>"

text \<open>\<open>TCPSession::close\<close> closes the socket; its callback is the event \<open>EvClose\<close> of the server.\<close>

definition session_close :: "tcp_session \<Rightarrow> tcp_session" where
  "session_close s = s\<lparr>ts_phase := SocketClosed, ts_filled := []\<rparr>"

text \<open>The handler of \<open>readLen\<close>.\<close>

definition on_len :: "tcp_session \<Rightarrow> tcp_session" where
  "on_len s = (let len = un_le32 (ts_filled s) in
     if len = 0 \<or> unat len > 4 * 1024 * 1024 then session_close s
     else s\<lparr>ts_phase := ReadingPayload (unat len), ts_filled := []\<rparr>)"

text \<open>The handler of \<open>readPayload\<close>: what it gives to \<open>m_recv_cb\<close>, and back to \<open>readLen\<close>.\<close>

definition on_payload :: "tcp_session \<Rightarrow> bytes \<times> tcp_session" where
  "on_payload s = (ts_filled s, s\<lparr>ts_phase := ReadingLen, ts_filled := []\<rparr>)"

text \<open>One byte arrives; a closed socket receives nothing.\<close>

definition receive_byte :: "u8 \<Rightarrow> tcp_session \<Rightarrow> bytes list \<times> tcp_session" where
  "receive_byte b s = (let t = s\<lparr>ts_filled := ts_filled s @ [b]\<rparr> in case ts_phase s of
     SocketClosed \<Rightarrow> ([], s)
   | ReadingLen \<Rightarrow> ([], if length (ts_filled t) = 4 then on_len t else t)
   | ReadingPayload n \<Rightarrow> if length (ts_filled t) = n
       then (let (p, u) = on_payload t in ([p], u)) else ([], t))"

fun receive :: "bytes \<Rightarrow> tcp_session \<Rightarrow> bytes list \<times> tcp_session" where
  "receive [] s = ([], s)"
| "receive (b # bs) s = (let (ps, t) = receive_byte b s; (qs, u) = receive bs t in (ps @ qs, u))"

text \<open>Segments of the stream, and at the end perhaps an error or the end of the stream.\<close>

fun receive_segments :: "bytes list \<Rightarrow> tcp_session \<Rightarrow> bytes list \<times> tcp_session" where
  "receive_segments [] s = ([], s)"
| "receive_segments (c # cs) s = (let (ps, t) = receive c s; (qs, u) = receive_segments cs t in (ps @ qs, u))"

definition read_error :: "tcp_session \<Rightarrow> tcp_session" where
  "read_error s = session_close s"

section \<open>It implements the stream reader\<close>

text \<open>The bytes of the frame that is being read.\<close>

definition pending :: "tcp_session \<Rightarrow> bytes" where
  "pending s = (case ts_phase s of ReadingPayload n \<Rightarrow> le32 (word_of_nat n) @ ts_filled s | _ \<Rightarrow> ts_filled s)"

definition session_ok :: "tcp_session \<Rightarrow> bool" where
  "session_ok s \<longleftrightarrow> (case ts_phase s of ReadingLen \<Rightarrow> length (ts_filled s) < 4
     | ReadingPayload n \<Rightarrow> length (ts_filled s) < n \<and> n \<le> MAX_FRAME | SocketClosed \<Rightarrow> True)"

abbreviation stream_state :: "tcp_session \<Rightarrow> stream_end" where
  "stream_state s \<equiv> (if ts_phase s = SocketClosed then Closed else Waiting)"

lemma receive_closed: "ts_phase s = SocketClosed \<Longrightarrow> receive bs s = ([], s)"
  by (induction bs) (simp_all add: receive_byte_def)

lemma receive_byte_len:
  assumes "ts_phase s = ReadingLen" "length (ts_filled s) < 4" "receive_byte b s = (ps, t)"
  shows "ps = [] \<and> session_ok t \<and> (case read_frame (pending s @ [b]) of
      NeedMore \<Rightarrow> ts_phase t \<noteq> SocketClosed \<and> pending t = pending s @ [b]
    | BadFrame \<Rightarrow> ts_phase t = SocketClosed | Got p r \<Rightarrow> False)"
proof (cases "length (ts_filled s @ [b]) = 4")
  case True
  let ?f = "ts_filled s @ [b]"
  have "le32 (un_le32 ?f) = ?f" using le32_un_le32_take [of ?f] True by simp
  with True assms show ?thesis
    by (auto simp: receive_byte_def on_len_def session_close_def Let_def read_frame_def pending_def session_ok_def
        MAX_FRAME_def unat_gt_0)
next
  case False
  with assms show ?thesis
    by (auto simp: receive_byte_def Let_def read_frame_def pending_def session_ok_def)
qed

lemma receive_byte_payload:
  assumes "ts_phase s = ReadingPayload n" "length (ts_filled s) < n" "n \<le> MAX_FRAME" "receive_byte b s = (ps, t)"
  shows "session_ok t \<and> ts_phase t \<noteq> SocketClosed \<and> (case read_frame (pending s @ [b]) of
      NeedMore \<Rightarrow> ps = [] \<and> pending t = pending s @ [b]
    | BadFrame \<Rightarrow> False | Got p r \<Rightarrow> ps = [p] \<and> r = [] \<and> pending t = [])"
proof -
  have n: "unat (word_of_nat n :: u32) = n" "0 < n"
    using assms(2,3) by (simp_all add: unat_word_of_nat_u32 MAX_FRAME_def)
  then have nz: "(word_of_nat n :: u32) \<noteq> 0" by (metis less_irrefl unat_0)
  have "pending s = le32 (word_of_nat n) @ ts_filled s" using assms(1) by (simp add: pending_def)
  then have r: "read_frame (pending s @ [b]) = (if Suc (length (ts_filled s)) < n then NeedMore
      else Got (take n (ts_filled s @ [b])) (drop n (ts_filled s @ [b])))"
    using n(1) nz assms(3) by (simp add: read_frame_def Let_def)
  show ?thesis unfolding r using assms
    by (auto simp: receive_byte_def on_payload_def Let_def session_ok_def pending_def split: if_splits)
qed

lemma read_frame_pending:
  assumes "session_ok s" "ts_phase s \<noteq> SocketClosed"
  shows "read_frame (pending s) = NeedMore"
proof (cases "ts_phase s")
  case (ReadingPayload n)
  then have n: "unat (word_of_nat n :: u32) = n" "0 < n" "n \<le> MAX_FRAME" "length (ts_filled s) < n"
    using assms(1) by (auto simp: session_ok_def unat_word_of_nat_u32 MAX_FRAME_def)
  then have "(word_of_nat n :: u32) \<noteq> 0" by (metis less_irrefl unat_0)
  with n ReadingPayload show ?thesis by (simp add: read_frame_def pending_def Let_def)
qed (use assms in \<open>simp_all add: session_ok_def read_frame_def pending_def\<close>)

lemma receive_spec:
  assumes "session_ok s" "ts_phase s \<noteq> SocketClosed" "receive bs s = (ps, t)"
  shows "read_frames (pending s @ bs) = (ps, stream_state t)"
  using assms
proof (induction bs arbitrary: s ps)
  case Nil
  then show ?case by (auto simp: read_frames.simps [of "pending t"] read_frame_pending)
next
  case (Cons b bs)
  obtain qs u where u: "receive_byte b s = (qs, u)" by (cases "receive_byte b s")
  obtain rs where rs: "receive bs u = (rs, t)" "ps = qs @ rs"
    using Cons.prems(3) u by (auto simp: split_beta Let_def prod_eq_iff)
  have step: "session_ok u \<and> (case read_frame (pending s @ [b]) of
      NeedMore \<Rightarrow> qs = [] \<and> ts_phase u \<noteq> SocketClosed \<and> pending u = pending s @ [b]
    | BadFrame \<Rightarrow> qs = [] \<and> ts_phase u = SocketClosed
    | Got p r \<Rightarrow> qs = [p] \<and> ts_phase u \<noteq> SocketClosed \<and> r = [] \<and> pending u = [])"
    using Cons.prems(1,2) receive_byte_len [OF _ _ u] receive_byte_payload [OF _ _ _ u]
    by (cases "ts_phase s") (auto simp: session_ok_def split: dec_step.splits)
  show ?case
  proof (cases "read_frame (pending s @ [b])")
    case NeedMore
    then show ?thesis using step rs Cons.IH [OF _ _ rs(1)] by simp
  next
    case BadFrame
    then have "read_frame (pending s @ b # bs) = BadFrame" using read_frame_bad [of "pending s @ [b]" bs] by simp
    with BadFrame step rs show ?thesis
      by (simp add: read_frames.simps [of "pending s @ b # bs"] receive_closed)
  next
    case (Got p r)
    then have "read_frame (pending s @ b # bs) = Got p bs"
      using read_frame_extend [of "pending s @ [b]" p r bs] step by simp
    with Got step rs Cons.IH [OF _ _ rs(1)] show ?thesis
      by (simp add: read_frames.simps [of "pending s @ b # bs"])
  qed
qed

lemma receive_append: "receive (a @ b) s = (let (ps, t) = receive a s; (qs, u) = receive b t in (ps @ qs, u))"
  by (induction a arbitrary: s) (simp_all add: split_beta Let_def)

lemma receive_segments_concat: "receive_segments cs s = receive (concat cs) s"
  by (induction cs arbitrary: s) (simp_all add: receive_append)

text \<open>
  C22. A session delivers what the model of the TCP server says it delivers: however the bytes of a connection are
  cut into segments, the packets its read handlers give to the server are those of \<open>read_frames\<close> on the
  whole stream, and the session has closed the socket exactly when that stream contains a bad length.
\<close>

theorem session_implements_stream:
  "(let (ps, t) = receive_segments segments (new_session i) in
      read_frames (concat segments) = (ps, if ts_phase t = SocketClosed then Closed else Waiting))
   \<and> receive_segments segments (new_session i) = receive_segments [concat segments] (new_session i)"
proof -
  have "session_ok (new_session i)" "ts_phase (new_session i) \<noteq> SocketClosed" "pending (new_session i) = []"
    by (simp_all add: session_ok_def new_session_def pending_def)
  then show ?thesis using receive_spec [of "new_session i" "concat segments"]
    by (auto simp: receive_segments_concat)
qed

section \<open>Closing twice\<close>

text \<open>
  A failed read and a failed write both close the session, so its callback can run twice. The second time does
  nothing: once \<open>close\<close> has run without a fault, running it again leaves the server as it is.
\<close>

theorem second_close_harmless:
  assumes "reachable E s" "handle E (EvClose i) s = Inr t"
  shows "handle E (EvClose i) t = Inr t \<and> session_close (session_close ses) = session_close ses"
proof -
  have h: "held t = []" using reachable.event [OF assms] by (rule reachable_held)
  have "postE (\<lambda>t. links t = (AList.delete i (m_sessions s), AList.delete i (m_session_to_player s)))
      (onSessionClose (onDisconnect E) i s)"
  proof -
    have "postE (\<lambda>u. links u = (AList.delete i (m_sessions s), m_session_to_player s))
        (with_lock SessionsMutex (\<lambda>s. Inr (s\<lparr>m_sessions := AList.delete i (m_sessions s)\<rparr>)) s)"
      by (rule postE_with_lock) (simp add: links_def)
    then show ?thesis unfolding onSessionClose_def
      by (rule postE_bindI) (use onDisconnect_links in \<open>fastforce simp: links_def elim: postE_mono\<close>)
  qed
  then have l: "AList.delete i (m_sessions t) = m_sessions t" "map_of (m_session_to_player t) i = None"
    "AList.delete i (m_session_to_player t) = m_session_to_player t"
    using assms(2) by (auto simp: links_def delete_conv' AList.delete_idem)
  have "t\<lparr>held := []\<rparr> = t" using h by simp
  with h l show ?thesis
    by (simp add: onSessionClose_def onDisconnect_def onDisconnect_body_def with_lock_free Let_def session_close_def)
qed

definition closed_once :: "fault + server" where
  "closed_once = run_events demo (login @ [EvClose 1]) initial_server"

lemma closed_once_run: "outcome (\<lambda>t. m_sessions t = []) closed_once"
  by code_simp

theorem second_close_harmless_witness:
  "\<exists>s t. reachable demo s \<and> m_session_to_player s = [(1, 1)] \<and> handle demo (EvClose 1) s = Inr t \<and> handle demo (EvClose 1) t = Inr t"
proof -
  obtain s where s: "run_events demo login initial_server = Inr s" "m_session_to_player s = [(1, 1)]"
    using login_ok by (auto simp: outcome_def split: sum.splits)
  obtain t where t: "handle demo (EvClose 1) s = Inr t"
    using closed_once_run s(1)
    by (cases "handle demo (EvClose 1) s") (auto simp: closed_once_def outcome_def run_events_def foldE_append)
  have r: "reachable demo s" by (rule reachable_run [OF reachable.init s(1)])
  with s(2) t second_close_harmless [OF r t] show ?thesis by blast
qed

end
