(* ===== verification/Client_Session.thy ===== *)
theory Client_Session
  imports Client_Screen Login
begin

text \<open>
  A session of the client from \<open>connect\<close> to the end of \<open>runNovaMP\<close> or \<open>runBeamMP\<close> (\<^verbatim>\<open>client/src/main.cpp\<close>):
  the constructor of the client object, what arrives until the user presses Enter, \<open>disconnect\<close>, and the
  destructor. The functions before \<open>connect\<close> are those of \<open>Client_Main\<close>. Of a NovaMP session this is the TCP side:
  datagrams that arrive meanwhile (\<open>Network_Client.net_on_datagram\<close>) and an exception of the resolver are not
  part of it.
\<close>

section \<open>NovaMP\<close>

text \<open>\<open>NetworkClient client\<close> with the three callbacks of \<open>runNovaMP\<close>.\<close>

definition new_net_client :: net_client where
  "new_net_client = \<lparr>nc_has_pkt_cb = True, nc_has_conn_cb = True, nc_has_disc_cb = True,
     nc_udp_ep = \<lparr>ep_ip = ''0.0.0.0'', ep_port = 0\<rparr>, nc_connected = False, nc_player_id = 0,
     nc_tcp_seq = 0, nc_udp_seq = 0,
     nc_server_info = \<lparr>si_name = [], si_description = [], si_map = [], si_version = [],
       si_current_players = 0, si_max_players = 0, si_password_protected = False, si_ai_enabled = False\<rparr>,
     nc_tcp_open = False, nc_tcp_out = [], nc_udp_out = [], nc_calls = []\<rparr>"

text \<open>The destructor: \<open>disconnect\<close> again.\<close>

definition net_destroy :: "net_client \<Rightarrow> fault + net_client" where
  "net_destroy c = net_disconnect False c"

text \<open>
  \<open>r\<close> is the result of \<open>async_connect\<close>, \<open>b\<close> what the server's stream has brought when Enter is pressed,
  \<open>lost\<close> the error of a read after it, if there was one.
\<close>

definition nova_session :: "client_json \<Rightarrow> string + string \<Rightarrow> u16 \<Rightarrow> string \<Rightarrow> bytes \<Rightarrow> string option
    \<Rightarrow> fault + net_client" where
  "nova_session J r port username b lost =
     bindE (net_on_connected J r port username [] [] new_net_client) (\<lambda>c.
     bindE (if nc_tcp_open c then bindE (net_read_loop J b c) (\<lambda>(_, c).
         Inr (case lost of None \<Rightarrow> c | Some msg \<Rightarrow> net_on_read_error msg c)) else Inr c) (\<lambda>c.
     bindE (net_disconnect False c) net_destroy))"

section \<open>BeamMP\<close>

text \<open>\<open>BeamMPClient client\<close> with the six callbacks of \<open>runBeamMP\<close>; \<open>w\<close> says which writes fail.\<close>

definition new_beam_client :: "(nat \<Rightarrow> bool) \<Rightarrow> beam_client" where
  "new_beam_client w = \<lparr>bc_cbs = \<lparr>on_connect = True, on_disconnect = True, on_chat = True, on_vehicle = True,
       on_spawn = True, on_delete = True\<rparr>, bc_connected = False, bc_player_id = 0, bc_map_name = [],
     bc_private_key = [], bc_split_buf = [], bc_in_split = False, bc_writes = 0,
     bc_write_error = w, bc_sent = [], bc_threads = 0, bc_calls = []\<rparr>"



section \<open>Properties\<close>

lemma net_read_loop_cbs: "net_read_loop J b c = Inr (r, c') \<Longrightarrow> nc_has_disc_cb c' = nc_has_disc_cb c"
proof (induction b arbitrary: c rule: length_induct)
  case (1 b)
  show ?case
  proof (cases "net_read_frame b")
    case (Got p q)
    then obtain d where d: "net_onPacket J p c = Inr d" "net_read_loop J q d = Inr (r, c')"
      using "1.prems" by (auto simp: net_read_loop.simps [of J b] bindE_Inr_iff)
    from postE_D [OF net_onPacket_unreceived d(1)] have "nc_has_disc_cb d = nc_has_disc_cb c"
      by (simp add: unreceived_def)
    with "1.IH" d(2) net_read_frame_shrinks [OF Got] show ?thesis by blast
  qed (use "1.prems" in \<open>simp_all add: net_read_loop.simps [of J b] net_disconnect_def\<close>)
qed

text \<open>
  C23. A NovaMP session ends well. Whatever a reachable server has written to it, however much of that has
  arrived, and whether or not the connection breaks: Enter ends the session without a fault, with the
  socket closed and nobody connected, and the user has been told of a broken connection. A connection
  that fails is told too, and nothing is sent on it.
\<close>

theorem nova_session_ends:
  assumes "reachable E s" and "stream_to sid s = arrived @ pending"
    and "cj_dump J (JObj [(''username'', JStr username), (''token'', JStr []), (''server_password'', JStr []),
        (''version'', JStr ''1.0.0'')]) \<noteq> None"
  shows "\<exists>c. nova_session J r port username arrived lost = Inr c \<and> \<not> nc_connected c \<and> \<not> nc_tcp_open c
    \<and> (case r of Inl msg \<Rightarrow> nc_calls c = [ConnCb False msg] \<and> nc_tcp_out c = []
       | Inr ip \<Rightarrow> (\<forall>msg. lost = Some msg \<longrightarrow> DiscCb msg \<in> set (nc_calls c)))"
proof (cases r)
  case (Inl msg)
  then show ?thesis by (simp add: nova_session_def net_on_connected_def conn_cb_def new_net_client_def
      net_disconnect_def net_destroy_def)
next
  case (Inr ip)
  then obtain c1 where c1: "net_on_connected J r port username [] [] new_net_client = Inr c1" "nc_tcp_open c1"
    using assms(3) by (auto simp: net_on_connected_def net_sendTCP_def Let_def)
  obtain rest c2 where c2: "net_read_loop J arrived c1 = Inr (rest, c2)"
    using wire_client_reads [OF wire_invariant [OF assms(1)] assms(2)] by blast
  have "nc_has_disc_cb c1" using c1(1) Inr
    by (auto simp: net_on_connected_def net_sendTCP_def new_net_client_def Let_def split: option.splits)
  with c1 c2 Inr net_read_loop_cbs [OF c2] show ?thesis
    by (auto simp: nova_session_def net_disconnect_def net_destroy_def net_on_read_error_def disc_cb_call_def
        split: option.split)
qed


definition up :: "nat \<Rightarrow> beam_client \<Rightarrow> bool" where
  "up n c \<longleftrightarrow> bc_connected c \<and> (\<forall>n. \<not> bc_write_error c n) \<and> bc_cbs c = bc_cbs (new_beam_client (\<lambda>_. False))
     \<and> bc_threads c = n"

lemma up_rules [simp]:
  "up n (beam_send k d c) \<longleftrightarrow> up n c" "up n (beam_callback sel call c) \<longleftrightarrow> up n c"
  "up n (c\<lparr>bc_map_name := m\<rparr>) \<longleftrightarrow> up n c" "up n (c\<lparr>bc_player_id := i\<rparr>) \<longleftrightarrow> up n c"
  by (auto simp: up_def beam_send_def beam_callback_def Let_def)




section \<open>Witnesses\<close>


theorem nova_session_ends_witness:
  "\<exists>c. nova_session link_json (Inr ''10.0.0.9'') 4444 ''ann'' (take 33 (stream_to 1 two_state)) (Some ''End of file'') = Inr c
    \<and> DiscCb ''End of file'' \<in> set (nc_calls c)"
proof -
  have "cj_dump link_json (JObj [(''username'', JStr ''ann''), (''token'', JStr []), (''server_password'', JStr []),
      (''version'', JStr ''1.0.0'')]) \<noteq> None" by (simp add: link_json_def)
  from nova_session_ends [OF two_reachable _ this, of 1 "take 33 (stream_to 1 two_state)"
      "drop 33 (stream_to 1 two_state)" "Inr ''10.0.0.9''" 4444 "Some ''End of file''"]
  show ?thesis by auto
qed

end
