(* ===== verification/Spec2Isabelle.thy ===== *)
theory Spec2Isabelle
  imports Server_Safety Server_Auth Server_Play Server_Config Console Network_Client Beammp_Client
    Server_Browser Client_Main Login Headless Server_Main Server_Output Client_Screen Lua_Api
    Windows Server_Startup Server_Races Server_Overlap Server_Private Session_Io Client_Session Lobby
begin

text \<open>
  A verification development for NovaMP, a multiplayer system for BeamNG.drive written in C++: a
  dedicated server (\<^verbatim>\<open>servers/src\<close>) and a client launcher (\<^verbatim>\<open>client/src\<close>), which speaks NovaMP's own
  protocol and, for compatibility, that of BeamMP.

  \<^bold>\<open>Parts and theories.\<close>

  \<^item> Foundations. \<open>Nova_Prelude\<close>: machine integers, bytes, little-endian encodings, association lists for
    \<open>std::unordered_map\<close>. \<open>Nova_Exec\<close>: a handler takes the state and returns a new state or the fault
    that ends the process (uncaught exception, mutex locked twice, out-of-bounds read, null or dangling
    object, division by zero, signed overflow, a wait that never returns), with \<open>bindE\<close>, \<open>foldE\<close> and \<open>with_lock\<close>. \<open>Nova_Text\<close>:
    printing and reading numbers, lines and words.
  \<^item> Wire format. \<open>Packet\<close> (\<^verbatim>\<open>network/packet.hpp\<close>): header, vehicle state, packets. \<open>Stream_Framing\<close>:
    the contract of a framed TCP stream as a locale, interpreted by \<open>Tcp_Server\<close> and \<open>Beammp_Protocol\<close>.
  \<^item> Server components. \<open>Vehicle_Sync\<close> (\<^verbatim>\<open>sync/vehicle_sync\<close>), \<open>Udp_Server\<close> (\<^verbatim>\<open>network/udp_server\<close>),
    \<open>Tcp_Server\<close> (\<^verbatim>\<open>network/tcp_server\<close>), \<open>Server_State\<close> (\<^verbatim>\<open>config.hpp\<close>, \<^verbatim>\<open>player.hpp\<close>, the members of
    \<open>GameServer\<close>), \<open>Server_Config\<close> (\<^verbatim>\<open>config.cpp\<close>), \<open>Game_Server\<close> (\<^verbatim>\<open>game_server.cpp\<close> and the entries of
    \<^verbatim>\<open>lua_engine.cpp\<close>), \<open>Lua_Api\<close> (the functions a plugin calls and how they read their arguments), \<open>Console\<close> (\<^verbatim>\<open>console.cpp\<close>, \<^verbatim>\<open>rcon.cpp\<close>), \<open>Headless\<close> and \<open>Windows\<close> (the two
    branches of \<^verbatim>\<open>headless_launcher.cpp\<close>, the second with that of the client's \<^verbatim>\<open>launcher.cpp\<close>),
    \<open>Server_Startup\<close> (loading of plugins, the constructor of \<open>GameServer\<close>, \<^verbatim>\<open>main.cpp\<close> with its signal
    handler), \<open>Server_Main\<close> (\<open>run\<close>, \<open>stop\<close>, the timed loops), \<open>Session_Io\<close> (a connection as the state machine
    of its asynchronous reads).
  \<^item> Threads. \<open>Threads\<close>: programs of single accesses and lock operations, their interleavings, and two
    locales that turn conditions on single programs into properties of all interleavings.
    \<open>Server_Threads\<close>: every handler of the server as such a program (the suffix \<open>P\<close>). \<open>Server_Alone\<close>: run
    alone, the program is the handler of \<open>Game_Server\<close>. \<open>Server_Races\<close>: which mutex guards what, and what
    follows for handlers that run at the same time. \<open>Server_Overlap\<close>: schedules in which handlers overlap, for
    any reachable state. \<open>Server_Frame\<close> says what handlers leave unchanged, \<open>Server_Private\<close> what only \<open>run\<close> and
    \<open>stop\<close> change (the flag \<open>m_running\<close>, which is off until \<open>run\<close> sets it).
  \<^item> Client components. \<open>Network_Client\<close> (\<^verbatim>\<open>network/packet.hpp\<close>, \<^verbatim>\<open>network/client.cpp\<close>),
    \<open>Beammp_Protocol\<close> and \<open>Beammp_Client\<close> (\<^verbatim>\<open>compat/beammp_protocol\<close>, \<^verbatim>\<open>compat/beammp_client\<close>), \<open>Http\<close> (the
    four HTTP functions), \<open>Accounts\<close> (\<^verbatim>\<open>auth/nova_auth.cpp\<close>, \<^verbatim>\<open>compat/beammp_auth.cpp\<close>),
    \<open>Server_Browser\<close> (\<^verbatim>\<open>ui/server_browser.cpp\<close>), \<open>Client_Main\<close> (\<^verbatim>\<open>launcher.cpp\<close>, \<^verbatim>\<open>main.cpp\<close>),
    \<open>Client_Screen\<close> (the callbacks of \<^verbatim>\<open>main.cpp\<close> and what they print), \<open>Client_Session\<close> (a session from
    the client object to its destruction after Enter).

  \<^bold>\<open>State.\<close> The record \<open>server\<close> extends the records of the TCP and UDP servers by the members of
  \<open>GameServer\<close>; \<open>held\<close> is the list of mutexes the running handler holds. What the sockets have been given
  to send is recorded (\<open>tcp_out\<close>, \<open>udp_out\<close>). Code that is not in the repository is a field of an
  environment record: the JSON and TOML libraries, Lua plugins, the missing classes \<open>AIAuthority\<close> and
  \<open>AITraffic\<close>, the network and the operating system; a component with a state of its own answers as an
  arbitrary function of the calls made so far. \<open>event\<close> lists what the threads of the server can run, one
  handler at a time; \<open>reachable\<close> is the inductive set of states after any sequence of events without
  fault. Most properties are about these atomic handlers. For several threads the record \<open>system\<close> holds a
  program per thread, the owners of the mutexes and the shared \<open>server\<close>; \<open>turn\<close> makes the next access of one
  thread, \<open>interleaved\<close> is the inductive set of systems after any schedule, and \<open>serving\<close> starts one thread
  for each of a list of events.

  \<^bold>\<open>Lemma groups.\<close>

  \<^item> Round trips of packets, vehicle states, transforms and of the three framed streams; incremental
    delivery (\<open>Packet\<close>, \<open>Tcp_Server\<close>, \<open>Beammp_Protocol\<close>).
  \<^item> Invariants of reachable servers. The locale \<open>server_invariant\<close> (\<open>Server_Invariants\<close>) lists the primitive
    updates of the core state as obligations and walks through every handler once; it is interpreted for
    identifiers, the player limit and idle UDP tables (\<open>Server_Bounds\<close>). The locale
    \<open>player_invariant\<close>, a sublocale of it, is for properties of single players: nobody is muted
    (\<open>Server_Bounds\<close>), vehicles rest (\<open>Server_Main\<close>). \<open>Server_Output\<close> proves the typing of everything
    written to a session (\<open>wires\<close> rules, one per method). \<open>Server_Locks\<close> proves that handlers give back the mutexes they take and names the one
    fault of locking; \<open>Server_Safety\<close> states these as properties.
  \<^item> Functional behaviour of every handler, errors included: \<open>Server_Auth\<close> (login, rejection, malformed
    frames), \<open>Server_Play\<close> (disconnection, chat, vehicles, readiness, ping, synchronisation).
  \<^item> Refinement: the vector of \<open>Vehicle_Sync\<close> implements a map, and no update is lost; a started process serves
    from a reachable state, and crashes exactly on the configurations and plugins named (\<open>Server_Startup\<close>); the
    read handlers of a session implement the function on its bytes (\<open>Session_Io\<close>).
  \<^item> The administrator: commands are parsed as they are printed, and what RCON lets through (\<open>Console\<close>).
  \<^item> The server as a whole implements a lobby (\<open>Lobby\<close>): one equation per request says what becomes of the
    identifiers, the seats and the members, and \<open>lobby_of\<close> reads the lobby off the tables of \<open>GameServer\<close>. The
    locale \<open>observation\<close> gives the calls that leave a lobby alone, a lemma \<open>becomes_f\<close> for every other
    handler \<open>f\<close> what it makes of it; that nobody is touched by what others do is proved of the lobby.
  \<^item> Concurrency. Locks are taken in a fixed order (\<open>rank\<close>), so handlers never wait in a circle, though a thread
    can block itself on the mutex of the sessions; the sessions, their output, the UDP tables and the bindings
    are only accessed under their mutex, so they have no data race (\<open>Server_Races\<close>). What the code does not lock
    goes wrong on every server of the kind described, by schedules made of the points at which a thread holds
    no mutex: two logins with one id or beyond the limit, a player freed under a chat handler, a rejected login
    that stands still after its answer (\<open>Server_Overlap\<close>), a signal in the middle of a send (\<open>Server_Races\<close>).
  \<^item> Composition: \<open>Login\<close> runs the client's first frame through the framing, the server and back;
    \<open>Server_Output\<close> runs the client's read loop on any output of a reachable server, \<open>Client_Screen\<close>
    follows a chat message to the terminals;
    \<open>Client_Main\<close> composes prompts, browser, account and launcher, \<open>Client_Session\<close> what follows them until
    the client object is destroyed; \<open>Server_Main\<close> composes \<open>run\<close>, everything the server handles, the exits
    of the game and \<open>stop\<close> with the process table of \<open>Headless\<close>, where a wait for a child that runs does not
    return (the fault \<open>Forever\<close>).
  \<^item> Token caches: the locale \<open>account_login\<close> states what both account classes promise; both interpret it.
  \<open>Server_Demo\<close> holds the concrete configuration and runs at which properties are exercised.

  \<^bold>\<open>Bounds.\<close> No definition uses fuel. Read loops are functions on the bytes received, terminating because
  every frame shortens them; interpreters and timers are lists of what they did. The TCP read loops refuse
  frames of more than 4 MiB, the payload of \<open>buildStr\<close> is below 65536 bytes, a BeamMP frame below 16 MiB;
  the properties state these limits.

  \<^bold>\<open>Not modelled.\<close> Logging; the lifetime of the buffers given to asynchronous writes, and two writes under way on
  one socket (a frame is appended to the output as a whole); exceptions of the client's resolver; datagrams in a
  client session; the Lua interpreter;
  the classes \<open>AIAuthority\<close> and \<open>AITraffic\<close>, whose files the
  repository lacks. Interleavings are those of whole accesses, sequentially consistent: torn reads and
  reordering, the reallocation of \<open>m_entries\<close> under a running loop, and two threads in one Lua state are not
  seen; a pointer to a player is the id it was found under; the clock does not advance during an interleaving. On the other hand
  any events may be served at once, also two of one session or of one timer, which the code never runs
  together: properties of all interleavings hold for more schedules than the program has.
\<close>

end
